(* ===== verification/Prelude.thy ===== *)
theory Prelude
  imports Main "HOL-Library.Sublist"
begin

section \<open>Shared vocabulary of the development\<close>

text \<open>
  The types and routines every component of the runtime uses.  Three groups:
  \<^item> C values: a NUL-terminated string is a \<^typ>\<open>string\<close>, a \<^verbatim>\<open>char *\<close> that may be NULL
    is a \<open>string option\<close>, an \<^verbatim>\<open>int\<close> is an \<^typ>\<open>int\<close> kept in range by \<open>wrap32s\<close> where the
    source converts, a fault (NULL dereference, failed \<^verbatim>\<open>g_assert\<close>) is a value of
    \<open>c_fault\<close>;
  \<^item> the C library and GLib string routines the sources call (\<^verbatim>\<open>strtol\<close>, \<^verbatim>\<open>atoi\<close>,
    \<^verbatim>\<open>strcmp\<close>, \<^verbatim>\<open>snprintf\<close> into a fixed buffer, \<^verbatim>\<open>g_strsplit\<close>, \<^verbatim>\<open>g_strstr_len\<close>,
    \<^verbatim>\<open>g_strrstr\<close>), each transcribed from its documented behaviour;
  \<^item> the decimal printer behind \<^verbatim>\<open>%d\<close>, \<^verbatim>\<open>%u\<close> and \<^verbatim>\<open>%ld\<close> and its round trip through
    \<^verbatim>\<open>strtol\<close>.
  Generic facts about lists, prefixes and wrap-around that several components need are proved
  here once and collected in \<open>c_string_simps\<close> and \<open>wrap_simps\<close>.
\<close>

named_theorems c_string_simps \<open>rewriting of C and GLib string routines\<close>
named_theorems wrap_simps \<open>conversions between C integer types\<close>

datatype c_fault = NullDeref | AssertFail

type_synonym 'a c_result = "c_fault + 'a"
type_synonym gchars = "string option"
type_synonym strv = "string list option"

abbreviation NUL :: char where
  "NUL \<equiv> CHR 0x00"

text \<open>\<^verbatim>\<open>PATH_MAX\<close> and \<^verbatim>\<open>LINE_MAX\<close> of \<^verbatim>\<open>limits.h\<close>.\<close>

definition PATH_MAX :: nat where
  "PATH_MAX = 4096"

definition LINE_MAX :: nat where
  "LINE_MAX = 2048"

subsection \<open>Sequencing code that may fault\<close>

definition c_bind :: "'a c_result \<Rightarrow> ('a \<Rightarrow> 'b c_result) \<Rightarrow> 'b c_result" where
  "c_bind m f = (case m of Inl e \<Rightarrow> Inl e | Inr x \<Rightarrow> f x)"

lemma c_bind_simps [simp]: "c_bind (Inl e) f = Inl e" "c_bind (Inr x) f = f x"
  by (simp_all add: c_bind_def)

lemma c_bind_Inr: "c_bind m f = Inr y \<longleftrightarrow> (\<exists>x. m = Inr x \<and> f x = Inr y)"
  by (cases m) simp_all

text \<open>\<^verbatim>\<open>g_node_children_foreach\<close> and \<^verbatim>\<open>g_slist_foreach\<close> with a callback that updates shared data.\<close>

fun c_fold :: "('x \<Rightarrow> 'a \<Rightarrow> 'a c_result) \<Rightarrow> 'x list \<Rightarrow> 'a \<Rightarrow> 'a c_result" where
  "c_fold f [] a = Inr a"
| "c_fold f (x # xs) a = c_bind (f x a) (c_fold f xs)"

lemma c_fold_append: "c_fold f (xs @ ys) a = c_bind (c_fold f xs a) (c_fold f ys)"
proof (induction xs arbitrary: a)
  case (Cons x xs)
  then show ?case by (cases "f x a") simp_all
qed simp

lemma c_fold_invariant:
  assumes "\<And>x a b. x \<in> set xs \<Longrightarrow> P a \<Longrightarrow> f x a = Inr b \<Longrightarrow> P b"
    and "P a" and "c_fold f xs a = Inr b"
  shows "P b"
  using assms
proof (induction xs arbitrary: a)
  case (Cons x xs)
  from Cons.prems(3) obtain c where c: "f x a = Inr c" "c_fold f xs c = Inr b"
    by (auto simp: c_bind_Inr)
  have "P c" using Cons.prems(1) [OF _ Cons.prems(2) c(1)] by simp
  then show ?case
    using Cons.IH [of c] Cons.prems(1) c(2) by auto
qed simp

subsection \<open>Fixed-size buffers\<close>

text \<open>
  \<^verbatim>\<open>g_strlcpy\<close>, \<^verbatim>\<open>g_snprintf\<close> and \<^verbatim>\<open>snprintf\<close> write at most \<open>n - 1\<close> characters into a buffer of
  \<open>n\<close> bytes and terminate it.
\<close>

definition buf_copy :: "nat \<Rightarrow> string \<Rightarrow> string" where
  "buf_copy n s = take (n - 1) s"

lemma buf_copy_length: "0 < n \<Longrightarrow> length (buf_copy n s) < n"
  by (simp add: buf_copy_def)

lemma buf_copy_id [c_string_simps]: "length s < n \<Longrightarrow> buf_copy n s = s"
  by (simp add: buf_copy_def)

lemma buf_copy_prefix: "prefix (buf_copy n s) s"
  by (simp add: buf_copy_def take_is_prefix)

lemma buf_copy_idem [c_string_simps]: "buf_copy n (buf_copy n s) = buf_copy n s"
  by (simp add: buf_copy_def)

lemma buf_copy_PATH_MAX [simp]: "length (buf_copy PATH_MAX s) < PATH_MAX"
  by (rule buf_copy_length) (simp add: PATH_MAX_def)

lemma buf_copy_Nil [simp]: "buf_copy n [] = []"
  by (simp add: buf_copy_def)

lemma hd_buf_copy: "s \<noteq> [] \<Longrightarrow> 1 < n \<Longrightarrow> buf_copy n s \<noteq> [] \<and> hd (buf_copy n s) = hd s"
  by (cases s; cases "n - 1") (auto simp: buf_copy_def)

text \<open>The string that starts at offset \<open>i\<close> of a buffer: it ends at the first NUL.\<close>

definition cstr_at :: "string \<Rightarrow> nat \<Rightarrow> string" where
  "cstr_at buf i = takeWhile (\<lambda>c. c \<noteq> NUL) (drop i buf)"

lemma cstr_at_no_nul: "NUL \<notin> set (drop i s) \<Longrightarrow> cstr_at s i = drop i s"
  by (auto simp: cstr_at_def takeWhile_eq_all_conv)

subsection \<open>C integer conversions\<close>

text \<open>Conversion to \<^verbatim>\<open>int\<close>, to \<^verbatim>\<open>unsigned\<close> and the saturation of \<^verbatim>\<open>strtol\<close> at 64 bits.\<close>

definition wrap32s :: "int \<Rightarrow> int" where
  "wrap32s x = (x + 2147483648) mod 4294967296 - 2147483648"

definition wrap32u :: "int \<Rightarrow> int" where
  "wrap32u x = x mod 4294967296"

definition sat64 :: "int \<Rightarrow> int" where
  "sat64 x = max (- 9223372036854775808) (min 9223372036854775807 x)"

definition is_gint :: "int \<Rightarrow> bool" where
  "is_gint x \<longleftrightarrow> - 2147483648 \<le> x \<and> x < 2147483648"

lemma wrap32s_id [wrap_simps]: "is_gint x \<Longrightarrow> wrap32s x = x"
  by (simp add: wrap32s_def is_gint_def)

lemma wrap32s_range: "is_gint (wrap32s x)"
  by (simp add: wrap32s_def is_gint_def)

lemma wrap32s_wrap32u [wrap_simps]: "wrap32s (wrap32u x) = wrap32s x"
  by (simp add: wrap32s_def wrap32u_def mod_simps)

lemma wrap32u_range: "0 \<le> wrap32u x \<and> wrap32u x < 4294967296"
  by (simp add: wrap32u_def)

lemma wrap32u_id [wrap_simps]: "0 \<le> x \<Longrightarrow> x < 4294967296 \<Longrightarrow> wrap32u x = x"
  by (simp add: wrap32u_def)

lemma sat64_id [wrap_simps]:
  "- 9223372036854775808 \<le> x \<Longrightarrow> x \<le> 9223372036854775807 \<Longrightarrow> sat64 x = x"
  by (simp add: sat64_def)

lemma sat64_wrap32u [wrap_simps]: "sat64 (wrap32u x) = wrap32u x"
  using wrap32u_range [of x] by (simp add: sat64_def)

lemma sat64_gint [wrap_simps]: "is_gint x \<Longrightarrow> sat64 x = x"
  by (simp add: sat64_def is_gint_def)

subsection \<open>Characters and comparison\<close>

definition is_digit :: "char \<Rightarrow> bool" where
  "is_digit c \<longleftrightarrow> 48 \<le> (of_char c :: nat) \<and> (of_char c :: nat) \<le> 57"

definition is_space :: "char \<Rightarrow> bool" where
  "is_space c \<longleftrightarrow> (of_char c :: nat) = 32 \<or> 9 \<le> (of_char c :: nat) \<and> (of_char c :: nat) \<le> 13"

definition digit_val :: "char \<Rightarrow> int" where
  "digit_val c = int (of_char c) - 48"

text \<open>
  \<^verbatim>\<open>strcmp\<close> compares bytes as unsigned values and a proper prefix is smaller.  C fixes only
  the sign of the result; the model returns the sign itself.
\<close>

fun strcmp :: "string \<Rightarrow> string \<Rightarrow> int" where
  "strcmp [] [] = 0"
| "strcmp [] (_ # _) = - 1"
| "strcmp (_ # _) [] = 1"
| "strcmp (a # as) (b # bs) =
     (if (of_char a :: nat) < of_char b then - 1
      else if (of_char b :: nat) < of_char a then 1
      else strcmp as bs)"

lemma of_char_nat_inj: "(of_char a :: nat) = of_char b \<longleftrightarrow> a = b"
  by simp

lemma strcmp_eq_0 [simp]: "strcmp a b = 0 \<longleftrightarrow> a = b"
proof (induction a b rule: strcmp.induct)
  case (4 a as b bs)
  then show ?case
    using of_char_nat_inj [of a b] by auto
qed auto

lemma strcmp_antisym: "strcmp b a = - strcmp a b"
  by (induction a b rule: strcmp.induct) auto

lemma strcmp_trans: "strcmp a b \<le> 0 \<Longrightarrow> strcmp b c \<le> 0 \<Longrightarrow> strcmp a c \<le> 0"
proof (induction a arbitrary: b c)
  case Nil
  then show ?case by (cases c) auto
next
  case (Cons x xs)
  from Cons.prems obtain y ys where b: "b = y # ys" by (cases b) auto
  from Cons.prems b obtain z zs where c: "c = z # zs" by (cases c) auto
  show ?case
  proof (cases "x = y \<and> y = z")
    case True
    with Cons.prems b c have "strcmp xs ys \<le> 0" and "strcmp ys zs \<le> 0" by simp_all
    then have "strcmp xs zs \<le> 0" by (rule Cons.IH)
    with True b c show ?thesis by simp
  next
    case False
    with Cons.prems b c have "(of_char x :: nat) < of_char z"
      by (auto split: if_splits)
    then show ?thesis by (simp add: c)
  qed
qed

subsection \<open>strtol, atoi, atol\<close>

fun digits_val :: "int \<Rightarrow> string \<Rightarrow> int" where
  "digits_val acc [] = acc"
| "digits_val acc (c # cs) = digits_val (acc * 10 + digit_val c) cs"

text \<open>
  The subject sequence of \<^verbatim>\<open>strtol\<close> in base 10: leading white space, an optional sign, then
  the longest run of digits.  The second component tells whether a conversion was performed,
  which is what the sources test by comparing \<^verbatim>\<open>endptr\<close> with the start of the string.
\<close>

definition strtol_body :: "string \<Rightarrow> bool \<times> string" where
  "strtol_body s =
     (case s of
        [] \<Rightarrow> (False, [])
      | c # cs \<Rightarrow> if c = CHR ''-'' then (True, cs)
                  else if c = CHR ''+'' then (False, cs) else (False, s))"

definition strtol :: "string \<Rightarrow> int \<times> bool" where
  "strtol s =
     (let (neg, t) = strtol_body (dropWhile is_space s);
          ds = takeWhile is_digit t;
          v = digits_val 0 ds
      in (sat64 (if neg then - v else v), ds \<noteq> []))"

text \<open>\<^verbatim>\<open>atol\<close> is \<^verbatim>\<open>strtol\<close> without the end pointer; \<^verbatim>\<open>atoi\<close> converts its result to \<^verbatim>\<open>int\<close>.\<close>

definition atol :: "string \<Rightarrow> int" where
  "atol s = fst (strtol s)"

definition atoi :: "string \<Rightarrow> int" where
  "atoi s = wrap32s (atol s)"

lemma digits_val_nonneg: "0 \<le> acc \<Longrightarrow> \<forall>c \<in> set ds. is_digit c \<Longrightarrow> 0 \<le> digits_val acc ds"
  by (induction acc ds rule: digits_val.induct) (auto simp: is_digit_def digit_val_def)

lemma digits_val_append: "digits_val acc (xs @ ys) = digits_val (digits_val acc xs) ys"
  by (induction acc xs rule: digits_val.induct) auto

lemma atoi_range: "is_gint (atoi s)"
  by (simp add: atoi_def wrap32s_range)

lemma atol_nonneg_digits:
  assumes "\<forall>c \<in> set s. is_digit c"
  shows "0 \<le> atol s"
proof -
  have sp: "dropWhile is_space s = s"
    using assms by (cases s) (auto simp: is_digit_def is_space_def)
  have body: "strtol_body s = (False, s)"
    using assms by (cases s) (auto simp: strtol_body_def is_digit_def)
  have tw: "takeWhile is_digit s = s"
    using assms by (auto simp: takeWhile_eq_all_conv)
  have "0 \<le> digits_val 0 s"
    using assms by (intro digits_val_nonneg) auto
  then show ?thesis
    by (simp add: atol_def strtol_def Let_def sp body tw sat64_def)
qed

subsection \<open>Decimal printing\<close>

definition digit_char :: "nat \<Rightarrow> char" where
  "digit_char d = (char_of (48 + d) :: char)"

fun nat_to_dec :: "nat \<Rightarrow> string" where
  "nat_to_dec n =
     (if n < 10 then [digit_char n] else nat_to_dec (n div 10) @ [digit_char (n mod 10)])"

declare nat_to_dec.simps [simp del]

definition int_to_dec :: "int \<Rightarrow> string" where
  "int_to_dec i = (if i < 0 then CHR ''-'' # nat_to_dec (nat (- i)) else nat_to_dec (nat i))"

lemma digit_char_props:
  assumes "d < 10"
  shows "is_digit (digit_char d)" and "digit_val (digit_char d) = int d"
  using assms by (simp_all add: digit_char_def is_digit_def digit_val_def)

lemma nat_to_dec_digits: "\<forall>c \<in> set (nat_to_dec n). is_digit c"
proof (induction n rule: nat_to_dec.induct)
  case (1 n)
  then show ?case
    by (subst nat_to_dec.simps) (auto intro: digit_char_props(1))
qed

lemma nat_to_dec_not_Nil [simp]: "nat_to_dec n \<noteq> []"
  by (subst nat_to_dec.simps) simp

lemma digits_val_nat_to_dec: "digits_val 0 (nat_to_dec n) = int n"
proof (induction n rule: nat_to_dec.induct)
  case (1 n)
  show ?case
  proof (cases "n < 10")
    case True
    then show ?thesis
      by (subst nat_to_dec.simps) (simp add: digit_char_props(2))
  next
    case False
    with "1.IH" have IH: "digits_val 0 (nat_to_dec (n div 10)) = int (n div 10)"
      by simp
    have "digit_val (digit_char (n mod 10)) = int (n mod 10)"
      by (rule digit_char_props(2)) simp
    moreover have "int (n div 10) * 10 + int (n mod 10) = int n"
      by presburger
    ultimately show ?thesis
      using False IH by (subst nat_to_dec.simps) (simp add: digits_val_append)
  qed
qed

lemma int_to_dec_no_space: "dropWhile is_space (int_to_dec i) = int_to_dec i"
  using nat_to_dec_digits [of "nat i"]
  by (cases "nat_to_dec (nat i)") (auto simp: int_to_dec_def is_space_def is_digit_def)

lemma int_to_dec_body: "strtol_body (int_to_dec i) = (i < 0, nat_to_dec (nat \<bar>i\<bar>))"
  using nat_to_dec_digits [of "nat i"]
  by (cases "nat_to_dec (nat i)") (auto simp: int_to_dec_def strtol_body_def is_digit_def)

lemma nat_to_dec_all_digits:
  "takeWhile is_digit (nat_to_dec n) = nat_to_dec n" "dropWhile is_digit (nat_to_dec n) = []"
  using nat_to_dec_digits by (auto simp: takeWhile_eq_all_conv dropWhile_eq_Nil_conv)

lemmas int_to_dec_scan = int_to_dec_no_space int_to_dec_body nat_to_dec_all_digits digits_val_nat_to_dec

lemma strtol_int_to_dec: "strtol (int_to_dec i) = (sat64 i, True)"
  by (auto simp: strtol_def Let_def int_to_dec_scan)

lemma atol_int_to_dec: "is_gint i \<Longrightarrow> atol (int_to_dec i) = i"
  by (simp add: atol_def strtol_int_to_dec wrap_simps)

lemma atoi_int_to_dec: "is_gint i \<Longrightarrow> atoi (int_to_dec i) = i"
  by (simp add: atoi_def atol_int_to_dec wrap_simps)

subsection \<open>Searching and splitting strings\<close>

text \<open>Offset of the first occurrence of a character or of a string.\<close>

fun first_pos :: "char \<Rightarrow> string \<Rightarrow> nat option" where
  "first_pos c [] = None"
| "first_pos c (x # xs) = (if x = c then Some 0 else map_option Suc (first_pos c xs))"

fun strstr_pos :: "string \<Rightarrow> string \<Rightarrow> nat option" where
  "strstr_pos pat [] = (if pat = [] then Some 0 else None)"
| "strstr_pos pat (x # xs) =
     (if prefix pat (x # xs) then Some 0 else map_option Suc (strstr_pos pat xs))"

lemma first_pos_None [simp]: "first_pos c s = None \<longleftrightarrow> c \<notin> set s"
  by (induction s) auto

lemma first_pos_append: "c \<notin> set xs \<Longrightarrow> first_pos c (xs @ c # ys) = Some (length xs)"
  by (induction xs) auto

lemma first_pos_SomeD:
  "first_pos c s = Some i \<Longrightarrow> i < length s \<and> s ! i = c \<and> c \<notin> set (take i s)"
proof (induction s arbitrary: i)
  case (Cons x xs)
  then show ?case by (cases i) (auto split: if_splits)
qed simp

lemma strstr_pos_SomeD:
  assumes "strstr_pos pat s = Some i"
  shows "\<exists>pre post. s = pre @ pat @ post \<and> length pre = i"
  using assms
proof (induction s arbitrary: i)
  case Nil
  then show ?case by (simp split: if_splits)
next
  case (Cons x xs)
  show ?case
  proof (cases "prefix pat (x # xs)")
    case True
    then obtain post where "x # xs = pat @ post"
      by (auto simp: prefix_def)
    moreover from True Cons.prems have "i = 0" by simp
    ultimately show ?thesis
      by (intro exI [of _ "[]"] exI [of _ post]) simp
  next
    case False
    with Cons.prems obtain j where j: "strstr_pos pat xs = Some j" and i: "i = Suc j"
      by auto
    from Cons.IH [OF j] obtain pre post where "xs = pre @ pat @ post" and "length pre = j"
      by blast
    then show ?thesis
      using i by (intro exI [of _ "x # pre"] exI [of _ post]) simp
  qed
qed

lemma strstr_pos_None: "strstr_pos pat s = None \<longleftrightarrow> \<not> sublist pat s"
  by (induction s) (auto simp: sublist_Cons_right)

text \<open>
  \<^verbatim>\<open>g_strsplit\<close> with a one-character delimiter: the empty string gives the empty vector, and
  with \<open>Some m\<close> the last of at most \<open>m\<close> tokens holds the rest of the string.
\<close>

fun strsplit_go :: "char \<Rightarrow> nat \<Rightarrow> string \<Rightarrow> string list" where
  "strsplit_go d 0 s = [s]"
| "strsplit_go d (Suc n) s =
     (case dropWhile (\<lambda>c. c \<noteq> d) s of
        [] \<Rightarrow> [s]
      | _ # r \<Rightarrow> takeWhile (\<lambda>c. c \<noteq> d) s # strsplit_go d n r)"

definition g_strsplit :: "string \<Rightarrow> char \<Rightarrow> nat option \<Rightarrow> string list" where
  "g_strsplit s d m =
     (if s = [] then []
      else strsplit_go d (case m of None \<Rightarrow> length s | Some k \<Rightarrow> k - 1) s)"

lemma takeWhile_neq_append: "d \<notin> set xs \<Longrightarrow> takeWhile (\<lambda>c. c \<noteq> d) (xs @ d # ys) = xs"
  by (induction xs) auto

lemma dropWhile_neq_append: "d \<notin> set xs \<Longrightarrow> dropWhile (\<lambda>c. c \<noteq> d) (xs @ d # ys) = d # ys"
  by (induction xs) auto

lemma dropWhile_neq_none: "d \<notin> set xs \<Longrightarrow> dropWhile (\<lambda>c. c \<noteq> d) xs = []"
  by (auto simp: dropWhile_eq_Nil_conv)

lemmas split_delim_simps = takeWhile_neq_append dropWhile_neq_append dropWhile_neq_none

lemma strsplit_go_append:
  "d \<notin> set xs \<Longrightarrow> strsplit_go d (Suc n) (xs @ d # ys) = xs # strsplit_go d n ys"
  by (simp add: split_delim_simps)

lemma strsplit_go_single: "d \<notin> set xs \<Longrightarrow> strsplit_go d n xs = [xs]"
  by (cases n) (simp_all add: split_delim_simps)

lemma strsplit_go_not_Nil [simp]: "strsplit_go d n s \<noteq> []"
  by (cases n) (auto split: list.splits)

text \<open>\<^verbatim>\<open>g_strjoinv\<close> with a one-character separator, and splitting what it joined.\<close>

fun strjoinv :: "char \<Rightarrow> string list \<Rightarrow> string" where
  "strjoinv d [] = []"
| "strjoinv d [x] = x"
| "strjoinv d (x # y # ys) = x @ d # strjoinv d (y # ys)"

lemma strsplit_strjoinv:
  "xs \<noteq> [] \<Longrightarrow> \<forall>x \<in> set xs. d \<notin> set x \<Longrightarrow> length xs \<le> Suc n \<Longrightarrow>
   strsplit_go d n (strjoinv d xs) = xs"
proof (induction d xs arbitrary: n rule: strjoinv.induct)
  case (2 d x)
  then show ?case by (simp add: strsplit_go_single)
next
  case (3 d x y ys)
  then obtain m where n: "n = Suc m" by (cases n) auto
  with 3 have "strsplit_go d m (strjoinv d (y # ys)) = y # ys" by simp
  with 3 n show ?case by (simp add: split_delim_simps)
qed simp

text \<open>Everything before the last occurrence of a character: \<^verbatim>\<open>g_strrstr\<close> and truncation there.\<close>

definition before_last :: "char \<Rightarrow> string \<Rightarrow> string option" where
  "before_last d s =
     (if d \<in> set s then Some (rev (tl (dropWhile (\<lambda>c. c \<noteq> d) (rev s)))) else None)"

lemma before_last_shorter: "before_last d s = Some t \<Longrightarrow> length t < length s"
proof -
  assume a: "before_last d s = Some t"
  then have d: "d \<in> set (rev s)" and t: "t = rev (tl (dropWhile (\<lambda>c. c \<noteq> d) (rev s)))"
    by (auto simp: before_last_def split: if_splits)
  have "dropWhile (\<lambda>c. c \<noteq> d) (rev s) \<noteq> []"
    using d by (auto simp: dropWhile_eq_Nil_conv)
  moreover have "length (dropWhile (\<lambda>c. c \<noteq> d) (rev s)) \<le> length (rev s)"
    by (rule length_dropWhile_le)
  ultimately show ?thesis
    by (cases "dropWhile (\<lambda>c. c \<noteq> d) (rev s)") (auto simp: t)
qed

lemma before_last_prefix: "before_last d s = Some t \<Longrightarrow> \<exists>u. s = t @ d # u"
proof -
  assume a: "before_last d s = Some t"
  then have d: "d \<in> set (rev s)" and t: "t = rev (tl (dropWhile (\<lambda>c. c \<noteq> d) (rev s)))"
    by (auto simp: before_last_def split: if_splits)
  obtain y ys where dw: "dropWhile (\<lambda>c. c \<noteq> d) (rev s) = y # ys" and "y = d"
    using d hd_dropWhile [of "\<lambda>c. c \<noteq> d" "rev s"]
    by (cases "dropWhile (\<lambda>c. c \<noteq> d) (rev s)") (auto simp: dropWhile_eq_Nil_conv)
  then have "rev s = takeWhile (\<lambda>c. c \<noteq> d) (rev s) @ d # ys"
    using takeWhile_dropWhile_id [of "\<lambda>c. c \<noteq> d" "rev s"] by simp
  then have "s = rev (takeWhile (\<lambda>c. c \<noteq> d) (rev s) @ d # ys)"
    by (metis rev_rev_ident)
  then have "s = rev ys @ d # rev (takeWhile (\<lambda>c. c \<noteq> d) (rev s))"
    by simp
  then show ?thesis
    using t dw by auto
qed

subsection \<open>Tables that map numbers to names\<close>

text \<open>
  The sources keep enum-to-name tables as arrays of \<^verbatim>\<open>struct cc_oci_map\<close> scanned in order;
  both directions return the first match.
\<close>

fun table_name :: "('k \<times> string) list \<Rightarrow> 'k \<Rightarrow> string option" where
  "table_name [] k = None"
| "table_name ((n, s) # t) k = (if n = k then Some s else table_name t k)"

fun table_num :: "('k \<times> string) list \<Rightarrow> string \<Rightarrow> 'k option" where
  "table_num [] s = None"
| "table_num ((n, t) # ts) s = (if s = t then Some n else table_num ts s)"

text \<open>
  The contract of such a pair of lookups: where a number has a name, the name leads back to it
  and to no other number.
\<close>

locale name_table =
  fixes to_str :: "'k \<Rightarrow> string option" and of_str :: "string \<Rightarrow> 'k option"
  assumes of_to: "to_str k = Some s \<Longrightarrow> of_str s = Some k"
    and to_of: "of_str s = Some k \<Longrightarrow> to_str k = Some s"
begin

lemma to_str_inj: "to_str j = Some s \<Longrightarrow> to_str k = Some s \<Longrightarrow> j = k"
  using of_to [of j s] of_to [of k s] by simp

lemma of_str_inj: "of_str s = Some k \<Longrightarrow> of_str t = Some k \<Longrightarrow> s = t"
  using to_of [of s k] to_of [of t k] by simp

lemma known_iff: "(\<exists>k. of_str s = Some k) \<longleftrightarrow> (\<exists>k. to_str k = Some s)"
  using of_to to_of by blast

end

lemma table_name_mem: "table_name t k = Some s \<Longrightarrow> (k, s) \<in> set t"
  by (induction t) (auto split: if_splits)

lemma table_num_mem: "table_num t s = Some k \<Longrightarrow> (k, s) \<in> set t"
  by (induction t) (auto split: if_splits)

lemma table_name_distinct:
  "distinct (map fst t) \<Longrightarrow> (k, s) \<in> set t \<Longrightarrow> table_name t k = Some s"
  by (induction t) (auto simp: rev_image_eqI)

lemma table_num_distinct:
  "distinct (map snd t) \<Longrightarrow> (k, s) \<in> set t \<Longrightarrow> table_num t s = Some k"
  by (induction t) (auto simp: rev_image_eqI)

lemma name_table_distinct:
  assumes "distinct (map fst t)" and "distinct (map snd t)"
  shows "name_table (table_name t) (table_num t)"
  using assms
  by unfold_locales (auto dest: table_name_mem table_num_mem intro: table_name_distinct table_num_distinct)

end
