(* ===== verification/Semver.thy ===== *)
theory Semver
  imports Prelude
begin

section \<open>Semantic version comparison (src/semver.c)\<close>

text \<open>
  The comparison routines of \<^verbatim>\<open>src/src/semver.c\<close>, one definition per C function.  A version
  is split on dots into three fields; the vector \<^verbatim>\<open>g_strsplit\<close> returns is NULL-terminated, so a
  missing field is read as NULL and passing it to \<^verbatim>\<open>atol\<close> or to a \<^verbatim>\<open>g_assert\<close> is a fault.
  The interface \<open>cmp_contract\<close> says what a \<^verbatim>\<open>strcmp\<close>-like routine promises and carries the field-by-field loop; it is interpreted on
  \<^verbatim>\<open>strcmp\<close> and on the comparison of one pre-release identifier.
\<close>

definition cc_oci_string_is_numeric :: "gchars \<Rightarrow> bool" where
  "cc_oci_string_is_numeric str = (case str of None \<Rightarrow> False | Some s \<Rightarrow> list_all is_digit s)"

text \<open>One iteration of the loop over identifiers, and the loop itself.\<close>

definition pre_field_cmp :: "string \<Rightarrow> string \<Rightarrow> int" where
  "pre_field_cmp fa fb =
     (if cc_oci_string_is_numeric (Some fa) \<and> cc_oci_string_is_numeric (Some fb)
      then wrap32s (atol fa - atol fb)
      else strcmp fa fb)"

fun fields_cmp :: "('a \<Rightarrow> 'a \<Rightarrow> int) \<Rightarrow> 'a list \<Rightarrow> 'a list \<Rightarrow> int" where
  "fields_cmp c [] [] = 0"
| "fields_cmp c (x # xs) [] = 1"
| "fields_cmp c [] (y # ys) = - 1"
| "fields_cmp c (x # xs) (y # ys) =
     (let ret = c x y in if ret \<noteq> 0 then ret else fields_cmp c xs ys)"

definition cc_oci_semver_cmp_patch_pre_releases :: "string \<Rightarrow> string \<Rightarrow> int" where
  "cc_oci_semver_cmp_patch_pre_releases pre_rel_a pre_rel_b =
     fields_cmp pre_field_cmp
       (g_strsplit pre_rel_a (CHR ''.'') None) (g_strsplit pre_rel_b (CHR ''.'') None)"

text \<open>
  The patch field is cut in place: the first \<^verbatim>\<open>-\<close> and the first \<^verbatim>\<open>+\<close> of the buffer are
  overwritten with NUL and the parts are read as the strings behind them.
\<close>

definition put_nul :: "nat option \<Rightarrow> string \<Rightarrow> string" where
  "put_nul p buf = (case p of None \<Rightarrow> buf | Some i \<Rightarrow> buf[i := NUL])"

definition cc_oci_semver_split_patch_version :: "string \<Rightarrow> int \<times> gchars \<times> gchars" where
  "cc_oci_semver_split_patch_version patch_version =
     (let build_metadata = first_pos (CHR ''+'') patch_version;
          pre_release = first_pos (CHR ''-'') patch_version;
          buf = put_nul build_metadata (put_nul pre_release patch_version)
      in (atoi (cstr_at buf 0),
          map_option (\<lambda>i. cstr_at buf (Suc i)) pre_release,
          map_option (\<lambda>i. cstr_at buf (Suc i)) build_metadata))"

definition cc_oci_semver_cmp_patch_versions :: "gchars \<Rightarrow> gchars \<Rightarrow> int c_result" where
  "cc_oci_semver_cmp_patch_versions patch_a patch_b =
     (case (patch_a, patch_b) of
        (Some a, Some b) \<Rightarrow>
          (case (cc_oci_semver_split_patch_version a, cc_oci_semver_split_patch_version b) of
             ((pva, pra, _), (pvb, prb, _)) \<Rightarrow>
               if pva > pvb then Inr 1
               else if pva < pvb then Inr (- 1)
               else (case (pra, prb) of
                       (Some _, None) \<Rightarrow> Inr (- 1)
                     | (None, Some _) \<Rightarrow> Inr 1
                     | (None, None) \<Rightarrow> Inr 0
                     | (Some x, Some y) \<Rightarrow> Inr (cc_oci_semver_cmp_patch_pre_releases x y)))
      | _ \<Rightarrow> Inl AssertFail)"

definition field :: "string list \<Rightarrow> nat \<Rightarrow> gchars" where
  "field fs i = (if i < length fs then Some (fs ! i) else None)"

definition cc_oci_semver_cmp_fields ::
    "string list \<Rightarrow> string list \<Rightarrow> bool \<Rightarrow> int c_result" where
  "cc_oci_semver_cmp_fields fields_a fields_b compatible =
     (case (field fields_a 0, field fields_a 1, field fields_b 0, field fields_b 1) of
        (Some major_a, Some minor_a, Some major_b, Some minor_b) \<Rightarrow>
          (let maj_a = atol major_a; min_a = atol minor_a;
               maj_b = atol major_b; min_b = atol minor_b
           in if maj_a > maj_b then Inr 1
              else if maj_a < maj_b then Inr (- 1)
              else if compatible then Inr 0
              else if min_a > min_b then Inr 1
              else if min_a < min_b then Inr (- 1)
              else cc_oci_semver_cmp_patch_versions (field fields_a 2) (field fields_b 2))
      | _ \<Rightarrow> Inl NullDeref)"

definition cc_oci_semver_2_0_0_cmp :: "string \<Rightarrow> string \<Rightarrow> bool \<Rightarrow> int c_result" where
  "cc_oci_semver_2_0_0_cmp version_a version_b compatible =
     cc_oci_semver_cmp_fields
       (g_strsplit version_a (CHR ''.'') (Some 3)) (g_strsplit version_b (CHR ''.'') (Some 3))
       compatible"

definition cc_oci_semver_cmp_full :: "string \<Rightarrow> string \<Rightarrow> int c_result" where
  "cc_oci_semver_cmp_full version_a version_b =
     cc_oci_semver_2_0_0_cmp version_a version_b False"

definition cc_oci_semver_cmp :: "string \<Rightarrow> string \<Rightarrow> int c_result" where
  "cc_oci_semver_cmp version_a version_b =
     cc_oci_semver_2_0_0_cmp version_a version_b True"

lemmas semver_defs =
  cc_oci_semver_cmp_def cc_oci_semver_cmp_full_def cc_oci_semver_2_0_0_cmp_def
  cc_oci_semver_cmp_fields_def field_def

subsection \<open>What a strcmp-like routine promises\<close>

text \<open>Exchanging the arguments negates the result, as far as a C int can: its least value has no negative.\<close>

definition gint_neg :: "int \<Rightarrow> int" where
  "gint_neg r = wrap32s (- r)"

lemma gint_neg_simps [simp]: "gint_neg 0 = 0" "gint_neg 1 = - 1" "gint_neg (- 1) = 1"
  by (simp_all add: gint_neg_def wrap32s_def)

lemma gint_neg_sgn:
  assumes "is_gint r"
  shows "gint_neg r = (if r = - 2147483648 then r else - r)"
  using assms by (auto simp: gint_neg_def wrap32s_def is_gint_def)

locale cmp_contract =
  fixes cmp :: "'a \<Rightarrow> 'a \<Rightarrow> int"
  assumes cmp_self: "cmp x x = 0"
    and cmp_gint: "is_gint (cmp x y)"
    and cmp_swap: "cmp y x = gint_neg (cmp x y)"
begin

lemma cmp_zero_sym: "cmp x y = 0 \<longleftrightarrow> cmp y x = 0"
  using cmp_swap [of x y] cmp_swap [of y x] by auto

lemma fields_cmp_self: "fields_cmp cmp xs xs = 0"
  by (induction xs) (auto simp: cmp_self)

lemma fields_cmp_gint: "is_gint (fields_cmp cmp xs ys)"
proof (induction xs arbitrary: ys)
  case Nil
  then show ?case by (cases ys) (auto simp: is_gint_def)
next
  case (Cons x xs)
  then show ?case by (cases ys) (auto simp: Let_def cmp_gint, simp add: is_gint_def)
qed

lemma fields_cmp_swap: "fields_cmp cmp ys xs = gint_neg (fields_cmp cmp xs ys)"
proof (induction xs arbitrary: ys)
  case Nil
  then show ?case by (cases ys) auto
next
  case (Cons x xs)
  then show ?case
    using cmp_swap [of "hd ys" x] cmp_zero_sym [of x "hd ys"]
    by (cases ys) (auto simp: Let_def cmp_swap [of x])
qed

end

lemma strcmp_range: "strcmp a b \<in> {- 1, 0, 1}"
  by (induction a b rule: strcmp.induct) auto

lemma strcmp_gint: "is_gint (strcmp a b)"
  using strcmp_range [of a b] by (auto simp: is_gint_def simp del: strcmp_eq_0)

interpretation str: cmp_contract strcmp
proof unfold_locales
  fix x y :: string
  show "strcmp x x = 0" by simp
  show "is_gint (strcmp x y)" by (rule strcmp_gint)
  show "strcmp y x = gint_neg (strcmp x y)"
    using strcmp_range [of x y] by (subst strcmp_antisym) (auto simp del: strcmp_eq_0)
qed

lemma pre_field_cmp_self: "pre_field_cmp x x = 0"
  by (simp add: pre_field_cmp_def wrap32s_def)

lemma pre_field_cmp_swap: "pre_field_cmp y x = gint_neg (pre_field_cmp x y)"
proof -
  have "wrap32s (- c) = gint_neg (wrap32s c)" for c :: int
    using mod_diff_right_eq [of 4294967296 "c + 2147483648" "4294967296 :: int"]
    by (simp add: gint_neg_def wrap32s_def algebra_simps)
  from this [of "atol x - atol y"] have "wrap32s (atol y - atol x) = gint_neg (wrap32s (atol x - atol y))" by simp
  then show ?thesis
    by (cases "cc_oci_string_is_numeric (Some x) \<and> cc_oci_string_is_numeric (Some y)")
      (auto simp: pre_field_cmp_def str.cmp_swap [of y x])
qed

lemma pre_field_cmp_gint: "is_gint (pre_field_cmp x y)"
  by (simp add: pre_field_cmp_def wrap32s_range strcmp_gint)

interpretation ident: cmp_contract pre_field_cmp
  by unfold_locales (rule pre_field_cmp_self pre_field_cmp_gint pre_field_cmp_swap)+

text \<open>The cast costs the order: identifiers that differ by \<open>2 ^ 32\<close> compare equal.\<close>

lemma pre_field_cmp_wraps: "pre_field_cmp ''4294967296'' ''0'' = 0"
  by code_simp

subsection \<open>Versions and their fields\<close>

lemma strsplit3:
  assumes "CHR ''.'' \<notin> set x" and "CHR ''.'' \<notin> set y"
  shows "g_strsplit (x @ ''.'' @ y @ ''.'' @ z) (CHR ''.'') (Some 3) = [x, y, z]"
proof -
  show ?thesis
    using assms
    by (simp add: g_strsplit_def numeral_2_eq_2 strsplit_go_append del: strsplit_go.simps(2))
qed

lemma strsplit_two_fields:
  assumes "CHR ''.'' \<notin> set x"
  shows "\<exists>y rest. g_strsplit (x @ ''.'' @ r) (CHR ''.'') (Some 3) = x # y # rest"
proof -
  have "g_strsplit (x @ ''.'' @ r) (CHR ''.'') (Some 3) = x # strsplit_go (CHR ''.'') (Suc 0) r"
    using assms
    by (simp add: g_strsplit_def numeral_2_eq_2 strsplit_go_append del: strsplit_go.simps(2))
  then show ?thesis
    using strsplit_go_not_Nil by (metis list.exhaust)
qed

lemma strsplit_no_dot:
  assumes "CHR ''.'' \<notin> set v"
  shows "length (g_strsplit v (CHR ''.'') (Some 3)) \<le> 1"
  using assms by (simp add: g_strsplit_def strsplit_go_single)

lemma patch_versions_swap:
  assumes "cc_oci_semver_cmp_patch_versions (Some a) (Some b) = Inr r"
  shows "cc_oci_semver_cmp_patch_versions (Some b) (Some a) = Inr (gint_neg r) \<and> is_gint r"
proof -
  obtain na pa ba where A: "cc_oci_semver_split_patch_version a = (na, pa, ba)"
    by (metis prod_cases3)
  obtain nb pb bb where B: "cc_oci_semver_split_patch_version b = (nb, pb, bb)"
    by (metis prod_cases3)
  show ?thesis
  proof (cases "na = nb \<and> pa \<noteq> None \<and> pb \<noteq> None")
    case False
    then show ?thesis
      using assms by (cases pa; cases pb)
        (auto simp: A B cc_oci_semver_cmp_patch_versions_def is_gint_def split: if_splits)
  next
    case True
    then obtain x y where xy: "pa = Some x" "pb = Some y" by auto
    have "r = cc_oci_semver_cmp_patch_pre_releases x y"
      using True xy assms by (simp add: A B cc_oci_semver_cmp_patch_versions_def)
    then show ?thesis
      using True xy ident.fields_cmp_swap [of "g_strsplit y (CHR ''.'') None" "g_strsplit x (CHR ''.'') None"]
        ident.fields_cmp_gint
      by (simp add: A B cc_oci_semver_cmp_patch_versions_def cc_oci_semver_cmp_patch_pre_releases_def)
  qed
qed

text \<open>
  C22. The full comparison behaves like \<^verbatim>\<open>strcmp\<close> under exchange of the two versions: whenever it returns
  a number, the exchanged call returns one with the opposite sign.  The only exception is the least
  C int, which the cast of the difference of two numeric pre-release identifiers can produce: then both
  orders say that their first version is the older one.
\<close>

theorem semver_cmp_full_antisym:
  assumes "cc_oci_semver_cmp_full a b = Inr r"
  shows "\<exists>r'. cc_oci_semver_cmp_full b a = Inr r' \<and> sgn r' = (if r = - 2147483648 then sgn r else - sgn r)"
proof -
  let ?fa = "g_strsplit a (CHR ''.'') (Some 3)" and ?fb = "g_strsplit b (CHR ''.'') (Some 3)"
  have two: "1 < length ?fa" "1 < length ?fb"
    using assms(1) by (auto simp: semver_defs split: if_splits)
  show ?thesis
  proof (cases "atol (?fa ! 0) = atol (?fb ! 0) \<and> atol (?fa ! 1) = atol (?fb ! 1)")
    case False
    then show ?thesis
      using assms(1) two by (auto simp: semver_defs Let_def split: if_splits)
  next
    case True
    then have r: "cc_oci_semver_cmp_patch_versions (field ?fa 2) (field ?fb 2) = Inr r"
      using assms(1) two by (auto simp: semver_defs Let_def split: if_splits)
    then obtain pa pb where p: "field ?fa 2 = Some pa" "field ?fb 2 = Some pb"
      by (auto simp: cc_oci_semver_cmp_patch_versions_def split: option.splits)
    then obtain r' where "cc_oci_semver_cmp_patch_versions (Some pb) (Some pa) = Inr r'"
        "sgn r' = (if r = - 2147483648 then sgn r else - sgn r)"
      using patch_versions_swap [of pa pb r] r gint_neg_sgn [of r] by (auto simp: sgn_minus)
    then show ?thesis
      using True two p by (auto simp: semver_defs Let_def)
  qed
qed

theorem semver_cmp_full_antisym_witness:
  "\<exists>r'. cc_oci_semver_cmp_full ''1.0.0-rc.2'' ''1.0.0-rc.10'' = Inr r' \<and> sgn r' = - 1"
proof -
  have "cc_oci_semver_cmp_full ''1.0.0-rc.10'' ''1.0.0-rc.2'' = Inr 8"
    by code_simp
  from semver_cmp_full_antisym [OF this] show ?thesis by simp
qed

end
