(* ===== verification/OciTypes.thy ===== *)
theory OciTypes
  imports Prelude "HOL-Library.Word"
begin

section \<open>The data model (src/oci.h)\<close>

text \<open>
  The structures of \<^verbatim>\<open>src/src/oci.h\<close>, field by field.  A \<^verbatim>\<open>gchar *\<close> is a \<^typ>\<open>gchars\<close> (NULL is
  \<open>None\<close>), a fixed \<^verbatim>\<open>gchar[PATH_MAX]\<close> array is the \<^typ>\<open>string\<close> it holds, a \<^verbatim>\<open>GSList\<close> is a list, an
  embedded struct is a record and a pointer to a struct an \<open>option\<close>.  A connected \<^verbatim>\<open>GSocket\<close> is
  represented by its file descriptor.  \<^verbatim>\<open>additionalGids\<close> is never read or written by the
  sources and is left out.
\<close>

subsection \<open>Enumerations and constants\<close>

datatype oci_status =
    OCI_STATUS_CREATED
  | OCI_STATUS_RUNNING
  | OCI_STATUS_PAUSED
  | OCI_STATUS_STOPPED
  | OCI_STATUS_STOPPING
  | OCI_STATUS_INVALID

text \<open>The numeric values of the enumerators order the type as C does.\<close>

fun status_num :: "oci_status \<Rightarrow> int" where
  "status_num OCI_STATUS_CREATED = 0"
| "status_num OCI_STATUS_RUNNING = 1"
| "status_num OCI_STATUS_PAUSED = 2"
| "status_num OCI_STATUS_STOPPED = 3"
| "status_num OCI_STATUS_STOPPING = 4"
| "status_num OCI_STATUS_INVALID = - 1"

lemma status_num_inj: "status_num a = status_num b \<longleftrightarrow> a = b"
  by (cases a; cases b) simp_all

instantiation oci_status :: linorder
begin

definition less_eq_oci_status :: "oci_status \<Rightarrow> oci_status \<Rightarrow> bool" where
  "less_eq_oci_status a b \<longleftrightarrow> status_num a \<le> status_num b"

definition less_oci_status :: "oci_status \<Rightarrow> oci_status \<Rightarrow> bool" where
  "less_oci_status a b \<longleftrightarrow> status_num a < status_num b"

instance
  by standard
    (auto simp: less_eq_oci_status_def less_oci_status_def status_num_inj [symmetric])

end

text \<open>
  \<^verbatim>\<open>enum oci_namespace\<close> takes its values from the \<^verbatim>\<open>CLONE_*\<close> flags; a zeroed structure has
  the value 0, which is none of them, so the type is the integer itself.
\<close>

definition OCI_NS_PID :: int where "OCI_NS_PID = 0x20000000"
definition OCI_NS_NET :: int where "OCI_NS_NET = 0x40000000"
definition OCI_NS_MOUNT :: int where "OCI_NS_MOUNT = 0x00020000"
definition OCI_NS_IPC :: int where "OCI_NS_IPC = 0x08000000"
definition OCI_NS_UTS :: int where "OCI_NS_UTS = 0x04000000"
definition OCI_NS_USER :: int where "OCI_NS_USER = 0x10000000"
definition OCI_NS_CGROUP :: int where "OCI_NS_CGROUP = 0x02000000"
definition OCI_NS_INVALID :: int where "OCI_NS_INVALID = - 1"

lemmas oci_ns_defs =
  OCI_NS_PID_def OCI_NS_NET_def OCI_NS_MOUNT_def OCI_NS_IPC_def OCI_NS_UTS_def
  OCI_NS_USER_def OCI_NS_CGROUP_def OCI_NS_INVALID_def

definition CC_OCI_SUPPORTED_SPEC_VERSION :: string where
  "CC_OCI_SUPPORTED_SPEC_VERSION = ''1.0.0-rc1''"

definition CC_OCI_CONFIG_FILE :: string where
  "CC_OCI_CONFIG_FILE = ''config.json''"

definition CC_OCI_HYPERVISOR_SOCKET :: string where
  "CC_OCI_HYPERVISOR_SOCKET = ''hypervisor.sock''"

definition CC_OCI_PROCESS_SOCKET :: string where
  "CC_OCI_PROCESS_SOCKET = ''process.sock''"

definition CC_OCI_CONSOLE_SOCKET :: string where
  "CC_OCI_CONSOLE_SOCKET = ''console.sock''"

definition CC_OCI_AGENT_CTL_SOCKET :: string where
  "CC_OCI_AGENT_CTL_SOCKET = ''ga-ctl.sock''"

definition CC_OCI_AGENT_TTY_SOCKET :: string where
  "CC_OCI_AGENT_TTY_SOCKET = ''ga-tty.sock''"

definition CC_OCI_SHIM_LOCK_FILE :: string where
  "CC_OCI_SHIM_LOCK_FILE = ''.shim-flock''"

definition CC_OCI_STATE_FILE :: string where
  "CC_OCI_STATE_FILE = ''state.json''"

text \<open>\<^verbatim>\<open>LOCALSTATEDIR\<close> comes from the build; the default prefix makes it \<^verbatim>\<open>/var\<close>.\<close>

definition CC_OCI_RUNTIME_DIR_PREFIX :: string where
  "CC_OCI_RUNTIME_DIR_PREFIX = ''/var/run/cc-oci-runtime''"

definition CC_OCI_EXPECTED_PLATFORM :: string where
  "CC_OCI_EXPECTED_PLATFORM = ''linux''"

definition CC_OCI_EXPECTED_ARCHITECTURE :: string where
  "CC_OCI_EXPECTED_ARCHITECTURE = ''amd64''"

definition PASSWD_PATH :: string where
  "PASSWD_PATH = ''/etc/passwd''"

definition STATELESS_PASSWD_PATH :: string where
  "STATELESS_PASSWD_PATH = ''/usr/share/defaults/etc/passwd''"

definition PCI_OFFSET :: nat where
  "PCI_OFFSET = 8"

subsection \<open>The OCI configuration\<close>

record oci_cfg_platform =
  plat_os :: gchars
  plat_arch :: gchars

record oci_cfg_root =
  root_path :: string
  root_read_only :: bool

record oci_cfg_user =
  user_uid :: int
  user_gid :: int

record oci_cfg_hook =
  hook_path :: string
  hook_args :: strv
  hook_env :: strv
  hook_timeout :: int

record oci_cfg_hooks =
  hooks_prestart :: "oci_cfg_hook list"
  hooks_poststart :: "oci_cfg_hook list"
  hooks_poststop :: "oci_cfg_hook list"

record oci_cfg_annotation =
  ann_key :: gchars
  ann_value :: gchars

record oci_cfg_namespace =
  ns_type :: int
  ns_path :: gchars

record oci_cfg_process =
  proc_args :: strv
  proc_cwd :: string
  proc_env :: strv
  proc_terminal :: bool
  proc_user :: oci_cfg_user
  proc_stdio_stream :: int
  proc_stderr_stream :: int

record mntent =
  mnt_fsname :: gchars
  mnt_dir :: gchars
  mnt_type :: gchars
  mnt_opts :: gchars

record cc_oci_mount =
  mount_flags :: "64 word"
  mount_mnt :: mntent
  mount_dest :: string
  ignore_mount :: bool
  directory_created :: gchars

record oci_cfg =
  oci_version :: gchars
  oci_hooks :: oci_cfg_hooks
  oci_hostname :: gchars
  oci_mounts :: "cc_oci_mount list"
  oci_annotations :: "oci_cfg_annotation list"
  oci_platform :: oci_cfg_platform
  oci_root :: oci_cfg_root
  oci_process :: oci_cfg_process
  oci_linux_namespaces :: "oci_cfg_namespace list"

subsection \<open>The runtime's own configuration and state\<close>

record cc_oci_vm_cfg =
  vm_hypervisor_path :: string
  vm_image_path :: string
  vm_kernel_path :: string
  vm_workload_path :: string
  vm_kernel_params :: gchars
  vm_pid :: int

record cc_oci_net_ipv4_route =
  route_dest :: gchars
  route_ifname :: gchars
  route_gateway :: gchars

record cc_oci_net_ipv4_cfg =
  ipv4_ip_address :: gchars
  ipv4_subnet_mask :: gchars

record cc_oci_net_ipv6_cfg =
  ipv6_address :: gchars
  ipv6_prefix :: gchars

record cc_oci_net_if_cfg =
  if_mac_address :: gchars
  if_ifname :: gchars
  if_bridge :: gchars
  if_tap_device :: gchars
  if_ipv4_addrs :: "cc_oci_net_ipv4_cfg list"
  if_ipv6_addrs :: "cc_oci_net_ipv6_cfg list"

record cc_oci_net_cfg =
  net_hostname :: gchars
  net_dns_ip1 :: gchars
  net_dns_ip2 :: gchars
  net_interfaces :: "cc_oci_net_if_cfg list"
  net_routes :: "cc_oci_net_ipv4_route list"

record cc_proxy =
  proxy_socket :: "int option"
  agent_ctl_socket :: gchars
  agent_tty_socket :: gchars
  vm_console_socket :: gchars

record cc_pod =
  pod_sandbox :: bool
  pod_sandbox_name :: gchars
  pod_sandbox_workloads :: string

record oci_state =
  st_oci_version :: gchars
  st_id :: gchars
  st_pid :: int
  st_bundle_path :: gchars
  st_comms_path :: gchars
  st_procsock_path :: gchars
  st_status :: oci_status
  st_create_time :: gchars
  st_mounts :: "cc_oci_mount list"
  st_annotations :: "oci_cfg_annotation list"
  st_console :: gchars
  st_vm :: "cc_oci_vm_cfg option"
  st_proxy :: "cc_proxy option"
  st_pod :: "cc_pod option"
  st_process :: "oci_cfg_process option"

record cc_oci_container_state =
  state_file_path :: string
  runtime_path :: string
  comms_path :: string
  procsock_path :: string
  workload_pid :: int
  status :: oci_status

record cc_oci_config =
  cfg_oci :: oci_cfg
  cfg_vm :: "cc_oci_vm_cfg option"
  cfg_net :: cc_oci_net_cfg
  cfg_state :: cc_oci_container_state
  cfg_pod :: "cc_pod option"
  cfg_bundle_path :: gchars
  cfg_pid_file :: gchars
  cfg_console :: gchars
  cfg_root_dir :: gchars
  cfg_optarg_container_id :: gchars
  cfg_dry_run_mode :: bool
  cfg_detached_mode :: bool
  cfg_proxy :: "cc_proxy option"

text \<open>The global \<^verbatim>\<open>start_data\<close> the command line is parsed into (src/command.h).\<close>

record start_data =
  sd_bundle :: gchars
  sd_console :: gchars
  sd_pid_file :: gchars
  sd_detach :: bool
  sd_dry_run_mode :: bool
  sd_allocate_tty :: bool
  sd_user :: oci_cfg_user
  sd_shim_path :: gchars
  sd_proxy_socket_path :: gchars

subsection \<open>Zeroed structures\<close>

text \<open>What \<^verbatim>\<open>g_new0\<close>, \<^verbatim>\<open>g_malloc0\<close> and \<^verbatim>\<open>= { 0 }\<close> give; \<^verbatim>\<open>OCI_STATUS_CREATED\<close> is 0.\<close>

definition zero_user :: oci_cfg_user where
  "zero_user = \<lparr>user_uid = 0, user_gid = 0\<rparr>"

definition zero_process :: oci_cfg_process where
  "zero_process = \<lparr>proc_args = None, proc_cwd = [], proc_env = None, proc_terminal = False,
     proc_user = zero_user, proc_stdio_stream = 0, proc_stderr_stream = 0\<rparr>"

definition zero_hook :: oci_cfg_hook where
  "zero_hook = \<lparr>hook_path = [], hook_args = None, hook_env = None, hook_timeout = 0\<rparr>"

definition zero_mntent :: mntent where
  "zero_mntent = \<lparr>mnt_fsname = None, mnt_dir = None, mnt_type = None, mnt_opts = None\<rparr>"

definition zero_mount :: cc_oci_mount where
  "zero_mount = \<lparr>mount_flags = 0, mount_mnt = zero_mntent, mount_dest = [],
     ignore_mount = False, directory_created = None\<rparr>"

definition zero_vm :: cc_oci_vm_cfg where
  "zero_vm = \<lparr>vm_hypervisor_path = [], vm_image_path = [], vm_kernel_path = [],
     vm_workload_path = [], vm_kernel_params = None, vm_pid = 0\<rparr>"

definition zero_proxy :: cc_proxy where
  "zero_proxy = \<lparr>proxy_socket = None, agent_ctl_socket = None, agent_tty_socket = None,
     vm_console_socket = None\<rparr>"

definition zero_pod :: cc_pod where
  "zero_pod = \<lparr>pod_sandbox = False, pod_sandbox_name = None, pod_sandbox_workloads = []\<rparr>"

definition zero_ns :: oci_cfg_namespace where
  "zero_ns = \<lparr>ns_type = 0, ns_path = None\<rparr>"

definition zero_state :: oci_state where
  "zero_state = \<lparr>st_oci_version = None, st_id = None, st_pid = 0, st_bundle_path = None,
     st_comms_path = None, st_procsock_path = None, st_status = OCI_STATUS_CREATED,
     st_create_time = None, st_mounts = [], st_annotations = [], st_console = None,
     st_vm = None, st_proxy = None, st_pod = None, st_process = None\<rparr>"

definition zero_config :: cc_oci_config where
  "zero_config = \<lparr>
     cfg_oci = \<lparr>oci_version = None,
       oci_hooks = \<lparr>hooks_prestart = [], hooks_poststart = [], hooks_poststop = []\<rparr>,
       oci_hostname = None, oci_mounts = [], oci_annotations = [],
       oci_platform = \<lparr>plat_os = None, plat_arch = None\<rparr>,
       oci_root = \<lparr>root_path = [], root_read_only = False\<rparr>,
       oci_process = zero_process, oci_linux_namespaces = []\<rparr>,
     cfg_vm = None,
     cfg_net = \<lparr>net_hostname = None, net_dns_ip1 = None, net_dns_ip2 = None,
       net_interfaces = [], net_routes = []\<rparr>,
     cfg_state = \<lparr>state_file_path = [], runtime_path = [], comms_path = [],
       procsock_path = [], workload_pid = 0, status = OCI_STATUS_CREATED\<rparr>,
     cfg_pod = None, cfg_bundle_path = None, cfg_pid_file = None, cfg_console = None,
     cfg_root_dir = None, cfg_optarg_container_id = None, cfg_dry_run_mode = False,
     cfg_detached_mode = False, cfg_proxy = None\<rparr>"

definition zero_start_data :: start_data where
  "zero_start_data = \<lparr>sd_bundle = None, sd_console = None, sd_pid_file = None, sd_detach = False,
     sd_dry_run_mode = False, sd_allocate_tty = False, sd_user = zero_user, sd_shim_path = None,
     sd_proxy_socket_path = None\<rparr>"

lemmas zero_defs =
  zero_user_def zero_process_def zero_hook_def zero_mntent_def zero_mount_def zero_vm_def
  zero_proxy_def zero_pod_def zero_ns_def zero_state_def zero_config_def

text \<open>Short names for the nested updates the sources write as \<^verbatim>\<open>config->oci.process.x = \<dots>\<close>.\<close>

abbreviation upd_process :: "(oci_cfg_process \<Rightarrow> oci_cfg_process) \<Rightarrow> cc_oci_config \<Rightarrow> cc_oci_config" where
  "upd_process f \<equiv> cfg_oci_update (oci_process_update f)"

abbreviation upd_mounts :: "(cc_oci_mount list \<Rightarrow> cc_oci_mount list) \<Rightarrow> cc_oci_config \<Rightarrow> cc_oci_config" where
  "upd_mounts f \<equiv> cfg_oci_update (oci_mounts_update f)"

abbreviation upd_status :: "oci_status \<Rightarrow> cc_oci_config \<Rightarrow> cc_oci_config" where
  "upd_status s \<equiv> cfg_state_update (status_update (\<lambda>_. s))"

abbreviation cfg_process :: "cc_oci_config \<Rightarrow> oci_cfg_process" where
  "cfg_process c \<equiv> oci_process (cfg_oci c)"

abbreviation cfg_mounts :: "cc_oci_config \<Rightarrow> cc_oci_mount list" where
  "cfg_mounts c \<equiv> oci_mounts (cfg_oci c)"

abbreviation cfg_status :: "cc_oci_config \<Rightarrow> oci_status" where
  "cfg_status c \<equiv> status (cfg_state c)"

abbreviation cfg_hooks :: "cc_oci_config \<Rightarrow> oci_cfg_hooks" where
  "cfg_hooks c \<equiv> oci_hooks (cfg_oci c)"

end
