(* ===== verification/JsonGlib.thy ===== *)
theory JsonGlib
  imports Prelude
begin

section \<open>JSON documents as json-glib represents them\<close>

text \<open>
  The values \<^verbatim>\<open>JsonNode\<close>, \<^verbatim>\<open>JsonArray\<close> and \<^verbatim>\<open>JsonObject\<close> of json-glib, as far as the sources build
  and inspect them.  An object keeps its members in insertion order and setting a member that
  is present replaces its value in place; a NULL string or object sets the member to JSON null.
  A double is represented by the text \<^verbatim>\<open>%f\<close> prints for it, the only thing the sources do
  with one.  Text is produced and parsed by the library; that pair is a parameter of the model
  (theory World).
\<close>

datatype json =
    JString string
  | JInt int
  | JDouble string
  | JBool bool
  | JNull
  | JArray "json list"
  | JObject "(string \<times> json) list"

type_synonym members = "(string \<times> json) list"

fun json_object_set :: "members \<Rightarrow> string \<Rightarrow> json \<Rightarrow> members" where
  "json_object_set [] k v = [(k, v)]"
| "json_object_set ((k', v') # ms) k v =
     (if k' = k then (k, v) # ms else (k', v') # json_object_set ms k v)"

definition json_str :: "gchars \<Rightarrow> json" where
  "json_str s = (case s of None \<Rightarrow> JNull | Some t \<Rightarrow> JString t)"

definition mk_object :: "members \<Rightarrow> members" where
  "mk_object kvs = foldl (\<lambda>ms (k, v). json_object_set ms k v) [] kvs"

lemma json_object_set_notin: "k \<notin> fst ` set ms \<Longrightarrow> json_object_set ms k v = ms @ [(k, v)]"
  by (induction ms) auto

lemma json_object_set_keys: "fst ` set (json_object_set ms k v) = insert k (fst ` set ms)"
proof (induction ms)
  case (Cons m ms)
  then show ?case
    by (cases m; cases "fst m = k") (simp_all add: insert_commute)
qed simp

lemma json_object_set_distinct: "distinct (map fst ms) \<Longrightarrow> distinct (map fst (json_object_set ms k v))"
proof (induction ms)
  case (Cons m ms)
  then show ?case
    using json_object_set_keys [of ms k v] by (cases m) auto
qed simp

lemma json_object_set_lookup:
  "map_of (json_object_set ms k v) = (map_of ms)(k \<mapsto> v)"
  by (induction ms) (auto simp: fun_upd_twist)

lemma mk_object_append_distinct:
  assumes "distinct (map fst kvs)" and "fst ` set kvs \<inter> fst ` set ms = {}"
  shows "foldl (\<lambda>ms (k, v). json_object_set ms k v) ms kvs = ms @ kvs"
  using assms
proof (induction kvs arbitrary: ms)
  case (Cons kv kvs)
  obtain k v where kv: "kv = (k, v)" by force
  with Cons.prems have "json_object_set ms k v = ms @ [(k, v)]"
    by (intro json_object_set_notin) auto
  moreover have "fst ` set kvs \<inter> fst ` set (ms @ [(k, v)]) = {}"
    using Cons.prems kv by force
  ultimately show ?case
    using Cons.IH [of "ms @ [(k, v)]"] Cons.prems kv by simp
qed simp

lemma mk_object_distinct: "distinct (map fst kvs) \<Longrightarrow> mk_object kvs = kvs"
  using mk_object_append_distinct [of kvs "[]"] by (simp add: mk_object_def)

text \<open>
  Documents whose text json-glib reads back: the member names of every object are distinct and
  integers fit 64 bits.  A double is left out: its text need not be the one it was read from.
\<close>

fun json_wf :: "json \<Rightarrow> bool" where
  "json_wf (JInt i) = (- 9223372036854775808 \<le> i \<and> i < 9223372036854775808)"
| "json_wf (JDouble s) = False"
| "json_wf (JArray js) = (\<forall>j \<in> set js. json_wf j)"
| "json_wf (JObject ms) = (distinct (map fst ms) \<and> (\<forall>m \<in> set ms. json_wf (snd m)))"
| "json_wf _ = True"

lemma json_wf_str [simp]: "json_wf (json_str s)"
  by (cases s) (simp_all add: json_str_def)

text \<open>The \<^verbatim>\<open>JsonReader\<close> calls: reading a member of the current object, and the two typed reads.\<close>

definition json_read_member :: "json \<Rightarrow> string \<Rightarrow> json option" where
  "json_read_member j k = (case j of JObject ms \<Rightarrow> map_of ms k | _ \<Rightarrow> None)"

definition json_get_boolean :: "json \<Rightarrow> bool" where
  "json_get_boolean j = (case j of JBool b \<Rightarrow> b | JInt i \<Rightarrow> i \<noteq> 0 | _ \<Rightarrow> False)"

definition json_get_int :: "json \<Rightarrow> int" where
  "json_get_int j = (case j of JInt i \<Rightarrow> i | JBool b \<Rightarrow> (if b then 1 else 0) | _ \<Rightarrow> 0)"

end
