(* ===== verification/World.thy ===== *)
theory World
  imports OciTypes JsonGlib
begin

section \<open>The outside world\<close>

text \<open>
  Everything the runtime does to its surroundings is an \<open>event\<close>: a system call, a library call
  with an effect, or a message to cc-proxy.  The state of the surroundings the model tracks is a
  \<open>world\<close>: the regular files, the stack of mounts and the trace of events so far, each with its
  outcome.  What the model does not determine is a parameter, the record \<open>env\<close>: whether a call
  succeeds, what \<^verbatim>\<open>stat\<close> and \<^verbatim>\<open>realpath\<close> find, the text json-glib writes and accepts, what the
  proxy answers.  These functions see the whole world, its trace included, so the outcome of a
  call may depend on everything that happened before it: a theorem about every \<open>env\<close> is a
  theorem about every behaviour of the operating system.
\<close>

datatype fkind = FReg | FDir | FOther

text \<open>The netlink requests of src/netlink.c.\<close>

datatype nlmsg =
    NlLinkFlags string bool
  | NlAddBridge string
  | NlSetMaster nat nat
  | NlSetAddr string "8 word list"
  | NlGetRoutes int

datatype event =
    EvKill int int
  | EvWriteFile string string
  | EvUnlink string
  | EvRmRf string
  | EvMkdirP string
  | EvCreat string
  | EvMount string string gchars "64 word" gchars
  | EvUmount string
  | EvChdir string
  | EvUnshare int
  | EvOpen string
  | EvSetns string int
  | EvSocketNew
  | EvCloexec int
  | EvConnect string
  | EvSocketClose int
  | EvSend string
  | EvMonitor string
  | EvPipe
  | EvSocketpair
  | EvFork
  | EvPipeWrite string
  | EvSendFd int
  | EvFlock string
  | EvHook string "string list" strv string
  | EvQmp string string
  | EvSetsid
  | EvDup2 int int
  | EvIoctl int string
  | EvExec "string list"
  | EvExit int
  | EvPrint string
  | EvStderr string
  | EvAppend string string
  | EvTunSetIff string
  | EvTunPersist string
  | EvNetlinkOpen
  | EvNetlinkBind
  | EvNetlinkClose
  | EvNetlink nlmsg

record world =
  w_files :: "string \<Rightarrow> string option"
  w_mounts :: "string list"
  w_trace :: "(event \<times> bool) list"

datatype hook_outcome =
    HookSpawnFailed
  | HookWriteEpipe
  | HookWriteFailed
  | HookExit int

record env =
  os_ok :: "world \<Rightarrow> event \<Rightarrow> bool"
  os_stat :: "world \<Rightarrow> string \<Rightarrow> fkind option"
  os_realpath :: "world \<Rightarrow> string \<Rightarrow> string option"
  os_fd :: "world \<Rightarrow> int"
  os_pid :: "world \<Rightarrow> int"
  os_timestamp :: "world \<Rightarrow> string option"
  os_isatty :: bool
  os_euid :: int
  json_to_data :: "json \<Rightarrow> string"
  json_load :: "string \<Rightarrow> json option"
  proxy_reply :: "world \<Rightarrow> string \<Rightarrow> string"
  proxy_oob_fd :: "world \<Rightarrow> string \<Rightarrow> int option"
  hook_outcome :: "world \<Rightarrow> oci_cfg_hook \<Rightarrow> hook_outcome"
  passwd_entries :: "world \<Rightarrow> string \<Rightarrow> (int \<times> string) list option"
  child_err_bytes :: "world \<Rightarrow> int"

text \<open>What a successful event does to the tracked state.\<close>

definition under :: "string \<Rightarrow> string \<Rightarrow> bool" where
  "under d p \<longleftrightarrow> p = d \<or> prefix (d @ ''/'') p"

fun effect :: "event \<Rightarrow> world \<Rightarrow> world" where
  "effect (EvWriteFile p c) w = w\<lparr>w_files := (w_files w)(p \<mapsto> c)\<rparr>"
| "effect (EvAppend p c) w =
     w\<lparr>w_files := (w_files w)(p \<mapsto> (case w_files w p of None \<Rightarrow> [] | Some old \<Rightarrow> old) @ c)\<rparr>"
| "effect (EvUnlink p) w = w\<lparr>w_files := (w_files w)(p := None)\<rparr>"
| "effect (EvRmRf d) w = w\<lparr>w_files := (\<lambda>p. if under d p then None else w_files w p)\<rparr>"
| "effect (EvMount src d t f opts) w = w\<lparr>w_mounts := d # w_mounts w\<rparr>"
| "effect (EvUmount d) w = w\<lparr>w_mounts := remove1 d (w_mounts w)\<rparr>"
| "effect _ w = w"

definition sys :: "env \<Rightarrow> event \<Rightarrow> world \<Rightarrow> bool \<times> world" where
  "sys E ev w =
     (let ok = os_ok E w ev;
          w' = w\<lparr>w_trace := w_trace w @ [(ev, ok)]\<rparr>
      in (ok, if ok then effect ev w' else w'))"

named_theorems sys_simps \<open>what one event does to the world\<close>

lemma sys_ok [sys_simps]: "fst (sys E ev w) = os_ok E w ev"
  by (simp add: sys_def Let_def)

lemma effect_trace [simp]: "w_trace (effect ev w) = w_trace w"
  by (cases ev) simp_all

lemma sys_trace [sys_simps]: "w_trace (snd (sys E ev w)) = w_trace w @ [(ev, os_ok E w ev)]"
  by (simp add: sys_def Let_def)

lemma sys_fail: "sys E ev w = (False, w') \<Longrightarrow> w_files w' = w_files w \<and> w_mounts w' = w_mounts w"
  by (auto simp: sys_def Let_def split: if_splits)

text \<open>The trace only grows: the relation every operation of the runtime stays within.\<close>

definition extends :: "world \<Rightarrow> world \<Rightarrow> bool" where
  "extends w w' \<longleftrightarrow> prefix (w_trace w) (w_trace w')"

lemma extends_refl [simp]: "extends w w"
  by (simp add: extends_def)

lemma extends_trans [trans]: "extends a b \<Longrightarrow> extends b c \<Longrightarrow> extends a c"
  by (auto simp: extends_def intro: prefix_order.trans)

lemma sys_extends: "sys E ev w = (ok, w') \<Longrightarrow> extends w w'"
  using sys_trace [of E ev w] by (auto simp: extends_def)

definition new_events :: "world \<Rightarrow> world \<Rightarrow> (event \<times> bool) list" where
  "new_events w w' = drop (length (w_trace w)) (w_trace w')"

lemma new_events_sys: "new_events w (snd (sys E ev w)) = [(ev, os_ok E w ev)]"
  by (simp add: new_events_def sys_trace)

lemma new_events_append:
  "extends a b \<Longrightarrow> extends b c \<Longrightarrow> new_events a c = new_events a b @ new_events b c"
  by (auto simp: extends_def new_events_def prefix_def)

text \<open>
  A list of events carried out in order, stopping at the first that fails: the specification the
  loops of the runtime are compared with.
\<close>

fun run_events :: "env \<Rightarrow> event list \<Rightarrow> world \<Rightarrow> bool \<times> world" where
  "run_events E [] w = (True, w)"
| "run_events E (ev # evs) w =
     (let (ok, w1) = sys E ev w in if ok then run_events E evs w1 else (False, w1))"

lemma run_events_append:
  "run_events E (xs @ ys) w =
   (let (ok, w1) = run_events E xs w in if ok then run_events E ys w1 else (False, w1))"
  by (induction xs arbitrary: w) (auto simp: Let_def split: prod.splits)

lemma sys_trace_eq: "sys E ev w = (ok, w') \<Longrightarrow> w_trace w' = w_trace w @ [(ev, ok)]"
  using sys_trace [of E ev w] sys_ok [of E ev w] by simp

lemma run_events_success:
  "run_events E evs w = (True, w') \<Longrightarrow> w_trace w' = w_trace w @ map (\<lambda>e. (e, True)) evs"
proof (induction evs arbitrary: w)
  case (Cons ev evs)
  obtain ok w1 where s: "sys E ev w = (ok, w1)" by fastforce
  with Cons.prems have "ok" "run_events E evs w1 = (True, w')" by (auto split: if_splits)
  with Cons.IH [of w1] sys_trace_eq [OF s] show ?case by simp
qed simp

lemma run_events_failure:
  "run_events E evs w = (False, w') \<Longrightarrow>
   \<exists>dn ev rest. evs = dn @ ev # rest \<and>
     w_trace w' = w_trace w @ map (\<lambda>e. (e, True)) dn @ [(ev, False)]"
proof (induction evs arbitrary: w)
  case (Cons ev evs)
  obtain ok w1 where s: "sys E ev w = (ok, w1)" by fastforce
  show ?case
  proof (cases ok)
    case True
    with s Cons.prems have "run_events E evs w1 = (False, w')" by simp
    from Cons.IH [OF this] obtain dn e rest where "evs = dn @ e # rest"
      "w_trace w' = w_trace w1 @ map (\<lambda>e. (e, True)) dn @ [(e, False)]" by blast
    with True sys_trace_eq [OF s] show ?thesis
      by (intro exI [of _ "ev # dn"] exI [of _ e] exI [of _ rest]) simp
  next
    case False
    with s Cons.prems have "w' = w1" by simp
    with False sys_trace_eq [OF s] show ?thesis
      by (intro exI [of _ "[]"] exI [of _ ev] exI [of _ evs]) simp
  qed
qed simp

subsection \<open>What the sources rely on\<close>

text \<open>
  json-glib: the generator's text of a document it can represent parses back to that document.  Strings are
  those of a C program, without NUL bytes, and in UTF-8, as GLib takes every text to be.
\<close>

definition json_glib_contract :: "env \<Rightarrow> bool" where
  "json_glib_contract E \<longleftrightarrow> (\<forall>j. json_wf j \<longrightarrow> json_load E (json_to_data E j) = Some j)"

text \<open>The kernel: unmounting a path succeeds only where something is mounted there.\<close>

definition umount_contract :: "env \<Rightarrow> bool" where
  "umount_contract E \<longleftrightarrow> (\<forall>w d. os_ok E w (EvUmount d) \<longrightarrow> d \<in> set (w_mounts w))"

subsection \<open>Paths\<close>

text \<open>\<^verbatim>\<open>g_build_path ("/", a, b, NULL)\<close> and \<^verbatim>\<open>g_path_get_dirname\<close>.\<close>

definition rstrip_slash :: "string \<Rightarrow> string" where
  "rstrip_slash s = rev (dropWhile (\<lambda>c. c = CHR ''/'') (rev s))"

definition lstrip_slash :: "string \<Rightarrow> string" where
  "lstrip_slash s = dropWhile (\<lambda>c. c = CHR ''/'') s"

definition g_build_path :: "string \<Rightarrow> string \<Rightarrow> string" where
  "g_build_path a b =
     (if a = [] then b
      else if rstrip_slash a = [] then a @ lstrip_slash b
      else if b = [] then a
      else rstrip_slash a @ ''/'' @ lstrip_slash b)"

definition g_path_get_dirname :: "string \<Rightarrow> string" where
  "g_path_get_dirname p =
     (case before_last (CHR ''/'') p of
        None \<Rightarrow> ''.''
      | Some d \<Rightarrow> if rstrip_slash d = [] then ''/'' else rstrip_slash d)"

end
