(* ===== verification/Json.thy ===== *)
theory Json
  imports World
begin

section \<open>JSON files as trees of strings (src/json.c, and node_to_strv of src/util.c)\<close>

text \<open>
  \<^verbatim>\<open>cc_oci_json_parse\<close> turns a JSON file into a \<^verbatim>\<open>GNode\<close> tree whose data are strings or NULL.  The C
  routine appends to a node it is given; the model returns the list of nodes it appends.  An
  object appends a NULL separator followed by one node per member, an array appends what its
  elements append, and a value appends its text (with a NULL child inside an array).
\<close>

datatype gnode = GNode (gdata: gchars) (gchildren: "gnode list")

definition NODE_BUF_SIZE :: nat where
  "NODE_BUF_SIZE = 64"

definition cc_oci_json_string :: "json \<Rightarrow> string" where
  "cc_oci_json_string node =
     (case node of
        JString s \<Rightarrow> s
      | JDouble s \<Rightarrow> buf_copy NODE_BUF_SIZE s
      | JInt i \<Rightarrow> buf_copy NODE_BUF_SIZE (int_to_dec i)
      | JBool b \<Rightarrow> buf_copy NODE_BUF_SIZE (if b then ''true'' else ''false'')
      | _ \<Rightarrow> buf_copy NODE_BUF_SIZE ''Unknown type'')"

function cc_oci_json_parse_aux :: "json \<Rightarrow> bool \<Rightarrow> gnode list" where
  "cc_oci_json_parse_aux (JObject ms) parsing_array =
     GNode None [] #
     map (\<lambda>m. GNode (Some (fst m)) (cc_oci_json_parse_aux (snd m) False)) ms"
| "cc_oci_json_parse_aux (JArray js) parsing_array =
     concat (map (\<lambda>j. cc_oci_json_parse_aux j True) js)"
| "cc_oci_json_parse_aux JNull parsing_array = []"
| "cc_oci_json_parse_aux (JString s) parsing_array =
     [GNode (Some (cc_oci_json_string (JString s))) (if parsing_array then [GNode None []] else [])]"
| "cc_oci_json_parse_aux (JInt i) parsing_array =
     [GNode (Some (cc_oci_json_string (JInt i))) (if parsing_array then [GNode None []] else [])]"
| "cc_oci_json_parse_aux (JDouble s) parsing_array =
     [GNode (Some (cc_oci_json_string (JDouble s))) (if parsing_array then [GNode None []] else [])]"
| "cc_oci_json_parse_aux (JBool b) parsing_array =
     [GNode (Some (cc_oci_json_string (JBool b))) (if parsing_array then [GNode None []] else [])]"
  by pat_completeness auto
termination
proof (relation "measure (\<lambda>(j, _). size j)", goal_cases)
  case 1
  show ?case by simp
next
  case (2 ms a m)
  then have "m \<in> set ms" by simp
  then have "size (snd m) < Suc (size_list (\<lambda>x. Suc (size (snd x))) ms)"
    by (induction ms) auto
  moreover have "size_prod (\<lambda>_. 0) size = (\<lambda>x :: string \<times> json. Suc (size (snd x)))"
    by (rule ext) (simp add: size_prod_simp)
  ultimately show ?case by simp
next
  case (3 js a j)
  then have "j \<in> set js" by simp
  then have "size j < Suc (size_list size js)"
    by (induction js) auto
  then show ?case by simp
qed

definition cc_oci_json_parse :: "env \<Rightarrow> gchars \<Rightarrow> world \<Rightarrow> gnode option" where
  "cc_oci_json_parse E filename w =
     (case filename of
        None \<Rightarrow> None
      | Some f \<Rightarrow>
          if f = [] then None
          else (case Option.bind (w_files w f) (json_load E) of
                  None \<Rightarrow> None
                | Some root \<Rightarrow> Some (GNode (Some f) (cc_oci_json_parse_aux root False))))"

text \<open>\<^verbatim>\<open>node_to_strv\<close> copies the data of the children; a NULL datum ends the C vector early.\<close>

fun until_null :: "gchars list \<Rightarrow> string list" where
  "until_null [] = []"
| "until_null (None # _) = []"
| "until_null (Some s # r) = s # until_null r"

definition node_to_strv :: "gnode \<Rightarrow> string list" where
  "node_to_strv root = until_null (map gdata (gchildren root))"

subsection \<open>Trees of the documents the runtime writes\<close>

lemma until_null_Some: "until_null (map Some xs) = xs"
  by (induction xs) auto

lemma parse_string_array:
  "cc_oci_json_parse_aux (JArray (map JString xs)) b =
   map (\<lambda>s. GNode (Some s) [GNode None []]) xs"
  by (induction xs) (auto simp: cc_oci_json_string_def)

lemma node_to_strv_string_array:
  "node_to_strv (GNode d (cc_oci_json_parse_aux (JArray (map JString xs)) b)) = xs"
  by (simp add: node_to_strv_def parse_string_array comp_def until_null_Some
      del: cc_oci_json_parse_aux.simps)

lemma length_nat_to_dec: "n < 10 ^ k \<Longrightarrow> 0 < k \<Longrightarrow> length (nat_to_dec n) \<le> k"
proof (induction k arbitrary: n)
  case (Suc k)
  show ?case
  proof (cases "n < 10")
    case True
    then show ?thesis by (subst nat_to_dec.simps) simp
  next
    case False
    then have "0 < k" using Suc.prems(1) by (cases k) auto
    moreover have "n div 10 < 10 ^ k" using Suc.prems(1) by auto
    ultimately have "length (nat_to_dec (n div 10)) \<le> k" by (rule Suc.IH [rotated])
    with False show ?thesis by (subst nat_to_dec.simps) simp
  qed
qed simp

text \<open>The 64-byte buffer is large enough for every 64-bit integer.\<close>

lemma json_int_fits:
  assumes "\<bar>i\<bar> < 2 ^ 64"
  shows "buf_copy NODE_BUF_SIZE (int_to_dec i) = int_to_dec i"
proof -
  have "nat \<bar>i\<bar> < 10 ^ 20" using assms by simp
  then have "length (nat_to_dec (nat \<bar>i\<bar>)) \<le> 20" by (rule length_nat_to_dec) simp
  then have "length (int_to_dec i) \<le> 21"
    by (auto simp: int_to_dec_def split: if_splits)
  then show ?thesis
    by (intro buf_copy_id) (simp add: NODE_BUF_SIZE_def)
qed

lemma json_int_string: "\<bar>i\<bar> < 2 ^ 64 \<Longrightarrow> cc_oci_json_string (JInt i) = int_to_dec i"
  by (simp add: cc_oci_json_string_def json_int_fits)

lemma json_bool_string: "cc_oci_json_string (JBool b) = (if b then ''true'' else ''false'')"
  by (simp add: cc_oci_json_string_def buf_copy_def NODE_BUF_SIZE_def)

lemma parse_json_str:
  "cc_oci_json_parse_aux (json_str s) False =
   (case s of None \<Rightarrow> [] | Some t \<Rightarrow> [GNode (Some t) []])"
  by (cases s) (simp_all add: json_str_def cc_oci_json_string_def)

end
