(* ===== verification/Util.thy ===== *)
theory Util
  imports Json
begin

section \<open>Utilities (src/util.c)\<close>

text \<open>
  Signal names, pid files, string replacement, reading a file into lines, descriptor juggling and
  the big-endian decoder, and the time stamp, which the rest of the development takes from
  \<^verbatim>\<open>os_timestamp\<close> of the environment.  \<^verbatim>\<open>cc_oci_json_obj_to_string\<close> is its \<^verbatim>\<open>json_to_data\<close>.
\<close>

unbundle bit_operations_syntax

subsection \<open>Signals\<close>

definition signal_table :: "(int \<times> string) list" where
  "signal_table =
     [(1, ''SIGHUP''), (2, ''SIGINT''), (3, ''SIGQUIT''), (4, ''SIGILL''), (5, ''SIGTRAP''),
      (6, ''SIGABRT''), (6, ''SIGIOT''), (7, ''SIGBUS''), (8, ''SIGFPE''), (9, ''SIGKILL''),
      (10, ''SIGUSR1''), (11, ''SIGSEGV''), (12, ''SIGUSR2''), (13, ''SIGPIPE''),
      (14, ''SIGALRM''), (15, ''SIGTERM''), (16, ''SIGSTKFLT''), (17, ''SIGCLD''),
      (17, ''SIGCHLD''), (18, ''SIGCONT''), (19, ''SIGSTOP''), (20, ''SIGTSTP''),
      (21, ''SIGTTIN''), (22, ''SIGTTOU''), (23, ''SIGURG''), (24, ''SIGXCPU''),
      (25, ''SIGXFSZ''), (26, ''SIGVTALRM''), (27, ''SIGPROF''), (28, ''SIGWINCH''),
      (29, ''SIGPOLL''), (29, ''SIGIO''), (30, ''SIGPWR''), (31, ''SIGSYS''),
      (31, ''SIGUNUSED'')]"

definition SIGKILL :: int where "SIGKILL = 9"
definition SIGTERM :: int where "SIGTERM = 15"

definition cc_oci_get_signum :: "gchars \<Rightarrow> int" where
  "cc_oci_get_signum signame =
     (case signame of
        None \<Rightarrow> - 1
      | Some s \<Rightarrow>
          let full_name = buf_copy 32 ((if prefix ''SIG'' s then [] else ''SIG'') @ s)
          in (case table_num signal_table full_name of None \<Rightarrow> - 1 | Some n \<Rightarrow> n))"

subsection \<open>Files\<close>

definition cc_oci_create_pidfile :: "env \<Rightarrow> gchars \<Rightarrow> int \<Rightarrow> world \<Rightarrow> bool \<times> world" where
  "cc_oci_create_pidfile E pidfile pid w =
     (case pidfile of
        None \<Rightarrow> (False, w)
      | Some p \<Rightarrow>
          if p = [] \<or> hd p \<noteq> CHR ''/'' then (False, w)
          else if pid \<le> 0 then (False, w)
          else sys E (EvWriteFile p (int_to_dec pid)) w)"

definition cc_oci_rm_rf :: "env \<Rightarrow> string \<Rightarrow> world \<Rightarrow> bool \<times> world" where
  "cc_oci_rm_rf E path w = (if path = [] then (False, w) else sys E (EvRmRf path) w)"

text \<open>
  The result is the flag returned and the vector stored through the second argument.  An empty
  file gives an empty vector, which is freed and refused.
\<close>

definition cc_oci_file_to_strv :: "gchars \<Rightarrow> world \<Rightarrow> string list option" where
  "cc_oci_file_to_strv file w =
     (case file of
        None \<Rightarrow> None
      | Some f \<Rightarrow>
          if f = [] \<or> hd f \<noteq> CHR ''/'' then None
          else (case w_files w f of
                  None \<Rightarrow> None
                | Some contents \<Rightarrow>
                    let strv = g_strsplit (cstr_at contents 0) (CHR ''\<newline>'') None
                    in if strv = [] then None
                       else Some (if last strv = [] then butlast strv else strv)))"

definition cc_oci_resolve_path :: "env \<Rightarrow> gchars \<Rightarrow> world \<Rightarrow> gchars" where
  "cc_oci_resolve_path E path w =
     (case path of None \<Rightarrow> None | Some p \<Rightarrow> if p = [] then None else os_realpath E w p)"

definition cc_oci_enable_networking :: "env \<Rightarrow> bool" where
  "cc_oci_enable_networking E \<longleftrightarrow> os_euid E = 0"

subsection \<open>Strings\<close>

text \<open>
  \<^verbatim>\<open>g_utf8_strlen\<close> counts characters, not bytes: in valid UTF-8 a continuation byte does not
  start a character.
\<close>

definition utf8_cont :: "char \<Rightarrow> bool" where
  "utf8_cont c \<longleftrightarrow> 128 \<le> (of_char c :: nat) \<and> (of_char c :: nat) < 192"

definition g_utf8_strlen :: "string \<Rightarrow> nat \<Rightarrow> nat" where
  "g_utf8_strlen s max_bytes = length (filter (\<lambda>c. \<not> utf8_cont c) (take max_bytes s))"

definition is_ascii :: "char \<Rightarrow> bool" where
  "is_ascii c \<longleftrightarrow> (of_char c :: nat) < 128"

definition cc_oci_replace_string :: "string \<Rightarrow> gchars \<Rightarrow> gchars \<Rightarrow> string" where
  "cc_oci_replace_string str from to =
     (case (from, to) of
        (Some f, Some t) \<Rightarrow>
          if f = [] then str
          else (case strstr_pos f str of
                  None \<Rightarrow> str
                | Some pre \<Rightarrow>
                    take pre str @ t @ drop (pre + g_utf8_strlen f LINE_MAX) str)
      | _ \<Rightarrow> str)"

definition cc_oci_get_big_endian_32 :: "8 word list \<Rightarrow> 32 word" where
  "cc_oci_get_big_endian_32 buf =
     (push_bit 24 (ucast (buf ! 0)) OR push_bit 16 (ucast (buf ! 1))
        OR push_bit 8 (ucast (buf ! 2)) OR ucast (buf ! 3))"

subsection \<open>File descriptors\<close>

text \<open>
  The table of open descriptors is a list; \<^verbatim>\<open>dup\<close> returns the lowest free number unless it fails
  (\<open>dup_ok\<close>), and \<^verbatim>\<open>close\<close> releases the descriptor whatever it returns (\<open>close_ok\<close>).
\<close>

definition lowest_free :: "int list \<Rightarrow> int" where
  "lowest_free fds = int (hd (filter (\<lambda>n. int n \<notin> set fds) [0..<Suc (length fds)]))"

fun dup_loop :: "(int list \<Rightarrow> bool) \<Rightarrow> nat \<Rightarrow> int list \<Rightarrow> int \<Rightarrow> int list \<Rightarrow> int list \<times> int \<times> int list" where
  "dup_loop dup_ok 0 tmp_fds dup_fd fds = (tmp_fds, dup_fd, fds)"
| "dup_loop dup_ok (Suc n) tmp_fds dup_fd fds =
     (if dup_fd < 3 then
        (let tmp = tmp_fds @ [dup_fd]
         in if dup_ok fds
            then dup_loop dup_ok n tmp (lowest_free fds) (lowest_free fds # fds)
            else (tmp, - 1, fds))
      else (tmp_fds, dup_fd, fds))"

fun close_tmp :: "(int \<Rightarrow> bool) \<Rightarrow> int \<Rightarrow> int list \<Rightarrow> bool \<Rightarrow> int list \<Rightarrow> bool \<times> int list" where
  "close_tmp close_ok fdp [] ret fds = (ret, fds)"
| "close_tmp close_ok fdp (t # ts) ret fds =
     (if \<not> ret \<and> t = fdp then close_tmp close_ok fdp ts ret fds
      else close_tmp close_ok fdp ts (ret \<and> close_ok t) (remove1 t fds))"

definition dup_over_stdio ::
  "(int list \<Rightarrow> bool) \<Rightarrow> (int \<Rightarrow> bool) \<Rightarrow> int \<Rightarrow> int list \<Rightarrow> bool \<times> int \<times> int list" where
  "dup_over_stdio dup_ok close_ok fd fds =
     (if fd < 0 \<or> fd \<notin> set fds then (False, fd, fds)
      else if fd > 2 then (True, fd, fds)
      else
        let (tmp_fds, dup_fd, fds1) = dup_loop dup_ok 3 [] fd fds
        in if dup_fd < 3 then
             let fds2 = (if dup_fd \<noteq> fd \<and> dup_fd > - 1 then remove1 dup_fd fds1 else fds1);
                 (ret, fds3) = close_tmp close_ok fd tmp_fds False fds2
             in (ret, fd, fds3)
           else
             let (ret, fds3) = close_tmp close_ok dup_fd tmp_fds True fds1
             in (ret, dup_fd, fds3))"

subsection \<open>Facts shared by the clients\<close>

lemma signal_table_names:
  "list_all (\<lambda>(n, s). length s < 29 \<and> prefix ''SIG'' s \<and> \<not> prefix ''SIGSIG'' s \<and> n \<noteq> - 1) signal_table"
  by code_simp

lemma signal_names_short: "(n, s) \<in> set signal_table \<Longrightarrow> length s < 29 \<and> prefix ''SIG'' s \<and> n \<noteq> - 1"
  using signal_table_names unfolding list_all_iff by blast

lemma signal_no_double_prefix:
  assumes "(n, ''SIG'' @ s) \<in> set signal_table"
  shows "\<not> prefix ''SIG'' s"
proof -
  have "\<not> prefix ''SIGSIG'' (''SIG'' @ s)"
    using signal_table_names assms unfolding list_all_iff by blast
  then show ?thesis by simp
qed

lemma signal_table_distinct: "distinct (map snd signal_table)"
  by code_simp

lemma table_num_signal: "table_num signal_table s = Some n \<longleftrightarrow> (n, s) \<in> set signal_table"
  by (rule iffI) (erule table_num_mem, erule table_num_distinct [OF signal_table_distinct])

lemma buf_copy_short: "length (buf_copy 32 s) < 29 \<or> length s < 29 \<Longrightarrow> buf_copy 32 s = s"
  by (auto simp: buf_copy_def)

lemma strstr_pos_first: "strstr_pos pat s = Some i \<Longrightarrow> j < i \<Longrightarrow> \<not> prefix pat (drop j s)"
proof (induction s arbitrary: i j)
  case (Cons x xs)
  then show ?case
    by (cases j) (auto split: if_splits)
qed (simp split: if_splits)

lemma g_utf8_strlen_ascii:
  assumes "\<forall>c \<in> set s. is_ascii c" and "length s \<le> n"
  shows "g_utf8_strlen s n = length s"
proof -
  have "filter (\<lambda>c. \<not> utf8_cont c) s = s"
    using assms(1) by (intro filter_True) (auto simp: utf8_cont_def is_ascii_def)
  with assms(2) show ?thesis
    by (simp add: g_utf8_strlen_def)
qed

lemma lowest_free_exists: "filter (\<lambda>n. int n \<notin> set fds) [0..<Suc (length fds)] \<noteq> []"
proof -
  have "\<exists>n \<in> set [0..<Suc (length fds)]. int n \<notin> set fds"
  proof (rule ccontr)
    assume "\<not> ?thesis"
    then have "\<forall>n < Suc (length fds). int n \<in> set fds" by (simp del: upt_Suc)
    then have "int ` {0..<Suc (length fds)} \<subseteq> set fds" by auto
    then have "card (int ` {0..<Suc (length fds)}) \<le> card (set fds)"
      by (rule card_mono [rotated]) simp
    then show False
      using card_length [of fds] by (simp add: card_image)
  qed
  then show ?thesis by (simp add: filter_empty_conv del: upt_Suc)
qed

lemma lowest_free_props: "lowest_free fds \<notin> set fds \<and> 0 \<le> lowest_free fds"
  and lowest_free_le: "lowest_free fds \<le> int (length fds)"
  using hd_in_set [OF lowest_free_exists [of fds]] by (simp_all add: lowest_free_def del: upt_Suc)

lemmas lowest_free_fresh = lowest_free_props [THEN conjunct1]
lemmas lowest_free_nonneg = lowest_free_props [THEN conjunct2]

subsection \<open>Properties\<close>

text \<open>
  A signal is accepted exactly under its full name and under the name without \<^verbatim>\<open>SIG\<close>, and
  gets its own number; every other string, however long, gives -1.
\<close>

theorem get_signum_iff:
  "n \<noteq> - 1 \<and> cc_oci_get_signum (Some s) = n \<longleftrightarrow>
   (n, s) \<in> set signal_table \<or> (n, ''SIG'' @ s) \<in> set signal_table"
proof (cases "prefix ''SIG'' s")
  case True
  then have "(n, ''SIG'' @ s) \<notin> set signal_table"
    using signal_no_double_prefix by blast
  moreover have "(n, buf_copy 32 s) \<in> set signal_table \<longleftrightarrow> (n, s) \<in> set signal_table"
    using signal_names_short by (metis buf_copy_short)
  moreover have "n \<noteq> - 1 \<and> cc_oci_get_signum (Some s) = n \<longleftrightarrow> (n, buf_copy 32 s) \<in> set signal_table"
    using True signal_names_short
    by (auto simp: cc_oci_get_signum_def Let_def table_num_signal [symmetric] split: option.splits)
  ultimately show ?thesis by blast
next
  case False
  then have "(n, s) \<notin> set signal_table"
    using signal_names_short by blast
  moreover have "(n, buf_copy 32 (''SIG'' @ s)) \<in> set signal_table \<longleftrightarrow> (n, ''SIG'' @ s) \<in> set signal_table"
    using signal_names_short by (metis buf_copy_short)
  moreover have "n \<noteq> - 1 \<and> cc_oci_get_signum (Some s) = n \<longleftrightarrow>
      (n, buf_copy 32 (''SIG'' @ s)) \<in> set signal_table"
    using False signal_names_short
    by (auto simp: cc_oci_get_signum_def Let_def table_num_signal [symmetric]
        simp del: append.simps split: option.splits)
  ultimately show ?thesis by blast
qed

lemma dup_loop_3:
  "dup_loop D 3 [] fd fds =
   (let a = lowest_free fds; b = lowest_free (a # fds); c = lowest_free (b # a # fds)
    in if \<not> fd < 3 then ([], fd, fds)
       else if \<not> D fds then ([fd], - 1, fds)
       else if \<not> a < 3 then ([fd], a, a # fds)
       else if \<not> D (a # fds) then ([fd, a], - 1, a # fds)
       else if \<not> b < 3 then ([fd, a], b, b # a # fds)
       else if \<not> D (b # a # fds) then ([fd, a, b], - 1, b # a # fds)
       else ([fd, a, b], c, c # b # a # fds))"
  by (simp add: numeral_3_eq_3 Let_def)

text \<open>The cases of \<^verbatim>\<open>dup_over_stdio\<close>: the descriptor was high enough, has moved, or is where it was.\<close>

lemma dup_over_stdio_cases:
  assumes "distinct fds" and "fd \<in> set fds" and "0 \<le> fd" and "dup_over_stdio D Cl fd fds = (ok, fd', fds')"
  shows "if 2 < fd then ok \<and> fd' = fd \<and> fds' = fds
    else (fd' = fd \<and> set fds' = set fds \<and> \<not> ok \<and> \<not> ((\<forall>x. D x) \<and> (\<forall>x. Cl x)))
      \<or> (2 < fd' \<and> fd' \<notin> set fds \<and> set fds' = insert fd' (set fds - {fd}) \<and> fd' \<le> int (length fds) + 2
         \<and> distinct fds' \<and> (ok \<or> (\<exists>x. \<not> Cl x)))"
proof -
  define a where "a = lowest_free fds"
  define b where "b = lowest_free (a # fds)"
  define c where "c = lowest_free (b # a # fds)"
  have fresh: "a \<notin> set fds" "0 \<le> a" "b \<notin> set fds" "b \<noteq> a" "0 \<le> b"
    "c \<notin> set fds" "c \<noteq> a" "c \<noteq> b" "0 \<le> c"
    using lowest_free_props [of fds] lowest_free_props [of "a # fds"]
      lowest_free_props [of "b # a # fds"]
    by (simp_all add: a_def [symmetric] b_def [symmetric] c_def [symmetric])
  have le: "a \<le> int (length fds) + 2" "b \<le> int (length fds) + 2" "c \<le> int (length fds) + 2"
    using lowest_free_le [of fds] lowest_free_le [of "a # fds"] lowest_free_le [of "b # a # fds"]
    by (simp_all add: a_def [symmetric] b_def [symmetric] c_def [symmetric])
  have ne: "a \<noteq> fd" "b \<noteq> fd" "c \<noteq> fd"
    using fresh assms(2) by auto
  have three: "fd < 3 \<Longrightarrow> a < 3 \<Longrightarrow> b < 3 \<Longrightarrow> 3 \<le> c"
    using fresh ne assms(3) by linarith
  show ?thesis
    using assms fresh ne three le
    unfolding dup_over_stdio_def dup_loop_3 Let_def a_def [symmetric] b_def [symmetric] c_def [symmetric]
    by (auto split: if_splits simp: set_remove1_eq)
qed

text \<open>
  C35. \<^verbatim>\<open>dup_over_stdio\<close> on an open descriptor: when it succeeds the descriptor returned is above
  the standard ones, the old one is closed and nothing else changed (no temporary duplicate is
  leaked).  When it fails, either the descriptor and the table are as they were, or a \<^verbatim>\<open>close\<close> failed
  after the descriptor had moved: then the move is complete and only the result says failure.  It
  cannot fail unless \<^verbatim>\<open>dup\<close> or \<^verbatim>\<open>close\<close> fails, so three duplications are enough.
\<close>

theorem dup_over_stdio_spec:
  assumes "distinct fds" and "fd \<in> set fds" and "0 \<le> fd"
    and "dup_over_stdio D Cl fd fds = (ok, fd', fds')"
  defines "moved \<equiv> fd \<le> 2 \<and> 2 < fd' \<and> fd' \<notin> set fds \<and> set fds' = insert fd' (set fds - {fd})"
  shows "(ok \<longrightarrow> (if 2 < fd then fd' = fd \<and> fds' = fds else moved))
       \<and> (\<not> ok \<longrightarrow> (fd' = fd \<and> set fds' = set fds) \<or> (moved \<and> (\<exists>x. \<not> Cl x)))
       \<and> ((\<forall>x. D x) \<and> (\<forall>x. Cl x) \<longrightarrow> ok)"
  using dup_over_stdio_cases [OF assms(1-4)] by (auto simp: moved_def split: if_splits)

theorem dup_over_stdio_spec_witness:
  "dup_over_stdio (\<lambda>_. True) (\<lambda>_. True) 1 [0, 1] = (True, 3, [3, 0]) \<and> (2::int) < 3"
proof -
  have run: "dup_over_stdio (\<lambda>_. True) (\<lambda>_. True) 1 [0, 1] = (True, 3, [3, 0])"
    by code_simp
  show ?thesis
    using run dup_over_stdio_spec [OF _ _ _ run] by simp
qed

text \<open>
  \<^verbatim>\<open>cc_oci_replace_string\<close> with an ASCII search string replaces exactly the first occurrence
  and leaves a string without one alone.  (With a multi-byte character in the search string the
  bytes beyond its character count stay behind.)
\<close>

theorem replace_string_first:
  assumes "from \<noteq> []" and "\<forall>c \<in> set from. is_ascii c" and "length from \<le> LINE_MAX"
  shows "if sublist from str
         then (\<exists>pre post. str = pre @ from @ post \<and> (\<forall>j < length pre. \<not> prefix from (drop j str))
                \<and> cc_oci_replace_string str (Some from) (Some to) = pre @ to @ post)
         else cc_oci_replace_string str (Some from) (Some to) = str"
proof (cases "strstr_pos from str")
  case None
  with assms show ?thesis
    using strstr_pos_None [of "from" str] by (simp add: cc_oci_replace_string_def)
next
  case (Some k)
  obtain pre post where "str = pre @ from @ post" "length pre = k"
    using strstr_pos_SomeD [OF Some] by blast
  moreover have "\<forall>j < k. \<not> prefix from (drop j str)"
    using strstr_pos_first [OF Some] by blast
  moreover have "sublist from str"
    using Some strstr_pos_None [of "from" str] by auto
  ultimately show ?thesis
    using Some assms g_utf8_strlen_ascii [OF assms(2,3)]
    by (intro if_P [THEN iffD2] exI [of _ pre] exI [of _ post]) (auto simp: cc_oci_replace_string_def)
qed

theorem replace_string_first_witness:
  "\<exists>pre post. ''a/@NAME@/b'' = pre @ ''@NAME@'' @ post
     \<and> cc_oci_replace_string ''a/@NAME@/b'' (Some ''@NAME@'') (Some ''x'') = pre @ ''x'' @ post"
proof -
  have "sublist ''@NAME@'' ''a/@NAME@/b''" "\<forall>c \<in> set ''@NAME@''. is_ascii c"
    "length ''@NAME@'' \<le> LINE_MAX"
    by code_simp+
  then show ?thesis
    using replace_string_first [of "''@NAME@''" "''a/@NAME@/b''" "''x''"] by auto
qed

subsection \<open>Time stamps\<close>

text \<open>
  The clock gives the time in seconds since 1970 in UTC and whether daylight saving is in effect.
  \<open>add_hours\<close>, \<open>to_timeval\<close> and \<open>to_iso8601\<close> are GLib's functions on such a time.
\<close>

definition cc_oci_get_iso8601_timestamp ::
  "(int \<times> bool) option \<Rightarrow> (int \<Rightarrow> int \<Rightarrow> int option) \<Rightarrow> (int \<Rightarrow> int option) \<Rightarrow> (int \<Rightarrow> gchars) \<Rightarrow> gchars" where
  "cc_oci_get_iso8601_timestamp now add_hours to_timeval to_iso8601 =
     (case now of
        None \<Rightarrow> None
      | Some (dt, daylight_savings) \<Rightarrow>
          (case if daylight_savings then add_hours dt 1 else Some dt of
             None \<Rightarrow> None
           | Some dt2 \<Rightarrow> (case to_timeval dt2 of None \<Rightarrow> None | Some tv \<Rightarrow> to_iso8601 tv)))"

text \<open>
  \<^verbatim>\<open>g_date_time_to_timeval\<close> gives seconds in UTC whatever the zone of its argument, so the hour added for
  daylight saving ends up in the text.
\<close>

lemma timestamp_hour_ahead:
  assumes "\<And>t n. add_hours t n = Some (t + 3600 * n)" and "\<And>t. to_timeval t = Some t"
  shows "cc_oci_get_iso8601_timestamp (Some (t, True)) add_hours to_timeval to_iso8601 =
    cc_oci_get_iso8601_timestamp (Some (t + 3600, False)) add_hours to_timeval to_iso8601"
  using assms by (simp add: cc_oci_get_iso8601_timestamp_def)

end
