(* ===== verification/Namespaces.thy ===== *)
theory Namespaces
  imports Util
begin

section \<open>Namespaces (src/namespace.c)\<close>

text \<open>
  The names of the OCI namespaces and \<^verbatim>\<open>cc_oci_ns_setup\<close>, which joins or creates the network and
  mount namespaces of the configuration and ignores the others.
\<close>

definition oci_ns_map :: "(int \<times> string) list" where
  "oci_ns_map =
     [(OCI_NS_CGROUP, ''cgroup''), (OCI_NS_IPC, ''ipc''), (OCI_NS_MOUNT, ''mount''),
      (OCI_NS_NET, ''network''), (OCI_NS_PID, ''pid''), (OCI_NS_USER, ''user''),
      (OCI_NS_UTS, ''uts'')]"

definition cc_oci_ns_to_str :: "int \<Rightarrow> gchars" where
  "cc_oci_ns_to_str ns = table_name oci_ns_map ns"

definition cc_oci_str_to_ns :: "gchars \<Rightarrow> int" where
  "cc_oci_str_to_ns str =
     (case str of
        None \<Rightarrow> OCI_NS_INVALID
      | Some s \<Rightarrow>
          if s = [] then OCI_NS_INVALID
          else (case table_num oci_ns_map s of None \<Rightarrow> OCI_NS_INVALID | Some n \<Rightarrow> n))"

fun ns_setup_loop :: "env \<Rightarrow> oci_cfg_namespace list \<Rightarrow> world \<Rightarrow> bool \<times> world" where
  "ns_setup_loop E [] w = (True, w)"
| "ns_setup_loop E (ns # nss) w =
     (if ns_type ns = OCI_NS_INVALID then ns_setup_loop E nss w
      else if ns_type ns \<noteq> OCI_NS_NET \<and> ns_type ns \<noteq> OCI_NS_MOUNT then ns_setup_loop E nss w
      else
        (case ns_path ns of
           Some p \<Rightarrow>
             (let (opened, w1) = sys E (EvOpen p) w
              in if \<not> opened then (False, w1)
                 else let (ok, w2) = sys E (EvSetns p (ns_type ns)) w1
                      in if ok then ns_setup_loop E nss w2 else (False, w2))
         | None \<Rightarrow>
             (let (ok, w1) = sys E (EvUnshare (ns_type ns)) w
              in if ok then ns_setup_loop E nss w1 else (False, w1))))"

definition cc_oci_ns_setup :: "env \<Rightarrow> cc_oci_config \<Rightarrow> world \<Rightarrow> bool \<times> world" where
  "cc_oci_ns_setup E config w = ns_setup_loop E (oci_linux_namespaces (cfg_oci config)) w"

subsection \<open>The table is a bijection on its names\<close>

lemma oci_ns_map_distinct: "distinct (map fst oci_ns_map) \<and> distinct (map snd oci_ns_map)"
  by code_simp

interpretation ns: name_table "table_name oci_ns_map" "table_num oci_ns_map"
  using oci_ns_map_distinct by (intro name_table_distinct) auto

lemma ns_map_valid: "(n, s) \<in> set oci_ns_map \<Longrightarrow> n \<noteq> OCI_NS_INVALID \<and> s \<noteq> []"
  by (auto simp: oci_ns_map_def oci_ns_defs)

text \<open>The events a correct setup of a list of namespaces consists of.\<close>

fun ns_events :: "oci_cfg_namespace list \<Rightarrow> event list" where
  "ns_events [] = []"
| "ns_events (ns # nss) =
     (if ns_type ns = OCI_NS_NET \<or> ns_type ns = OCI_NS_MOUNT
      then (case ns_path ns of Some p \<Rightarrow> [EvOpen p, EvSetns p (ns_type ns)]
                             | None \<Rightarrow> [EvUnshare (ns_type ns)])
      else []) @ ns_events nss"

lemma ns_setup_loop_events: "ns_setup_loop E nss w = run_events E (ns_events nss) w"
proof (induction nss arbitrary: w)
  case (Cons ns nss)
  then show ?case
    by (auto simp: oci_ns_defs Let_def split: option.splits prod.splits)
qed simp

text \<open>
  C36. \<^verbatim>\<open>cc_oci_ns_setup\<close> joins (open, then setns) or creates (unshare) exactly the network and mount
  namespaces of the configuration, in their order; it reports success only when every call
  succeeded, and otherwise stops at the first failing call.
\<close>

theorem ns_setup_exact:
  "case cc_oci_ns_setup E config w of (ok, w') \<Rightarrow>
     if ok
     then w_trace w' = w_trace w
            @ map (\<lambda>e. (e, True)) (ns_events (oci_linux_namespaces (cfg_oci config)))
     else \<exists>dn ev rest. ns_events (oci_linux_namespaces (cfg_oci config)) = dn @ ev # rest
            \<and> w_trace w' = w_trace w @ map (\<lambda>e. (e, True)) dn @ [(ev, False)]"
  unfolding cc_oci_ns_setup_def ns_setup_loop_events
  using run_events_success run_events_failure by (auto split: prod.splits)

text \<open>
  The two translations between namespace numbers and names are inverse to each other on the
  seven OCI namespaces, and no other name is accepted.
\<close>

theorem ns_names_roundtrip:
  "cc_oci_ns_to_str n = Some s \<longleftrightarrow> n \<noteq> OCI_NS_INVALID \<and> cc_oci_str_to_ns (Some s) = n"
proof -
  have "table_num oci_ns_map [] = None" by code_simp
  then have "cc_oci_str_to_ns (Some s) = (case table_num oci_ns_map s of None \<Rightarrow> OCI_NS_INVALID | Some n \<Rightarrow> n)"
    by (simp add: cc_oci_str_to_ns_def)
  moreover have "table_name oci_ns_map n = Some s \<longleftrightarrow> table_num oci_ns_map s = Some n"
    using ns.of_to ns.to_of by blast
  moreover have "table_num oci_ns_map s = Some m \<Longrightarrow> m \<noteq> OCI_NS_INVALID" for m
    using table_num_mem ns_map_valid by metis
  ultimately show ?thesis
    by (auto simp: cc_oci_ns_to_str_def split: option.splits)
qed

end
