(* ===== verification/Runtime.thy ===== *)
theory Runtime
  imports Util
begin

section \<open>The per-container runtime directory (src/runtime.c)\<close>

text \<open>
  Where a container keeps its state file and sockets: below \<^verbatim>\<open>--root\<close> or the default prefix,
  in a directory named after the container.  Paths live in \<^verbatim>\<open>PATH_MAX\<close> buffers.
\<close>

definition path_join :: "string \<Rightarrow> string \<Rightarrow> string" where
  "path_join a b = buf_copy PATH_MAX (a @ ''/'' @ b)"

definition cc_oci_runtime_path_get :: "cc_oci_config \<Rightarrow> bool \<times> cc_oci_config" where
  "cc_oci_runtime_path_get config =
     (case cfg_optarg_container_id config of
        None \<Rightarrow> (False, config)
      | Some cid \<Rightarrow>
          (True, config\<lparr>cfg_state := (cfg_state config)\<lparr>runtime_path :=
             path_join (case cfg_root_dir config of None \<Rightarrow> CC_OCI_RUNTIME_DIR_PREFIX | Some d \<Rightarrow> d)
               cid\<rparr>\<rparr>))"

text \<open>
  A failure to create the parent directory is only reported.  The directory itself counts as set
  up when \<^verbatim>\<open>g_mkdir_with_parents\<close> succeeds, which it also does for a directory that exists.
\<close>

definition cc_oci_runtime_dir_setup ::
  "env \<Rightarrow> cc_oci_config \<Rightarrow> world \<Rightarrow> bool \<times> cc_oci_config \<times> world" where
  "cc_oci_runtime_dir_setup E config w =
     (let (got, config) =
            (if runtime_path (cfg_state config) = [] then cc_oci_runtime_path_get config
             else (True, config))
      in if \<not> got then (False, config, w)
         else
           let rp = runtime_path (cfg_state config);
               config' = config\<lparr>cfg_state := (cfg_state config)
                 \<lparr>comms_path := path_join rp CC_OCI_HYPERVISOR_SOCKET,
                  procsock_path := path_join rp CC_OCI_PROCESS_SOCKET\<rparr>\<rparr>;
               (_, w1) = sys E (EvMkdirP (g_path_get_dirname rp)) w;
               (ok, w2) = sys E (EvMkdirP rp) w1
           in (ok, config', w2))"

definition cc_oci_runtime_dir_delete :: "env \<Rightarrow> cc_oci_config \<Rightarrow> world \<Rightarrow> bool \<times> world" where
  "cc_oci_runtime_dir_delete E config w =
     (let rp = runtime_path (cfg_state config)
      in if rp = [] \<or> hd rp \<noteq> CHR ''/'' then (False, w) else cc_oci_rm_rf E rp w)"

lemma path_join_not_Nil [simp]: "path_join a b \<noteq> []"
  by (cases a) (auto simp: path_join_def buf_copy_def PATH_MAX_def)

lemma path_join_length [simp]: "length (path_join a b) < PATH_MAX"
  by (simp add: path_join_def)

lemma path_join_id: "length a + length b + 1 < PATH_MAX \<Longrightarrow> path_join a b = a @ ''/'' @ b"
  by (simp add: path_join_def buf_copy_id)

lemma runtime_dir_delete_files:
  "cc_oci_runtime_dir_delete E config w = (True, w') \<Longrightarrow>
   under (runtime_path (cfg_state config)) p \<Longrightarrow> w_files w' p = None"
  by (auto simp: cc_oci_runtime_dir_delete_def cc_oci_rm_rf_def sys_def Let_def split: if_splits)

end
