(* ===== verification/PodSpec.thy ===== *)
theory PodSpec
  imports Runtime
begin

section \<open>Pods: annotations and identity (src/pod.c)\<close>

text \<open>
  A pod is announced by annotations in the \<^verbatim>\<open>ocid/\<close> name space.  A sandbox owns the virtual machine;
  another container of the pod runs inside the sandbox's machine.  Creating and starting a
  pod container is in theory Launch.
\<close>

definition CC_POD_SANDBOX_ROOTFS :: string where
  "CC_POD_SANDBOX_ROOTFS = ''workloads''"

definition CC_POD_OCID_NAMESPACE :: string where
  "CC_POD_OCID_NAMESPACE = ''ocid/''"

definition CC_POD_OCID_CONTAINER_TYPE :: string where
  "CC_POD_OCID_CONTAINER_TYPE = ''ocid/container_type''"

definition CC_POD_OCID_SANDBOX_NAME :: string where
  "CC_POD_OCID_SANDBOX_NAME = ''ocid/sandbox_name''"

definition MS_BIND :: "64 word" where
  "MS_BIND = 4096"

text \<open>What \<^verbatim>\<open>%s\<close> prints for a NULL string (glibc).\<close>

definition fmt_s :: "gchars \<Rightarrow> string" where
  "fmt_s s = (case s of None \<Rightarrow> ''(null)'' | Some t \<Rightarrow> t)"

definition add_container_mount :: "cc_oci_config \<Rightarrow> bool \<times> cc_oci_config" where
  "add_container_mount config =
     (case cfg_pod config of
        None \<Rightarrow> (False, config)
      | Some _ \<Rightarrow>
          (let m = zero_mount
                 \<lparr>mount_flags := MS_BIND,
                  mount_mnt := zero_mntent
                    \<lparr>mnt_dir := Some (buf_copy PATH_MAX (''/'' @ fmt_s (cfg_optarg_container_id config) @ ''/rootfs'')),
                     mnt_fsname := Some (root_path (oci_root (cfg_oci config))),
                     mnt_type := Some ''bind''\<rparr>\<rparr>
           in (True, upd_mounts (\<lambda>ms. ms @ [m]) config)))"

definition pod_workloads_path :: "gchars \<Rightarrow> string" where
  "pod_workloads_path name =
     buf_copy PATH_MAX (CC_OCI_RUNTIME_DIR_PREFIX @ ''/'' @ fmt_s name @ ''/'' @ CC_POD_SANDBOX_ROOTFS)"

text \<open>The negative \<^verbatim>\<open>errno\<close> results are all \<open>False\<close>: the caller only tests the sign.\<close>

definition cc_pod_handle_annotations ::
  "cc_oci_config \<Rightarrow> oci_cfg_annotation \<Rightarrow> bool \<times> cc_oci_config" where
  "cc_pod_handle_annotations config annotation =
     (case (ann_key annotation, ann_value annotation) of
        (Some key, Some val) \<Rightarrow>
          if \<not> prefix CC_POD_OCID_NAMESPACE key then (True, config)
          else
            (let pod = (case cfg_pod config of None \<Rightarrow> zero_pod | Some p \<Rightarrow> p);
                 config = config\<lparr>cfg_pod := Some pod\<rparr>
             in if key = CC_POD_OCID_CONTAINER_TYPE then
                  (if val = ''sandbox'' then
                     (let pod1 = pod\<lparr>pod_sandbox := True,
                                     pod_sandbox_name := cfg_optarg_container_id config\<rparr>;
                          (ok, config1) = add_container_mount (config\<lparr>cfg_pod := Some pod1\<rparr>)
                      in if \<not> ok then (False, config1)
                         else (True, config1\<lparr>cfg_pod := Some (pod1\<lparr>pod_sandbox_workloads :=
                                pod_workloads_path (cfg_optarg_container_id config)\<rparr>)\<rparr>))
                   else if val = ''container'' then
                     (True, config\<lparr>cfg_pod := Some (pod\<lparr>pod_sandbox := False\<rparr>)\<rparr>)
                   else (True, config))
                else if key = CC_POD_OCID_SANDBOX_NAME then
                  add_container_mount (config\<lparr>cfg_pod := Some (pod
                    \<lparr>pod_sandbox_name := Some val,
                     pod_sandbox_workloads := pod_workloads_path (Some val)\<rparr>)\<rparr>)
                else (True, config))
      | _ \<Rightarrow> (False, config))"

definition cc_pod_container_id :: "cc_oci_config \<Rightarrow> gchars" where
  "cc_pod_container_id config =
     (case cfg_pod config of
        Some pod \<Rightarrow> if \<not> pod_sandbox pod then pod_sandbox_name pod else cfg_optarg_container_id config
      | None \<Rightarrow> cfg_optarg_container_id config)"

definition cc_pod_is_sandbox :: "cc_oci_config \<Rightarrow> bool" where
  "cc_pod_is_sandbox config = (case cfg_pod config of Some pod \<Rightarrow> pod_sandbox pod | None \<Rightarrow> False)"

definition cc_pod_is_vm :: "cc_oci_config \<Rightarrow> bool" where
  "cc_pod_is_vm config = (case cfg_pod config of Some pod \<Rightarrow> pod_sandbox pod | None \<Rightarrow> True)"

definition cc_oci_get_workload_dir :: "cc_oci_config \<Rightarrow> string" where
  "cc_oci_get_workload_dir config =
     (case cfg_pod config of
        Some pod \<Rightarrow> pod_sandbox_workloads pod
      | None \<Rightarrow> root_path (oci_root (cfg_oci config)))"

end
