(* ===== verification/SpecProcess.thy ===== *)
theory SpecProcess
  imports PodSpec
begin

section \<open>The process section of a configuration (src/spec_handlers/process.c, src/oci.c)\<close>

text \<open>
  Reading the \<^verbatim>\<open>process\<close> section, which occurs in \<^verbatim>\<open>config.json\<close> and in the state file, and writing
  it for the state file.  \<^verbatim>\<open>atoi\<close> of a NULL pointer is a fault.
\<close>

definition deref_data :: "gnode list \<Rightarrow> string c_result" where
  "deref_data cs =
     (case cs of
        [] \<Rightarrow> Inl NullDeref
      | c # _ \<Rightarrow> (case gdata c of None \<Rightarrow> Inl NullDeref | Some s \<Rightarrow> Inr s))"

definition handle_user_section :: "gnode \<Rightarrow> cc_oci_config \<Rightarrow> cc_oci_config c_result" where
  "handle_user_section root config =
     (if gdata root = Some ''uid'' then
        c_bind (deref_data (gchildren root)) (\<lambda>s.
          Inr (upd_process (proc_user_update (user_uid_update (\<lambda>_. wrap32u (atoi s)))) config))
      else if gdata root = Some ''gid'' then
        c_bind (deref_data (gchildren root)) (\<lambda>s.
          Inr (upd_process (proc_user_update (user_gid_update (\<lambda>_. wrap32u (atoi s)))) config))
      else Inr config)"

definition handle_process_section :: "gnode \<Rightarrow> cc_oci_config \<Rightarrow> cc_oci_config c_result" where
  "handle_process_section root config =
     (case gchildren root of
        [] \<Rightarrow> Inr config
      | c # _ \<Rightarrow>
          if gdata root = Some ''cwd'' then
            Inr (upd_process (proc_cwd_update (\<lambda>_. buf_copy PATH_MAX (fmt_s (gdata c)))) config)
          else if gdata root = Some ''args'' then
            Inr (upd_process (proc_args_update (\<lambda>_. Some (node_to_strv root))) config)
          else if gdata root = Some ''env'' then
            Inr (upd_process (proc_env_update (\<lambda>_. Some (node_to_strv root))) config)
          else if gdata root = Some ''terminal'' then
            Inr (upd_process (proc_terminal_update (\<lambda>_. gdata c = Some ''true'')) config)
          else if gdata root = Some ''user'' then
            c_fold handle_user_section (gchildren root) config
          else if gdata root = Some ''stdio_stream'' then
            c_bind (deref_data (gchildren root)) (\<lambda>s.
              Inr (upd_process (proc_stdio_stream_update (\<lambda>_. atoi s)) config))
          else if gdata root = Some ''stderr_stream'' then
            c_bind (deref_data (gchildren root)) (\<lambda>s.
              Inr (upd_process (proc_stderr_stream_update (\<lambda>_. atoi s)) config))
          else Inr config)"

definition process_handle_section :: "gnode \<Rightarrow> cc_oci_config \<Rightarrow> (bool \<times> cc_oci_config) c_result" where
  "process_handle_section root config =
     c_bind
       (c_fold handle_process_section (gchildren root)
          (upd_process (proc_stderr_stream_update (\<lambda>_. - 1))
            (upd_process (proc_stdio_stream_update (\<lambda>_. - 1)) config)))
       (\<lambda>config'.
          let p = cfg_process config'
          in Inr (proc_cwd p \<noteq> [] \<and> hd (proc_cwd p) = CHR ''/'' \<and> proc_args p \<noteq> None, config'))"

definition process_members :: "oci_cfg_process \<Rightarrow> members" where
  "process_members process =
     [(''cwd'', JString (proc_cwd process)),
      (''terminal'', JBool (proc_terminal process)),
      (''user'', JObject []),
      (''args'', JArray (map JString (case proc_args process of None \<Rightarrow> [] | Some a \<Rightarrow> a))),
      (''env'', JArray (map JString (case proc_env process of None \<Rightarrow> [] | Some e \<Rightarrow> e))),
      (''stdio_stream'', JInt (proc_stdio_stream process)),
      (''stderr_stream'', JInt (proc_stderr_stream process))]"

definition cc_oci_process_to_json :: "oci_cfg_process \<Rightarrow> members option" where
  "cc_oci_process_to_json process =
     (if proc_args process = None \<or> proc_cwd process = [] then None
      else Some (mk_object (process_members process)))"

subsection \<open>What survives the state file\<close>

text \<open>
  The process as it comes back: the user is not written, and an empty vector reads as NULL.
\<close>

definition strv_norm :: "strv \<Rightarrow> strv" where
  "strv_norm v = (case v of Some [] \<Rightarrow> None | _ \<Rightarrow> v)"

definition process_saved :: "oci_cfg_process \<Rightarrow> oci_cfg_process" where
  "process_saved p = p\<lparr>proc_args := strv_norm (proc_args p), proc_env := strv_norm (proc_env p),
                        proc_user := zero_user\<rparr>"

definition process_wf :: "oci_cfg_process \<Rightarrow> bool" where
  "process_wf p \<longleftrightarrow> length (proc_cwd p) < PATH_MAX \<and> is_gint (proc_stdio_stream p)
     \<and> is_gint (proc_stderr_stream p)"

lemma process_members_distinct: "distinct (map fst (process_members p))"
  by (simp add: process_members_def)

lemma process_to_json_members:
  "cc_oci_process_to_json p = Some ms \<Longrightarrow> ms = process_members p"
  by (auto simp: cc_oci_process_to_json_def mk_object_distinct process_members_distinct split: if_splits)

lemma process_members_wf: "process_wf p \<Longrightarrow> \<forall>m \<in> set (process_members p). json_wf (snd m)"
  by (auto simp: process_members_def process_wf_def is_gint_def)

lemma deref_data_value: "deref_data (GNode (Some s) cs # r) = Inr s"
  by (simp add: deref_data_def)

text \<open>One lemma per member: what the handler does with the tree of that member.\<close>

lemma handle_cwd:
  "handle_process_section (GNode (Some ''cwd'') (cc_oci_json_parse_aux (JString s) False)) c =
   Inr (upd_process (proc_cwd_update (\<lambda>_. buf_copy PATH_MAX s)) c)"
  by (simp add: handle_process_section_def cc_oci_json_string_def fmt_s_def)

lemma handle_terminal:
  "handle_process_section (GNode (Some ''terminal'') (cc_oci_json_parse_aux (JBool b) False)) c =
   Inr (upd_process (proc_terminal_update (\<lambda>_. b)) c)"
  by (simp add: handle_process_section_def json_bool_string)

lemma handle_user_empty: "handle_process_section (GNode (Some ''user'') [GNode None []]) c = Inr c"
  by (simp add: handle_process_section_def handle_user_section_def)

lemma handle_args:
  "handle_process_section (GNode (Some ''args'') (cc_oci_json_parse_aux (JArray (map JString xs)) False)) c =
   Inr (if xs = [] then c else upd_process (proc_args_update (\<lambda>_. Some xs)) c)"
  using node_to_strv_string_array [of "Some ''args''" xs False]
  by (cases xs) (simp_all add: handle_process_section_def cc_oci_json_string_def)

lemma handle_env:
  "handle_process_section (GNode (Some ''env'') (cc_oci_json_parse_aux (JArray (map JString xs)) False)) c =
   Inr (if xs = [] then c else upd_process (proc_env_update (\<lambda>_. Some xs)) c)"
  using node_to_strv_string_array [of "Some ''env''" xs False]
  by (cases xs) (simp_all add: handle_process_section_def cc_oci_json_string_def)

lemma gint_small: "is_gint i \<Longrightarrow> \<bar>i\<bar> < 2 ^ 64"
  by (auto simp: is_gint_def abs_if)

lemma handle_streams:
  assumes "is_gint i"
  shows "handle_process_section (GNode (Some ''stdio_stream'') (cc_oci_json_parse_aux (JInt i) False)) c =
           Inr (upd_process (proc_stdio_stream_update (\<lambda>_. i)) c)"
    and "handle_process_section (GNode (Some ''stderr_stream'') (cc_oci_json_parse_aux (JInt i) False)) c =
           Inr (upd_process (proc_stderr_stream_update (\<lambda>_. i)) c)"
  using assms
  by (simp_all add: handle_process_section_def deref_data_value json_int_string [OF gint_small] atoi_int_to_dec)

lemma handle_separator: "handle_process_section (GNode None []) c = Inr c"
  by (simp add: handle_process_section_def)

lemma handle_empty_vectors:
  "handle_process_section (GNode (Some ''args'') (cc_oci_json_parse_aux (JArray []) False)) c = Inr c"
  "handle_process_section (GNode (Some ''env'') (cc_oci_json_parse_aux (JArray []) False)) c = Inr c"
  by (simp_all add: handle_process_section_def)

lemmas handle_process_members =
  handle_empty_vectors handle_cwd handle_terminal handle_user_empty handle_args handle_env handle_streams handle_separator

text \<open>Reading back what was written, into a zeroed configuration.\<close>

lemma process_section_roundtrip:
  assumes "process_wf p"
  shows "\<exists>b c. process_handle_section
           (GNode d (cc_oci_json_parse_aux (JObject (process_members p)) False)) zero_config = Inr (b, c)
         \<and> cfg_process c = process_saved p"
proof -
  have cwd: "buf_copy PATH_MAX (proc_cwd p) = proc_cwd p"
    using assms by (simp add: process_wf_def buf_copy_id)
  have streams: "is_gint (proc_stdio_stream p)" "is_gint (proc_stderr_stream p)"
    using assms by (simp_all add: process_wf_def)
  show ?thesis
    using streams
    by (auto simp: process_handle_section_def process_members_def handle_process_members cwd Let_def
        process_saved_def strv_norm_def zero_config_def zero_process_def
        simp del: cc_oci_json_parse_aux.simps(2-)
        split: option.splits list.splits)
qed

end
