(* ===== verification/JsonCodec.thy ===== *)
theory JsonCodec
  imports JsonGlib
begin

section \<open>A text format for JSON documents\<close>

text \<open>
  The sources leave the text of a document to json-glib, a parameter of the model.  This theory has
  one writer and one reader that together satisfy what is asked of the library, so that
  the theorems that rely on it can be applied to a running example: strings are written
  character by character behind a dot and closed by a semicolon.
\<close>

definition enc_str :: "string \<Rightarrow> string" where
  "enc_str s = concat (map (\<lambda>c. [CHR ''.'', c]) s) @ '';''"

fun dec_str :: "string \<Rightarrow> (string \<times> string) option" where
  "dec_str (d # r) =
     (if d = CHR '';'' then Some ([], r)
      else (case r of [] \<Rightarrow> None | c # r' \<Rightarrow> map_option (\<lambda>(s, t). (c # s, t)) (dec_str r')))"
| "dec_str [] = None"

fun enc_json :: "json \<Rightarrow> string" where
  "enc_json (JString s) = CHR ''s'' # enc_str s"
| "enc_json (JInt i) = (if i < 0 then CHR ''m'' else CHR ''p'') # enc_str (nat_to_dec (nat \<bar>i\<bar>))"
| "enc_json (JDouble s) = CHR ''d'' # enc_str s"
| "enc_json (JBool b) = (if b then ''t'' else ''f'')"
| "enc_json JNull = ''n''"
| "enc_json (JArray js) = CHR ''['' # concat (map (\<lambda>j. CHR '','' # enc_json j) js) @ '']''"
| "enc_json (JObject ms) =
     CHR ''{'' # concat (map (\<lambda>m. CHR '','' # enc_str (fst m) @ enc_json (snd m)) ms) @ ''}''"

fun dec_json :: "nat \<Rightarrow> string \<Rightarrow> (json \<times> string) option"
  and dec_list :: "nat \<Rightarrow> string \<Rightarrow> (json list \<times> string) option"
  and dec_members :: "nat \<Rightarrow> string \<Rightarrow> (members \<times> string) option" where
  "dec_json 0 s = None"
| "dec_json (Suc n) s =
     (case s of
        [] \<Rightarrow> None
      | c # r \<Rightarrow>
          if c = CHR ''s'' then map_option (\<lambda>(s, t). (JString s, t)) (dec_str r)
          else if c = CHR ''m'' then map_option (\<lambda>(s, t). (JInt (- digits_val 0 s), t)) (dec_str r)
          else if c = CHR ''p'' then map_option (\<lambda>(s, t). (JInt (digits_val 0 s), t)) (dec_str r)
          else if c = CHR ''d'' then map_option (\<lambda>(s, t). (JDouble s, t)) (dec_str r)
          else if c = CHR ''t'' then Some (JBool True, r)
          else if c = CHR ''f'' then Some (JBool False, r)
          else if c = CHR ''n'' then Some (JNull, r)
          else if c = CHR ''['' then map_option (\<lambda>(js, t). (JArray js, t)) (dec_list n r)
          else if c = CHR ''{'' then map_option (\<lambda>(ms, t). (JObject ms, t)) (dec_members n r)
          else None)"
| "dec_list 0 s = None"
| "dec_list (Suc n) s =
     (case s of
        [] \<Rightarrow> None
      | c # r \<Rightarrow>
          if c = CHR '']'' then Some ([], r)
          else (case dec_json n r of
                  None \<Rightarrow> None
                | Some (j, t) \<Rightarrow> map_option (\<lambda>(js, u). (j # js, u)) (dec_list n t)))"
| "dec_members 0 s = None"
| "dec_members (Suc n) s =
     (case s of
        [] \<Rightarrow> None
      | c # r \<Rightarrow>
          if c = CHR ''}'' then Some ([], r)
          else (case dec_str r of
                  None \<Rightarrow> None
                | Some (k, t) \<Rightarrow>
                    (case dec_json n t of
                       None \<Rightarrow> None
                     | Some (j, u) \<Rightarrow> map_option (\<lambda>(ms, v). ((k, j) # ms, v)) (dec_members n u))))"

definition read_json :: "string \<Rightarrow> json option" where
  "read_json s = (case dec_json (Suc (length s)) s of Some (j, []) \<Rightarrow> Some j | _ \<Rightarrow> None)"

lemma dec_enc_str [simp]: "dec_str (enc_str s @ r) = Some (s, r)"
  by (induction s) (simp_all add: enc_str_def)

lemma enc_json_Cons: "\<exists>c r. enc_json j = c # r"
  by (cases j) auto

lemma dec_enc_list:
  assumes "\<And>j n r. j \<in> set js \<Longrightarrow> length (enc_json j @ r) \<le> n \<Longrightarrow> dec_json n (enc_json j @ r) = Some (j, r)"
    and "length (concat (map (\<lambda>j. CHR '','' # enc_json j) js) @ '']'' @ r) \<le> n"
  shows "dec_list n (concat (map (\<lambda>j. CHR '','' # enc_json j) js) @ '']'' @ r) = Some (js, r)"
  using assms
proof (induction js arbitrary: n)
  case Nil
  then show ?case by (cases n) simp_all
next
  case (Cons j js)
  from Cons.prems(2) obtain m where n: "n = Suc m" by (cases n) auto
  let ?rest = "concat (map (\<lambda>j. CHR '','' # enc_json j) js) @ '']'' @ r"
  have "dec_json m (enc_json j @ ?rest) = Some (j, ?rest)"
    using Cons.prems n by (intro Cons.prems(1)) auto
  moreover have "dec_list m ?rest = Some (js, r)"
    using Cons.prems n by (intro Cons.IH) auto
  ultimately show ?case by (simp add: n)
qed

lemma dec_enc_members:
  assumes "\<And>m n r. m \<in> set ms \<Longrightarrow> length (enc_json (snd m) @ r) \<le> n \<Longrightarrow>
              dec_json n (enc_json (snd m) @ r) = Some (snd m, r)"
    and "length (concat (map (\<lambda>m. CHR '','' # enc_str (fst m) @ enc_json (snd m)) ms) @ ''}'' @ r) \<le> n"
  shows "dec_members n (concat (map (\<lambda>m. CHR '','' # enc_str (fst m) @ enc_json (snd m)) ms) @ ''}'' @ r)
           = Some (ms, r)"
  using assms
proof (induction ms arbitrary: n)
  case Nil
  then show ?case by (cases n) simp_all
next
  case (Cons a ms)
  from Cons.prems(2) obtain m where n: "n = Suc m" by (cases n) auto
  let ?rest = "concat (map (\<lambda>m. CHR '','' # enc_str (fst m) @ enc_json (snd m)) ms) @ ''}'' @ r"
  have "dec_json m (enc_json (snd a) @ ?rest) = Some (snd a, ?rest)"
    using Cons.prems n by (intro Cons.prems(1)) auto
  moreover have "dec_members m ?rest = Some (ms, r)"
    using Cons.prems n by (intro Cons.IH) auto
  ultimately show ?case by (simp add: n)
qed

lemma dec_enc_json: "length (enc_json j @ r) \<le> n \<Longrightarrow> dec_json n (enc_json j @ r) = Some (j, r)"
proof (induction j arbitrary: n r)
  case (JArray js)
  then obtain m where n: "n = Suc m" by (cases n) auto
  have "dec_list m (concat (map (\<lambda>j. CHR '','' # enc_json j) js) @ '']'' @ r) = Some (js, r)"
    using JArray n by (intro dec_enc_list) auto
  then show ?case by (simp add: n)
next
  case (JObject ms)
  then obtain m where n: "n = Suc m" by (cases n) auto
  have "dec_members m (concat (map (\<lambda>m. CHR '','' # enc_str (fst m) @ enc_json (snd m)) ms) @ ''}'' @ r)
      = Some (ms, r)"
    using JObject n by (intro dec_enc_members) (auto simp: snds.simps)
  then show ?case by (simp add: n)
next
  case (JInt i)
  then show ?case by (cases n) (auto simp: digits_val_nat_to_dec)
next
  case (JBool b)
  then show ?case by (cases n; cases b) simp_all
qed (case_tac [!] n, simp_all)

theorem read_enc_json: "read_json (enc_json j) = Some j"
  using dec_enc_json [of j "[]" "Suc (length (enc_json j))"] by (simp add: read_json_def)

end
