(* ===== verification/Calm.thy ===== *)
theory Calm
  imports World JsonCodec
begin

section \<open>A well-behaved environment\<close>

text \<open>
  One concrete environment the theorems with hypotheses about the outside world are applied to: an
  operating system on which every call succeeds (unmounting only where something is mounted), the
  text format of JsonCodec and a proxy that accepts every command.
\<close>

definition ok_reply :: string where
  "ok_reply = enc_json (JObject [(''success'', JBool True)])"

definition calm_env :: "(string \<Rightarrow> fkind option) \<Rightarrow> env" where
  "calm_env st = \<lparr>os_ok = (\<lambda>w ev. case ev of EvUmount d \<Rightarrow> d \<in> set (w_mounts w) | _ \<Rightarrow> True),
     os_stat = (\<lambda>_. st), os_realpath = (\<lambda>_ p. Some p), os_fd = (\<lambda>_. 3), os_pid = (\<lambda>_. 100),
     os_timestamp = (\<lambda>_. Some ''2016-01-01T00:00:00Z''), os_isatty = False, os_euid = 0,
     json_to_data = enc_json, json_load = read_json,
     proxy_reply = (\<lambda>_ _. ok_reply), proxy_oob_fd = (\<lambda>_ _. None),
     hook_outcome = (\<lambda>_ _. HookExit 0), passwd_entries = (\<lambda>_ _. None),
     child_err_bytes = (\<lambda>_. 0)\<rparr>"

definition empty_world :: world where
  "empty_world = \<lparr>w_files = (\<lambda>_. None), w_mounts = [], w_trace = []\<rparr>"

lemma calm_json: "json_glib_contract (calm_env st)"
  by (simp add: json_glib_contract_def calm_env_def read_enc_json)

lemma calm_umount: "umount_contract (calm_env st)"
  by (auto simp: umount_contract_def calm_env_def)

end
