(* ===== verification/Mount.thy ===== *)
theory Mount
  imports PodSpec Calm "HOL-Library.Multiset"
begin

section \<open>Mounting and unmounting (src/mount.c)\<close>

text \<open>
  The mounts of a configuration are made below the workload directory on \<^verbatim>\<open>create\<close>, written to
  the state file and undone on \<^verbatim>\<open>delete\<close>.  The C code updates the mount structures in place; the
  model returns the updated list together with the outcome and the world.
\<close>

definition ignore_dir :: "string \<Rightarrow> mntent" where
  "ignore_dir d = zero_mntent\<lparr>mnt_dir := Some d\<rparr>"

definition cc_oci_mounts_to_ignore :: "mntent list" where
  "cc_oci_mounts_to_ignore =
     map ignore_dir [''/proc'', ''/dev'', ''/dev/pts'', ''/dev/shm'', ''/dev/mqueue'', ''/sys'',
                     ''/sys/fs/cgroup'']"

definition cc_oci_found_str_mntent_match :: "gchars \<Rightarrow> gchars \<Rightarrow> bool" where
  "cc_oci_found_str_mntent_match pat elem \<longleftrightarrow> pat \<noteq> None \<and> pat = elem"

definition cc_oci_mount_ignore :: "cc_oci_mount \<Rightarrow> bool \<times> cc_oci_mount" where
  "cc_oci_mount_ignore m =
     (if list_ex (\<lambda>me.
           cc_oci_found_str_mntent_match (mnt_fsname me) (mnt_fsname (mount_mnt m))
         \<or> cc_oci_found_str_mntent_match (mnt_dir me) (mnt_dir (mount_mnt m))
         \<or> cc_oci_found_str_mntent_match (mnt_type me) (mnt_type (mount_mnt m)))
         cc_oci_mounts_to_ignore
      then (True, m\<lparr>ignore_mount := True\<rparr>)
      else (False, m))"

definition cc_oci_perform_mount :: "env \<Rightarrow> cc_oci_mount \<Rightarrow> bool \<Rightarrow> world \<Rightarrow> bool \<times> world" where
  "cc_oci_perform_mount E m dry_run w =
     (if dry_run then (True, w)
      else (case mnt_fsname (mount_mnt m) of
          None \<Rightarrow> (False, w)
        | Some src \<Rightarrow>
            (case os_stat E w src of
               None \<Rightarrow> (False, w)
             | Some kind \<Rightarrow>
                 (let (created, w1) =
                        (if kind = FReg then sys E (EvCreat (mount_dest m)) w else (True, w))
                  in if \<not> created then (False, w1)
                     else sys E (EvMount src (mount_dest m) (mnt_type (mount_mnt m))
                            (mount_flags m) (mnt_opts (mount_mnt m))) w1))))"

text \<open>
  The do-while loop of \<^verbatim>\<open>cc_oci_handle_mounts\<close> that cuts components off until a directory exists.
  The slash of the last cut is restored, so the result is the topmost directory that is missing.
\<close>

function find_created :: "(string \<Rightarrow> bool) \<Rightarrow> string \<Rightarrow> gchars" where
  "find_created is_dir p =
     (case before_last (CHR ''/'') p of
        None \<Rightarrow> None
      | Some q \<Rightarrow> if is_dir q then Some p else find_created is_dir q)"
  by pat_completeness auto
termination
  by (relation "measure (\<lambda>(_, p). length p)") (auto dest: before_last_shorter)

declare find_created.simps [simp del]

definition is_directory :: "env \<Rightarrow> world \<Rightarrow> string \<Rightarrow> bool" where
  "is_directory E w p \<longleftrightarrow> os_stat E w p = Some FDir"

text \<open>
  One iteration of the loop.  The flag says whether the loop goes on: an ignored mount and one
  whose source does not exist are skipped.
\<close>

definition handle_mount ::
  "env \<Rightarrow> bool \<Rightarrow> string \<Rightarrow> cc_oci_mount \<Rightarrow> world \<Rightarrow> (bool \<times> cc_oci_mount \<times> world) c_result" where
  "handle_mount E dry_run workload_dir m0 w =
     (let (ignored, m1) = cc_oci_mount_ignore m0
      in if ignored then Inr (True, m1, w)
         else
           let m = m1\<lparr>mount_dest :=
                 buf_copy PATH_MAX (workload_dir @ fmt_s (mnt_dir (mount_mnt m1)))\<rparr>
           in (case mnt_fsname (mount_mnt m) of
                 None \<Rightarrow> Inl NullDeref
               | Some src \<Rightarrow>
                   if prefix ''/'' src \<and> os_stat E w src = None then Inr (True, m, w)
                   else
                     let dirname_dest =
                           (if prefix ''/'' src \<and> os_stat E w src \<noteq> Some FDir
                            then g_path_get_dirname (mount_dest m) else mount_dest m);
                         m' = (if is_directory E w dirname_dest then m
                               else case find_created (is_directory E w) dirname_dest of
                                      None \<Rightarrow> m
                                    | Some d \<Rightarrow> m\<lparr>directory_created := Some d\<rparr>);
                         (made, w1) = sys E (EvMkdirP dirname_dest) w
                     in if \<not> made then Inr (False, m', w1)
                        else let (ok, w2) = cc_oci_perform_mount E m' dry_run w1
                             in Inr (ok, m', w2)))"

fun handle_mounts_loop ::
  "env \<Rightarrow> bool \<Rightarrow> string \<Rightarrow> cc_oci_mount list \<Rightarrow> world \<Rightarrow> (bool \<times> cc_oci_mount list \<times> world) c_result" where
  "handle_mounts_loop E dry_run wd [] w = Inr (True, [], w)"
| "handle_mounts_loop E dry_run wd (m # ms) w =
     c_bind (handle_mount E dry_run wd m w) (\<lambda>(go, m', w1).
       if \<not> go then Inr (False, m' # ms, w1)
       else c_bind (handle_mounts_loop E dry_run wd ms w1) (\<lambda>(ok, ms', w2).
              Inr (ok, m' # ms', w2)))"

definition cc_oci_handle_mounts ::
  "env \<Rightarrow> cc_oci_config \<Rightarrow> world \<Rightarrow> (bool \<times> cc_oci_config \<times> world) c_result" where
  "cc_oci_handle_mounts E config w =
     c_bind (handle_mounts_loop E (cfg_dry_run_mode config) (cc_oci_get_workload_dir config)
               (cfg_mounts config) w)
       (\<lambda>(ok, ms, w'). Inr (ok, upd_mounts (\<lambda>_. ms) config, w'))"

definition cc_oci_perform_unmount :: "env \<Rightarrow> cc_oci_mount \<Rightarrow> world \<Rightarrow> bool \<times> world" where
  "cc_oci_perform_unmount E m w = sys E (EvUmount (mount_dest m)) w"

fun unmount_loop :: "env \<Rightarrow> cc_oci_mount list \<Rightarrow> world \<Rightarrow> bool \<times> world" where
  "unmount_loop E [] w = (True, w)"
| "unmount_loop E (m # ms) w =
     (if ignore_mount m then unmount_loop E ms w
      else let (ok, w1) = cc_oci_perform_unmount E m w
           in if ok then unmount_loop E ms w1 else (False, w1))"

fun remove_dirs_loop :: "env \<Rightarrow> cc_oci_mount list \<Rightarrow> world \<Rightarrow> world" where
  "remove_dirs_loop E [] w = w"
| "remove_dirs_loop E (m # ms) w =
     (if ignore_mount m then remove_dirs_loop E ms w
      else (case directory_created m of
              None \<Rightarrow> remove_dirs_loop E ms w
            | Some d \<Rightarrow> remove_dirs_loop E ms (snd (cc_oci_rm_rf E d w))))"

definition cc_oci_handle_unmounts :: "env \<Rightarrow> cc_oci_config \<Rightarrow> world \<Rightarrow> bool \<times> world" where
  "cc_oci_handle_unmounts E config w =
     (let (ok, w1) = unmount_loop E (cfg_mounts config) w
      in if \<not> ok then (False, w1) else (True, remove_dirs_loop E (cfg_mounts config) w1))"

definition mount_members :: "cc_oci_mount \<Rightarrow> members" where
  "mount_members m =
     (''destination'', JString (mount_dest m))
     # (case directory_created m of None \<Rightarrow> [] | Some d \<Rightarrow> [(''directory_created'', JString d)])"

definition cc_oci_mounts_to_json :: "cc_oci_config \<Rightarrow> json list" where
  "cc_oci_mounts_to_json config =
     map (\<lambda>m. JObject (mk_object (mount_members m)))
       (filter (\<lambda>m. \<not> ignore_mount m) (cfg_mounts config))"

subsection \<open>Unmounting as a sequence of events\<close>

definition active :: "cc_oci_mount list \<Rightarrow> cc_oci_mount list" where
  "active ms = filter (\<lambda>m. \<not> ignore_mount m) ms"

lemma unmount_loop_events:
  "unmount_loop E ms w = run_events E (map (\<lambda>m. EvUmount (mount_dest m)) (active ms)) w"
  by (induction ms arbitrary: w)
    (auto simp: active_def cc_oci_perform_unmount_def Let_def split: prod.splits)

lemma rm_rf_mounts: "w_mounts (snd (cc_oci_rm_rf E d w)) = w_mounts w"
  by (auto simp: cc_oci_rm_rf_def sys_def Let_def)

lemma remove_dirs_mounts: "w_mounts (remove_dirs_loop E ms w) = w_mounts w"
  by (induction ms arbitrary: w) (auto simp: rm_rf_mounts split: option.splits)

lemma sys_umount_mounts: "sys E (EvUmount d) w = (True, w') \<Longrightarrow> w_mounts w' = remove1 d (w_mounts w)"
  by (auto simp: sys_def Let_def split: if_splits)

lemma run_umounts:
  "run_events E (map (\<lambda>m. EvUmount (f m)) ms) w = (True, w') \<Longrightarrow>
   w_mounts w' = fold remove1 (map f ms) (w_mounts w)"
proof (induction ms arbitrary: w)
  case (Cons m ms)
  obtain ok w1 where s: "sys E (EvUmount (f m)) w = (ok, w1)" by fastforce
  with Cons.prems have "ok" "run_events E (map (\<lambda>m. EvUmount (f m)) ms) w1 = (True, w')"
    by (auto split: if_splits)
  with Cons.IH [of w1] s sys_umount_mounts show ?case by fastforce
qed simp

lemma fold_remove1_prefix: "mset xs = mset ds \<Longrightarrow> fold remove1 ds (xs @ ys) = ys"
proof (induction ds arbitrary: xs)
  case (Cons d ds)
  then have "d \<in> set xs" by (metis list.set_intros(1) set_mset_mset)
  then have "fold remove1 (d # ds) (xs @ ys) = fold remove1 ds (remove1 d xs @ ys)"
    by (simp add: remove1_append)
  also have "mset (remove1 d xs) = mset ds" using Cons.prems by simp
  ultimately show ?case using Cons.IH [of "remove1 d xs"] by metis
qed simp

subsection \<open>What mounting does to the mount table\<close>

definition mounted :: "env \<Rightarrow> world \<Rightarrow> cc_oci_mount \<Rightarrow> bool" where
  "mounted E w m \<longleftrightarrow> (case mnt_fsname (mount_mnt m) of
      None \<Rightarrow> False
    | Some src \<Rightarrow> \<not> (prefix ''/'' src \<and> os_stat E w src = None))"

lemma sys_mkdir_mounts: "sys E (EvMkdirP d) w = (ok, w') \<Longrightarrow> w_mounts w' = w_mounts w"
  by (auto simp: sys_def Let_def)

lemma perform_mount_mounts:
  "cc_oci_perform_mount E m False w = (True, w') \<Longrightarrow> w_mounts w' = mount_dest m # w_mounts w"
  by (auto simp: cc_oci_perform_mount_def sys_def Let_def split: option.splits if_splits)

lemma ignore_flag:
  "cc_oci_mount_ignore m = (i, m') \<Longrightarrow> \<not> ignore_mount m \<Longrightarrow> ignore_mount m' = i \<and> mount_mnt m' = mount_mnt m"
  by (auto simp: cc_oci_mount_ignore_def split: if_splits)

lemma handle_mount_mounts:
  assumes "handle_mount E False wd m w = Inr (True, m', w')" and "\<not> ignore_mount m"
    and "fst (cc_oci_mount_ignore m) \<or> mounted E w m"
  shows "w_mounts w' = (if ignore_mount m' then [] else [mount_dest m']) @ w_mounts w"
proof -
  obtain i m1 where ig: "cc_oci_mount_ignore m = (i, m1)" by fastforce
  show ?thesis
    using assms ignore_flag [OF ig assms(2)] ig
    by (auto simp: handle_mount_def Let_def mounted_def
        split: if_splits option.splits prod.splits
        dest!: perform_mount_mounts sys_mkdir_mounts)
qed

lemma handle_mounts_loop_mounts:
  assumes "handle_mounts_loop E False wd ms w = Inr (True, ms', w')"
    and "\<forall>m \<in> set ms. \<not> ignore_mount m"
    and "\<forall>m \<in> set ms. \<forall>w. fst (cc_oci_mount_ignore m) \<or> mounted E w m"
  shows "w_mounts w' = rev (map mount_dest (active ms')) @ w_mounts w"
  using assms
proof (induction ms arbitrary: w ms')
  case (Cons m ms)
  from Cons.prems(1) obtain m1 w1 ms1 where
    one: "handle_mount E False wd m w = Inr (True, m1, w1)" and
    rest: "handle_mounts_loop E False wd ms w1 = Inr (True, ms1, w')" and ms': "ms' = m1 # ms1"
    by (auto simp: c_bind_Inr split: if_splits)
  have "w_mounts w' = rev (map mount_dest (active ms1)) @ w_mounts w1"
    using Cons.IH [OF rest] Cons.prems by simp
  moreover have "w_mounts w1 = (if ignore_mount m1 then [] else [mount_dest m1]) @ w_mounts w"
    using handle_mount_mounts [OF one] Cons.prems by simp
  ultimately show ?case by (simp add: ms' active_def)
qed (simp add: active_def)

subsection \<open>Properties\<close>

text \<open>
  C9. Unmounting undoes mounting: when every mount that is not on the ignore list was made and
  all unmounts succeed, the mount table is the one before \<^verbatim>\<open>cc_oci_handle_mounts\<close>, whatever
  happened to the rest of the world in between.
\<close>

theorem mount_unmount_balanced:
  assumes "cc_oci_handle_mounts E config w = Inr (True, config', w1)"
    and "\<not> cfg_dry_run_mode config"
    and "\<forall>m \<in> set (cfg_mounts config). \<not> ignore_mount m"
    and "\<forall>m \<in> set (cfg_mounts config). \<forall>w. fst (cc_oci_mount_ignore m) \<or> mounted E w m"
    and "w_mounts w2 = w_mounts w1"
    and "cc_oci_handle_unmounts E config' w2 = (True, w3)"
  shows "w_mounts w3 = w_mounts w"
proof -
  from assms(1,2) obtain ms where
    mounts: "handle_mounts_loop E False (cc_oci_get_workload_dir config) (cfg_mounts config) w
       = Inr (True, ms, w1)" and config': "cfg_mounts config' = ms"
    by (auto simp: cc_oci_handle_mounts_def c_bind_Inr)
  from assms(6) config' obtain wu where
    "run_events E (map (\<lambda>m. EvUmount (mount_dest m)) (active ms)) w2 = (True, wu)"
    "w_mounts w3 = w_mounts wu"
    by (auto simp: cc_oci_handle_unmounts_def unmount_loop_events remove_dirs_mounts
        split: prod.splits if_splits)
  then have "w_mounts w3 = fold remove1 (map mount_dest (active ms)) (w_mounts w1)"
    using run_umounts assms(5) by metis
  moreover have "w_mounts w1 = rev (map mount_dest (active ms)) @ w_mounts w"
    using handle_mounts_loop_mounts [OF mounts assms(3,4)] .
  ultimately show ?thesis
    by (simp add: fold_remove1_prefix)
qed

definition sample_mount :: cc_oci_mount where
  "sample_mount = zero_mount\<lparr>mount_mnt := zero_mntent\<lparr>mnt_dir := Some ''/data'',
     mnt_fsname := Some ''/srv'', mnt_type := Some ''bind''\<rparr>\<rparr>"

definition sample_mount_config :: cc_oci_config where
  "sample_mount_config = upd_mounts (\<lambda>_. [sample_mount])
     (cfg_oci_update (oci_root_update (\<lambda>r. r\<lparr>root_path := ''/root''\<rparr>)) zero_config)"

text \<open>The kernel that has the directories \<^verbatim>\<open>/srv\<close> and \<^verbatim>\<open>/root\<close>, and what the sample does there.\<close>

definition dirs_env :: env where
  "dirs_env = calm_env (\<lambda>p. if p = ''/srv'' \<or> p = ''/root'' then Some FDir else None)"

lemma sample_mount_run:
  "case cc_oci_handle_mounts dirs_env sample_mount_config empty_world of
     Inl _ \<Rightarrow> False
   | Inr (ok, c, w1) \<Rightarrow>
       ok \<and> w_mounts w1 = [''/root/data''] \<and> directory_created (hd (cfg_mounts c)) = Some ''/root/data''
       \<and> fst (cc_oci_handle_unmounts dirs_env c w1)"
  by code_simp

theorem mount_unmount_balanced_witness:
  "\<exists>c w1 w3. cc_oci_handle_mounts dirs_env sample_mount_config empty_world = Inr (True, c, w1)
     \<and> w_mounts w1 = [''/root/data'']
     \<and> cc_oci_handle_unmounts dirs_env c w1 = (True, w3) \<and> w_mounts w3 = []"
proof -
  obtain c w1 where run: "cc_oci_handle_mounts dirs_env sample_mount_config empty_world = Inr (True, c, w1)"
    and m: "w_mounts w1 = [''/root/data'']" and u: "fst (cc_oci_handle_unmounts dirs_env c w1)"
    using sample_mount_run by (auto split: sum.splits)
  obtain w3 where u3: "cc_oci_handle_unmounts dirs_env c w1 = (True, w3)"
    using u by (cases "cc_oci_handle_unmounts dirs_env c w1") auto
  have "\<not> cfg_dry_run_mode sample_mount_config" "cfg_mounts sample_mount_config = [sample_mount]"
    "\<not> ignore_mount sample_mount" "mounted dirs_env w sample_mount" for w
    by (simp_all add: sample_mount_config_def sample_mount_def zero_defs mounted_def dirs_env_def calm_env_def)
  with run u3 m show ?thesis
    using mount_unmount_balanced [OF run, of w1 w3] by (simp add: empty_world_def)
qed

text \<open>
  C37. \<^verbatim>\<open>directory_created\<close>, the directory that is removed again after unmounting, is an ancestor of the
  mount point that does not exist while its own parent does: the topmost missing directory, so
  removing it removes nothing that was there before.
\<close>

theorem created_is_topmost_missing:
  assumes "find_created is_dir p = Some d" and "\<not> is_dir p"
  shows "prefix d p \<and> \<not> is_dir d \<and> (\<exists>q. before_last (CHR ''/'') d = Some q \<and> is_dir q)"
  using assms
proof (induction is_dir p rule: find_created.induct)
  case (1 is_dir p)
  from "1.prems"(1) obtain q where q: "before_last (CHR ''/'') p = Some q"
    by (subst (asm) find_created.simps) (auto split: option.splits)
  then have pq: "prefix q p"
    using before_last_prefix [OF q] by (auto simp: prefix_def)
  show ?case
  proof (cases "is_dir q")
    case True
    with "1.prems" q show ?thesis
      by (subst (asm) find_created.simps) auto
  next
    case False
    with "1.prems" q have "find_created is_dir q = Some d"
      by (subst (asm) find_created.simps) auto
    from "1.IH" [OF q False this False] pq show ?thesis
      by (auto intro: prefix_order.trans)
  qed
qed

theorem created_is_topmost_missing_witness:
  "prefix ''/w/a'' ''/w/a/b'' \<and> find_created (\<lambda>p. p = ''/w'') ''/w/a/b'' = Some ''/w/a''"
proof -
  have run: "find_created (\<lambda>p. p = ''/w'') ''/w/a/b'' = Some ''/w/a''"
    by code_simp
  show ?thesis
    using created_is_topmost_missing [OF run] run by simp
qed

text \<open>
  C38. A mount whose source does not exist is skipped but not marked as ignored: the runtime
  reports success, records the destination and the later unmount of it fails, because
  nothing is mounted there.
\<close>

theorem skipped_mount_fails_unmount:
  assumes "umount_contract E"
    and "cfg_mounts config = [m]" and "mnt_fsname (mount_mnt m) = Some (CHR ''/'' # src)"
    and "os_stat E w (CHR ''/'' # src) = None"
    and "\<not> ignore_mount m" and "\<not> fst (cc_oci_mount_ignore m)" and "w_mounts w = []"
  shows "\<exists>config'. cc_oci_handle_mounts E config w = Inr (True, config', w)
           \<and> length (cc_oci_mounts_to_json config') = 1
           \<and> \<not> fst (cc_oci_handle_unmounts E config' w)"
proof -
  obtain m1 where ig: "cc_oci_mount_ignore m = (False, m1)"
    using assms(6) by (cases "cc_oci_mount_ignore m") auto
  have same: "\<not> ignore_mount m1" "mount_mnt m1 = mount_mnt m"
    using ignore_flag [OF ig assms(5)] by auto
  define m2 where "m2 = m1\<lparr>mount_dest :=
    buf_copy PATH_MAX (cc_oci_get_workload_dir config @ fmt_s (mnt_dir (mount_mnt m1)))\<rparr>"
  have "cc_oci_handle_mounts E config w = Inr (True, upd_mounts (\<lambda>_. [m2]) config, w)"
    using assms(2-4) same
    by (simp add: cc_oci_handle_mounts_def handle_mount_def ig Let_def m2_def)
  moreover have "\<not> ignore_mount m2" using same by (simp add: m2_def)
  moreover have "\<not> os_ok E w (EvUmount (mount_dest m2))"
    using assms(1,7) unfolding umount_contract_def by (metis empty_iff list.set(1))
  then have "\<not> fst (cc_oci_handle_unmounts E (upd_mounts (\<lambda>_. [m2]) config) w)"
    using \<open>\<not> ignore_mount m2\<close>
    by (simp add: cc_oci_handle_unmounts_def cc_oci_perform_unmount_def sys_def Let_def)
  ultimately show ?thesis
    by (intro exI [of _ "upd_mounts (\<lambda>_. [m2]) config"]) (simp add: cc_oci_mounts_to_json_def)
qed

theorem skipped_mount_fails_unmount_witness:
  "\<exists>config'. cc_oci_handle_mounts (calm_env (\<lambda>_. None)) sample_mount_config empty_world
       = Inr (True, config', empty_world)
     \<and> length (cc_oci_mounts_to_json config') = 1
     \<and> \<not> fst (cc_oci_handle_unmounts (calm_env (\<lambda>_. None)) config' empty_world)"
proof (rule skipped_mount_fails_unmount [where m = sample_mount and src = "''srv''"])
  show "umount_contract (calm_env (\<lambda>_. None))"
    by (auto simp: umount_contract_def calm_env_def)
  show "\<not> fst (cc_oci_mount_ignore sample_mount)"
    by code_simp
qed (simp_all add: sample_mount_config_def sample_mount_def zero_defs calm_env_def empty_world_def)

end
