(* ===== verification/State.thy ===== *)
theory State
  imports SpecProcess Mount
begin

section \<open>The state file (src/state.c, src/annotation.c)\<close>

text \<open>
  The container's state is written as a JSON object when it is created and read back by every
  later command.  Reading walks the tree of the file with a table of handlers; each handler
  counts the sub-elements it accepted and the file is refused unless every count reaches
  what the table asks for.  The static counters of the table, reset before each read, are
  the function \<open>cnt\<close> of the fold.
\<close>

subsection \<open>Status names\<close>

definition oci_status_map :: "(oci_status \<times> string) list" where
  "oci_status_map =
     [(OCI_STATUS_CREATED, ''created''), (OCI_STATUS_RUNNING, ''running''),
      (OCI_STATUS_PAUSED, ''paused''), (OCI_STATUS_STOPPED, ''stopped''),
      (OCI_STATUS_STOPPING, ''stopping'')]"

definition cc_oci_status_to_str :: "oci_status \<Rightarrow> gchars" where
  "cc_oci_status_to_str s = table_name oci_status_map s"

definition cc_oci_str_to_status :: "gchars \<Rightarrow> oci_status" where
  "cc_oci_str_to_status str =
     (case str of
        None \<Rightarrow> OCI_STATUS_INVALID
      | Some s \<Rightarrow> (case table_num oci_status_map s of None \<Rightarrow> OCI_STATUS_INVALID | Some n \<Rightarrow> n))"

definition cc_oci_status_get :: "cc_oci_config \<Rightarrow> gchars" where
  "cc_oci_status_get config = cc_oci_status_to_str (cfg_status config)"

definition cc_oci_status_length :: int where
  "cc_oci_status_length =
     fold (\<lambda>(_, name) mx. max (int (g_utf8_strlen name LINE_MAX)) mx) oci_status_map 0"

subsection \<open>Section handlers\<close>

type_synonym sacc = "oci_state \<times> nat"

definition update_subelements_and_strdup ::
  "((gchars \<Rightarrow> gchars) \<Rightarrow> oci_state \<Rightarrow> oci_state) \<Rightarrow> gnode \<Rightarrow> sacc \<Rightarrow> sacc c_result" where
  "update_subelements_and_strdup upd node acc =
     (case gdata node of
        None \<Rightarrow> Inr acc
      | Some s \<Rightarrow> Inr (upd (\<lambda>_. Some s) (fst acc), snd acc + 1))"

definition handle_state_ociVersion_section :: "gnode \<Rightarrow> sacc \<Rightarrow> sacc c_result" where
  "handle_state_ociVersion_section = update_subelements_and_strdup st_oci_version_update"

definition handle_state_id_section :: "gnode \<Rightarrow> sacc \<Rightarrow> sacc c_result" where
  "handle_state_id_section = update_subelements_and_strdup st_id_update"

definition handle_state_pid_section :: "gnode \<Rightarrow> sacc \<Rightarrow> sacc c_result" where
  "handle_state_pid_section node acc =
     (case gdata node of
        None \<Rightarrow> Inr acc
      | Some s \<Rightarrow>
          (let (v, converted) = strtol s
           in Inr ((fst acc)\<lparr>st_pid := wrap32s v\<rparr>, snd acc + (if converted then 1 else 0))))"

definition handle_state_bundlePath_section :: "gnode \<Rightarrow> sacc \<Rightarrow> sacc c_result" where
  "handle_state_bundlePath_section = update_subelements_and_strdup st_bundle_path_update"

definition handle_state_commsPath_section :: "gnode \<Rightarrow> sacc \<Rightarrow> sacc c_result" where
  "handle_state_commsPath_section = update_subelements_and_strdup st_comms_path_update"

definition handle_state_processPath_section :: "gnode \<Rightarrow> sacc \<Rightarrow> sacc c_result" where
  "handle_state_processPath_section = update_subelements_and_strdup st_procsock_path_update"

definition handle_state_status_section :: "gnode \<Rightarrow> sacc \<Rightarrow> sacc c_result" where
  "handle_state_status_section node acc =
     (case gdata node of
        None \<Rightarrow> Inr acc
      | Some s \<Rightarrow> Inr ((fst acc)\<lparr>st_status := cc_oci_str_to_status (Some s)\<rparr>, snd acc + 1))"

definition handle_state_created_section :: "gnode \<Rightarrow> sacc \<Rightarrow> sacc c_result" where
  "handle_state_created_section = update_subelements_and_strdup st_create_time_update"

text \<open>The guard the remaining handlers share: a name, and a first child with a value.\<close>

definition node_value :: "gnode \<Rightarrow> (string \<times> string) option" where
  "node_value node =
     (case (gdata node, gchildren node) of
        (Some name, c # _) \<Rightarrow> (case gdata c of None \<Rightarrow> None | Some v \<Rightarrow> Some (name, v))
      | _ \<Rightarrow> None)"

definition handle_state_mounts_section :: "gnode \<Rightarrow> sacc \<Rightarrow> sacc c_result" where
  "handle_state_mounts_section node acc =
     (case node_value node of
        None \<Rightarrow> Inr acc
      | Some (name, v) \<Rightarrow>
          let (st, n) = acc
          in if name = ''destination'' then
               Inr (st\<lparr>st_mounts := st_mounts st @ [zero_mount\<lparr>mount_dest := buf_copy PATH_MAX v\<rparr>]\<rparr>, n)
             else if name = ''directory_created'' then
               Inr (if st_mounts st = [] then st
                    else st\<lparr>st_mounts := butlast (st_mounts st)
                           @ [(last (st_mounts st))\<lparr>directory_created := Some v\<rparr>]\<rparr>, n)
             else Inr (st, n))"

definition handle_state_console_section :: "gnode \<Rightarrow> sacc \<Rightarrow> sacc c_result" where
  "handle_state_console_section node acc =
     (case node_value node of
        None \<Rightarrow> Inr acc
      | Some (name, v) \<Rightarrow>
          if name = ''path'' then Inr ((fst acc)\<lparr>st_console := Some v\<rparr>, snd acc + 1) else Inr acc)"

definition handle_state_vm_section :: "gnode \<Rightarrow> sacc \<Rightarrow> sacc c_result" where
  "handle_state_vm_section node acc =
     (case node_value node of
        None \<Rightarrow> Inr acc
      | Some (name, v) \<Rightarrow>
          let (st, n) = acc
          in (case st_vm st of
                None \<Rightarrow> Inl AssertFail
              | Some vm \<Rightarrow>
                  if name = ''workload_path'' then
                    Inr (st\<lparr>st_vm := Some (vm\<lparr>vm_workload_path := buf_copy PATH_MAX v\<rparr>)\<rparr>, n + 1)
                  else if name = ''hypervisor_path'' then
                    Inr (st\<lparr>st_vm := Some (vm\<lparr>vm_hypervisor_path := buf_copy PATH_MAX v\<rparr>)\<rparr>, n + 1)
                  else if name = ''kernel_path'' then
                    Inr (st\<lparr>st_vm := Some (vm\<lparr>vm_kernel_path := buf_copy PATH_MAX v\<rparr>)\<rparr>, n + 1)
                  else if name = ''image_path'' then
                    Inr (st\<lparr>st_vm := Some (vm\<lparr>vm_image_path := buf_copy PATH_MAX v\<rparr>)\<rparr>, n + 1)
                  else if name = ''kernel_params'' then
                    Inr (st\<lparr>st_vm := Some (vm\<lparr>vm_kernel_params := Some v\<rparr>)\<rparr>, n + 1)
                  else if name = ''pid'' then
                    (let (p, converted) = strtol v
                     in Inr (st\<lparr>st_vm := Some (vm\<lparr>vm_pid := wrap32s p\<rparr>)\<rparr>,
                             n + (if converted then 1 else 0)))
                  else Inr (st, n)))"

definition handle_state_proxy_section :: "gnode \<Rightarrow> sacc \<Rightarrow> sacc c_result" where
  "handle_state_proxy_section node acc =
     (case node_value node of
        None \<Rightarrow> Inr acc
      | Some (name, v) \<Rightarrow>
          let (st, n) = acc
          in (case st_proxy st of
                None \<Rightarrow> Inl AssertFail
              | Some proxy \<Rightarrow>
                  if name = ''ctlSocket'' then
                    Inr (st\<lparr>st_proxy := Some (proxy\<lparr>agent_ctl_socket := Some v\<rparr>)\<rparr>, n + 1)
                  else if name = ''ioSocket'' then
                    Inr (st\<lparr>st_proxy := Some (proxy\<lparr>agent_tty_socket := Some v\<rparr>)\<rparr>, n + 1)
                  else if name = ''consoleSocket'' then
                    Inr (st\<lparr>st_proxy := Some (proxy\<lparr>vm_console_socket := Some v\<rparr>)\<rparr>, n + 1)
                  else Inr (st, n)))"

definition handle_state_pod_section :: "gnode \<Rightarrow> sacc \<Rightarrow> sacc c_result" where
  "handle_state_pod_section node acc =
     (case node_value node of
        None \<Rightarrow> Inr acc
      | Some (name, v) \<Rightarrow>
          let (st, n) = acc;
              pod = (case st_pod st of None \<Rightarrow> zero_pod | Some p \<Rightarrow> p)
          in if name = ''sandbox'' then
               Inr (st\<lparr>st_pod := Some (pod\<lparr>pod_sandbox := (v = ''true'')\<rparr>)\<rparr>, n + 1)
             else if name = ''sandbox_name'' then
               Inr (st\<lparr>st_pod := Some (pod\<lparr>pod_sandbox_name := Some v\<rparr>)\<rparr>, n + 1)
             else Inr (st\<lparr>st_pod := Some pod\<rparr>, n))"

definition handle_state_annotations_section :: "gnode \<Rightarrow> sacc \<Rightarrow> sacc c_result" where
  "handle_state_annotations_section node acc =
     (case node_value node of
        None \<Rightarrow> Inr acc
      | Some (name, v) \<Rightarrow>
          Inr ((fst acc)\<lparr>st_annotations :=
                 \<lparr>ann_key = Some name, ann_value = Some v\<rparr> # st_annotations (fst acc)\<rparr>, snd acc))"

definition handle_state_process_section :: "gnode \<Rightarrow> oci_state \<Rightarrow> oci_state c_result" where
  "handle_state_process_section node st =
     c_bind (process_handle_section node zero_config) (\<lambda>(_, config).
       Inr (st\<lparr>st_process := Some (cfg_process config)\<rparr>))"

subsection \<open>Reading\<close>

definition state_handlers :: "(string \<times> (gnode \<Rightarrow> sacc \<Rightarrow> sacc c_result) \<times> nat) list" where
  "state_handlers =
     [(''ociVersion'', handle_state_ociVersion_section, 1),
      (''id'', handle_state_id_section, 1),
      (''pid'', handle_state_pid_section, 1),
      (''bundlePath'', handle_state_bundlePath_section, 1),
      (''commsPath'', handle_state_commsPath_section, 1),
      (''processPath'', handle_state_processPath_section, 1),
      (''status'', handle_state_status_section, 1),
      (''created'', handle_state_created_section, 1),
      (''mounts'', handle_state_mounts_section, 0),
      (''console'', handle_state_console_section, 0),
      (''vm'', handle_state_vm_section, 6),
      (''proxy'', handle_state_proxy_section, 2),
      (''pod'', handle_state_pod_section, 0),
      (''annotations'', handle_state_annotations_section, 0)]"

type_synonym racc = "oci_state \<times> (string \<Rightarrow> nat)"

definition handle_state_sections :: "gnode \<Rightarrow> racc \<Rightarrow> racc c_result" where
  "handle_state_sections node acc =
     (case gdata node of
        None \<Rightarrow> Inr acc
      | Some name \<Rightarrow>
          let (st, cnt) = acc
          in (case map_of state_handlers name of
                Some (handle_section, _) \<Rightarrow>
                  c_bind (c_fold handle_section (gchildren node) (st, cnt name)) (\<lambda>(st', k).
                    Inr (st', cnt(name := k)))
              | None \<Rightarrow>
                  if name = ''process'' then
                    c_bind (handle_state_process_section node st) (\<lambda>st'. Inr (st', cnt))
                  else Inr (st, cnt)))"

definition cc_oci_state_file_read :: "env \<Rightarrow> gchars \<Rightarrow> world \<Rightarrow> oci_state option c_result" where
  "cc_oci_state_file_read E file w =
     (case cc_oci_json_parse E file w of
        None \<Rightarrow> Inr None
      | Some node \<Rightarrow>
          c_bind (c_fold handle_state_sections (gchildren node)
                    (zero_state\<lparr>st_vm := Some zero_vm, st_proxy := Some zero_proxy\<rparr>, \<lambda>_. 0))
            (\<lambda>(st, cnt).
               Inr (if list_all (\<lambda>(name, _, needed). needed \<le> cnt name) state_handlers
                    then Some st else None)))"

subsection \<open>Writing\<close>

definition cc_oci_state_file_get :: "cc_oci_config \<Rightarrow> bool \<times> cc_oci_config" where
  "cc_oci_state_file_get config =
     (if runtime_path (cfg_state config) = [] then (False, config)
      else (True, config\<lparr>cfg_state := (cfg_state config)\<lparr>state_file_path :=
              path_join (runtime_path (cfg_state config)) CC_OCI_STATE_FILE\<rparr>\<rparr>))"

definition cc_oci_state_file_exists :: "env \<Rightarrow> cc_oci_config \<Rightarrow> world \<Rightarrow> bool \<times> cc_oci_config" where
  "cc_oci_state_file_exists E config w =
     (let (got, config1) = cc_oci_runtime_path_get config
      in if \<not> got then (False, config1)
         else let (got2, config2) = cc_oci_state_file_get config1
              in if \<not> got2 then (False, config2)
                 else (os_stat E w (state_file_path (cfg_state config2)) \<noteq> None, config2))"

definition cc_oci_annotations_to_json :: "cc_oci_config \<Rightarrow> members" where
  "cc_oci_annotations_to_json config =
     foldl (\<lambda>ms a. case ann_key a of None \<Rightarrow> ms | Some k \<Rightarrow> json_object_set ms k (json_str (ann_value a)))
       [] (oci_annotations (cfg_oci config))"

definition or_empty :: "gchars \<Rightarrow> json" where
  "or_empty s = JString (case s of None \<Rightarrow> [] | Some t \<Rightarrow> t)"

definition vm_members :: "cc_oci_vm_cfg \<Rightarrow> members" where
  "vm_members vm =
     [(''pid'', JInt (wrap32u (vm_pid vm))),
      (''hypervisor_path'', JString (vm_hypervisor_path vm)),
      (''image_path'', JString (vm_image_path vm)),
      (''kernel_path'', JString (vm_kernel_path vm)),
      (''workload_path'', JString (vm_workload_path vm)),
      (''kernel_params'', or_empty (vm_kernel_params vm))]"

definition proxy_members :: "cc_proxy \<Rightarrow> members" where
  "proxy_members proxy =
     [(''ctlSocket'', or_empty (agent_ctl_socket proxy)),
      (''ioSocket'', or_empty (agent_tty_socket proxy)),
      (''consoleSocket'', or_empty (vm_console_socket proxy))]"

definition pod_members :: "cc_pod \<Rightarrow> members" where
  "pod_members pod =
     [(''sandbox'', JBool (pod_sandbox pod)), (''sandbox_name'', or_empty (pod_sandbox_name pod))]"

definition state_members ::
  "cc_oci_config \<Rightarrow> string \<Rightarrow> string \<Rightarrow> string \<Rightarrow> string \<Rightarrow> members \<Rightarrow> cc_oci_vm_cfg \<Rightarrow> cc_proxy \<Rightarrow> members" where
  "state_members config cid bundle_dir created stname process vm proxy =
     [(''ociVersion'', JString CC_OCI_SUPPORTED_SPEC_VERSION),
      (''id'', JString cid),
      (''pid'', JInt (wrap32u (workload_pid (cfg_state config)))),
      (''bundlePath'', JString bundle_dir),
      (''commsPath'', JString (comms_path (cfg_state config))),
      (''processPath'', JString (procsock_path (cfg_state config))),
      (''status'', JString stname),
      (''created'', JString created),
      (''mounts'', JArray (cc_oci_mounts_to_json config)),
      (''process'', JObject process),
      (''console'', (case cfg_console config of
                       None \<Rightarrow> JNull
                     | Some c \<Rightarrow> JObject (mk_object [(''path'', JString c)]))),
      (''vm'', JObject (mk_object (vm_members vm))),
      (''proxy'', JObject (mk_object (proxy_members proxy)))]
     @ (case cfg_pod config of None \<Rightarrow> [] | Some pod \<Rightarrow> [(''pod'', JObject (mk_object (pod_members pod)))])
     @ (if oci_annotations (cfg_oci config) = [] then []
        else [(''annotations'', JObject (cc_oci_annotations_to_json config))])"

text \<open>
  The guards in the order of the code; the configuration comes back with the path of the state
  file filled in.
\<close>

definition cc_oci_state_file_create ::
  "env \<Rightarrow> cc_oci_config \<Rightarrow> gchars \<Rightarrow> world \<Rightarrow> bool \<times> cc_oci_config \<times> world" where
  "cc_oci_state_file_create E config created_timestamp w =
     (case (created_timestamp, cfg_optarg_container_id config, cfg_bundle_path config) of
        (Some created, Some cid, Some bundle_dir) \<Rightarrow>
          if cid = [] \<or> runtime_path (cfg_state config) = [] \<or> comms_path (cfg_state config) = []
             \<or> procsock_path (cfg_state config) = []
          then (False, config, w)
          else (case (cfg_vm config, cfg_proxy config) of
                  (Some vm, Some proxy) \<Rightarrow>
                    (let (got, config1) = cc_oci_state_file_get config
                     in if \<not> got then (False, config1, w)
                        else (case cc_oci_status_get config1 of
                                None \<Rightarrow> (False, config1, w)
                              | Some stname \<Rightarrow>
                                  (case cc_oci_process_to_json (cfg_process config1) of
                                     None \<Rightarrow> (False, config1, w)
                                   | Some process \<Rightarrow>
                                       (let (ok, w1) = sys E
                                              (EvWriteFile (state_file_path (cfg_state config1))
                                                (json_to_data E (JObject (mk_object
                                                  (state_members config1 cid bundle_dir created stname
                                                     process vm proxy))))) w
                                        in (ok, config1, w1)))))
                | _ \<Rightarrow> (False, config, w))
      | _ \<Rightarrow> (False, config, w))"

definition cc_oci_state_file_delete :: "env \<Rightarrow> cc_oci_config \<Rightarrow> world \<Rightarrow> (bool \<times> world) c_result" where
  "cc_oci_state_file_delete E config w =
     (if state_file_path (cfg_state config) = [] then Inl AssertFail
      else Inr (sys E (EvUnlink (state_file_path (cfg_state config))) w))"

subsection \<open>What comes back\<close>

text \<open>The state a reader gets for a configuration: the specification of the state file.\<close>

definition mount_saved :: "cc_oci_mount \<Rightarrow> cc_oci_mount" where
  "mount_saved m = zero_mount\<lparr>mount_dest := mount_dest m, directory_created := directory_created m\<rparr>"

definition or_nul :: "gchars \<Rightarrow> gchars" where
  "or_nul s = Some (case s of None \<Rightarrow> [] | Some t \<Rightarrow> t)"

definition vm_saved :: "cc_oci_vm_cfg \<Rightarrow> cc_oci_vm_cfg" where
  "vm_saved vm = vm\<lparr>vm_kernel_params := or_nul (vm_kernel_params vm)\<rparr>"

definition proxy_saved :: "cc_proxy \<Rightarrow> cc_proxy" where
  "proxy_saved p = \<lparr>proxy_socket = None, agent_ctl_socket = or_nul (agent_ctl_socket p),
     agent_tty_socket = or_nul (agent_tty_socket p), vm_console_socket = or_nul (vm_console_socket p)\<rparr>"

definition pod_saved :: "cc_pod \<Rightarrow> cc_pod" where
  "pod_saved p = \<lparr>pod_sandbox = pod_sandbox p, pod_sandbox_name = or_nul (pod_sandbox_name p),
     pod_sandbox_workloads = []\<rparr>"

definition state_saved :: "cc_oci_config \<Rightarrow> string \<Rightarrow> oci_state" where
  "state_saved config created =
     \<lparr>st_oci_version = Some CC_OCI_SUPPORTED_SPEC_VERSION,
      st_id = cfg_optarg_container_id config,
      st_pid = workload_pid (cfg_state config),
      st_bundle_path = cfg_bundle_path config,
      st_comms_path = Some (comms_path (cfg_state config)),
      st_procsock_path = Some (procsock_path (cfg_state config)),
      st_status = cfg_status config,
      st_create_time = Some created,
      st_mounts = map mount_saved (active (cfg_mounts config)),
      st_annotations = rev (filter (\<lambda>a. ann_value a \<noteq> None) (oci_annotations (cfg_oci config))),
      st_console = cfg_console config,
      st_vm = map_option vm_saved (cfg_vm config),
      st_proxy = map_option proxy_saved (cfg_proxy config),
      st_pod = map_option pod_saved (cfg_pod config),
      st_process = Some (process_saved (cfg_process config))\<rparr>"

text \<open>
  The configurations the code can hold: numbers fit a C int, paths their buffers, annotations
  come from the members of a JSON object.
\<close>

definition state_wf :: "cc_oci_config \<Rightarrow> bool" where
  "state_wf config \<longleftrightarrow>
     is_gint (workload_pid (cfg_state config))
   \<and> (\<forall>m \<in> set (cfg_mounts config). length (mount_dest m) < PATH_MAX)
   \<and> process_wf (cfg_process config)
   \<and> (case cfg_vm config of None \<Rightarrow> True | Some vm \<Rightarrow>
        is_gint (vm_pid vm) \<and> length (vm_hypervisor_path vm) < PATH_MAX
      \<and> length (vm_image_path vm) < PATH_MAX \<and> length (vm_kernel_path vm) < PATH_MAX
      \<and> length (vm_workload_path vm) < PATH_MAX)
   \<and> list_all (\<lambda>a. ann_key a \<noteq> None) (oci_annotations (cfg_oci config))
   \<and> distinct (map ann_key (oci_annotations (cfg_oci config)))"

subsection \<open>The names of the status are a bijection\<close>

lemma oci_status_map_distinct: "distinct (map fst oci_status_map) \<and> distinct (map snd oci_status_map)"
  by code_simp

interpretation status_names: name_table "table_name oci_status_map" "table_num oci_status_map"
  using oci_status_map_distinct by (intro name_table_distinct) auto

lemma str_to_status_to_str: "cc_oci_status_to_str s = Some t \<Longrightarrow> cc_oci_str_to_status (Some t) = s"
  using status_names.of_to by (simp add: cc_oci_status_to_str_def cc_oci_str_to_status_def)

subsection \<open>One lemma per section of the file\<close>

text \<open>Sections that are a single string.\<close>

lemma section_string:
  assumes "map_of state_handlers name = Some (update_subelements_and_strdup upd, k)"
  shows "handle_state_sections (GNode (Some name) (cc_oci_json_parse_aux (JString s) False)) (st, cnt) =
         Inr (upd (\<lambda>_. Some s) st, cnt(name := cnt name + 1))"
  using assms
  by (simp add: handle_state_sections_def update_subelements_and_strdup_def cc_oci_json_string_def)

lemma strtol_gint_unsigned: "is_gint i \<Longrightarrow> strtol (int_to_dec (wrap32u i)) = (wrap32u i, True)"
  by (simp add: strtol_int_to_dec sat64_wrap32u)

lemma unsigned_small: "\<bar>wrap32u i\<bar> < 2 ^ 64"
  using wrap32u_range [of i] by (auto simp: abs_if)

lemma json_unsigned_string: "cc_oci_json_string (JInt (wrap32u i)) = int_to_dec (wrap32u i)"
  by (rule json_int_string [OF unsigned_small])

lemma section_pid:
  assumes "is_gint i"
  shows "handle_state_sections (GNode (Some ''pid'') (cc_oci_json_parse_aux (JInt (wrap32u i)) False)) (st, cnt) =
         Inr (st\<lparr>st_pid := i\<rparr>, cnt(''pid'' := cnt ''pid'' + 1))"
  using assms
  by (simp add: handle_state_sections_def state_handlers_def handle_state_pid_section_def
      json_unsigned_string strtol_gint_unsigned wrap32s_wrap32u wrap32s_id)

lemma section_status:
  assumes "cc_oci_status_to_str s = Some t"
  shows "handle_state_sections (GNode (Some ''status'') (cc_oci_json_parse_aux (JString t) False)) (st, cnt) =
         Inr (st\<lparr>st_status := s\<rparr>, cnt(''status'' := cnt ''status'' + 1))"
  using str_to_status_to_str [OF assms]
  by (simp add: handle_state_sections_def state_handlers_def handle_state_status_section_def
      cc_oci_json_string_def)

lemma section_console:
  "handle_state_sections (GNode (Some ''console'') (cc_oci_json_parse_aux JNull False)) (st, cnt) =
     Inr (st, cnt)"
  "handle_state_sections (GNode (Some ''console'')
       (cc_oci_json_parse_aux (JObject (mk_object [(''path'', JString c)])) False)) (st, cnt) =
     Inr (st\<lparr>st_console := Some c\<rparr>, cnt(''console'' := cnt ''console'' + 1))"
  by (simp_all add: handle_state_sections_def state_handlers_def handle_state_console_section_def
      mk_object_def node_value_def cc_oci_json_string_def)

lemma mounts_fold:
  assumes "\<forall>m \<in> set ms. length (mount_dest m) < PATH_MAX"
  shows "c_fold handle_state_mounts_section
           (cc_oci_json_parse_aux (JArray (map (\<lambda>m. JObject (mk_object (mount_members m))) ms)) False) (st, n) =
         Inr (st\<lparr>st_mounts := st_mounts st @ map mount_saved ms\<rparr>, n)"
  using assms
proof (induction ms arbitrary: st)
  case (Cons m ms)
  have "mk_object (mount_members m) = mount_members m"
    by (rule mk_object_distinct) (simp add: mount_members_def split: option.splits)
  moreover have "buf_copy PATH_MAX (mount_dest m) = mount_dest m"
    using Cons.prems by (simp add: buf_copy_id)
  ultimately have "c_fold handle_state_mounts_section
      (cc_oci_json_parse_aux (JObject (mk_object (mount_members m))) True) (st, n) =
    Inr (st\<lparr>st_mounts := st_mounts st @ [mount_saved m]\<rparr>, n)"
    by (cases "directory_created m")
      (simp_all add: mount_members_def handle_state_mounts_section_def node_value_def
        cc_oci_json_string_def mount_saved_def zero_defs)
  then show ?case
    using Cons.IH [of "st\<lparr>st_mounts := st_mounts st @ [mount_saved m]\<rparr>"] Cons.prems
    by (simp add: c_fold_append del: cc_oci_json_parse_aux.simps(1))
qed simp

lemma section_mounts:
  assumes "\<forall>m \<in> set (cfg_mounts config). length (mount_dest m) < PATH_MAX"
  shows "handle_state_sections (GNode (Some ''mounts'')
           (cc_oci_json_parse_aux (JArray (cc_oci_mounts_to_json config)) False)) (st, cnt) =
         Inr (st\<lparr>st_mounts := st_mounts st @ map mount_saved (active (cfg_mounts config))\<rparr>, cnt)"
  using mounts_fold [of "active (cfg_mounts config)" st "cnt ''mounts''"] assms
  by (simp add: handle_state_sections_def state_handlers_def cc_oci_mounts_to_json_def active_def
      del: cc_oci_json_parse_aux.simps)

lemma section_process:
  assumes "process_wf p"
  shows "handle_state_sections (GNode (Some ''process'')
           (cc_oci_json_parse_aux (JObject (process_members p)) False)) (st, cnt) =
         Inr (st\<lparr>st_process := Some (process_saved p)\<rparr>, cnt)"
  using process_section_roundtrip [OF assms, of "Some ''process''"]
  by (auto simp: handle_state_sections_def state_handlers_def handle_state_process_section_def
      simp del: cc_oci_json_parse_aux.simps)

lemma mk_members:
  "mk_object (vm_members vm) = vm_members vm"
  "mk_object (proxy_members proxy) = proxy_members proxy"
  "mk_object (pod_members pod) = pod_members pod"
  by (rule mk_object_distinct, simp add: vm_members_def proxy_members_def pod_members_def)+

lemma section_vm:
  assumes "is_gint (vm_pid vm)" "length (vm_hypervisor_path vm) < PATH_MAX"
    "length (vm_image_path vm) < PATH_MAX" "length (vm_kernel_path vm) < PATH_MAX"
    "length (vm_workload_path vm) < PATH_MAX" and "st_vm st = Some zero_vm"
  shows "handle_state_sections (GNode (Some ''vm'')
           (cc_oci_json_parse_aux (JObject (mk_object (vm_members vm))) False)) (st, cnt) =
         Inr (st\<lparr>st_vm := Some (vm_saved vm)\<rparr>, cnt(''vm'' := cnt ''vm'' + 6))"
  using assms unfolding mk_members
  by (simp add: handle_state_sections_def state_handlers_def handle_state_vm_section_def vm_members_def
      node_value_def json_unsigned_string strtol_gint_unsigned wrap32s_wrap32u wrap32s_id
      or_empty_def buf_copy_id zero_vm_def vm_saved_def or_nul_def cc_oci_json_string_def [of "JString _"]
      eval_nat_numeral)

lemma section_proxy:
  assumes "st_proxy st = Some zero_proxy"
  shows "handle_state_sections (GNode (Some ''proxy'')
           (cc_oci_json_parse_aux (JObject (mk_object (proxy_members p))) False)) (st, cnt) =
         Inr (st\<lparr>st_proxy := Some (proxy_saved p)\<rparr>, cnt(''proxy'' := cnt ''proxy'' + 3))"
  using assms unfolding mk_members
  by (simp add: handle_state_sections_def state_handlers_def handle_state_proxy_section_def proxy_members_def
      node_value_def or_empty_def zero_proxy_def proxy_saved_def or_nul_def cc_oci_json_string_def
      eval_nat_numeral)

lemma section_pod:
  assumes "st_pod st = None"
  shows "handle_state_sections (GNode (Some ''pod'')
           (cc_oci_json_parse_aux (JObject (mk_object (pod_members p))) False)) (st, cnt) =
         Inr (st\<lparr>st_pod := Some (pod_saved p)\<rparr>, cnt(''pod'' := cnt ''pod'' + 2))"
  using assms unfolding mk_members
  by (simp add: handle_state_sections_def state_handlers_def handle_state_pod_section_def pod_members_def
      node_value_def or_empty_def zero_pod_def pod_saved_def or_nul_def json_bool_string
      cc_oci_json_string_def [of "JString _"])

definition annotation_members :: "oci_cfg_annotation list \<Rightarrow> members" where
  "annotation_members as = map (\<lambda>a. (the (ann_key a), json_str (ann_value a))) as"

lemma annotation_keys_distinct:
  assumes "list_all (\<lambda>a. ann_key a \<noteq> None) as" and "distinct (map ann_key as)"
  shows "distinct (map fst (annotation_members as))"
proof -
  have "map ann_key as = map Some (map fst (annotation_members as))"
    using assms(1) by (induction as) (auto simp: annotation_members_def)
  with assms(2) show ?thesis by (simp only: distinct_map [of Some])
qed

lemma annotations_to_json_members:
  assumes "list_all (\<lambda>a. ann_key a \<noteq> None) (oci_annotations (cfg_oci config))"
    and "distinct (map ann_key (oci_annotations (cfg_oci config)))"
  shows "cc_oci_annotations_to_json config = annotation_members (oci_annotations (cfg_oci config))"
proof -
  have "list_all (\<lambda>a. ann_key a \<noteq> None) as \<Longrightarrow>
      foldl (\<lambda>ms a. case ann_key a of None \<Rightarrow> ms | Some k \<Rightarrow> json_object_set ms k (json_str (ann_value a))) ms as =
      foldl (\<lambda>ms (k, v). json_object_set ms k v) ms (annotation_members as)" for as ms
    by (induction as arbitrary: ms) (auto simp: annotation_members_def)
  then have "cc_oci_annotations_to_json config = mk_object (annotation_members (oci_annotations (cfg_oci config)))"
    using assms(1) by (simp add: cc_oci_annotations_to_json_def mk_object_def)
  then show ?thesis
    using annotation_keys_distinct [OF assms] by (simp add: mk_object_distinct)
qed

lemma annotations_fold:
  assumes "list_all (\<lambda>a. ann_key a \<noteq> None) as"
  shows "c_fold handle_state_annotations_section
           (map (\<lambda>m. GNode (Some (fst m)) (cc_oci_json_parse_aux (snd m) False)) (annotation_members as)) (st, n) =
         Inr (st\<lparr>st_annotations := rev (filter (\<lambda>a. ann_value a \<noteq> None) as) @ st_annotations st\<rparr>, n)"
  using assms
proof (induction as arbitrary: st)
  case (Cons a as)
  obtain k v where a: "a = \<lparr>ann_key = Some k, ann_value = v\<rparr>"
    using Cons.prems by (cases a) auto
  then show ?case
    using Cons.IH Cons.prems
    by (cases v) (simp_all add: annotation_members_def parse_json_str handle_state_annotations_section_def
        node_value_def)
qed (simp add: annotation_members_def)

lemma section_annotations:
  assumes "list_all (\<lambda>a. ann_key a \<noteq> None) as"
  shows "handle_state_sections (GNode (Some ''annotations'')
           (cc_oci_json_parse_aux (JObject (annotation_members as)) False)) (st, cnt) =
         Inr (st\<lparr>st_annotations := rev (filter (\<lambda>a. ann_value a \<noteq> None) as) @ st_annotations st\<rparr>, cnt)"
  using annotations_fold [OF assms, of st "cnt ''annotations''"]
  by (simp add: handle_state_sections_def state_handlers_def handle_state_annotations_section_def [of "GNode None []"]
      node_value_def [of "GNode None []"])

lemma section_separator: "handle_state_sections (GNode None []) acc = Inr acc"
  by (simp add: handle_state_sections_def)

lemma string_handlers:
  "map_of state_handlers ''ociVersion'' = Some (update_subelements_and_strdup st_oci_version_update, 1)"
  "map_of state_handlers ''id'' = Some (update_subelements_and_strdup st_id_update, 1)"
  "map_of state_handlers ''bundlePath'' = Some (update_subelements_and_strdup st_bundle_path_update, 1)"
  "map_of state_handlers ''commsPath'' = Some (update_subelements_and_strdup st_comms_path_update, 1)"
  "map_of state_handlers ''processPath'' = Some (update_subelements_and_strdup st_procsock_path_update, 1)"
  "map_of state_handlers ''created'' = Some (update_subelements_and_strdup st_create_time_update, 1)"
  by (simp_all add: state_handlers_def handle_state_ociVersion_section_def handle_state_id_section_def
      handle_state_bundlePath_section_def handle_state_commsPath_section_def
      handle_state_processPath_section_def handle_state_created_section_def)

lemmas string_sections = string_handlers [THEN section_string]

lemmas state_sections =
  section_separator string_sections section_pid section_status section_mounts section_process section_console
  section_vm section_proxy section_pod section_annotations

text \<open>The whole object of the state file, section by section.\<close>

lemma read_state_members:
  assumes "state_wf config" and "cfg_vm config = Some vm" and "cfg_proxy config = Some proxy"
    and "cc_oci_status_to_str (cfg_status config) = Some stname"
    and "cfg_optarg_container_id config = Some cid" and "cfg_bundle_path config = Some bundle_dir"
  shows "\<exists>cnt. c_fold handle_state_sections
           (cc_oci_json_parse_aux (JObject (state_members config cid bundle_dir created stname
              (process_members (cfg_process config)) vm proxy)) False)
           (zero_state\<lparr>st_vm := Some zero_vm, st_proxy := Some zero_proxy\<rparr>, \<lambda>_. 0)
         = Inr (state_saved config created, cnt)
       \<and> list_all (\<lambda>(name, _, needed). needed \<le> cnt name) state_handlers"
proof -
  let ?members = "state_members config cid bundle_dir created stname (process_members (cfg_process config)) vm proxy"
  have tree: "cc_oci_json_parse_aux (JObject ?members) False =
      GNode None [] # map (\<lambda>m. GNode (Some (fst m)) (cc_oci_json_parse_aux (snd m) False)) ?members"
    by (rule cc_oci_json_parse_aux.simps(1))
  have wf: "is_gint (workload_pid (cfg_state config))"
    "\<forall>m \<in> set (cfg_mounts config). length (mount_dest m) < PATH_MAX"
    "process_wf (cfg_process config)"
    "is_gint (vm_pid vm)" "length (vm_hypervisor_path vm) < PATH_MAX"
    "length (vm_image_path vm) < PATH_MAX" "length (vm_kernel_path vm) < PATH_MAX"
    "length (vm_workload_path vm) < PATH_MAX"
    "list_all (\<lambda>a. ann_key a \<noteq> None) (oci_annotations (cfg_oci config))"
    "distinct (map ann_key (oci_annotations (cfg_oci config)))"
    using assms(1,2) by (simp_all add: state_wf_def)
  show ?thesis
    unfolding tree
    unfolding state_members_def annotations_to_json_members [OF wf(9,10)]
    using assms(2-) wf
    by (cases "cfg_pod config"; cases "cfg_console config"; cases "oci_annotations (cfg_oci config) = []")
      (simp_all add: state_sections c_fold_append zero_state_def state_saved_def state_handlers_def
        del: cc_oci_json_parse_aux.simps)
qed

subsection \<open>Properties\<close>

lemma state_members_wf:
  assumes "state_wf config" and "process_wf p"
  shows "distinct (map fst (state_members config cid bundle_dir created stname (process_members p) vm proxy))"
    and "json_wf (JObject (state_members config cid bundle_dir created stname (process_members p) vm proxy))"
proof -
  have ann: "list_all (\<lambda>a. ann_key a \<noteq> None) (oci_annotations (cfg_oci config))"
    "distinct (map ann_key (oci_annotations (cfg_oci config)))"
    using assms(1) by (simp_all add: state_wf_def)
  have pid: "- 9223372036854775808 \<le> wrap32u i \<and> wrap32u i < 9223372036854775808" for i
    using wrap32u_range [of i] by simp
  show d: "distinct (map fst (state_members config cid bundle_dir created stname (process_members p) vm proxy))"
    by (simp add: state_members_def split: option.splits)
  have "json_wf (JObject (annotation_members (oci_annotations (cfg_oci config))))"
    using annotation_keys_distinct [OF ann] by (auto simp: annotation_members_def)
  moreover have "\<forall>j \<in> set (cc_oci_mounts_to_json config). json_wf j"
    by (auto simp: cc_oci_mounts_to_json_def mk_object_distinct mount_members_def split: option.splits)
  moreover have "json_wf (JObject (process_members p))"
    using process_members_distinct process_members_wf [OF assms(2)] by simp
  ultimately show "json_wf (JObject (state_members config cid bundle_dir created stname (process_members p) vm proxy))"
    using d unfolding state_members_def annotations_to_json_members [OF ann]
    by (auto simp: mk_members vm_members_def proxy_members_def pod_members_def or_empty_def mk_object_def pid
        split: option.splits if_splits)
qed

lemma state_get_fields:
  assumes "cc_oci_state_file_get config = (ok, config')"
  shows "state_wf config' = state_wf config" and "state_saved config' created = state_saved config created"
  using assms by (auto simp: cc_oci_state_file_get_def state_wf_def state_saved_def split: if_splits)

text \<open>What a successful \<^verbatim>\<open>cc_oci_state_file_create\<close> has written, and where.\<close>

lemma state_file_create_True:
  assumes "cc_oci_state_file_create E config (Some created) w = (True, config', w')"
  obtains cid bundle_dir vm proxy stname where
    "cfg_optarg_container_id config' = Some cid" "cfg_bundle_path config' = Some bundle_dir"
    "cfg_vm config' = Some vm" "cfg_proxy config' = Some proxy"
    "cc_oci_status_to_str (cfg_status config') = Some stname"
    "cc_oci_state_file_get config = (True, config')"
    "w_files w' (state_file_path (cfg_state config')) =
       Some (json_to_data E (JObject (mk_object (state_members config' cid bundle_dir created stname
         (process_members (cfg_process config')) vm proxy))))"
    "state_file_path (cfg_state config') \<noteq> []"
proof -
  have keep: "cc_oci_state_file_get config = (True, c1) \<Longrightarrow>
      cfg_optarg_container_id c1 = cfg_optarg_container_id config \<and> cfg_bundle_path c1 = cfg_bundle_path config
    \<and> cfg_vm c1 = cfg_vm config \<and> cfg_proxy c1 = cfg_proxy config
    \<and> state_file_path (cfg_state c1) \<noteq> []" for c1
    by (auto simp: cc_oci_state_file_get_def split: if_splits)
  show ?thesis
    using assms keep
    by (auto simp: cc_oci_state_file_create_def sys_def Let_def cc_oci_status_get_def
        dest!: process_to_json_members intro!: that
        split: option.splits if_splits prod.splits)
qed

lemma state_file_read_back:
  assumes "json_glib_contract E" and "state_wf config"
    and "cc_oci_state_file_create E config (Some created) w = (True, config', w')"
    and "w_files w'' (state_file_path (cfg_state config')) = w_files w' (state_file_path (cfg_state config'))"
  shows "cc_oci_state_file_read E (Some (state_file_path (cfg_state config'))) w'' =
         Inr (Some (state_saved config created))"
proof -
  from assms(3) obtain cid bundle_dir vm proxy stname where c:
    "cfg_optarg_container_id config' = Some cid" "cfg_bundle_path config' = Some bundle_dir"
    "cfg_vm config' = Some vm" "cfg_proxy config' = Some proxy"
    "cc_oci_status_to_str (cfg_status config') = Some stname"
    and get: "cc_oci_state_file_get config = (True, config')"
    and contents: "w_files w' (state_file_path (cfg_state config')) =
       Some (json_to_data E (JObject (mk_object (state_members config' cid bundle_dir created stname
         (process_members (cfg_process config')) vm proxy))))"
    and ne: "state_file_path (cfg_state config') \<noteq> []"
    by (rule state_file_create_True)
  let ?ms = "state_members config' cid bundle_dir created stname (process_members (cfg_process config')) vm proxy"
  have wf: "state_wf config'" using assms(2) state_get_fields [OF get] by simp
  have "mk_object ?ms = ?ms" "json_wf (JObject ?ms)"
    using mk_object_distinct state_members_wf [OF wf, of "cfg_process config'"] wf by (simp_all add: state_wf_def)
  then have "cc_oci_json_parse E (Some (state_file_path (cfg_state config'))) w'' =
      Some (GNode (Some (state_file_path (cfg_state config'))) (cc_oci_json_parse_aux (JObject ?ms) False))"
    using assms(1,4) contents ne
    by (simp add: cc_oci_json_parse_def json_glib_contract_def del: cc_oci_json_parse_aux.simps)
  moreover obtain cnt where
    "c_fold handle_state_sections (cc_oci_json_parse_aux (JObject ?ms) False)
       (zero_state\<lparr>st_vm := Some zero_vm, st_proxy := Some zero_proxy\<rparr>, \<lambda>_. 0) =
     Inr (state_saved config' created, cnt)"
    "list_all (\<lambda>(name, _, needed). needed \<le> cnt name) state_handlers"
    using read_state_members [OF wf c(3-5,1,2)] by blast
  ultimately show ?thesis
    using state_get_fields(2) [OF get]
    by (simp add: cc_oci_state_file_read_def del: cc_oci_json_parse_aux.simps)
qed

text \<open>
  C2. The state file round trip: whatever configuration the runtime writes, reading the file back
  (however the rest of the world changed meanwhile) succeeds and gives exactly the state
  \<open>state_saved\<close>: identity, pid, paths, status, active mounts, annotations, virtual machine, proxy,
  pod and process.  It relies on json-glib reading what it wrote.
\<close>

theorem state_file_roundtrip:
  assumes "json_glib_contract E" and "state_wf config"
    and "cc_oci_state_file_create E config (Some created) w = (True, config', w')"
    and "w_files w'' (state_file_path (cfg_state config')) = w_files w' (state_file_path (cfg_state config'))"
  shows "cc_oci_state_file_read E (Some (state_file_path (cfg_state config'))) w'' =
         Inr (Some (state_saved config created))"
  using assms by (rule state_file_read_back)

definition sample_config :: cc_oci_config where
  "sample_config =
     (upd_process (\<lambda>p. p\<lparr>proc_cwd := ''/'', proc_args := Some [''sh'', ''-c''], proc_stdio_stream := 1\<rparr>)
       (cfg_oci_update (\<lambda>oci. oci\<lparr>oci_annotations := [\<lparr>ann_key = Some ''k'', ann_value = Some ''v''\<rparr>],
            oci_mounts := [zero_mount\<lparr>mount_dest := ''/m''\<rparr>]\<rparr>)
         zero_config))
     \<lparr>cfg_optarg_container_id := Some ''c1'', cfg_bundle_path := Some ''/b'',
      cfg_vm := Some (zero_vm\<lparr>vm_pid := 7, vm_image_path := ''/img''\<rparr>), cfg_proxy := Some zero_proxy,
      cfg_pod := Some zero_pod,
      cfg_state := (cfg_state zero_config)\<lparr>runtime_path := ''/run/c1'', comms_path := ''/run/c1/h'',
        procsock_path := ''/run/c1/p'', workload_pid := 42, status := OCI_STATUS_RUNNING\<rparr>\<rparr>"

lemma sample_config_wf: "state_wf sample_config"
  by (simp add: state_wf_def sample_config_def zero_defs process_wf_def is_gint_def PATH_MAX_def)

lemma sample_config_created:
  "fst (cc_oci_state_file_create (calm_env (\<lambda>_. None)) sample_config (Some ''t'') empty_world)"
  by (simp add: cc_oci_state_file_create_def sample_config_def cc_oci_state_file_get_def
      cc_oci_status_get_def cc_oci_status_to_str_def oci_status_map_def cc_oci_process_to_json_def
      zero_defs sys_def Let_def calm_env_def)

theorem state_file_roundtrip_witness:
  "\<exists>config' w'. cc_oci_state_file_create (calm_env (\<lambda>_. None)) sample_config (Some ''t'') empty_world
       = (True, config', w')
     \<and> cc_oci_state_file_read (calm_env (\<lambda>_. None)) (Some (state_file_path (cfg_state config'))) w'
       = Inr (Some (state_saved sample_config ''t''))"
proof -
  obtain config' w' where run:
    "cc_oci_state_file_create (calm_env (\<lambda>_. None)) sample_config (Some ''t'') empty_world = (True, config', w')"
    using sample_config_created
    by (cases "cc_oci_state_file_create (calm_env (\<lambda>_. None)) sample_config (Some ''t'') empty_world") auto
  show ?thesis
    using run state_file_roundtrip [OF calm_json sample_config_wf run refl] by blast
qed

end
