(* ===== verification/StateComplete.thy ===== *)
theory StateComplete
  imports State
begin

section \<open>What an accepted state file contains\<close>

text \<open>The required sections, and the fields a state that was accepted has.\<close>

definition filled :: "oci_state \<Rightarrow> string \<Rightarrow> bool" where
  "filled st name =
     (if name = ''ociVersion'' then st_oci_version st \<noteq> None
      else if name = ''id'' then st_id st \<noteq> None
      else if name = ''bundlePath'' then st_bundle_path st \<noteq> None
      else if name = ''commsPath'' then st_comms_path st \<noteq> None
      else if name = ''processPath'' then st_procsock_path st \<noteq> None
      else if name = ''created'' then st_create_time st \<noteq> None
      else if name = ''vm'' then st_vm st \<noteq> None
      else if name = ''proxy'' then st_proxy st \<noteq> None
      else True)"

definition grows :: "oci_state \<Rightarrow> oci_state \<Rightarrow> bool" where
  "grows a b \<longleftrightarrow> (st_oci_version a \<noteq> None \<longrightarrow> st_oci_version b \<noteq> None) \<and> (st_id a \<noteq> None \<longrightarrow> st_id b \<noteq> None)
     \<and> (st_bundle_path a \<noteq> None \<longrightarrow> st_bundle_path b \<noteq> None) \<and> (st_comms_path a \<noteq> None \<longrightarrow> st_comms_path b \<noteq> None)
     \<and> (st_procsock_path a \<noteq> None \<longrightarrow> st_procsock_path b \<noteq> None)
     \<and> (st_create_time a \<noteq> None \<longrightarrow> st_create_time b \<noteq> None)
     \<and> (st_vm a \<noteq> None \<longrightarrow> st_vm b \<noteq> None) \<and> (st_proxy a \<noteq> None \<longrightarrow> st_proxy b \<noteq> None)"

lemma grows_filled: "grows a b \<Longrightarrow> filled a name \<Longrightarrow> filled b name"
  by (simp add: grows_def filled_def split: if_splits)

definition progress :: "string \<Rightarrow> sacc \<Rightarrow> sacc \<Rightarrow> bool" where
  "progress name a b \<longleftrightarrow> grows (fst a) (fst b) \<and> (snd a = snd b \<or> snd a < snd b \<and> filled (fst b) name)"

lemma strdup_progress:
  "handle_state_ociVersion_section node a = Inr b \<Longrightarrow> progress ''ociVersion'' a b"
  "handle_state_id_section node a = Inr b \<Longrightarrow> progress ''id'' a b"
  "handle_state_bundlePath_section node a = Inr b \<Longrightarrow> progress ''bundlePath'' a b"
  "handle_state_commsPath_section node a = Inr b \<Longrightarrow> progress ''commsPath'' a b"
  "handle_state_processPath_section node a = Inr b \<Longrightarrow> progress ''processPath'' a b"
  "handle_state_created_section node a = Inr b \<Longrightarrow> progress ''created'' a b"
  by (cases a; auto simp: handle_state_ociVersion_section_def handle_state_id_section_def
      handle_state_bundlePath_section_def handle_state_commsPath_section_def
      handle_state_processPath_section_def handle_state_created_section_def
      update_subelements_and_strdup_def progress_def grows_def filled_def split: option.splits)+

lemma value_progress:
  "handle_state_pid_section node a = Inr b \<Longrightarrow> progress ''pid'' a b"
  "handle_state_status_section node a = Inr b \<Longrightarrow> progress ''status'' a b"
  "handle_state_mounts_section node a = Inr b \<Longrightarrow> progress ''mounts'' a b"
  "handle_state_console_section node a = Inr b \<Longrightarrow> progress ''console'' a b"
  "handle_state_pod_section node a = Inr b \<Longrightarrow> progress ''pod'' a b"
  "handle_state_annotations_section node a = Inr b \<Longrightarrow> progress ''annotations'' a b"
  by (cases a; auto simp: handle_state_pid_section_def handle_state_status_section_def
      handle_state_mounts_section_def handle_state_console_section_def handle_state_pod_section_def
      handle_state_annotations_section_def progress_def grows_def filled_def Let_def
      split: option.splits if_splits prod.splits)+

lemma record_progress:
  "handle_state_vm_section node a = Inr b \<Longrightarrow> progress ''vm'' a b"
  "handle_state_proxy_section node a = Inr b \<Longrightarrow> progress ''proxy'' a b"
  by (cases a; auto simp: handle_state_vm_section_def handle_state_proxy_section_def progress_def
      grows_def filled_def Let_def split: option.splits if_splits prod.splits)+

lemma handler_progress:
  assumes "map_of state_handlers name = Some (h, k)" and "h node a = Inr b"
  shows "progress name a b"
proof -
  have "(name, h, k) \<in> set state_handlers"
    using assms(1) by (rule map_of_SomeD)
  then show ?thesis
    using assms(2) unfolding state_handlers_def
    by (auto intro: strdup_progress value_progress record_progress)
qed

lemma grows_trans: "grows a b \<Longrightarrow> grows b c \<Longrightarrow> grows a c"
  by (simp add: grows_def)

lemma filled_process [simp]: "filled (st\<lparr>st_process := p\<rparr>) = filled st"
  by (rule ext) (simp add: filled_def)

lemma progress_trans: "progress name a b \<Longrightarrow> progress name b c \<Longrightarrow> progress name a c"
  by (auto simp: progress_def intro: grows_trans grows_filled)

lemma handler_fold_progress:
  assumes "map_of state_handlers name = Some (h, k)" and "c_fold h nodes a = Inr b"
  shows "progress name a b"
  using assms(2)
proof (induction nodes arbitrary: a)
  case (Cons node nodes)
  then obtain m where "h node a = Inr m" "c_fold h nodes m = Inr b"
    by (auto simp: c_bind_Inr)
  then show ?case
    using handler_progress [OF assms(1)] Cons.IH progress_trans by blast
qed (simp add: progress_def grows_def)

definition counted :: "racc \<Rightarrow> bool" where
  "counted a \<longleftrightarrow> st_vm (fst a) \<noteq> None \<and> st_proxy (fst a) \<noteq> None
     \<and> (\<forall>name. 0 < snd a name \<longrightarrow> filled (fst a) name)"

lemma sections_counted:
  assumes "handle_state_sections node a = Inr b" and "counted a"
  shows "counted b"
proof (cases "gdata node")
  case None
  with assms show ?thesis by (simp add: handle_state_sections_def)
next
  case (Some name)
  obtain st cnt where a: "a = (st, cnt)" by fastforce
  show ?thesis
  proof (cases "map_of state_handlers name")
    case None
    with assms Some a show ?thesis
      by (auto simp: handle_state_sections_def handle_state_process_section_def counted_def c_bind_Inr
          split: if_splits)
  next
    case h: (Some hk)
    obtain hd k where hk: "hk = (hd, k)" by fastforce
    from assms(1) Some h hk a obtain st' n where
      run: "c_fold hd (gchildren node) (st, cnt name) = Inr (st', n)" and b: "b = (st', cnt(name := n))"
      by (auto simp: handle_state_sections_def c_bind_Inr)
    have pr: "progress name (st, cnt name) (st', n)"
      using handler_fold_progress h hk run by blast
    then have "st_vm st' \<noteq> None" "st_proxy st' \<noteq> None"
      using assms(2) a by (auto simp: progress_def counted_def grows_def)
    with pr assms(2) a b grows_filled show ?thesis
      by (auto simp: progress_def counted_def)
  qed
qed

text \<open>Faults: the assertions need a missing record, the process section can only dereference NULL.\<close>

lemma c_fold_fault:
  assumes "\<And>x a e. f x a = Inl e \<Longrightarrow> P e" and "c_fold f xs a = Inl e"
  shows "P e"
  using assms(2)
proof (induction xs arbitrary: a)
  case (Cons x xs)
  then show ?case
    using assms(1) by (cases "f x a") auto
qed simp

lemma deref_fault: "deref_data cs = Inl e \<Longrightarrow> e = NullDeref"
  by (auto simp: deref_data_def split: list.splits option.splits)

lemma c_bind_fault: "c_bind m (\<lambda>x. Inr (f x)) = Inl e \<longleftrightarrow> m = Inl e"
  by (cases m) auto

lemma process_fault: "process_handle_section node c = Inl e \<Longrightarrow> e = NullDeref"
proof -
  assume "process_handle_section node c = Inl e"
  then have "c_fold handle_process_section (gchildren node)
      (upd_process (proc_stderr_stream_update (\<lambda>_. - 1))
        (upd_process (proc_stdio_stream_update (\<lambda>_. - 1)) c)) = Inl e"
    by (simp add: process_handle_section_def Let_def c_bind_fault)
  moreover have "handle_user_section n a = Inl e \<Longrightarrow> e = NullDeref" for n a e
    by (auto simp: handle_user_section_def c_bind_fault dest: deref_fault split: if_splits)
  then have "c_fold handle_user_section ns a = Inl e \<Longrightarrow> e = NullDeref" for ns a e
    by (rule c_fold_fault [where P = "\<lambda>e. e = NullDeref"])
  then have "handle_process_section n a = Inl e \<Longrightarrow> e = NullDeref" for n a e
    by (auto simp: handle_process_section_def c_bind_fault simp del: c_fold.simps dest: deref_fault
        split: list.splits if_splits)
  ultimately show ?thesis
    by (rule c_fold_fault [where P = "\<lambda>e. e = NullDeref", rotated])
qed

lemma handler_no_fault:
  assumes "map_of state_handlers name = Some (h, k)" and "h node a = Inl e"
  shows "st_vm (fst a) = None \<or> st_proxy (fst a) = None"
proof -
  have "(name, h, k) \<in> set state_handlers"
    using assms(1) by (rule map_of_SomeD)
  then show ?thesis
    using assms(2) unfolding state_handlers_def
    by (auto simp: handle_state_ociVersion_section_def handle_state_id_section_def
      handle_state_bundlePath_section_def handle_state_commsPath_section_def
      handle_state_processPath_section_def handle_state_created_section_def
      update_subelements_and_strdup_def handle_state_pid_section_def handle_state_status_section_def
      handle_state_mounts_section_def handle_state_console_section_def handle_state_pod_section_def
      handle_state_annotations_section_def handle_state_vm_section_def handle_state_proxy_section_def Let_def
      split: option.splits if_splits prod.splits)
qed

lemma handler_fold_no_fault:
  assumes "map_of state_handlers name = Some (h, k)" and "c_fold h nodes a = Inl e"
  shows "st_vm (fst a) = None \<or> st_proxy (fst a) = None"
  using assms(2)
proof (induction nodes arbitrary: a)
  case (Cons node nodes)
  show ?case
  proof (cases "h node a")
    case (Inl f)
    then show ?thesis by (rule handler_no_fault [OF assms(1)])
  next
    case (Inr b)
    then have "st_vm (fst b) = None \<or> st_proxy (fst b) = None"
      using Cons by simp
    moreover have "progress name a b"
      using handler_progress [OF assms(1) Inr] .
    ultimately show ?thesis by (auto simp: progress_def grows_def)
  qed
qed simp

lemma sections_fault:
  assumes "handle_state_sections node a = Inl e" and "counted a"
  shows "e = NullDeref"
proof -
  obtain name where name: "gdata node = Some name"
    using assms(1) by (cases "gdata node") (auto simp: handle_state_sections_def)
  obtain st cnt where a: "a = (st, cnt)" by fastforce
  show ?thesis
  proof (cases "map_of state_handlers name")
    case None
    with assms(1) name a show ?thesis
      by (auto simp: handle_state_sections_def handle_state_process_section_def c_bind_fault
          Let_def case_prod_unfold dest: process_fault split: if_splits)
  next
    case (Some hk)
    obtain h k where hk: "hk = (h, k)" by fastforce
    have "c_fold h (gchildren node) (st, cnt name) = Inl e"
      using assms(1) name a Some hk by (simp add: handle_state_sections_def Let_def case_prod_unfold c_bind_fault)
    then have "st_vm st = None \<or> st_proxy st = None"
      using handler_fold_no_fault Some hk by fastforce
    with assms(2) a show ?thesis by (auto simp: counted_def)
  qed
qed

lemma sections_fold:
  assumes "counted a"
  shows "case c_fold handle_state_sections nodes a of Inl e \<Rightarrow> e = NullDeref | Inr b \<Rightarrow> counted b"
  using assms
proof (induction nodes arbitrary: a)
  case (Cons node nodes)
  then show ?case
    by (cases "handle_state_sections node a") (auto dest: sections_fault sections_counted)
qed simp

text \<open>
  C23. A state that \<^verbatim>\<open>cc_oci_state_file_read\<close> accepts is complete: version, id, bundle, sockets and
  creation time are there, and so are the virtual machine and the proxy, whatever the file
  contained; the assertions on these two in the handlers never fire, so the only fault a
  file can provoke is a NULL dereference.
\<close>

theorem state_read_complete:
  "case cc_oci_state_file_read E file w of
     Inl fault \<Rightarrow> fault = NullDeref
   | Inr None \<Rightarrow> True
   | Inr (Some st) \<Rightarrow>
       st_oci_version st \<noteq> None \<and> st_id st \<noteq> None \<and> st_bundle_path st \<noteq> None
       \<and> st_comms_path st \<noteq> None \<and> st_procsock_path st \<noteq> None \<and> st_create_time st \<noteq> None
       \<and> st_vm st \<noteq> None \<and> st_proxy st \<noteq> None"
proof (cases "cc_oci_json_parse E file w")
  case None
  then show ?thesis by (simp add: cc_oci_state_file_read_def)
next
  case (Some node)
  let ?init = "(zero_state\<lparr>st_vm := Some zero_vm, st_proxy := Some zero_proxy\<rparr>, \<lambda>_. 0) :: racc"
  have init: "counted ?init" by (simp add: counted_def)
  show ?thesis
  proof (cases "c_fold handle_state_sections (gchildren node) ?init")
    case (Inl e)
    with Some sections_fold [OF init, of "gchildren node"] show ?thesis
      by (simp add: cc_oci_state_file_read_def)
  next
    case (Inr b)
    obtain st cnt where b: "b = (st, cnt)" by fastforce
    have c: "st_vm st \<noteq> None" "st_proxy st \<noteq> None" "\<And>name. 0 < cnt name \<Longrightarrow> filled st name"
      using Inr b sections_fold [OF init, of "gchildren node"] by (auto simp: counted_def)
    show ?thesis
      using Some Inr b c(1,2) c(3) [of "''ociVersion''"] c(3) [of "''id''"] c(3) [of "''bundlePath''"]
        c(3) [of "''commsPath''"] c(3) [of "''processPath''"] c(3) [of "''created''"]
      by (auto simp: cc_oci_state_file_read_def state_handlers_def filled_def)
  qed
qed

text \<open>
  The fault is real: a state file whose process section has a user with a null uid makes the
  reader pass NULL to \<^verbatim>\<open>atoi\<close>.
\<close>

theorem state_read_null_uid_faults:
  "cc_oci_state_file_read (calm_env (\<lambda>_. None)) (Some ''/s'')
     (empty_world\<lparr>w_files := [''/s'' \<mapsto> enc_json (JObject [(''process'',
        JObject [(''user'', JObject [(''uid'', JNull)])])])]\<rparr>) = Inl NullDeref"
  by code_simp

end
