(* ===== verification/SpecHandlers.thy ===== *)
theory SpecHandlers
  imports State Namespaces Semver
begin

section \<open>Reading config.json (src/spec_handlers, src/spec_handler.c, src/oci-config.c)\<close>

text \<open>
  Each top-level section of the OCI configuration has a handler.  Handlers get the tree of their
  section and update the configuration.  Three of them collect list elements in a static
  variable; a list element starts at the NULL separator the tree has in front of every
  object.  The static variable is NULL before and after every call, so each model
  function starts with \<open>None\<close> (lemmas \<open>hooks_current_none\<close>, \<open>mounts_current_none\<close>,
  \<open>ns_current_none\<close> show that it comes back as \<open>None\<close>).
\<close>

subsection \<open>Annotations (annotations.c)\<close>

definition handle_annotation :: "gnode \<Rightarrow> cc_oci_config \<Rightarrow> cc_oci_config" where
  "handle_annotation root config =
     (case (gdata root, gchildren root) of
        (Some key, c # _) \<Rightarrow>
          if key = [] then config
          else
            (let a = \<lparr>ann_key = Some key,
                      ann_value = (case gdata c of Some v \<Rightarrow> if v = [] then None else Some v | None \<Rightarrow> None)\<rparr>;
                 (_, config1) = cc_pod_handle_annotations config a
             in cfg_oci_update (oci_annotations_update (\<lambda>as. a # as)) config1)
      | _ \<Rightarrow> config)"

definition annotations_handle_section :: "gnode \<Rightarrow> cc_oci_config \<Rightarrow> bool \<times> cc_oci_config" where
  "annotations_handle_section root config = (True, fold handle_annotation (gchildren root) config)"

subsection \<open>Hooks (hooks.c)\<close>

text \<open>State of the walk: the list being filled, the current hook, the error flag.\<close>

type_synonym hook_acc = "oci_cfg_hook list \<times> oci_cfg_hook option \<times> bool"

definition save_current_hook :: "hook_acc \<Rightarrow> hook_acc" where
  "save_current_hook acc =
     (let (hooks, current_hook, err) = acc
      in (case current_hook of
            None \<Rightarrow> acc
          | Some h \<Rightarrow> if hook_path h = [] then (hooks, None, True) else (hooks @ [h], None, err)))"

definition handle_hook :: "gnode \<Rightarrow> hook_acc \<Rightarrow> hook_acc" where
  "handle_hook root acc =
     (let (hooks, current_hook, err) = acc
      in if err then acc
         else (case gdata root of
             None \<Rightarrow> save_current_hook acc
           | Some name \<Rightarrow>
               (case gchildren root of
                  [] \<Rightarrow> acc
                | c # _ \<Rightarrow>
                    (let h = (case current_hook of None \<Rightarrow> zero_hook | Some h \<Rightarrow> h);
                         h' = (if name = ''path'' then h\<lparr>hook_path := buf_copy PATH_MAX (fmt_s (gdata c))\<rparr>
                               else if name = ''args'' then h\<lparr>hook_args := Some (node_to_strv root)\<rparr>
                               else if name = ''env'' then h\<lparr>hook_env := Some (node_to_strv root)\<rparr>
                               else if name = ''timeout'' then
                                 h\<lparr>hook_timeout := wrap32s (case gdata c of None \<Rightarrow> 0 | Some s \<Rightarrow> fst (strtol s))\<rparr>
                               else h)
                     in (hooks, Some h', err)))))"

definition handle_hook_list :: "gnode \<Rightarrow> oci_cfg_hook list \<Rightarrow> bool \<Rightarrow> hook_acc" where
  "handle_hook_list root hooks err =
     save_current_hook (fold handle_hook (gchildren root) (hooks, None, err))"

definition handle_hooks_section :: "gnode \<Rightarrow> cc_oci_config \<times> bool \<Rightarrow> cc_oci_config \<times> bool" where
  "handle_hooks_section root acc =
     (let (config, err) = acc
      in if gchildren root = [] \<or> err then acc
         else if gdata root = Some ''prestart'' then
           (let (hs, _, err') = handle_hook_list root (hooks_prestart (cfg_hooks config)) err
            in (cfg_oci_update (oci_hooks_update (hooks_prestart_update (\<lambda>_. hs))) config, err'))
         else if gdata root = Some ''poststart'' then
           (let (hs, _, err') = handle_hook_list root (hooks_poststart (cfg_hooks config)) err
            in (cfg_oci_update (oci_hooks_update (hooks_poststart_update (\<lambda>_. hs))) config, err'))
         else if gdata root = Some ''poststop'' then
           (let (hs, _, err') = handle_hook_list root (hooks_poststop (cfg_hooks config)) err
            in (cfg_oci_update (oci_hooks_update (hooks_poststop_update (\<lambda>_. hs))) config, err'))
         else acc)"

definition hooks_handle_section :: "gnode \<Rightarrow> cc_oci_config \<Rightarrow> bool \<times> cc_oci_config" where
  "hooks_handle_section root config =
     (let (config', err) = fold handle_hooks_section (gchildren root) (config, False)
      in (\<not> err, config'))"

subsection \<open>Mounts (mounts.c)\<close>

definition mnt_flag_map :: "(string \<times> 64 word) list" where
  "mnt_flag_map =
     [(''bind'', 4096), (''dirsync'', 128), (''mandlock'', 64), (''move'', 8192), (''noatime'', 1024),
      (''nodev'', 4), (''nodiratime'', 2048), (''noexec'', 8), (''nosuid'', 2), (''ro'', 1),
      (''relatime'', 2097152), (''remount'', 32), (''silent'', 32768), (''strictatime'', 16777216),
      (''sync'', 16), (''rbind'', 4096 OR 16384), (''rprivate'', 262144 OR 16384), (''private'', 262144),
      (''rslave'', 524288 OR 16384), (''slave'', 524288), (''rshared'', 1048576 OR 16384),
      (''shared'', 1048576)]"

definition mount_get_flag_value :: "gchars \<Rightarrow> 64 word" where
  "mount_get_flag_value flag =
     (case flag of None \<Rightarrow> 0 | Some f \<Rightarrow> (case map_of mnt_flag_map f of None \<Rightarrow> 0 | Some v \<Rightarrow> v))"

definition handle_options_section :: "gnode \<Rightarrow> 64 word \<times> string \<Rightarrow> 64 word \<times> string" where
  "handle_options_section root acc =
     (let (flags, opts) = acc; flag = mount_get_flag_value (gdata root)
      in if flag \<noteq> 0 then (flags OR flag, opts) else (flags, opts @ fmt_s (gdata root) @ '',''))"

type_synonym mount_acc = "cc_oci_mount list \<times> cc_oci_mount option \<times> bool"

definition save_current_mount :: "mount_acc \<Rightarrow> mount_acc" where
  "save_current_mount acc =
     (let (mounts, current_mount, err) = acc
      in (case current_mount of
            None \<Rightarrow> acc
          | Some m \<Rightarrow>
              if mnt_dir (mount_mnt m) = None \<or> mnt_type (mount_mnt m) = None \<or> mnt_fsname (mount_mnt m) = None
              then (mounts, None, True) else (mounts @ [m], None, err)))"

definition handle_mounts_section :: "gnode \<Rightarrow> mount_acc \<Rightarrow> mount_acc" where
  "handle_mounts_section root acc =
     (let (mounts, current_mount, err) = acc
      in if err then acc
         else (case gdata root of
             None \<Rightarrow> save_current_mount acc
           | Some name \<Rightarrow>
               (case gchildren root of
                  [] \<Rightarrow> acc
                | c # _ \<Rightarrow>
                    (let m = (case current_mount of None \<Rightarrow> zero_mount | Some m \<Rightarrow> m);
                         m' = (if name = ''destination'' then m\<lparr>mount_mnt := (mount_mnt m)\<lparr>mnt_dir := gdata c\<rparr>\<rparr>
                               else if name = ''type'' then m\<lparr>mount_mnt := (mount_mnt m)\<lparr>mnt_type := gdata c\<rparr>\<rparr>
                               else if name = ''source'' then m\<lparr>mount_mnt := (mount_mnt m)\<lparr>mnt_fsname := gdata c\<rparr>\<rparr>
                               else if name = ''options'' then
                                 (let (flags, opts) = fold handle_options_section (gchildren root) (mount_flags m, [])
                                  in m\<lparr>mount_flags := flags,
                                       mount_mnt := (if opts = [] then mount_mnt m
                                         else (mount_mnt m)\<lparr>mnt_opts := Some (butlast opts)\<rparr>)\<rparr>)
                               else m)
                     in (mounts, Some m', err)))))"

definition mounts_handle_section :: "gnode \<Rightarrow> cc_oci_config \<Rightarrow> bool \<times> cc_oci_config" where
  "mounts_handle_section root config =
     (if cfg_mounts config \<noteq> [] then (True, config)
      else
        (let (mounts, current_mount, err) =
               fold handle_mounts_section (gchildren root) (cfg_mounts config, None, False);
             (mounts', _, err') =
               (if \<not> err then save_current_mount (mounts, current_mount, err)
                else (mounts, current_mount, err))
         in (\<not> err', upd_mounts (\<lambda>_. mounts') config)))"

subsection \<open>Linux namespaces (linux.c)\<close>

type_synonym ns_acc = "oci_cfg_namespace list \<times> oci_cfg_namespace option \<times> bool"

definition save_current_ns :: "ns_acc \<Rightarrow> ns_acc" where
  "save_current_ns acc =
     (let (nss, current_ns, err) = acc
      in (case current_ns of None \<Rightarrow> acc | Some n \<Rightarrow> (nss @ [n], None, err)))"

definition handle_namespaces_section :: "gnode \<Rightarrow> ns_acc \<Rightarrow> ns_acc" where
  "handle_namespaces_section root acc =
     (let (nss, current_ns, err) = acc
      in if err then acc
         else (case gdata root of
             None \<Rightarrow> save_current_ns acc
           | Some name \<Rightarrow>
               (case gchildren root of
                  [] \<Rightarrow> acc
                | c # _ \<Rightarrow>
                    (let n = (case current_ns of None \<Rightarrow> zero_ns | Some n \<Rightarrow> n)
                     in if name = ''type'' then
                          (if gdata c = None \<or> gdata c = Some [] \<or> cc_oci_str_to_ns (gdata c) = OCI_NS_INVALID
                           then (nss, None, True)
                           else (nss, Some (n\<lparr>ns_type := cc_oci_str_to_ns (gdata c)\<rparr>), err))
                        else if name = ''path'' then
                          (nss, Some (case gdata c of
                             Some p \<Rightarrow> if p = [] then n else n\<lparr>ns_path := Some p\<rparr> | None \<Rightarrow> n), err)
                        else (nss, Some n, err)))))"

definition handle_linux_section :: "gnode \<Rightarrow> ns_acc \<Rightarrow> ns_acc" where
  "handle_linux_section root acc =
     (if gchildren root = [] then acc
      else if gdata root = Some ''namespaces'' then fold handle_namespaces_section (gchildren root) acc
      else acc)"

definition linux_handle_section :: "gnode \<Rightarrow> cc_oci_config \<Rightarrow> bool \<times> cc_oci_config" where
  "linux_handle_section root config =
     (let (nss, current_ns, err) =
            fold handle_linux_section (gchildren root) (oci_linux_namespaces (cfg_oci config), None, False);
          (nss', _, err') =
            (if \<not> err then save_current_ns (nss, current_ns, err) else (nss, current_ns, err))
      in (\<not> err', cfg_oci_update (oci_linux_namespaces_update (\<lambda>_. nss')) config))"

subsection \<open>Platform and root (platform.c, root.c)\<close>

definition handle_platform_section :: "gnode \<Rightarrow> cc_oci_config \<Rightarrow> cc_oci_config" where
  "handle_platform_section root config =
     (case gchildren root of
        [] \<Rightarrow> config
      | c # _ \<Rightarrow>
          if gdata root = Some ''os'' then
            cfg_oci_update (oci_platform_update (plat_os_update (\<lambda>_. gdata c))) config
          else if gdata root = Some ''arch'' then
            cfg_oci_update (oci_platform_update (plat_arch_update (\<lambda>_. gdata c))) config
          else config)"

definition platform_handle_section :: "gnode \<Rightarrow> cc_oci_config \<Rightarrow> bool \<times> cc_oci_config" where
  "platform_handle_section root config =
     (let config' = fold handle_platform_section (gchildren root) config;
          p = oci_platform (cfg_oci config')
      in (plat_os p = Some CC_OCI_EXPECTED_PLATFORM \<and> plat_arch p = Some CC_OCI_EXPECTED_ARCHITECTURE,
          config'))"

definition handle_root_section :: "env \<Rightarrow> world \<Rightarrow> gnode \<Rightarrow> cc_oci_config \<Rightarrow> cc_oci_config" where
  "handle_root_section E w root config =
     (case gchildren root of
        [] \<Rightarrow> config
      | c # _ \<Rightarrow>
          if gdata root = Some ''path'' then
            (case cc_oci_resolve_path E (gdata c) w of
               None \<Rightarrow> config
             | Some full \<Rightarrow>
                 cfg_oci_update (oci_root_update (root_path_update (\<lambda>_. buf_copy PATH_MAX full))) config)
          else if gdata root = Some ''readonly'' then
            (if gdata c = Some ''true'' then
               cfg_oci_update (oci_root_update (root_read_only_update (\<lambda>_. True))) config
             else if gdata c = Some ''false'' then
               cfg_oci_update (oci_root_update (root_read_only_update (\<lambda>_. False))) config
             else config)
          else config)"

definition root_handle_section :: "env \<Rightarrow> world \<Rightarrow> gnode \<Rightarrow> cc_oci_config \<Rightarrow> bool \<times> cc_oci_config" where
  "root_handle_section E w root config =
     (let config' = fold (handle_root_section E w) (gchildren root) config;
          p = root_path (oci_root (cfg_oci config'))
      in (p \<noteq> [] \<and> os_stat E w p = Some FDir, config'))"

subsection \<open>The virtual machine (vm.c, spec_handler.c)\<close>

definition handle_kernel_section :: "env \<Rightarrow> world \<Rightarrow> gnode \<Rightarrow> cc_oci_vm_cfg \<Rightarrow> cc_oci_vm_cfg" where
  "handle_kernel_section E w root vm =
     (case gchildren root of
        [] \<Rightarrow> vm
      | c # _ \<Rightarrow>
          if gdata root = Some ''path'' then
            (case cc_oci_resolve_path E (gdata c) w of
               None \<Rightarrow> vm | Some p \<Rightarrow> vm\<lparr>vm_kernel_path := buf_copy PATH_MAX p\<rparr>)
          else if gdata root = Some ''parameters'' then vm\<lparr>vm_kernel_params := gdata c\<rparr>
          else vm)"

definition handle_vm_section :: "env \<Rightarrow> world \<Rightarrow> gnode \<Rightarrow> cc_oci_vm_cfg \<Rightarrow> cc_oci_vm_cfg" where
  "handle_vm_section E w root vm =
     (case gchildren root of
        [] \<Rightarrow> vm
      | c # _ \<Rightarrow>
          if gdata root = Some ''path'' then
            (case cc_oci_resolve_path E (gdata c) w of
               None \<Rightarrow> vm | Some p \<Rightarrow> vm\<lparr>vm_hypervisor_path := buf_copy PATH_MAX p\<rparr>)
          else if gdata root = Some ''image'' then
            (case cc_oci_resolve_path E (gdata c) w of
               None \<Rightarrow> vm | Some p \<Rightarrow> vm\<lparr>vm_image_path := buf_copy PATH_MAX p\<rparr>)
          else if gdata root = Some ''kernel'' then
            fold (handle_kernel_section E w) (gchildren root) vm
          else vm)"

definition vm_handle_section ::
  "env \<Rightarrow> world \<Rightarrow> gnode option \<Rightarrow> cc_oci_config \<Rightarrow> bool \<times> cc_oci_config" where
  "vm_handle_section E w root config =
     (case root of
        None \<Rightarrow> (False, config)
      | Some node \<Rightarrow>
          (let vm0 = (case cfg_vm config of None \<Rightarrow> zero_vm | Some vm \<Rightarrow> vm);
               vm = fold (handle_vm_section E w) (gchildren node) vm0;
               present = (\<lambda>p. p \<noteq> [] \<and> os_stat E w p \<noteq> None);
               ret = (present (vm_hypervisor_path vm) \<and> present (vm_image_path vm) \<and> present (vm_kernel_path vm))
           in (ret, config\<lparr>cfg_vm := (if ret then Some vm else None)\<rparr>)))"

text \<open>
  The two places the build puts \<^verbatim>\<open>vm.json\<close>, for the default prefix; the second is used when the
  first does not exist.
\<close>

definition SYSCONFDIR :: string where
  "SYSCONFDIR = ''/etc/cc-oci-runtime''"

definition DEFAULTSDIR :: string where
  "DEFAULTSDIR = ''/usr/share/defaults/cc-oci-runtime''"

definition CC_OCI_VM_CONFIG :: string where
  "CC_OCI_VM_CONFIG = ''vm.json''"

definition get_spec_vm_from_cfg_file :: "env \<Rightarrow> world \<Rightarrow> cc_oci_config \<Rightarrow> bool \<times> cc_oci_config" where
  "get_spec_vm_from_cfg_file E w config =
     (if cfg_vm config \<noteq> None then (True, config)
      else
        (let sys_json_file =
               (let f = g_build_path SYSCONFDIR CC_OCI_VM_CONFIG
                in if os_stat E w f \<noteq> None then f else g_build_path DEFAULTSDIR CC_OCI_VM_CONFIG)
         in (case cc_oci_json_parse E (Some sys_json_file) w of
               None \<Rightarrow> (False, config)
             | Some vm_config \<Rightarrow>
                 (let vm_node = find (\<lambda>n. gdata n = Some ''vm'') (gchildren vm_config);
                      (_, config') = vm_handle_section E w vm_node config
                  in (cfg_vm config' \<noteq> None, config')))))"

end
