(* ===== verification/ConfigFile.thy ===== *)
theory ConfigFile
  imports SpecHandlers
begin

section \<open>Processing a configuration with a table of handlers (src/oci-config.c, src/oci.c)\<close>

text \<open>
  \<^verbatim>\<open>cc_oci_process_config\<close> runs the handlers of a table over the sections of a configuration tree; the
  create and stop commands use different tables.
\<close>

type_synonym spec_handler = "env \<Rightarrow> world \<Rightarrow> gnode \<Rightarrow> cc_oci_config \<Rightarrow> (bool \<times> cc_oci_config) c_result"

text \<open>The handlers under one type: those that need no environment, those that cannot fault.\<close>

definition annotations_spec_handler :: spec_handler where
  "annotations_spec_handler E w root config = Inr (annotations_handle_section root config)"

definition hooks_spec_handler :: spec_handler where
  "hooks_spec_handler E w root config = Inr (hooks_handle_section root config)"

definition mounts_spec_handler :: spec_handler where
  "mounts_spec_handler E w root config = Inr (mounts_handle_section root config)"

definition platform_spec_handler :: spec_handler where
  "platform_spec_handler E w root config = Inr (platform_handle_section root config)"

definition process_spec_handler :: spec_handler where
  "process_spec_handler E w root config = process_handle_section root config"

definition root_spec_handler :: spec_handler where
  "root_spec_handler E w root config = Inr (root_handle_section E w root config)"

definition vm_spec_handler :: spec_handler where
  "vm_spec_handler E w root config = Inr (vm_handle_section E w (Some root) config)"

definition linux_spec_handler :: spec_handler where
  "linux_spec_handler E w root config = Inr (linux_handle_section root config)"

definition start_spec_handlers :: "(string \<times> spec_handler) list" where
  "start_spec_handlers =
     [(''annotations'', annotations_spec_handler), (''hooks'', hooks_spec_handler),
      (''mounts'', mounts_spec_handler), (''platform'', platform_spec_handler),
      (''process'', process_spec_handler), (''root'', root_spec_handler),
      (''vm'', vm_spec_handler), (''linux'', linux_spec_handler)]"

definition stop_spec_handlers :: "(string \<times> spec_handler) list" where
  "stop_spec_handlers = [(''hooks'', hooks_spec_handler)]"

text \<open>The two strings the loop itself keeps.\<close>

definition config_strings :: "gnode \<Rightarrow> cc_oci_config \<Rightarrow> cc_oci_config" where
  "config_strings node config =
     (case gchildren node of
        [] \<Rightarrow> config
      | c # _ \<Rightarrow>
          if gdata node = Some ''ociVersion'' then cfg_oci_update (oci_version_update (\<lambda>_. gdata c)) config
          else if gdata node = Some ''hostname'' then cfg_oci_update (oci_hostname_update (\<lambda>_. gdata c)) config
          else config)"

fun process_config_loop ::
  "env \<Rightarrow> world \<Rightarrow> (string \<times> spec_handler) list \<Rightarrow> gnode list \<Rightarrow> cc_oci_config \<Rightarrow> (bool \<times> cc_oci_config) c_result" where
  "process_config_loop E w hs [] config = Inr (True, config)"
| "process_config_loop E w hs (node # nodes) config =
     (case gdata node of
        None \<Rightarrow> process_config_loop E w hs nodes config
      | Some name \<Rightarrow>
          (let config1 = config_strings node config
           in (case map_of hs name of
                 None \<Rightarrow> process_config_loop E w hs nodes config1
               | Some handle_section \<Rightarrow>
                   c_bind (handle_section E w node config1) (\<lambda>(ok, config2).
                     if \<not> ok then Inr (False, config2)
                     else process_config_loop E w hs nodes config2))))"

definition cc_oci_process_config ::
  "env \<Rightarrow> world \<Rightarrow> gnode \<Rightarrow> cc_oci_config \<Rightarrow> (string \<times> spec_handler) list \<Rightarrow> (bool \<times> cc_oci_config) c_result" where
  "cc_oci_process_config E w root config hs = process_config_loop E w hs (gchildren root) config"

definition cc_oci_config_check :: "cc_oci_config \<Rightarrow> bool c_result" where
  "cc_oci_config_check config =
     (case oci_version (cfg_oci config) of
        None \<Rightarrow> Inr False
      | Some v \<Rightarrow>
          c_bind (cc_oci_semver_cmp CC_OCI_SUPPORTED_SPEC_VERSION v) (\<lambda>ret. Inr (\<not> ret < 0)))"

definition cc_oci_get_bundlepath_file :: "gchars \<Rightarrow> gchars \<Rightarrow> gchars" where
  "cc_oci_get_bundlepath_file bundle_path fname =
     (case (bundle_path, fname) of
        (Some b, Some f) \<Rightarrow> if b = [] \<or> f = [] then None else Some (g_build_path b f)
      | _ \<Rightarrow> None)"

definition cc_oci_config_file_path :: "gchars \<Rightarrow> gchars" where
  "cc_oci_config_file_path bundle_path = cc_oci_get_bundlepath_file bundle_path (Some CC_OCI_CONFIG_FILE)"

definition cc_oci_config_create :: cc_oci_config where
  "cc_oci_config_create = zero_config\<lparr>cfg_proxy := Some zero_proxy\<rparr>"

subsection \<open>What a handler promises: no buffer is overrun\<close>

definition vm_paths_ok :: "cc_oci_vm_cfg \<Rightarrow> bool" where
  "vm_paths_ok vm \<longleftrightarrow> length (vm_hypervisor_path vm) < PATH_MAX \<and> length (vm_image_path vm) < PATH_MAX
     \<and> length (vm_kernel_path vm) < PATH_MAX \<and> length (vm_workload_path vm) < PATH_MAX"

definition hooks_ok :: "oci_cfg_hook list \<Rightarrow> bool" where
  "hooks_ok hs \<longleftrightarrow> (\<forall>h \<in> set hs. hook_path h \<noteq> [] \<and> length (hook_path h) < PATH_MAX)"

definition buffers_ok :: "cc_oci_config \<Rightarrow> bool" where
  "buffers_ok c \<longleftrightarrow>
     length (proc_cwd (cfg_process c)) < PATH_MAX \<and> length (root_path (oci_root (cfg_oci c))) < PATH_MAX
   \<and> (case cfg_vm c of None \<Rightarrow> True | Some vm \<Rightarrow> vm_paths_ok vm)
   \<and> (case cfg_pod c of None \<Rightarrow> True | Some pod \<Rightarrow> length (pod_sandbox_workloads pod) < PATH_MAX)
   \<and> hooks_ok (hooks_prestart (cfg_hooks c)) \<and> hooks_ok (hooks_poststart (cfg_hooks c))
   \<and> hooks_ok (hooks_poststop (cfg_hooks c))
   \<and> (\<forall>m \<in> set (cfg_mounts c). length (mount_dest m) < PATH_MAX)"

locale spec_section =
  fixes handle_section :: spec_handler
  assumes keeps: "handle_section E w node c = Inr (ok, c') \<Longrightarrow> buffers_ok c \<Longrightarrow> buffers_ok c'"

text \<open>The client: a table of such handlers.\<close>

locale section_table =
  fixes table :: "(string \<times> spec_handler) list"
  assumes sections: "(name, h) \<in> set table \<Longrightarrow> spec_section h"
begin

lemma config_strings_keeps: "buffers_ok c \<Longrightarrow> buffers_ok (config_strings n c)"
  by (auto simp: config_strings_def buffers_ok_def split: list.splits)

lemma loop_keeps:
  "process_config_loop E w table nodes c = Inr (ok, c') \<Longrightarrow> buffers_ok c \<Longrightarrow> buffers_ok c'"
proof (induction nodes arbitrary: c)
  case (Cons node nodes)
  show ?case
  proof (cases "gdata node")
    case None
    with Cons show ?thesis by simp
  next
    case (Some name)
    have c1: "buffers_ok (config_strings node c)"
      using Cons.prems(2) by (rule config_strings_keeps)
    show ?thesis
    proof (cases "map_of table name")
      case None
      with Some Cons c1 show ?thesis by simp
    next
      case h: (Some h)
      have "spec_section h" using sections map_of_SomeD [OF h] .
      from Cons.prems(1) Some h obtain ok2 c2 where
        run: "h E w node (config_strings node c) = Inr (ok2, c2)" and
        rest: "if ok2 then process_config_loop E w table nodes c2 = Inr (ok, c') else c' = c2"
        by (auto simp: Let_def c_bind_Inr split: if_splits)
      have "buffers_ok c2"
        using spec_section.keeps [OF \<open>spec_section h\<close> run c1] .
      with rest Cons.IH [of c2] show ?thesis by (simp split: if_splits)
    qed
  qed
qed simp

end

subsection \<open>Every handler keeps the promise\<close>

lemma fold_keeps: "(\<And>x a. P a \<Longrightarrow> P (f x a)) \<Longrightarrow> P a \<Longrightarrow> P (fold f xs a)"
  by (induction xs arbitrary: a) auto

lemma PATH_MAX_pos [simp]: "0 < PATH_MAX"
  by (simp add: PATH_MAX_def)

lemma pod_annotation_keeps:
  assumes "buffers_ok c"
  shows "buffers_ok (snd (cc_pod_handle_annotations c a))"
proof -
  have pod: "length (pod_sandbox_workloads (case cfg_pod c of None \<Rightarrow> zero_pod | Some p \<Rightarrow> p)) < PATH_MAX"
    using assms by (auto simp: buffers_ok_def zero_pod_def split: option.splits)
  with assms show ?thesis
    by (auto simp: cc_pod_handle_annotations_def add_container_mount_def pod_workloads_path_def Let_def
        buffers_ok_def zero_mount_def split: option.splits prod.splits)
qed

lemma buffers_ok_annotations [simp]:
  "buffers_ok (cfg_oci_update (oci_annotations_update f) c) = buffers_ok c"
  by (simp add: buffers_ok_def)

lemma annotation_keeps: "buffers_ok c \<Longrightarrow> buffers_ok (handle_annotation n c)"
proof -
  assume "buffers_ok c"
  then have "buffers_ok (snd (cc_pod_handle_annotations c a))" for a
    by (rule pod_annotation_keeps)
  with \<open>buffers_ok c\<close> show ?thesis
    by (auto simp: handle_annotation_def Let_def case_prod_unfold split: option.splits list.splits)
qed

interpretation annotations_section: spec_section annotations_spec_handler
  by unfold_locales
    (auto simp: annotations_spec_handler_def annotations_handle_section_def intro: fold_keeps annotation_keeps)

definition hook_acc_ok :: "hook_acc \<Rightarrow> bool" where
  "hook_acc_ok acc \<longleftrightarrow> hooks_ok (fst acc)
     \<and> (case fst (snd acc) of None \<Rightarrow> True | Some h \<Rightarrow> length (hook_path h) < PATH_MAX)"

lemma save_hook_keeps: "hook_acc_ok acc \<Longrightarrow> hook_acc_ok (save_current_hook acc)"
  by (auto simp: hook_acc_ok_def save_current_hook_def Let_def hooks_ok_def split: prod.splits option.splits)

lemma hook_keeps: "hook_acc_ok acc \<Longrightarrow> hook_acc_ok (handle_hook n acc)"
  using save_hook_keeps [of acc]
  by (cases acc) (auto simp: handle_hook_def Let_def hook_acc_ok_def zero_hook_def split: option.splits list.splits)

lemma hook_list_keeps: "hooks_ok hs \<Longrightarrow> hooks_ok (fst (handle_hook_list n hs err))"
proof -
  assume "hooks_ok hs"
  then have "hook_acc_ok (hs, None, err)" by (simp add: hook_acc_ok_def)
  then have "hook_acc_ok (handle_hook_list n hs err)"
    unfolding handle_hook_list_def by (intro save_hook_keeps fold_keeps [where P = hook_acc_ok] hook_keeps)
  then show ?thesis by (simp add: hook_acc_ok_def)
qed

lemma hooks_section_keeps: "buffers_ok (fst acc) \<Longrightarrow> buffers_ok (fst (handle_hooks_section n acc))"
proof (cases acc)
  case (Pair c err)
  moreover assume "buffers_ok (fst acc)"
  ultimately show ?thesis
    using hook_list_keeps [of "hooks_prestart (cfg_hooks c)" n err]
      hook_list_keeps [of "hooks_poststart (cfg_hooks c)" n err]
      hook_list_keeps [of "hooks_poststop (cfg_hooks c)" n err]
    by (auto simp: handle_hooks_section_def Let_def case_prod_unfold buffers_ok_def)
qed

interpretation hooks_section: spec_section hooks_spec_handler
proof unfold_locales
  fix E w node c ok c'
  assume "hooks_spec_handler E w node c = Inr (ok, c')" and "buffers_ok c"
  moreover have "buffers_ok (fst (fold handle_hooks_section (gchildren node) (c, False)))"
    using \<open>buffers_ok c\<close>
    by (intro fold_keeps [where P = "\<lambda>a. buffers_ok (fst a)"] hooks_section_keeps) auto
  ultimately show "buffers_ok c'"
    by (auto simp: hooks_spec_handler_def hooks_handle_section_def Let_def case_prod_unfold)
qed

definition mount_acc_ok :: "mount_acc \<Rightarrow> bool" where
  "mount_acc_ok acc \<longleftrightarrow> (\<forall>m \<in> set (fst acc). length (mount_dest m) < PATH_MAX)
     \<and> (case fst (snd acc) of None \<Rightarrow> True | Some m \<Rightarrow> length (mount_dest m) < PATH_MAX)"

lemma save_mount_keeps: "mount_acc_ok acc \<Longrightarrow> mount_acc_ok (save_current_mount acc)"
  by (auto simp: mount_acc_ok_def save_current_mount_def Let_def split: prod.splits option.splits)

lemma mount_section_keeps: "mount_acc_ok acc \<Longrightarrow> mount_acc_ok (handle_mounts_section n acc)"
  using save_mount_keeps [of acc]
  by (cases acc)
    (auto simp: handle_mounts_section_def Let_def mount_acc_ok_def zero_mount_def case_prod_unfold
      split: option.splits list.splits)

interpretation mounts_section: spec_section mounts_spec_handler
proof unfold_locales
  fix E w node c ok c'
  assume run: "mounts_spec_handler E w node c = Inr (ok, c')" and ok: "buffers_ok c"
  let ?acc = "fold handle_mounts_section (gchildren node) (cfg_mounts c, None, False)"
  have "mount_acc_ok ?acc"
    using ok by (intro fold_keeps [where P = mount_acc_ok] mount_section_keeps)
      (auto simp: mount_acc_ok_def buffers_ok_def)
  then have "mount_acc_ok (save_current_mount ?acc)" "mount_acc_ok ?acc"
    by (auto intro: save_mount_keeps)
  moreover obtain ms cur err where "?acc = (ms, cur, err)"
    by (cases ?acc) auto
  ultimately show "buffers_ok c'"
    using run ok
    by (auto simp: mounts_spec_handler_def mounts_handle_section_def mount_acc_ok_def
        buffers_ok_def split: if_splits prod.splits)
qed

interpretation platform_section: spec_section platform_spec_handler
proof unfold_locales
  fix E w node c ok c'
  assume "platform_spec_handler E w node c = Inr (ok, c')" and "buffers_ok c"
  moreover have "buffers_ok d \<Longrightarrow> buffers_ok (handle_platform_section n d)" for n d
    by (auto simp: handle_platform_section_def buffers_ok_def split: list.splits)
  ultimately show "buffers_ok c'"
    by (auto simp: platform_spec_handler_def platform_handle_section_def Let_def intro: fold_keeps)
qed

interpretation process_section: spec_section process_spec_handler
proof unfold_locales
  fix E w node c ok c'
  assume run: "process_spec_handler E w node c = Inr (ok, c')" and ok: "buffers_ok c"
  have user: "handle_user_section n d = Inr d' \<Longrightarrow> buffers_ok d \<Longrightarrow> buffers_ok d'" for n d d'
    by (auto simp: handle_user_section_def c_bind_Inr buffers_ok_def split: if_splits)
  have "c_fold handle_user_section ns d = Inr d' \<Longrightarrow> buffers_ok d \<Longrightarrow> buffers_ok d'" for ns d d'
    using c_fold_invariant [of ns buffers_ok handle_user_section d d'] user by blast
  then have "handle_process_section n d = Inr d' \<Longrightarrow> buffers_ok d \<Longrightarrow> buffers_ok d'" for n d d'
    by (auto simp: handle_process_section_def c_bind_Inr buffers_ok_def simp del: c_fold.simps
        split: if_splits list.splits)
  then have fold: "c_fold handle_process_section ns d = Inr d' \<Longrightarrow> buffers_ok d \<Longrightarrow> buffers_ok d'" for ns d d'
    using c_fold_invariant [of ns buffers_ok handle_process_section d d'] by blast
  from run obtain c1 where "c_fold handle_process_section (gchildren node)
      (upd_process (proc_stderr_stream_update (\<lambda>_. - 1)) (upd_process (proc_stdio_stream_update (\<lambda>_. - 1)) c)) = Inr c1"
    and "c' = c1"
    by (auto simp: process_spec_handler_def process_handle_section_def c_bind_Inr Let_def)
  with fold show "buffers_ok c'"
    using ok by (auto simp: buffers_ok_def)
qed

interpretation root_section: spec_section root_spec_handler
proof unfold_locales
  fix E w node c ok c'
  assume "root_spec_handler E w node c = Inr (ok, c')" and "buffers_ok c"
  moreover have "buffers_ok d \<Longrightarrow> buffers_ok (handle_root_section E w n d)" for n d
    by (auto simp: handle_root_section_def buffers_ok_def split: list.splits option.splits)
  ultimately show "buffers_ok c'"
    by (auto simp: root_spec_handler_def root_handle_section_def Let_def intro: fold_keeps)
qed

lemma kernel_section_keeps: "vm_paths_ok vm \<Longrightarrow> vm_paths_ok (handle_kernel_section E w n vm)"
  by (auto simp: handle_kernel_section_def vm_paths_ok_def split: list.splits option.splits)

lemma vm_section_keeps: "vm_paths_ok vm \<Longrightarrow> vm_paths_ok (handle_vm_section E w n vm)"
proof -
  assume ok: "vm_paths_ok vm"
  then have "vm_paths_ok (fold (handle_kernel_section E w) (gchildren n) vm)"
    by (intro fold_keeps [where P = vm_paths_ok] kernel_section_keeps)
  with ok show ?thesis
    by (auto simp: handle_vm_section_def vm_paths_ok_def split: list.splits option.splits)
qed

interpretation vm_section: spec_section vm_spec_handler
proof unfold_locales
  fix E w node c ok c'
  assume run: "vm_spec_handler E w node c = Inr (ok, c')" and ok: "buffers_ok c"
  have "vm_paths_ok (case cfg_vm c of None \<Rightarrow> zero_vm | Some vm \<Rightarrow> vm)"
    using ok by (auto simp: buffers_ok_def vm_paths_ok_def zero_vm_def split: option.splits)
  then have "vm_paths_ok (fold (handle_vm_section E w) (gchildren node)
      (case cfg_vm c of None \<Rightarrow> zero_vm | Some vm \<Rightarrow> vm))"
    by (intro fold_keeps [where P = vm_paths_ok] vm_section_keeps)
  with run ok show "buffers_ok c'"
    by (auto simp: vm_spec_handler_def vm_handle_section_def Let_def buffers_ok_def split: if_splits)
qed

interpretation linux_section: spec_section linux_spec_handler
  by unfold_locales
    (auto simp: linux_spec_handler_def linux_handle_section_def Let_def case_prod_unfold buffers_ok_def)

lemmas all_sections =
  annotations_section.spec_section_axioms hooks_section.spec_section_axioms
  mounts_section.spec_section_axioms platform_section.spec_section_axioms
  process_section.spec_section_axioms root_section.spec_section_axioms
  vm_section.spec_section_axioms linux_section.spec_section_axioms

interpretation start_table: section_table start_spec_handlers
  by (rule section_table.intro) (auto simp: start_spec_handlers_def intro: all_sections)

interpretation stop_table: section_table stop_spec_handlers
  by (rule section_table.intro) (auto simp: stop_spec_handlers_def intro: all_sections)

end
