(* ===== verification/ConfigProps.thy ===== *)
theory ConfigProps
  imports ConfigFile
begin

section \<open>Properties of the configuration reader\<close>

text \<open>
  What running the handlers over a configuration tree gives: the static variables they leave between
  entries are empty again, no string outgrows its buffer, the mounts and hooks sections give exactly
  their entries, and the version check.
\<close>

subsection \<open>The static variables\<close>

lemma hooks_current_none: "fst (snd (handle_hook_list n hs err)) = None"
  by (auto simp: handle_hook_list_def save_current_hook_def Let_def split: prod.splits option.splits)

lemma mounts_current_none:
  assumes "fold handle_mounts_section ns (ms, None, False) = (ms', cur, err)"
  shows "fst (snd (if \<not> err then save_current_mount (ms', cur, err) else (ms', cur, err))) = None"
proof -
  have "snd (snd acc) \<longrightarrow> fst (snd acc) = None \<Longrightarrow>
      snd (snd (handle_mounts_section n acc)) \<longrightarrow> fst (snd (handle_mounts_section n acc)) = None" for n acc
    by (cases acc) (auto simp: handle_mounts_section_def save_current_mount_def Let_def split: option.splits list.splits)
  then have "snd (snd (fold handle_mounts_section ns (ms, None, False))) \<longrightarrow>
      fst (snd (fold handle_mounts_section ns (ms, None, False))) = None"
    by (rule fold_keeps [where P = "\<lambda>acc. snd (snd acc) \<longrightarrow> fst (snd acc) = None"]) simp_all
  with assms show ?thesis
    by (auto simp: save_current_mount_def split: option.splits)
qed

lemma ns_current_none:
  assumes "fold handle_linux_section ns (nss, None, False) = (nss', cur, err)"
  shows "fst (snd (if \<not> err then save_current_ns (nss', cur, err) else (nss', cur, err))) = None"
proof -
  let ?P = "\<lambda>acc :: ns_acc. snd (snd acc) \<longrightarrow> fst (snd acc) = None"
  have one: "?P acc \<Longrightarrow> ?P (handle_namespaces_section n acc)" for n acc
    by (cases acc) (auto simp: handle_namespaces_section_def save_current_ns_def Let_def split: option.splits list.splits)
  have "?P acc \<Longrightarrow> ?P (fold handle_namespaces_section xs acc)" for acc xs
    by (rule fold_keeps [where P = ?P]) (rule one)
  then have "?P acc \<Longrightarrow> ?P (handle_linux_section n acc)" for n acc
    by (simp add: handle_linux_section_def)
  then have "?P (fold handle_linux_section ns (nss, None, False))"
    by (rule fold_keeps [where P = ?P]) simp_all
  with assms show ?thesis
    by (auto simp: save_current_ns_def split: option.splits)
qed

subsection \<open>The mounts section\<close>

text \<open>A mount entry as it is written in config.json, and the mount it stands for.\<close>

record mount_spec =
  ms_dest :: string
  ms_type :: string
  ms_source :: string
  ms_options :: "string list"

definition mount_json :: "mount_spec \<Rightarrow> json" where
  "mount_json m = JObject [(''destination'', JString (ms_dest m)), (''type'', JString (ms_type m)),
     (''source'', JString (ms_source m)), (''options'', JArray (map JString (ms_options m)))]"

definition known :: "string \<Rightarrow> bool" where
  "known opt \<longleftrightarrow> opt \<in> fst ` set mnt_flag_map"

definition mount_of :: "mount_spec \<Rightarrow> cc_oci_mount" where
  "mount_of m = zero_mount
     \<lparr>mount_flags := fold (OR) (map (the \<circ> map_of mnt_flag_map) (filter known (ms_options m))) 0,
      mount_mnt :=
        \<lparr>mnt_fsname = Some (ms_source m), mnt_dir = Some (ms_dest m), mnt_type = Some (ms_type m),
         mnt_opts = (let unknown = filter (\<lambda>opt. \<not> known opt) (ms_options m)
                     in if unknown = [] then None else Some (strjoinv (CHR '','') unknown))\<rparr>\<rparr>"

lemma flag_values: "list_all (\<lambda>(n, v). v \<noteq> 0) mnt_flag_map"
  by code_simp

lemma flag_known: "mount_get_flag_value (Some opt) = (if known opt then the (map_of mnt_flag_map opt) else 0)"
  by (auto simp: mount_get_flag_value_def known_def map_of_eq_None_iff split: option.splits)
    (metis image_iff map_of_SomeD option.sel prod.sel)

lemma flag_nonzero: "known opt \<Longrightarrow> the (map_of mnt_flag_map opt) \<noteq> 0"
proof -
  assume "known opt"
  then obtain v where "map_of mnt_flag_map opt = Some v"
    by (auto simp: known_def map_of_eq_None_iff dest: weak_map_of_SomeI)
  then show ?thesis
    using flag_values map_of_SomeD by (fastforce simp: list_all_iff)
qed

lemma options_fold:
  "fold handle_options_section (map (\<lambda>s. GNode (Some s) [GNode None []]) opts) (flags, acc) =
   (fold (OR) (map (the \<circ> map_of mnt_flag_map) (filter known opts)) flags,
    acc @ concat (map (\<lambda>s. s @ '','') (filter (\<lambda>opt. \<not> known opt) opts)))"
  by (induction opts arbitrary: flags acc)
    (auto simp: handle_options_section_def flag_known flag_nonzero fmt_s_def Let_def or.commute)

lemma join_options: "xs \<noteq> [] \<Longrightarrow> butlast (concat (map (\<lambda>s. s @ '','') xs)) = strjoinv (CHR '','') xs"
proof (induction xs)
  case (Cons x xs)
  then show ?case
    by (cases xs) (simp_all add: butlast_append)
qed simp

text \<open>One entry: what precedes it is saved, and the entry becomes the current mount.\<close>

definition complete :: "cc_oci_mount \<Rightarrow> bool" where
  "complete m \<longleftrightarrow> mnt_dir (mount_mnt m) \<noteq> None \<and> mnt_type (mount_mnt m) \<noteq> None \<and> mnt_fsname (mount_mnt m) \<noteq> None"

definition pending :: "cc_oci_mount option \<Rightarrow> cc_oci_mount list" where
  "pending cur = (case cur of None \<Rightarrow> [] | Some m \<Rightarrow> [m])"

lemma complete_mount_of: "complete (mount_of m)"
  by (simp add: complete_def mount_of_def)

lemma options_node_generic:
  assumes "nodes \<noteq> []" and "fold handle_options_section nodes (mount_flags m, []) = (fl, opts)"
  shows "handle_mounts_section (GNode (Some ''options'') nodes) (ms, Some m, False) =
    (ms, Some (m\<lparr>mount_flags := fl,
       mount_mnt := (if opts = [] then mount_mnt m else (mount_mnt m)\<lparr>mnt_opts := Some (butlast opts)\<rparr>)\<rparr>), False)"
  using assms by (cases nodes) (simp_all add: handle_mounts_section_def Let_def del: fold_simps)

lemma options_node:
  "handle_mounts_section (GNode (Some ''options'') (map (\<lambda>s. GNode (Some s) [GNode None []]) opts))
     (ms, Some m, False) =
   (ms, Some (m\<lparr>mount_flags := fold (OR) (map (the \<circ> map_of mnt_flag_map) (filter known opts)) (mount_flags m),
      mount_mnt := (let unknown = filter (\<lambda>opt. \<not> known opt) opts
        in if unknown = [] then mount_mnt m
           else (mount_mnt m)\<lparr>mnt_opts := Some (strjoinv (CHR '','') unknown)\<rparr>)\<rparr>), False)"
proof (cases "opts = []")
  case True
  then show ?thesis by (simp add: handle_mounts_section_def)
next
  case False
  let ?nodes = "map (\<lambda>s. GNode (Some s) [GNode None []]) opts"
  let ?unknown = "filter (\<lambda>opt. \<not> known opt) opts"
  have nil: "concat (map (\<lambda>s. s @ '','') ?unknown) = [] \<longleftrightarrow> ?unknown = []"
    by (cases ?unknown) (auto simp del: filter_empty_conv)
  have "?nodes \<noteq> []" using False by simp
  from options_node_generic [OF this options_fold [of opts "mount_flags m" "[]"]] nil join_options [of ?unknown]
  show ?thesis
    by (cases "?unknown = []") (simp_all only: append.simps Let_def if_True if_False simp_thms)
qed

lemma mount_entry:
  assumes "\<forall>m. cur = Some m \<longrightarrow> complete m"
  shows "fold handle_mounts_section (cc_oci_json_parse_aux (mount_json m) True) (ms, cur, False) =
         (ms @ pending cur, Some (mount_of m), False)"
proof -
  have "fold handle_mounts_section
      [GNode None [], GNode (Some ''destination'') [GNode (Some (ms_dest m)) []],
       GNode (Some ''type'') [GNode (Some (ms_type m)) []], GNode (Some ''source'') [GNode (Some (ms_source m)) []]]
      (ms, cur, False) =
    (ms @ pending cur, Some (zero_mount\<lparr>mount_mnt := zero_mntent\<lparr>mnt_dir := Some (ms_dest m),
       mnt_type := Some (ms_type m), mnt_fsname := Some (ms_source m)\<rparr>\<rparr>), False)"
    using assms
    by (cases cur) (auto simp: handle_mounts_section_def save_current_mount_def complete_def pending_def zero_mount_def)
  moreover have "cc_oci_json_parse_aux (mount_json m) True =
      [GNode None [], GNode (Some ''destination'') [GNode (Some (ms_dest m)) []],
       GNode (Some ''type'') [GNode (Some (ms_type m)) []], GNode (Some ''source'') [GNode (Some (ms_source m)) []]]
      @ [GNode (Some ''options'') (map (\<lambda>s. GNode (Some s) [GNode None []]) (ms_options m))]"
    using parse_string_array [of "ms_options m" False]
    by (simp add: mount_json_def cc_oci_json_string_def del: cc_oci_json_parse_aux.simps(2))
  ultimately show ?thesis
    by (simp add: options_node mount_of_def zero_mount_def zero_mntent_def Let_def del: fold_simps)
qed

lemma mount_entries:
  assumes "\<forall>m. cur = Some m \<longrightarrow> complete m"
  shows "fold handle_mounts_section (cc_oci_json_parse_aux (JArray (map mount_json specs)) b) (ms, cur, False) =
         (if specs = [] then (ms, cur, False)
          else (ms @ pending cur @ butlast (map mount_of specs), Some (mount_of (last specs)), False))"
  using assms
proof (induction specs arbitrary: ms cur)
  case (Cons m specs)
  have "fold handle_mounts_section (cc_oci_json_parse_aux (JArray (map mount_json (m # specs))) b) (ms, cur, False) =
      fold handle_mounts_section (cc_oci_json_parse_aux (JArray (map mount_json specs)) b)
        (ms @ pending cur, Some (mount_of m), False)"
    using mount_entry [OF Cons.prems, of m ms] by simp
  then show ?case
    using Cons.IH [of "Some (mount_of m)" "ms @ pending cur"] complete_mount_of
    by (auto simp: pending_def)
qed simp

text \<open>
  C25. The mounts section of \<^verbatim>\<open>config.json\<close> is read exactly: one mount per entry, in order, with
  source, destination and type as written, the flags the disjunction of the known options
  and the option string the remaining options joined by commas.
\<close>

theorem mounts_section_correct:
  assumes "cfg_mounts config = []"
  shows "mounts_handle_section
           (GNode d (cc_oci_json_parse_aux (JArray (map mount_json specs)) False)) config =
         (True, upd_mounts (\<lambda>_. map mount_of specs) config)"
proof -
  have run: "fold handle_mounts_section (cc_oci_json_parse_aux (JArray (map mount_json specs)) False) ([], None, False) =
      (if specs = [] then ([], None, False)
       else (butlast (map mount_of specs), Some (mount_of (last specs)), False))"
    using mount_entries [of None specs False "[]"] by (simp add: pending_def)
  show ?thesis
  proof (cases "specs = []")
    case True
    then show ?thesis
      using assms by (simp add: mounts_handle_section_def save_current_mount_def)
  next
    case False
    have "butlast (map mount_of specs) @ [mount_of (last specs)] = map mount_of specs"
      using False by (metis append_butlast_last_id last_map list.map_disc_iff)
    then show ?thesis
      using assms run False complete_mount_of [of "last specs"]
      by (simp add: mounts_handle_section_def save_current_mount_def complete_def
          del: cc_oci_json_parse_aux.simps)
  qed
qed

definition sample_mount_spec :: mount_spec where
  "sample_mount_spec = \<lparr>ms_dest = ''/tmp'', ms_type = ''tmpfs'', ms_source = ''tmpfs'',
     ms_options = [''ro'', ''size=64k'', ''nosuid'', ''mode=755'']\<rparr>"

theorem mounts_section_correct_witness:
  "mounts_handle_section
     (GNode None (cc_oci_json_parse_aux (JArray [mount_json sample_mount_spec]) False)) zero_config =
     (True, upd_mounts (\<lambda>_. [mount_of sample_mount_spec]) zero_config)
   \<and> mount_flags (mount_of sample_mount_spec) = 3
   \<and> mnt_opts (mount_mnt (mount_of sample_mount_spec)) = Some ''size=64k,mode=755''"
proof -
  have "mount_flags (mount_of sample_mount_spec) = 3"
    "mnt_opts (mount_mnt (mount_of sample_mount_spec)) = Some ''size=64k,mode=755''"
    by code_simp+
  moreover have "cfg_mounts zero_config = []" by (simp add: zero_config_def)
  ultimately show ?thesis
    using mounts_section_correct [of zero_config None "[sample_mount_spec]"]
    by (simp del: cc_oci_json_parse_aux.simps)
qed

subsection \<open>The hooks section\<close>

definition hook_json :: "oci_cfg_hook \<Rightarrow> json" where
  "hook_json h = JObject [(''path'', JString (hook_path h)),
     (''args'', JArray (map JString (case hook_args h of None \<Rightarrow> [] | Some a \<Rightarrow> a))),
     (''env'', JArray (map JString (case hook_env h of None \<Rightarrow> [] | Some e \<Rightarrow> e))),
     (''timeout'', JInt (hook_timeout h))]"

definition hook_read :: "oci_cfg_hook \<Rightarrow> oci_cfg_hook" where
  "hook_read h = h\<lparr>hook_args := strv_norm (hook_args h), hook_env := strv_norm (hook_env h)\<rparr>"

definition hook_wf :: "oci_cfg_hook \<Rightarrow> bool" where
  "hook_wf h \<longleftrightarrow> hook_path h \<noteq> [] \<and> length (hook_path h) < PATH_MAX \<and> is_gint (hook_timeout h)"

lemma handle_hook_path:
  assumes "length p < PATH_MAX"
  shows "handle_hook (GNode (Some ''path'') [GNode (Some p) []]) (hs, None, False) =
         (hs, Some (zero_hook\<lparr>hook_path := p\<rparr>), False)"
  using assms by (simp add: handle_hook_def fmt_s_def buf_copy_id)

lemma handle_hook_args:
  "handle_hook (GNode (Some ''args'') (cc_oci_json_parse_aux (JArray (map JString xs)) False)) (hs, Some h, False) =
   (hs, Some (if xs = [] then h else h\<lparr>hook_args := Some xs\<rparr>), False)"
  using node_to_strv_string_array [of "Some ''args''" xs False]
  by (cases xs) (simp_all add: handle_hook_def cc_oci_json_string_def)

lemma handle_hook_env:
  "handle_hook (GNode (Some ''env'') (cc_oci_json_parse_aux (JArray (map JString xs)) False)) (hs, Some h, False) =
   (hs, Some (if xs = [] then h else h\<lparr>hook_env := Some xs\<rparr>), False)"
  using node_to_strv_string_array [of "Some ''env''" xs False]
  by (cases xs) (simp_all add: handle_hook_def cc_oci_json_string_def)

lemma handle_hook_timeout:
  assumes "is_gint i"
  shows "handle_hook (GNode (Some ''timeout'') (cc_oci_json_parse_aux (JInt i) False)) (hs, Some h, False) =
         (hs, Some (h\<lparr>hook_timeout := i\<rparr>), False)"
  using assms
  by (simp add: handle_hook_def json_int_string [OF gint_small] strtol_int_to_dec sat64_gint wrap32s_id)

definition pending_hook :: "oci_cfg_hook option \<Rightarrow> oci_cfg_hook list" where
  "pending_hook cur = (case cur of None \<Rightarrow> [] | Some h \<Rightarrow> [h])"

lemma handle_hook_separator:
  "\<forall>h. cur = Some h \<longrightarrow> hook_path h \<noteq> [] \<Longrightarrow>
   handle_hook (GNode None []) (hs, cur, False) = (hs @ pending_hook cur, None, False)"
  by (cases cur) (simp_all add: handle_hook_def save_current_hook_def pending_hook_def)

lemma hook_entry:
  assumes "hook_wf h" and "\<forall>h. cur = Some h \<longrightarrow> hook_path h \<noteq> []"
  shows "fold handle_hook (cc_oci_json_parse_aux (hook_json h) True) (hs, cur, False) =
         (hs @ pending_hook cur, Some (hook_read h), False)"
proof -
  have "cc_oci_json_parse_aux (hook_json h) True =
    [GNode None [], GNode (Some ''path'') [GNode (Some (hook_path h)) []],
     GNode (Some ''args'') (cc_oci_json_parse_aux (JArray (map JString (case hook_args h of None \<Rightarrow> [] | Some a \<Rightarrow> a))) False),
     GNode (Some ''env'') (cc_oci_json_parse_aux (JArray (map JString (case hook_env h of None \<Rightarrow> [] | Some e \<Rightarrow> e))) False),
     GNode (Some ''timeout'') (cc_oci_json_parse_aux (JInt (hook_timeout h)) False)]"
    by (simp add: hook_json_def cc_oci_json_string_def [of "JString _"])
  moreover have "length (hook_path h) < PATH_MAX" "is_gint (hook_timeout h)"
    using assms(1) by (simp_all add: hook_wf_def)
  moreover have "h = \<lparr>hook_path = hook_path h, hook_args = hook_args h, hook_env = hook_env h,
      hook_timeout = hook_timeout h\<rparr>"
    by simp
  ultimately show ?thesis
    by (simp add: handle_hook_separator [OF assms(2)] handle_hook_path handle_hook_args handle_hook_env
        handle_hook_timeout hook_read_def strv_norm_def zero_hook_def del: cc_oci_json_parse_aux.simps
        split: option.splits list.splits)
qed

lemma hook_entries:
  assumes "\<forall>h \<in> set hooks. hook_wf h" and "\<forall>h. cur = Some h \<longrightarrow> hook_path h \<noteq> []"
  shows "fold handle_hook (cc_oci_json_parse_aux (JArray (map hook_json hooks)) b) (hs, cur, False) =
         (if hooks = [] then (hs, cur, False)
          else (hs @ pending_hook cur @ butlast (map hook_read hooks), Some (hook_read (last hooks)), False))"
  using assms
proof (induction hooks arbitrary: hs cur)
  case (Cons h hooks)
  have "fold handle_hook (cc_oci_json_parse_aux (JArray (map hook_json (h # hooks))) b) (hs, cur, False) =
      fold handle_hook (cc_oci_json_parse_aux (JArray (map hook_json hooks)) b)
        (hs @ pending_hook cur, Some (hook_read h), False)"
    using hook_entry [OF _ Cons.prems(2), of h hs] Cons.prems(1) by simp
  moreover have "hook_path (hook_read h) \<noteq> []"
    using Cons.prems(1) by (simp add: hook_read_def hook_wf_def)
  ultimately show ?case
    using Cons.IH [of "Some (hook_read h)" "hs @ pending_hook cur"] Cons.prems
    by (auto simp: pending_hook_def)
qed simp

lemma hook_list_correct:
  assumes "\<forall>h \<in> set hooks. hook_wf h"
  shows "handle_hook_list (GNode d (cc_oci_json_parse_aux (JArray (map hook_json hooks)) b)) hs False =
         (hs @ map hook_read hooks, None, False)"
proof (cases "hooks = []")
  case True
  then show ?thesis by (simp add: handle_hook_list_def save_current_hook_def)
next
  case False
  have "butlast (map hook_read hooks) @ [hook_read (last hooks)] = map hook_read hooks"
    using False by (metis append_butlast_last_id last_map list.map_disc_iff)
  moreover have "hook_path (hook_read (last hooks)) \<noteq> []"
    using assms False by (simp add: hook_read_def hook_wf_def)
  ultimately show ?thesis
    using hook_entries [OF assms, of None b hs] False
    by (simp add: handle_hook_list_def save_current_hook_def pending_hook_def del: cc_oci_json_parse_aux.simps)
qed

text \<open>
  C26. The hooks of \<^verbatim>\<open>config.json\<close> are read exactly: the three lists get their hooks in order, with path,
  arguments, environment and timeout as written (an empty vector reads as none).
\<close>

theorem hooks_section_correct:
  assumes "\<forall>h \<in> set pre \<union> set post \<union> set stop. hook_wf h"
    and "cfg_hooks config = \<lparr>hooks_prestart = [], hooks_poststart = [], hooks_poststop = []\<rparr>"
  shows "hooks_handle_section
           (GNode d (cc_oci_json_parse_aux (JObject [(''prestart'', JArray (map hook_json pre)),
              (''poststart'', JArray (map hook_json post)), (''poststop'', JArray (map hook_json stop))]) False)) config =
         (True, cfg_oci_update (oci_hooks_update (\<lambda>_.
            \<lparr>hooks_prestart = map hook_read pre, hooks_poststart = map hook_read post,
             hooks_poststop = map hook_read stop\<rparr>)) config)"
proof -
  have nil: "cc_oci_json_parse_aux (JArray (map hook_json hs)) False = [] \<longleftrightarrow> hs = []" for hs
    by (cases hs) (simp_all add: hook_json_def)
  have lists: "\<forall>h \<in> set pre. hook_wf h" "\<forall>h \<in> set post. hook_wf h" "\<forall>h \<in> set stop. hook_wf h"
    using assms(1) by auto
  show ?thesis
    using assms(2) lists [THEN hook_list_correct]
    by (simp add: hooks_handle_section_def handle_hooks_section_def nil del: cc_oci_json_parse_aux.simps(2-))
qed

definition sample_hook :: oci_cfg_hook where
  "sample_hook = \<lparr>hook_path = ''/bin/h'', hook_args = Some [''h'', ''x''], hook_env = None, hook_timeout = 5\<rparr>"

theorem hooks_section_correct_witness:
  "hook_wf sample_hook \<and>
   hooks_handle_section
     (GNode None (cc_oci_json_parse_aux (JObject [(''prestart'', JArray [hook_json sample_hook]),
        (''poststart'', JArray []), (''poststop'', JArray [])]) False)) zero_config =
     (True, cfg_oci_update (oci_hooks_update (\<lambda>_.
        \<lparr>hooks_prestart = [sample_hook], hooks_poststart = [], hooks_poststop = []\<rparr>)) zero_config)"
proof -
  have "hook_wf sample_hook" "hook_read sample_hook = sample_hook"
    by (simp_all add: hook_wf_def sample_hook_def is_gint_def PATH_MAX_def hook_read_def strv_norm_def)
  moreover have "cfg_hooks zero_config = \<lparr>hooks_prestart = [], hooks_poststart = [], hooks_poststop = []\<rparr>"
    by (simp add: zero_config_def)
  ultimately show ?thesis
    using hooks_section_correct [of "[sample_hook]" "[]" "[]" zero_config None]
    by (simp del: cc_oci_json_parse_aux.simps)
qed

subsection \<open>The configuration as a whole\<close>

text \<open>
  C20. Processing any configuration tree with the handlers of the create and start commands, on
  success and on failure, leaves every fixed-size path buffer within \<^verbatim>\<open>PATH_MAX\<close> and every stored
  hook with a path.
\<close>

theorem process_config_buffers:
  assumes "cc_oci_process_config E w root config start_spec_handlers = Inr (ok, config')"
    and "buffers_ok config"
  shows "buffers_ok config'"
  using assms unfolding cc_oci_process_config_def by (rule start_table.loop_keeps)

theorem process_config_buffers_witness:
  "\<exists>ok config'. cc_oci_process_config (calm_env (\<lambda>_. None)) empty_world
      (GNode None (cc_oci_json_parse_aux (JObject [(''process'', JObject [(''cwd'', JString ''/x''),
         (''args'', JArray [JString ''sh''])])]) False)) zero_config start_spec_handlers = Inr (ok, config')
    \<and> proc_cwd (cfg_process config') = ''/x'' \<and> buffers_ok config'"
proof -
  let ?run = "cc_oci_process_config (calm_env (\<lambda>_. None)) empty_world
      (GNode None (cc_oci_json_parse_aux (JObject [(''process'', JObject [(''cwd'', JString ''/x''),
         (''args'', JArray [JString ''sh''])])]) False)) zero_config start_spec_handlers"
  have "case ?run of Inl _ \<Rightarrow> False | Inr (ok, c) \<Rightarrow> proc_cwd (cfg_process c) = ''/x''"
    by code_simp
  then obtain ok c where run: "?run = Inr (ok, c)" and "proc_cwd (cfg_process c) = ''/x''"
    by (auto split: sum.splits)
  moreover have "buffers_ok zero_config"
    by (simp add: buffers_ok_def zero_config_def zero_process_def hooks_ok_def)
  ultimately show ?thesis
    using process_config_buffers [OF run] by blast
qed

lemma supported_version_fields:
  "g_strsplit CC_OCI_SUPPORTED_SPEC_VERSION (CHR ''.'') (Some 3) = [''1'', ''0'', ''0-rc1'']"
  by code_simp

text \<open>
  A configuration passes \<^verbatim>\<open>cc_oci_config_check\<close> exactly when the major number of its version is
  at most 1; minor, patch and pre-release fields play no role.
\<close>

theorem config_check_major:
  assumes "oci_version (cfg_oci config) = Some (major @ ''.'' @ rest)" and "CHR ''.'' \<notin> set major"
  shows "cc_oci_config_check config = Inr (atol major \<le> 1)"
proof -
  obtain y zs where split: "g_strsplit (major @ ''.'' @ rest) (CHR ''.'') (Some 3) = major # y # zs"
    using strsplit_two_fields [OF assms(2)] by blast
  have "atol ''1'' = 1" by code_simp
  then have "cc_oci_semver_cmp CC_OCI_SUPPORTED_SPEC_VERSION (major @ ''.'' @ rest) =
      Inr (if atol major < 1 then 1 else if atol major > 1 then - 1 else 0)"
    unfolding semver_defs supported_version_fields split by (simp add: Let_def)
  with assms(1) show ?thesis
    by (simp add: cc_oci_config_check_def)
qed

theorem config_check_major_witness:
  "cc_oci_config_check (cfg_oci_update (oci_version_update (\<lambda>_. Some ''1.9.0-rc5'')) zero_config) = Inr True
   \<and> cc_oci_config_check (cfg_oci_update (oci_version_update (\<lambda>_. Some ''2.0.0'')) zero_config) = Inr False"
proof -
  have "atol ''1'' = 1" "atol ''2'' = 2" by code_simp+
  then show ?thesis
    using config_check_major [of "cfg_oci_update (oci_version_update (\<lambda>_. Some ''1.9.0-rc5'')) zero_config" "''1''" "''9.0-rc5''"]
      config_check_major [of "cfg_oci_update (oci_version_update (\<lambda>_. Some ''2.0.0'')) zero_config" "''2''" "''0.0''"]
    by simp
qed

text \<open>
  A version without a dot makes the check read a field that is not there.
\<close>

theorem config_check_no_dot_faults:
  assumes "oci_version (cfg_oci config) = Some v" and "CHR ''.'' \<notin> set v"
  shows "cc_oci_config_check config = Inl NullDeref"
proof -
  have "field (g_strsplit v (CHR ''.'') (Some 3)) 1 = None"
    using strsplit_no_dot [OF assms(2)] by (simp add: field_def)
  then have "cc_oci_semver_cmp CC_OCI_SUPPORTED_SPEC_VERSION v = Inl NullDeref"
    unfolding semver_defs(1,3,4) supported_version_fields by (simp add: field_def split: option.splits)
  with assms(1) show ?thesis by (simp add: cc_oci_config_check_def)
qed

theorem config_check_no_dot_faults_witness:
  "cc_oci_config_check (cfg_oci_update (oci_version_update (\<lambda>_. Some ''1'')) zero_config) = Inl NullDeref"
  using config_check_no_dot_faults [of "cfg_oci_update (oci_version_update (\<lambda>_. Some ''1'')) zero_config" "''1''"]
  by simp

subsection \<open>The order of the sections\<close>

text \<open>What the sections share: the id of the container, the mounts and the root file system.\<close>

definition shared_parts :: "cc_oci_config \<Rightarrow> gchars \<times> cc_oci_mount list \<times> string" where
  "shared_parts c = (cfg_optarg_container_id c, cfg_mounts c, root_path (oci_root (cfg_oci c)))"

lemma config_strings_shared: "shared_parts (config_strings n c) = shared_parts c"
  by (auto simp: config_strings_def shared_parts_def split: list.splits)

lemma hooks_shared: "hooks_spec_handler E w node c = Inr (ok, c') \<Longrightarrow> shared_parts c' = shared_parts c"
proof -
  have "shared_parts (fst (handle_hooks_section n acc)) = shared_parts (fst acc)" for n acc
    by (cases acc) (auto simp: handle_hooks_section_def shared_parts_def Let_def case_prod_unfold)
  then have "shared_parts (fst (fold handle_hooks_section ns (c, False))) = shared_parts c" for ns
    by (intro fold_keeps [where P = "\<lambda>a. shared_parts (fst a) = shared_parts c"]) simp_all
  then show "hooks_spec_handler E w node c = Inr (ok, c') \<Longrightarrow> shared_parts c' = shared_parts c"
    by (auto simp: hooks_spec_handler_def hooks_handle_section_def Let_def case_prod_unfold)
qed

lemma platform_shared: "platform_spec_handler E w node c = Inr (ok, c') \<Longrightarrow> shared_parts c' = shared_parts c"
proof -
  have "shared_parts (handle_platform_section n d) = shared_parts d" for n d
    by (auto simp: handle_platform_section_def shared_parts_def split: list.splits)
  then have "shared_parts (fold handle_platform_section ns c) = shared_parts c" for ns
    by (intro fold_keeps [where P = "\<lambda>d. shared_parts d = shared_parts c"]) simp_all
  then show "platform_spec_handler E w node c = Inr (ok, c') \<Longrightarrow> shared_parts c' = shared_parts c"
    by (auto simp: platform_spec_handler_def platform_handle_section_def Let_def)
qed

lemma process_shared: "process_spec_handler E w node c = Inr (ok, c') \<Longrightarrow> shared_parts c' = shared_parts c"
proof -
  let ?P = "\<lambda>d. shared_parts d = shared_parts c"
  have "handle_user_section n d = Inr d' \<Longrightarrow> ?P d \<Longrightarrow> ?P d'" for n d d'
    by (auto simp: handle_user_section_def c_bind_Inr shared_parts_def split: if_splits)
  then have "c_fold handle_user_section ns d = Inr d' \<Longrightarrow> ?P d \<Longrightarrow> ?P d'" for ns d d'
    using c_fold_invariant [of ns ?P handle_user_section d d'] by blast
  then have "handle_process_section n d = Inr d' \<Longrightarrow> ?P d \<Longrightarrow> ?P d'" for n d d'
    by (auto simp: handle_process_section_def c_bind_Inr shared_parts_def simp del: c_fold.simps split: if_splits list.splits)
  then have fold: "c_fold handle_process_section ns d = Inr d' \<Longrightarrow> ?P d \<Longrightarrow> ?P d'" for ns d d'
    using c_fold_invariant [of ns ?P handle_process_section d d'] by blast
  assume "process_spec_handler E w node c = Inr (ok, c')"
  then have "c_fold handle_process_section (gchildren node)
      (upd_process (proc_stderr_stream_update (\<lambda>_. - 1)) (upd_process (proc_stdio_stream_update (\<lambda>_. - 1)) c)) = Inr c'"
    by (auto simp: process_spec_handler_def process_handle_section_def c_bind_Inr Let_def)
  from fold [OF this] show ?thesis by (simp add: shared_parts_def)
qed

lemma vm_shared: "vm_spec_handler E w node c = Inr (ok, c') \<Longrightarrow> shared_parts c' = shared_parts c"
  by (auto simp: vm_spec_handler_def vm_handle_section_def Let_def shared_parts_def)

lemma linux_shared: "linux_spec_handler E w node c = Inr (ok, c') \<Longrightarrow> shared_parts c' = shared_parts c"
  by (auto simp: linux_spec_handler_def linux_handle_section_def Let_def case_prod_unfold shared_parts_def)

lemma root_shared:
  assumes "root_spec_handler E w node c = Inr (ok, c')"
  shows "cfg_optarg_container_id c' = cfg_optarg_container_id c \<and> cfg_mounts c' = cfg_mounts c"
proof -
  let ?P = "\<lambda>d. cfg_optarg_container_id d = cfg_optarg_container_id c \<and> cfg_mounts d = cfg_mounts c"
  have "?P d \<Longrightarrow> ?P (handle_root_section E w n d)" for n d
    by (auto simp: handle_root_section_def split: list.splits option.splits)
  then have "?P (fold (handle_root_section E w) ns c)" for ns by (intro fold_keeps [where P = ?P]) simp_all
  with assms show ?thesis by (auto simp: root_spec_handler_def root_handle_section_def Let_def)
qed

lemma start_handler_cases:
  assumes "map_of start_spec_handlers name = Some h"
  obtains "h = annotations_spec_handler" | "name = ''mounts''" "h = mounts_spec_handler" | "name = ''root''" "h = root_spec_handler"
    | "\<And>E w node c ok c'. h E w node c = Inr (ok, c') \<Longrightarrow> shared_parts c' = shared_parts c"
proof -
  have "h = annotations_spec_handler \<or> (name = ''mounts'' \<and> h = mounts_spec_handler) \<or> (name = ''root'' \<and> h = root_spec_handler)
    \<or> h = hooks_spec_handler \<or> h = platform_spec_handler \<or> h = process_spec_handler \<or> h = vm_spec_handler \<or> h = linux_spec_handler"
    using assms by (auto simp: start_spec_handlers_def split: if_splits)
  then show thesis
    using that hooks_shared platform_shared process_shared vm_shared linux_shared by (elim disjE) metis+
qed

text \<open>The mounts that annotations add, and the annotation that always adds one.\<close>

definition rootfs_mount :: "gchars \<Rightarrow> cc_oci_mount \<Rightarrow> bool" where
  "rootfs_mount cid m \<longleftrightarrow> mount_flags m = MS_BIND \<and> mnt_type (mount_mnt m) = Some ''bind''
     \<and> mnt_dir (mount_mnt m) = Some (buf_copy PATH_MAX (''/'' @ fmt_s cid @ ''/rootfs''))"

definition names_sandbox :: "gnode \<Rightarrow> bool" where
  "names_sandbox n \<longleftrightarrow> gdata n = Some ''ocid/container_type'' \<and> (\<exists>c cs. gchildren n = c # cs \<and> gdata c = Some ''sandbox'')"

lemma annotation_mounts:
  "\<exists>ms. shared_parts (handle_annotation n c) =
      (cfg_optarg_container_id c, cfg_mounts c @ ms, root_path (oci_root (cfg_oci c)))
    \<and> (\<forall>m \<in> set ms. rootfs_mount (cfg_optarg_container_id c) m \<and> mnt_fsname (mount_mnt m) = Some (root_path (oci_root (cfg_oci c))))
    \<and> (names_sandbox n \<longrightarrow> ms \<noteq> [])"
  by (auto simp: handle_annotation_def cc_pod_handle_annotations_def add_container_mount_def shared_parts_def rootfs_mount_def
      names_sandbox_def CC_POD_OCID_NAMESPACE_def CC_POD_OCID_CONTAINER_TYPE_def Let_def zero_mount_def zero_mntent_def
      split: option.splits list.splits)

lemma annotations_mounts:
  "\<exists>ms. shared_parts (fold handle_annotation ns c) =
      (cfg_optarg_container_id c, cfg_mounts c @ ms, root_path (oci_root (cfg_oci c)))
    \<and> (\<forall>m \<in> set ms. rootfs_mount (cfg_optarg_container_id c) m \<and> mnt_fsname (mount_mnt m) = Some (root_path (oci_root (cfg_oci c))))
    \<and> ((\<exists>n \<in> set ns. names_sandbox n) \<longrightarrow> ms \<noteq> [])"
proof (induction ns arbitrary: c)
  case (Cons n ns)
  from annotation_mounts [of n c] obtain ms where one: "shared_parts (handle_annotation n c) =
      (cfg_optarg_container_id c, cfg_mounts c @ ms, root_path (oci_root (cfg_oci c)))"
    "\<forall>m \<in> set ms. rootfs_mount (cfg_optarg_container_id c) m \<and> mnt_fsname (mount_mnt m) = Some (root_path (oci_root (cfg_oci c)))"
    "names_sandbox n \<longrightarrow> ms \<noteq> []" by blast
  from Cons.IH [of "handle_annotation n c"] obtain ms' where "shared_parts (fold handle_annotation (n # ns) c) =
      (cfg_optarg_container_id c, cfg_mounts c @ ms @ ms', root_path (oci_root (cfg_oci c)))"
    "\<forall>m \<in> set ms'. rootfs_mount (cfg_optarg_container_id c) m \<and> mnt_fsname (mount_mnt m) = Some (root_path (oci_root (cfg_oci c)))"
    "(\<exists>n \<in> set ns. names_sandbox n) \<longrightarrow> ms' \<noteq> []" using one(1) by (auto simp: shared_parts_def)
  with one(2,3) show ?case by (intro exI [of _ "ms @ ms'"]) auto
qed (simp add: shared_parts_def)

text \<open>Before and after the section that adds the mount of the root file system.\<close>

definition no_root_yet :: "gchars \<Rightarrow> cc_oci_config \<Rightarrow> bool" where
  "no_root_yet cid c \<longleftrightarrow> cfg_optarg_container_id c = cid \<and> root_path (oci_root (cfg_oci c)) = []
     \<and> (\<forall>m \<in> set (cfg_mounts c). rootfs_mount cid m \<and> mnt_fsname (mount_mnt m) = Some [])"

definition rootfs_only :: "gchars \<Rightarrow> cc_oci_config \<Rightarrow> bool" where
  "rootfs_only cid c \<longleftrightarrow> cfg_optarg_container_id c = cid \<and> cfg_mounts c \<noteq> []
     \<and> (\<forall>m \<in> set (cfg_mounts c). rootfs_mount cid m) \<and> mnt_fsname (mount_mnt (hd (cfg_mounts c))) = Some []"

lemma shared_cong:
  assumes "shared_parts d = shared_parts c"
  shows "no_root_yet cid d = no_root_yet cid c" and "rootfs_only cid d = rootfs_only cid c"
  using assms by (auto simp: shared_parts_def no_root_yet_def rootfs_only_def)

lemma annotations_no_root:
  assumes "no_root_yet cid c" and "annotations_spec_handler E w node c = Inr (ok, c')"
  shows "no_root_yet cid c'" and "\<exists>n \<in> set (gchildren node). names_sandbox n \<Longrightarrow> rootfs_only cid c'"
  using annotations_mounts [of "gchildren node" c] assms
  by (auto simp: annotations_spec_handler_def annotations_handle_section_def shared_parts_def no_root_yet_def rootfs_only_def
      hd_append)

lemma annotations_rootfs_only:
  "rootfs_only cid c \<Longrightarrow> annotations_spec_handler E w node c = Inr (ok, c') \<Longrightarrow> rootfs_only cid c'"
  using annotations_mounts [of "gchildren node" c]
  by (auto simp: annotations_spec_handler_def annotations_handle_section_def shared_parts_def rootfs_only_def)

lemma section_no_root:
  assumes "map_of start_spec_handlers name = Some h" and "name \<noteq> ''mounts''" and "name \<noteq> ''root''"
    and "no_root_yet cid c" and "h E w node c = Inr (ok, c')"
  shows "no_root_yet cid c'"
  using assms(1)
proof (cases rule: start_handler_cases)
  case 1
  then show ?thesis using annotations_no_root(1) assms(4,5) by blast
next
  case 4
  from shared_cong(1) [OF this [OF assms(5)]] show ?thesis using assms(4) by simp
qed (use assms(2,3) in simp_all)

lemma section_rootfs_only:
  assumes "map_of start_spec_handlers name = Some h" and "rootfs_only cid c" and "h E w node c = Inr (ok, c')"
  shows "rootfs_only cid c'"
  using assms(1)
proof (cases rule: start_handler_cases)
  case 1
  then show ?thesis using annotations_rootfs_only assms(2,3) by blast
next
  case 2
  then show ?thesis
    using assms(2,3) by (simp add: mounts_spec_handler_def mounts_handle_section_def rootfs_only_def)
next
  case 3
  then show ?thesis using assms(2) root_shared [of E w node c ok c'] assms(3) by (simp add: rootfs_only_def)
next
  case 4
  from shared_cong(2) [OF this [OF assms(3)]] show ?thesis using assms(2) by simp
qed

lemma loop_rule:
  assumes "process_config_loop E w hs nodes c = Inr (True, c')" and "P c" and "\<forall>n d. P d \<longrightarrow> P (config_strings n d)"
    and "\<forall>n \<in> set nodes. \<forall>name h d ok d'. gdata n = Some name \<longrightarrow> map_of hs name = Some h \<longrightarrow> P d \<longrightarrow> h E w n d = Inr (ok, d') \<longrightarrow> P d'"
  shows "P c'"
  using assms
proof (induction nodes arbitrary: c)
  case (Cons n nodes)
  have IH: "process_config_loop E w hs nodes d = Inr (True, c') \<Longrightarrow> P d \<Longrightarrow> P c'" for d
    by (rule Cons.IH) (use Cons.prems(3,4) in auto)
  have "P (config_strings n c)" using Cons.prems(2,3) by blast
  moreover from this have "gdata n = Some name \<Longrightarrow> map_of hs name = Some h \<Longrightarrow> h E w n (config_strings n c) = Inr (ok, d') \<Longrightarrow> P d'"
    for name h ok d'
    using Cons.prems(4) by (meson list.set_intros(1))
  ultimately show ?case
    using IH Cons.prems(1,2) by (auto simp: c_bind_Inr Let_def split: option.splits if_splits)
qed simp

lemma loop_append:
  "process_config_loop E w hs (pre @ nodes) c = Inr (True, c') \<longleftrightarrow>
   (\<exists>c1. process_config_loop E w hs pre c = Inr (True, c1) \<and> process_config_loop E w hs nodes c1 = Inr (True, c'))"
  by (induction pre arbitrary: c) (auto simp: c_bind_Inr Let_def split: option.splits)

text \<open>
  C40. The result of processing depends on the order of the sections.  When the annotations of a sandbox
  come before the mounts and the root, and the configuration is read successfully, then whatever
  the sections list, not one of the listed mounts is taken: all mounts of the result are
  those the annotations added for the root file system of the container, and the
  first of them has an empty source.
\<close>

theorem annotations_first_drop_mounts:
  assumes "cc_oci_process_config E w root config start_spec_handlers = Inr (True, config')"
    and "gchildren root = pre @ ann # rest" and "\<forall>n \<in> set pre. gdata n \<noteq> Some ''mounts'' \<and> gdata n \<noteq> Some ''root''"
    and "gdata ann = Some ''annotations''"
    and "GNode (Some ''ocid/container_type'') (GNode (Some ''sandbox'') xs # ys) \<in> set (gchildren ann)"
    and "cfg_mounts config = []" and "root_path (oci_root (cfg_oci config)) = []"
  shows "cfg_mounts config' \<noteq> [] \<and> mnt_fsname (mount_mnt (hd (cfg_mounts config'))) = Some []
    \<and> (\<forall>m \<in> set (cfg_mounts config'). mount_flags m = MS_BIND \<and> mnt_type (mount_mnt m) = Some ''bind''
        \<and> mnt_dir (mount_mnt m) = Some (buf_copy PATH_MAX (''/'' @ fmt_s (cfg_optarg_container_id config) @ ''/rootfs'')))"
proof -
  let ?cid = "cfg_optarg_container_id config"
  note strings = shared_cong [OF config_strings_shared]
  from assms(1,2) obtain c1 c2 ok where pre: "process_config_loop E w start_spec_handlers pre config = Inr (True, c1)"
    and ann: "annotations_spec_handler E w ann (config_strings ann c1) = Inr (ok, c2)"
    and rest: "process_config_loop E w start_spec_handlers rest c2 = Inr (True, config')"
    by (auto simp: cc_oci_process_config_def loop_append assms(4) start_spec_handlers_def c_bind_Inr split: if_splits)
  have "no_root_yet ?cid config" using assms(6,7) by (simp add: no_root_yet_def)
  then have "no_root_yet ?cid c1"
    using assms(3) by (intro loop_rule [where P = "no_root_yet ?cid", OF pre]) (auto simp: strings intro: section_no_root)
  moreover have "\<exists>n \<in> set (gchildren ann). names_sandbox n"
    using assms(5) by (force simp: names_sandbox_def)
  ultimately have "rootfs_only ?cid c2"
    using annotations_no_root(2) [OF _ ann] strings by blast
  then have "rootfs_only ?cid config'"
    by (intro loop_rule [where P = "rootfs_only ?cid", OF rest]) (auto simp: strings intro: section_rootfs_only)
  then show ?thesis by (simp add: rootfs_only_def rootfs_mount_def)
qed

theorem annotations_first_drop_mounts_witness:
  "\<exists>c. cc_oci_process_config (calm_env (\<lambda>_. Some FDir)) empty_world
      (GNode None (cc_oci_json_parse_aux (JObject
         [(''annotations'', JObject [(''ocid/container_type'', JString ''sandbox'')]),
          (''mounts'', JArray [mount_json sample_mount_spec]),
          (''root'', JObject [(''path'', JString ''/r'')])]) False))
      (zero_config\<lparr>cfg_optarg_container_id := Some ''c''\<rparr>) start_spec_handlers = Inr (True, c)
    \<and> cfg_mounts c \<noteq> [] \<and> (\<forall>m \<in> set (cfg_mounts c). mnt_dir (mount_mnt m) = Some (buf_copy PATH_MAX ''/c/rootfs''))"
proof -
  let ?doc = "GNode None (cc_oci_json_parse_aux (JObject
         [(''annotations'', JObject [(''ocid/container_type'', JString ''sandbox'')]),
          (''mounts'', JArray [mount_json sample_mount_spec]),
          (''root'', JObject [(''path'', JString ''/r'')])]) False)"
  let ?config = "zero_config\<lparr>cfg_optarg_container_id := Some ''c''\<rparr>"
  let ?run = "cc_oci_process_config (calm_env (\<lambda>_. Some FDir)) empty_world ?doc ?config start_spec_handlers"
  have "case ?run of Inl _ \<Rightarrow> False | Inr (ok, c) \<Rightarrow> ok" by code_simp
  then obtain c where run: "?run = Inr (True, c)" by (auto split: sum.splits)
  have "\<exists>ann rest xs ys. gchildren ?doc = [GNode None []] @ ann # rest \<and> gdata ann = Some ''annotations''
      \<and> GNode (Some ''ocid/container_type'') (GNode (Some ''sandbox'') xs # ys) \<in> set (gchildren ann)" by (simp add: cc_oci_json_string_def)
  then obtain ann rest xs ys where doc: "gchildren ?doc = [GNode None []] @ ann # rest" "gdata ann = Some ''annotations''"
    "GNode (Some ''ocid/container_type'') (GNode (Some ''sandbox'') xs # ys) \<in> set (gchildren ann)" by blast
  have "cfg_mounts ?config = []" "root_path (oci_root (cfg_oci ?config)) = []" by (simp_all add: zero_config_def)
  from annotations_first_drop_mounts [OF run doc(1) _ doc(2,3) this]
  have "cfg_mounts c \<noteq> [] \<and> (\<forall>m \<in> set (cfg_mounts c). mnt_dir (mount_mnt m) = Some (buf_copy PATH_MAX ''/c/rootfs''))"
    by (simp add: fmt_s_def)
  with run show ?thesis by blast
qed

end
