(* ===== verification/Host.thy ===== *)
theory Host
  imports Calm
begin

section \<open>What the runtime asks the host\<close>

text \<open>
  Answers of the kernel and of libraries that only report something: the interface list of
  \<^verbatim>\<open>getifaddrs\<close>, hardware addresses, interface indices, netlink answers, random bytes, file sizes,
  programs in the search path, directories, the exit status of a child, what the hypervisor's
  control socket sends.  They are parameters, and may depend on the whole history.
\<close>

text \<open>One element of the list of \<^verbatim>\<open>getifaddrs\<close>; the address or the netmask may be missing.\<close>

record ifaddr =
  ifa_name :: string
  ifa_addr :: "(int \<times> 8 word list) option"
  ifa_netmask :: "8 word list option"

text \<open>What \<^verbatim>\<open>mnl_socket_recvfrom\<close> and \<^verbatim>\<open>mnl_cb_run\<close> return in turn for one request.\<close>

record nl_reply =
  nl_recv :: int
  nl_run :: int

text \<open>
  A route message: family, prefix lengths, and the attributes with their type, whether the value
  has the size libmnl expects, and the bytes.
\<close>

record rt_attr =
  rta_type :: int
  rta_valid :: bool
  rta_payload :: "8 word list"

record rt_msg =
  rtm_family :: int
  rtm_src_len :: int
  rtm_dst_len :: int
  rtm_attrs :: "rt_attr list"

datatype access = AccessOk | AccessNoEnt | AccessDenied

record host =
  getifaddrs :: "world \<Rightarrow> ifaddr list option"
  if_hwaddr :: "world \<Rightarrow> string \<Rightarrow> (int \<times> 8 word list) option"
  if_nametoindex :: "world \<Rightarrow> string \<Rightarrow> nat"
  if_indextoname :: "world \<Rightarrow> 32 word \<Rightarrow> string option"
  nl_replies :: "world \<Rightarrow> nlmsg \<Rightarrow> nl_reply list"
  route_replies :: "world \<Rightarrow> (int \<times> rt_msg list \<times> int) list"
  random_uuid :: "world \<Rightarrow> 8 word list"
  file_size :: "world \<Rightarrow> string \<Rightarrow> nat"
  find_program :: "world \<Rightarrow> string \<Rightarrow> string option"
  list_dir :: "world \<Rightarrow> string \<Rightarrow> string list option"
  current_dir :: "world \<Rightarrow> string"
  open_fds :: "world \<Rightarrow> int list option"
  access_w :: "world \<Rightarrow> string \<Rightarrow> access"
  child_exit :: "world \<Rightarrow> int"
  own_pid :: int
  qmp_chunks :: "world \<Rightarrow> string list"

text \<open>A quiet host: one loopback interface, every netlink request acknowledged.\<close>

definition calm_host :: host where
  "calm_host = \<lparr>getifaddrs = (\<lambda>_. Some [\<lparr>ifa_name = ''lo'', ifa_addr = Some (2, [127, 0, 0, 1]), ifa_netmask = Some [255, 0, 0, 0]\<rparr>]),
     if_hwaddr = (\<lambda>_ _. Some (1, [2, 0, 0, 0, 0, 1])), if_nametoindex = (\<lambda>_ _. 1), if_indextoname = (\<lambda>_ _. None),
     nl_replies = (\<lambda>_ _. [\<lparr>nl_recv = 1, nl_run = 0\<rparr>]), route_replies = (\<lambda>_. [(1, [], 0)]),
     random_uuid = (\<lambda>_. replicate 16 0), file_size = (\<lambda>_ _. 0), find_program = (\<lambda>_ _. None),
     list_dir = (\<lambda>_ _. None), current_dir = (\<lambda>_. ''/''), open_fds = (\<lambda>_. Some [0, 1, 2]),
     access_w = (\<lambda>_ _. AccessOk), child_exit = (\<lambda>_. 0), own_pid = 1000, qmp_chunks = (\<lambda>_. [])\<rparr>"

end
