(* ===== verification/Networking.thy ===== *)
theory Networking
  imports Host Util
begin

section \<open>The container's network (src/networking.c, src/netlink.c)\<close>

text \<open>
  The runtime copies the network configuration of the namespace it joined: it lists the addresses
  of the interfaces, reads the routes over netlink, and gives every interface a tap device and a
  bridge.  What the kernel reports comes from the record \<open>host\<close>; addresses are in network byte order.
\<close>

definition AF_INET :: int where "AF_INET = 2"
definition AF_INET6 :: int where "AF_INET6 = 10"
definition ARPHRD_ETHER :: int where "ARPHRD_ETHER = 1"
definition IFNAMSIZ :: nat where "IFNAMSIZ = 16"
definition RT_TABLE_MAIN :: "32 word" where "RT_TABLE_MAIN = 254"

lemmas net_consts = AF_INET_def AF_INET6_def ARPHRD_ETHER_def IFNAMSIZ_def RT_TABLE_MAIN_def

subsection \<open>Printing addresses\<close>

definition hex_char :: "nat \<Rightarrow> char" where
  "hex_char d = (if d < 10 then char_of (48 + d) else char_of (87 + d))"

fun nat_to_hex :: "nat \<Rightarrow> string" where
  "nat_to_hex n = (if n < 16 then [hex_char n] else nat_to_hex (n div 16) @ [hex_char (n mod 16)])"

declare nat_to_hex.simps [simp del]

text \<open>\<^verbatim>\<open>%02x\<close> of a byte.\<close>

definition hex2 :: "8 word \<Rightarrow> string" where
  "hex2 b = [hex_char (unat b div 16), hex_char (unat b mod 16)]"

definition inet_ntop4 :: "8 word list \<Rightarrow> string" where
  "inet_ntop4 bs = strjoinv (CHR ''.'') (map (\<lambda>b. nat_to_dec (unat b)) (take 4 bs))"

text \<open>The first longest run of at least two zero groups.\<close>

fun zero_run :: "nat list \<Rightarrow> nat" where
  "zero_run (0 # ws) = Suc (zero_run ws)"
| "zero_run _ = 0"

fun best_run :: "nat \<Rightarrow> nat list \<Rightarrow> (nat \<times> nat) option \<Rightarrow> (nat \<times> nat) option" where
  "best_run i [] best = best"
| "best_run i (v # ws) best =
     (let n = zero_run (v # ws)
      in best_run (Suc i) ws
           (if 2 \<le> n \<and> (case best of None \<Rightarrow> True | Some (_, m) \<Rightarrow> m < n) then Some (i, n) else best))"

fun groups :: "8 word list \<Rightarrow> nat list" where
  "groups (a # b # bs) = (unat a * 256 + unat b) # groups bs"
| "groups _ = []"

fun ntop6_go :: "8 word list \<Rightarrow> (nat \<times> nat) option \<Rightarrow> nat \<Rightarrow> nat list \<Rightarrow> string" where
  "ntop6_go bs best i [] = (case best of Some (b, n) \<Rightarrow> if b + n = 8 then '':'' else [] | None \<Rightarrow> [])"
| "ntop6_go bs best i (v # ws) =
     (case best of
        Some (b, n) \<Rightarrow>
          if b \<le> i \<and> i < b + n then (if i = b then '':'' else []) @ ntop6_go bs best (Suc i) ws
          else if i = 6 \<and> b = 0 \<and> (n = 6 \<or> n = 5 \<and> groups bs ! 5 = 65535)
          then '':'' @ inet_ntop4 (drop 12 bs)
          else (if i = 0 then [] else '':'') @ nat_to_hex v @ ntop6_go bs best (Suc i) ws
      | None \<Rightarrow> (if i = 0 then [] else '':'') @ nat_to_hex v @ ntop6_go bs best (Suc i) ws)"

definition inet_ntop6 :: "8 word list \<Rightarrow> string" where
  "inet_ntop6 bs = ntop6_go bs (best_run 0 (groups bs) None) 0 (groups bs)"

text \<open>
  The address is never a null pointer where this is called, but it may point into a null structure
  (\<open>None\<close>): then \<^verbatim>\<open>inet_ntop\<close> reads through it.
\<close>

definition cc_net_get_ip_address :: "int \<Rightarrow> 8 word list option \<Rightarrow> gchars c_result" where
  "cc_net_get_ip_address family sin_addr =
     (case sin_addr of
        None \<Rightarrow> Inl NullDeref
      | Some bs \<Rightarrow>
          Inr (Some (if family = AF_INET then inet_ntop4 bs
                     else if family = AF_INET6 then inet_ntop6 bs else [])))"

subsection \<open>Netmasks\<close>

text \<open>
  \<^verbatim>\<open>prefix\<close>: whole bytes of ones, then the leading ones of the next byte down to bit 1, then a check that
  no other bit is set; bit 0 of that byte is never looked at.
\<close>

definition prefix_length :: "8 word list \<Rightarrow> nat \<Rightarrow> nat" where
  "prefix_length addr sz =
     (let byte = length (takeWhile (\<lambda>b. b = 255) (take sz addr))
      in if byte = sz then 8 * byte
         else
           (let lead = length (takeWhile (\<lambda>i. bit (addr ! byte) i) [7, 6, 5, 4, 3, 2, 1])
            in if list_ex (\<lambda>i. bit (addr ! byte) i) (drop lead [7, 6, 5, 4, 3, 2, 1]) then 0
               else if list_ex (\<lambda>b. b \<noteq> 0) (drop (Suc byte) (take sz addr)) then 0
               else 8 * byte + lead))"

definition subnet_to_prefix :: "int \<Rightarrow> 8 word list option \<Rightarrow> gchars c_result" where
  "subnet_to_prefix family sin_addr =
     (case sin_addr of
        None \<Rightarrow> Inl NullDeref
      | Some addr \<Rightarrow>
          Inr (Some (nat_to_dec
            (if family = AF_INET6 then prefix_length addr 16
             else if family = AF_INET then prefix_length addr 4 else 0))))"

subsection \<open>Discovery\<close>

definition get_mac_address :: "host \<Rightarrow> gchars \<Rightarrow> world \<Rightarrow> gchars" where
  "get_mac_address H ifname w =
     (case ifname of
        None \<Rightarrow> Some []
      | Some n \<Rightarrow>
          (case if_hwaddr H w (buf_copy IFNAMSIZ n) of
             None \<Rightarrow> Some []
           | Some (sa_family, data) \<Rightarrow>
               if sa_family \<noteq> ARPHRD_ETHER then Some []
               else Some (strjoinv (CHR '':'') (map hex2 (take 6 data)))))"

definition compare_interface :: "string \<Rightarrow> cc_oci_net_if_cfg \<Rightarrow> bool" where
  "compare_interface ifname if_cfg \<longleftrightarrow> if_ifname if_cfg = Some ifname"

definition new_interface :: "host \<Rightarrow> string \<Rightarrow> world \<Rightarrow> cc_oci_net_if_cfg" where
  "new_interface H ifname w =
     \<lparr>if_mac_address = get_mac_address H (Some ifname) w, if_ifname = Some ifname,
      if_bridge = Some (''b'' @ ifname), if_tap_device = Some (''c'' @ ifname),
      if_ipv4_addrs = [], if_ipv6_addrs = []\<rparr>"

text \<open>Apply an update to the first element that satisfies a predicate.\<close>

fun update_first :: "('a \<Rightarrow> bool) \<Rightarrow> ('a \<Rightarrow> 'a) \<Rightarrow> 'a list \<Rightarrow> 'a list" where
  "update_first p f [] = []"
| "update_first p f (x # xs) = (if p x then f x # xs else x # update_first p f xs)"

definition discover_one ::
  "host \<Rightarrow> world \<Rightarrow> ifaddr \<Rightarrow> cc_oci_net_if_cfg list \<Rightarrow> cc_oci_net_if_cfg list c_result" where
  "discover_one H w ifa interfaces =
     (case ifa_addr ifa of
        None \<Rightarrow> Inr interfaces
      | Some (family, addr) \<Rightarrow>
          if \<not> (family = AF_INET \<or> family = AF_INET6) then Inr interfaces
          else if ifa_name ifa = ''lo'' then Inr interfaces
          else
            (let ifname = ifa_name ifa;
                 interfaces1 = (if list_ex (compare_interface ifname) interfaces then interfaces
                                else interfaces @ [new_interface H ifname w])
             in if family = AF_INET then
                  c_bind (cc_net_get_ip_address family (Some addr)) (\<lambda>ip.
                  c_bind (cc_net_get_ip_address family (ifa_netmask ifa)) (\<lambda>mask.
                  Inr (update_first (compare_interface ifname)
                    (if_ipv4_addrs_update (\<lambda>as. as @ [\<lparr>ipv4_ip_address = ip, ipv4_subnet_mask = mask\<rparr>])) interfaces1)))
                else
                  c_bind (cc_net_get_ip_address family (Some addr)) (\<lambda>ip.
                  c_bind (subnet_to_prefix family (ifa_netmask ifa)) (\<lambda>pfix.
                  Inr (update_first (compare_interface ifname)
                    (if_ipv6_addrs_update (\<lambda>as. as @ [\<lparr>ipv6_address = ip, ipv6_prefix = pfix\<rparr>])) interfaces1)))))"

subsection \<open>Netlink\<close>

text \<open>
  The loop of \<^verbatim>\<open>netlink_execute\<close> over the answers to a request.  Beyond the end of the list of answers
  \<^verbatim>\<open>mnl_socket_recvfrom\<close> fails.
\<close>

fun netlink_loop :: "nl_reply list \<Rightarrow> bool" where
  "netlink_loop [] = False"
| "netlink_loop (r # rs) =
     (if nl_recv r = - 1 then False
      else if nl_recv r \<le> 0 then True
      else if nl_run r \<le> 0 then nl_run r \<noteq> - 1
      else netlink_loop rs)"

text \<open>The handle is a pointer; only whether it is NULL matters.\<close>

definition netlink_execute :: "env \<Rightarrow> host \<Rightarrow> bool \<Rightarrow> nlmsg \<Rightarrow> world \<Rightarrow> bool \<times> world" where
  "netlink_execute E H hndl nlh w =
     (if \<not> hndl then (False, w)
      else let (sent, w1) = sys E (EvNetlink nlh) w
           in if \<not> sent then (False, w1) else (netlink_loop (nl_replies H w1 nlh), w1))"

definition netlink_init :: "env \<Rightarrow> world \<Rightarrow> bool \<times> world" where
  "netlink_init E w =
     (let (opened, w1) = sys E EvNetlinkOpen w
      in if \<not> opened then (False, w1)
         else let (bound, w2) = sys E EvNetlinkBind w1
              in if \<not> bound then (False, snd (sys E EvNetlinkClose w2)) else (True, w2))"

definition netlink_close :: "env \<Rightarrow> bool \<Rightarrow> world \<Rightarrow> world" where
  "netlink_close E hndl w = (if \<not> hndl then w else snd (sys E EvNetlinkClose w))"

definition netlink_link_enable :: "env \<Rightarrow> host \<Rightarrow> bool \<Rightarrow> gchars \<Rightarrow> bool \<Rightarrow> world \<Rightarrow> bool \<times> world" where
  "netlink_link_enable E H hndl interface enable w =
     (case interface of
        None \<Rightarrow> (False, w)
      | Some n \<Rightarrow> if \<not> hndl then (False, w) else netlink_execute E H hndl (NlLinkFlags n enable) w)"

definition netlink_link_add_bridge :: "env \<Rightarrow> host \<Rightarrow> bool \<Rightarrow> gchars \<Rightarrow> world \<Rightarrow> bool \<times> world" where
  "netlink_link_add_bridge E H hndl name w =
     (case name of
        None \<Rightarrow> (False, w)
      | Some n \<Rightarrow> if \<not> hndl then (False, w) else netlink_execute E H hndl (NlAddBridge n) w)"

definition netlink_link_set_master :: "env \<Rightarrow> host \<Rightarrow> bool \<Rightarrow> nat \<Rightarrow> nat \<Rightarrow> world \<Rightarrow> bool \<times> world" where
  "netlink_link_set_master E H hndl dev master w =
     (if \<not> hndl then (False, w) else netlink_execute E H hndl (NlSetMaster dev master) w)"

definition netlink_link_set_addr ::
  "env \<Rightarrow> host \<Rightarrow> bool \<Rightarrow> gchars \<Rightarrow> 8 word list \<Rightarrow> world \<Rightarrow> bool \<times> world" where
  "netlink_link_set_addr E H hndl interface hwaddr w =
     (case interface of
        None \<Rightarrow> (False, w)
      | Some n \<Rightarrow>
          if \<not> hndl \<or> hwaddr = [] then (False, w)
          else netlink_execute E H hndl (NlSetAddr n hwaddr) w)"

subsection \<open>Routes\<close>

text \<open>
  Attribute types.  \<^verbatim>\<open>data_ipv4_attr_cb\<close> skips types above \<^verbatim>\<open>RTA_MAX\<close>; those are neither checked nor read
  below, so the model stores them like any other type it does not know.
\<close>

definition RTA_DST :: int where "RTA_DST = 1"
definition RTA_SRC :: int where "RTA_SRC = 2"
definition RTA_OIF :: int where "RTA_OIF = 4"
definition RTA_GATEWAY :: int where "RTA_GATEWAY = 5"
definition RTA_PRIORITY :: int where "RTA_PRIORITY = 6"
definition RTA_PREFSRC :: int where "RTA_PREFSRC = 7"
definition RTA_METRICS :: int where "RTA_METRICS = 8"
definition RTA_FLOW :: int where "RTA_FLOW = 11"
definition RTA_TABLE :: int where "RTA_TABLE = 15"

lemmas rta_consts = RTA_DST_def RTA_SRC_def RTA_OIF_def RTA_GATEWAY_def RTA_PRIORITY_def
  RTA_PREFSRC_def RTA_METRICS_def RTA_FLOW_def RTA_TABLE_def

definition rta_checked :: "int list" where
  "rta_checked = [RTA_TABLE, RTA_DST, RTA_SRC, RTA_OIF, RTA_FLOW, RTA_PREFSRC, RTA_GATEWAY, RTA_PRIORITY, RTA_METRICS]"

definition data_ipv4_attr_cb :: "rt_attr \<Rightarrow> (int \<rightharpoonup> rt_attr) \<Rightarrow> (int \<rightharpoonup> rt_attr) option" where
  "data_ipv4_attr_cb attr tb =
     (if rta_type attr \<in> set rta_checked \<and> \<not> rta_valid attr then None
      else Some (tb(rta_type attr \<mapsto> attr)))"

text \<open>\<^verbatim>\<open>mnl_attr_parse\<close>: the callback for every attribute, until it refuses one.\<close>

fun attr_parse :: "rt_attr list \<Rightarrow> (int \<rightharpoonup> rt_attr) \<Rightarrow> (int \<rightharpoonup> rt_attr) option" where
  "attr_parse [] tb = Some tb"
| "attr_parse (a # as) tb = Option.bind (data_ipv4_attr_cb a tb) (attr_parse as)"

text \<open>\<^verbatim>\<open>mnl_attr_get_u32\<close> on a little-endian machine.\<close>

definition attr_u32 :: "rt_attr \<Rightarrow> 32 word" where
  "attr_u32 a = word_of_nat (foldr (\<lambda>b n. unat b + 256 * n) (take 4 (rta_payload a)) 0)"

definition process_ipv4_routes ::
  "host \<Rightarrow> world \<Rightarrow> rt_msg \<Rightarrow> cc_oci_net_ipv4_route list \<Rightarrow> cc_oci_net_ipv4_route list option" where
  "process_ipv4_routes H w rm routes =
     (if rtm_family rm \<noteq> AF_INET then Some routes
      else
        (case attr_parse (rtm_attrs rm) Map.empty of
           None \<Rightarrow> None
         | Some tb \<Rightarrow>
             (case tb RTA_TABLE of
                None \<Rightarrow> Some routes
              | Some t \<Rightarrow>
                  if attr_u32 t \<noteq> RT_TABLE_MAIN then Some routes
                  else
                    (let dest = (case tb RTA_DST of None \<Rightarrow> None | Some a \<Rightarrow> Some (inet_ntop4 (rta_payload a)))
                     in Some (routes @ [\<lparr>
                       route_dest = (if rtm_src_len rm = 0 \<and> rtm_dst_len rm = 0 then Some ''default'' else dest),
                       route_ifname = (case tb RTA_OIF of None \<Rightarrow> None | Some a \<Rightarrow> if_indextoname H w (attr_u32 a)),
                       route_gateway = (case tb RTA_GATEWAY of None \<Rightarrow> None | Some a \<Rightarrow> Some (inet_ntop4 (rta_payload a)))\<rparr>])))))"

text \<open>
  One buffer of messages: the flag is whether \<^verbatim>\<open>mnl_cb_run\<close> got through all of them.  A refused message
  ends the run with an error; otherwise the run returns what libmnl says.
\<close>

fun process_batch ::
  "host \<Rightarrow> world \<Rightarrow> rt_msg list \<Rightarrow> cc_oci_net_ipv4_route list \<Rightarrow> bool \<times> cc_oci_net_ipv4_route list" where
  "process_batch H w [] routes = (True, routes)"
| "process_batch H w (m # ms) routes =
     (case process_ipv4_routes H w m routes of
        None \<Rightarrow> (False, routes)
      | Some routes' \<Rightarrow> process_batch H w ms routes')"

fun routes_loop ::
  "host \<Rightarrow> world \<Rightarrow> (int \<times> rt_msg list \<times> int) list \<Rightarrow> cc_oci_net_ipv4_route list
     \<Rightarrow> bool \<times> cc_oci_net_ipv4_route list" where
  "routes_loop H w [] routes = (False, routes)"
| "routes_loop H w ((received, msgs, run) # rs) routes =
     (if received = - 1 then (False, routes)
      else if received \<le> 0 then (True, routes)
      else
        (let (through, routes') = process_batch H w msgs routes;
             ret = (if through then run else - 1)
         in if ret \<le> 0 then (ret \<noteq> - 1, routes') else routes_loop H w rs routes'))"

definition netlink_get_routes ::
  "env \<Rightarrow> host \<Rightarrow> cc_oci_config \<Rightarrow> bool \<Rightarrow> int \<Rightarrow> world \<Rightarrow> bool \<times> cc_oci_config \<times> world" where
  "netlink_get_routes E H config hndl family w =
     (if \<not> hndl then (False, config, w)
      else let (sent, w1) = sys E (EvNetlink (NlGetRoutes family)) w
           in if \<not> sent then (False, config, w1)
              else let (ok, routes) = routes_loop H w1 (route_replies H w1) (net_routes (cfg_net config))
                   in (ok, cfg_net_update (net_routes_update (\<lambda>_. routes)) config, w1))"

subsection \<open>Putting it together\<close>

definition cc_oci_network_discover ::
  "env \<Rightarrow> host \<Rightarrow> cc_oci_config \<Rightarrow> bool \<Rightarrow> world \<Rightarrow> (bool \<times> cc_oci_config \<times> world) c_result" where
  "cc_oci_network_discover E H config hndl w =
     (case getifaddrs H w of
        None \<Rightarrow> Inr (False, config, w)
      | Some ifaddrs \<Rightarrow>
          c_bind (c_fold (discover_one H w) ifaddrs (net_interfaces (cfg_net config))) (\<lambda>interfaces.
            let config1 = cfg_net_update (\<lambda>net. net\<lparr>net_interfaces := interfaces,
                  net_hostname := Some (case oci_hostname (cfg_oci config) of None \<Rightarrow> [] | Some h \<Rightarrow> h)\<rparr>) config;
                (_, config2, w2) = netlink_get_routes E H config1 hndl AF_INET w
            in Inr (True, cfg_net_update (\<lambda>net. net\<lparr>net_dns_ip1 := Some [], net_dns_ip2 := Some []\<rparr>) config2, w2)))"

definition TUNDEV :: string where
  "TUNDEV = ''/dev/net/tun''"

definition cc_oci_tap_create :: "env \<Rightarrow> gchars \<Rightarrow> world \<Rightarrow> bool \<times> world" where
  "cc_oci_tap_create E tap w =
     (case tap of
        None \<Rightarrow> (False, w)
      | Some t \<Rightarrow>
          (let (opened, w1) = sys E (EvOpen TUNDEV) w
           in if \<not> opened then (False, w1)
              else let (made, w2) = sys E (EvTunSetIff (buf_copy IFNAMSIZ t)) w1
                   in if \<not> made then (False, w2) else sys E (EvTunPersist (buf_copy IFNAMSIZ t)) w2))"

text \<open>The hardware address of interface number \<open>index\<close>.\<close>

definition if_mac :: "nat \<Rightarrow> 8 word list" where
  "if_mac index = [0x02, 0x00, 0xCA, 0xFE, word_of_nat (index div 256), word_of_nat index]"

definition create_steps ::
  "env \<Rightarrow> host \<Rightarrow> bool \<Rightarrow> nat \<Rightarrow> cc_oci_net_if_cfg \<Rightarrow> (world \<Rightarrow> bool \<times> world) list" where
  "create_steps E H hndl index if_cfg =
     (let ix = (\<lambda>w n. if_nametoindex H w (case n of None \<Rightarrow> [] | Some s \<Rightarrow> s))
      in [cc_oci_tap_create E (if_tap_device if_cfg),
          netlink_link_add_bridge E H hndl (if_bridge if_cfg),
          netlink_link_set_addr E H hndl (if_ifname if_cfg) (if_mac index),
          (\<lambda>w. let bridge_index = ix w (if_bridge if_cfg);
                   tap_index = ix w (if_tap_device if_cfg);
                   veth_index = ix w (if_ifname if_cfg);
                   (ok, w1) = netlink_link_set_master E H hndl tap_index bridge_index w
               in if \<not> ok then (False, w1) else netlink_link_set_master E H hndl veth_index bridge_index w1),
          netlink_link_enable E H hndl (if_tap_device if_cfg) True,
          netlink_link_enable E H hndl (if_ifname if_cfg) True,
          netlink_link_enable E H hndl (if_bridge if_cfg) True])"

fun run_steps :: "(world \<Rightarrow> bool \<times> world) list \<Rightarrow> world \<Rightarrow> bool \<times> world" where
  "run_steps [] w = (True, w)"
| "run_steps (s # ss) w = (let (ok, w1) = s w in if ok then run_steps ss w1 else (False, w1))"

fun network_create_loop ::
  "env \<Rightarrow> host \<Rightarrow> bool \<Rightarrow> nat \<Rightarrow> cc_oci_net_if_cfg list \<Rightarrow> world \<Rightarrow> bool \<times> world" where
  "network_create_loop E H hndl index [] w = (True, w)"
| "network_create_loop E H hndl index (c # cs) w =
     (let (ok, w1) = run_steps (create_steps E H hndl index c) w
      in if \<not> ok then (False, w1) else network_create_loop E H hndl (Suc index) cs w1)"

definition cc_oci_network_create :: "env \<Rightarrow> host \<Rightarrow> cc_oci_config \<Rightarrow> bool \<Rightarrow> world \<Rightarrow> bool \<times> world" where
  "cc_oci_network_create E H config hndl w =
     network_create_loop E H hndl 0 (net_interfaces (cfg_net config)) w"

end
