(* ===== verification/NetProps.thy ===== *)
theory NetProps
  imports Networking
begin

section \<open>Properties of the network discovery\<close>

text \<open>
  Netmasks as prefix lengths, and the interfaces that discovery collects from the list of addresses
  the kernel gives.
\<close>

subsection \<open>Netmasks\<close>

text \<open>The mask with \<open>n\<close> leading ones.\<close>

definition netmask :: "nat \<Rightarrow> nat \<Rightarrow> 8 word list" where
  "netmask sz n =
     replicate (n div 8) 255
     @ (if n div 8 < sz then word_of_nat (256 - 2 ^ (8 - n mod 8)) # replicate (sz - Suc (n div 8)) 0 else [])"

lemma partial_byte:
  assumes "r < 8"
  shows "(word_of_nat (256 - 2 ^ (8 - r)) :: 8 word) \<noteq> 255"
    and "length (takeWhile (bit (word_of_nat (256 - 2 ^ (8 - r)) :: 8 word)) [7, 6, 5, 4, 3, 2, 1]) = r"
    and "\<not> list_ex (bit (word_of_nat (256 - 2 ^ (8 - r)) :: 8 word)) (drop r [7, 6, 5, 4, 3, 2, 1])"
proof -
  have "list_all (\<lambda>r. (word_of_nat (256 - 2 ^ (8 - r)) :: 8 word) \<noteq> 255
      \<and> length (takeWhile (bit (word_of_nat (256 - 2 ^ (8 - r)) :: 8 word)) [7, 6, 5, 4, 3, 2, 1]) = r
      \<and> \<not> list_ex (bit (word_of_nat (256 - 2 ^ (8 - r)) :: 8 word)) (drop r [7, 6, 5, 4, 3, 2, 1])) [0..<8]"
    by code_simp
  with assms show "(word_of_nat (256 - 2 ^ (8 - r)) :: 8 word) \<noteq> 255"
    and "length (takeWhile (bit (word_of_nat (256 - 2 ^ (8 - r)) :: 8 word)) [7, 6, 5, 4, 3, 2, 1]) = r"
    and "\<not> list_ex (bit (word_of_nat (256 - 2 ^ (8 - r)) :: 8 word)) (drop r [7, 6, 5, 4, 3, 2, 1])"
    by (auto simp: list_all_iff)
qed

lemma takeWhile_replicate_append: "\<not> p y \<Longrightarrow> p x \<Longrightarrow> takeWhile p (replicate n x @ y # ys) = replicate n x"
  by (induction n) auto

text \<open>
  The prefix length of a contiguous netmask is the number of its ones.
\<close>

theorem netmask_prefix:
  assumes "n \<le> 8 * sz"
  shows "prefix_length (netmask sz n) sz = n"
proof (cases "n div 8 < sz")
  case True
  let ?r = "n mod 8" and ?q = "n div 8"
  let ?b = "word_of_nat (256 - 2 ^ (8 - ?r)) :: 8 word"
  have r: "?r < 8" by simp
  have m: "netmask sz n = replicate ?q 255 @ ?b # replicate (sz - Suc ?q) 0"
    using True by (simp add: netmask_def)
  have "length (netmask sz n) = sz" using True by (simp add: m)
  then have "take sz (netmask sz n) = netmask sz n" by simp
  moreover have "takeWhile (\<lambda>b. b = 255) (netmask sz n) = replicate ?q 255"
    using partial_byte(1) [OF r] by (simp add: m takeWhile_replicate_append)
  moreover have "netmask sz n ! ?q = ?b" by (simp add: m nth_append)
  moreover have "\<not> list_ex (\<lambda>b. b \<noteq> 0) (drop (Suc ?q) (netmask sz n))"
    by (simp add: m list_ex_iff)
  ultimately show ?thesis
    using True partial_byte(2,3) [OF r] by (simp add: prefix_length_def Let_def)
next
  case False
  with assms have "n = 8 * sz" by simp
  then show ?thesis by (simp add: netmask_def prefix_length_def takeWhile_eq_all_conv [THEN iffD2])
qed

theorem netmask_prefix_witness: "prefix_length [255, 255, 240, 0] 4 = 20"
proof -
  have "netmask 4 20 = [255, 255, 240, 0]" by code_simp
  then show ?thesis using netmask_prefix [of 20 4] by simp
qed

lemma bit_0_ignored: "prefix_length [255, 129, 0, 0] 4 = 9"
  by code_simp

lemma no_netmask_faults:
  "discover_one H w \<lparr>ifa_name = ''tun0'', ifa_addr = Some (AF_INET, [10, 0, 0, 1]), ifa_netmask = None\<rparr> [] = Inl NullDeref"
  by (simp add: discover_one_def cc_net_get_ip_address_def net_consts)

lemma if_mac_inj:
  assumes "if_mac i = if_mac j" and "i < 65536" and "j < 65536"
  shows "i = j"
proof -
  have d: "unat (word_of_nat (k div 256) :: 8 word) = k div 256" "unat (word_of_nat k :: 8 word) = k mod 256"
    if "k < 65536" for k
    using that by (simp_all add: unat_of_nat less_mult_imp_div_less)
  from assms(1) have "(word_of_nat (i div 256) :: 8 word) = word_of_nat (j div 256)"
    "(word_of_nat i :: 8 word) = word_of_nat j" by (auto simp: if_mac_def)
  then have "i div 256 = j div 256" "i mod 256 = j mod 256"
    using d [OF assms(2)] d [OF assms(3)] by metis+
  then show ?thesis by (metis div_mult_mod_eq)
qed

subsection \<open>Discovery groups the addresses by interface\<close>

definition relevant :: "ifaddr \<Rightarrow> bool" where
  "relevant i \<longleftrightarrow>
     (case ifa_addr i of None \<Rightarrow> False | Some (family, _) \<Rightarrow> family = AF_INET \<or> family = AF_INET6)
     \<and> ifa_name i \<noteq> ''lo''"

definition of_family :: "int \<Rightarrow> string \<Rightarrow> ifaddr \<Rightarrow> bool" where
  "of_family f n i \<longleftrightarrow> relevant i \<and> ifa_name i = n \<and> map_option fst (ifa_addr i) = Some f"

definition v4_of :: "ifaddr \<Rightarrow> cc_oci_net_ipv4_cfg" where
  "v4_of i = \<lparr>ipv4_ip_address = Some (inet_ntop4 (snd (the (ifa_addr i)))),
              ipv4_subnet_mask = Some (inet_ntop4 (the (ifa_netmask i)))\<rparr>"

definition v6_of :: "ifaddr \<Rightarrow> cc_oci_net_ipv6_cfg" where
  "v6_of i = \<lparr>ipv6_address = Some (inet_ntop6 (snd (the (ifa_addr i)))),
              ipv6_prefix = Some (nat_to_dec (prefix_length (the (ifa_netmask i)) 16))\<rparr>"

definition first_names :: "ifaddr list \<Rightarrow> string list" where
  "first_names is = rev (remdups (rev (map ifa_name (filter relevant is))))"

definition interface_of :: "host \<Rightarrow> world \<Rightarrow> ifaddr list \<Rightarrow> string \<Rightarrow> cc_oci_net_if_cfg" where
  "interface_of H w is n =
     (new_interface H n w)\<lparr>if_ipv4_addrs := map v4_of (filter (of_family AF_INET n) is),
                           if_ipv6_addrs := map v6_of (filter (of_family AF_INET6 n) is)\<rparr>"

definition masks_present :: "ifaddr list \<Rightarrow> bool" where
  "masks_present is \<longleftrightarrow> list_all (\<lambda>i. relevant i \<longrightarrow> ifa_netmask i \<noteq> None) is"

lemma first_names_snoc:
  "first_names (is @ [i]) =
   (if relevant i \<and> ifa_name i \<notin> set (first_names is) then first_names is @ [ifa_name i] else first_names is)"
  by (auto simp: first_names_def)

lemma distinct_first_names: "distinct (first_names is)"
  by (simp add: first_names_def)

lemma compare_interface_of [simp]: "compare_interface m (interface_of H w is n) \<longleftrightarrow> m = n"
  by (auto simp: compare_interface_def interface_of_def new_interface_def)

lemma update_first_map:
  assumes "distinct ns" and "n \<in> set ns"
    and "\<And>m. m \<in> set ns \<Longrightarrow> compare_interface n (g m) \<longleftrightarrow> m = n"
  shows "update_first (compare_interface n) f (map g ns) = map (\<lambda>m. if m = n then f (g m) else g m) ns"
  using assms
proof (induction ns)
  case (Cons m ns)
  show ?case
  proof (cases "m = n")
    case True
    with Cons.prems(1) have "n \<notin> set ns" by simp
    then have "map (\<lambda>m. if m = n then f (g m) else g m) ns = map g ns"
      by (intro map_cong) auto
    with True Cons.prems(3) show ?thesis by simp
  next
    case False
    with Cons show ?thesis by simp
  qed
qed simp

lemma interface_of_fresh:
  assumes "n \<notin> set (first_names is)"
  shows "interface_of H w is n = new_interface H n w"
proof -
  have "filter (of_family f n) is = []" for f
    using assms by (auto simp: of_family_def first_names_def filter_empty_conv)
  then show ?thesis by (simp add: interface_of_def new_interface_def)
qed

lemma interface_of_snoc:
  "interface_of H w (is @ [i]) m =
     (if of_family AF_INET m i then if_ipv4_addrs_update (\<lambda>as. as @ [v4_of i]) (interface_of H w is m)
      else if of_family AF_INET6 m i then if_ipv6_addrs_update (\<lambda>as. as @ [v6_of i]) (interface_of H w is m)
      else interface_of H w is m)"
  by (auto simp: interface_of_def of_family_def net_consts)

lemma discover_names:
  assumes "relevant i"
  shows "(if list_ex (compare_interface (ifa_name i)) (map (interface_of H w is) (first_names is))
          then map (interface_of H w is) (first_names is)
          else map (interface_of H w is) (first_names is) @ [new_interface H (ifa_name i) w]) =
         map (interface_of H w is) (first_names (is @ [i]))"
  using assms by (auto simp: list_ex_iff first_names_snoc interface_of_fresh)

lemma discover_one_step:
  assumes "relevant i \<longrightarrow> ifa_netmask i \<noteq> None"
  shows "discover_one H w i (map (interface_of H w is) (first_names is)) =
         Inr (map (interface_of H w (is @ [i])) (first_names (is @ [i])))"
proof (cases "relevant i")
  case False
  then have "map (interface_of H w (is @ [i])) (first_names (is @ [i])) =
      map (interface_of H w is) (first_names is)"
    by (simp add: first_names_snoc interface_of_snoc of_family_def)
  moreover have "discover_one H w i ifs = Inr ifs" for ifs
    using False by (auto simp: discover_one_def relevant_def split: option.splits)
  ultimately show ?thesis by simp
next
  case True
  let ?n = "ifa_name i" and ?ns = "first_names (is @ [i])"
  obtain fam addr mask where i: "ifa_addr i = Some (fam, addr)" "fam = AF_INET \<or> fam = AF_INET6"
    "?n \<noteq> ''lo''" "ifa_netmask i = Some mask"
    using True assms by (auto simp: relevant_def split: option.splits)
  have upd: "update_first (compare_interface ?n) f (map (interface_of H w is) ?ns) =
      map (\<lambda>m. if m = ?n then f (interface_of H w is m) else interface_of H w is m) ?ns" for f
    using True by (intro update_first_map) (auto simp: distinct_first_names first_names_snoc)
  note names = discover_names [OF True, of H w "is"]
  show ?thesis
    using i(2,3) True unfolding discover_one_def Let_def i(1) option.case prod.case names
    by (auto simp: i(1,4) upd cc_net_get_ip_address_def subnet_to_prefix_def interface_of_snoc of_family_def
        v4_of_def v6_of_def net_consts)
qed

lemma discover_fold:
  assumes "masks_present is"
  shows "c_fold (discover_one H w) is [] = Inr (map (interface_of H w is) (first_names is))"
  using assms
proof (induction "is" rule: rev_induct)
  case (snoc i "is")
  then have "c_fold (discover_one H w) is [] = Inr (map (interface_of H w is) (first_names is))"
    and "relevant i \<longrightarrow> ifa_netmask i \<noteq> None" by (auto simp: masks_present_def)
  with discover_one_step [of i H w "is"] show ?case by (simp add: c_fold_append)
qed (simp add: first_names_def)

text \<open>
  C27. Network discovery gives one entry per interface that has an IPv4 or IPv6 address (loopback
  excepted), in the order in which the kernel lists them, each with exactly its own addresses in
  order; the host name is that of the configuration.
\<close>

theorem network_discover_groups:
  assumes "getifaddrs H w = Some is" and "masks_present is" and "net_interfaces (cfg_net config) = []"
  shows "\<exists>config' w'. cc_oci_network_discover E H config hndl w = Inr (True, config', w')
    \<and> net_interfaces (cfg_net config') = map (interface_of H w is) (first_names is)
    \<and> distinct (map if_ifname (net_interfaces (cfg_net config')))
    \<and> net_hostname (cfg_net config') = Some (case oci_hostname (cfg_oci config) of None \<Rightarrow> [] | Some h \<Rightarrow> h)
    \<and> config' = cfg_net_update (\<lambda>_. cfg_net config') config"
proof -
  have "distinct (map (\<lambda>n. if_ifname (interface_of H w is n)) (first_names is))"
    by (simp add: interface_of_def new_interface_def distinct_map distinct_first_names inj_on_def)
  then show ?thesis
    using assms(1,3) discover_fold [OF assms(2), of H w]
    by (auto simp: cc_oci_network_discover_def netlink_get_routes_def Let_def o_def split: prod.splits)
qed

definition three_addresses :: "ifaddr list" where
  "three_addresses =
     [\<lparr>ifa_name = ''eth0'', ifa_addr = Some (2, [10, 0, 0, 2]), ifa_netmask = Some [255, 0, 0, 0]\<rparr>,
      \<lparr>ifa_name = ''lo'', ifa_addr = Some (2, [127, 0, 0, 1]), ifa_netmask = Some [255, 0, 0, 0]\<rparr>,
      \<lparr>ifa_name = ''eth1'', ifa_addr = Some (2, [10, 0, 0, 3]), ifa_netmask = Some [255, 0, 0, 0]\<rparr>,
      \<lparr>ifa_name = ''eth0'', ifa_addr = Some (2, [10, 0, 0, 4]), ifa_netmask = Some [255, 0, 0, 0]\<rparr>]"

lemma three_addresses_names: "first_names three_addresses = [''eth0'', ''eth1'']"
  by (simp add: first_names_def three_addresses_def relevant_def net_consts)

lemma three_addresses_v4:
  "map ipv4_ip_address (if_ipv4_addrs (interface_of H w three_addresses ''eth0'')) = [Some ''10.0.0.2'', Some ''10.0.0.4'']"
  by (simp add: interface_of_def three_addresses_def relevant_def of_family_def net_consts v4_of_def inet_ntop4_def
      nat_to_dec.simps digit_char_def char_of_def bit_0)

theorem network_discover_groups_witness:
  "\<exists>config' w'. cc_oci_network_discover (calm_env (\<lambda>_. None)) (calm_host\<lparr>getifaddrs := (\<lambda>_. Some three_addresses)\<rparr>)
       zero_config True empty_world = Inr (True, config', w')
     \<and> map if_ifname (net_interfaces (cfg_net config')) = [Some ''eth0'', Some ''eth1'']
     \<and> map ipv4_ip_address (if_ipv4_addrs (net_interfaces (cfg_net config') ! 0)) = [Some ''10.0.0.2'', Some ''10.0.0.4'']"
proof -
  let ?H = "calm_host\<lparr>getifaddrs := (\<lambda>_. Some three_addresses)\<rparr>"
  have "getifaddrs ?H empty_world = Some three_addresses" by simp
  moreover have "masks_present three_addresses"
    by (simp add: masks_present_def three_addresses_def)
  moreover have "net_interfaces (cfg_net zero_config) = []" by (simp add: zero_config_def)
  ultimately obtain config' w' where
    run: "cc_oci_network_discover (calm_env (\<lambda>_. None)) ?H zero_config True empty_world = Inr (True, config', w')"
    and ifs: "net_interfaces (cfg_net config') = map (interface_of ?H empty_world three_addresses) (first_names three_addresses)"
    using network_discover_groups [of ?H empty_world three_addresses zero_config "calm_env (\<lambda>_. None)" True] by blast
  have "map if_ifname (net_interfaces (cfg_net config')) = [Some ''eth0'', Some ''eth1'']"
    unfolding ifs three_addresses_names by (simp add: interface_of_def new_interface_def)
  moreover have "map ipv4_ip_address (if_ipv4_addrs (net_interfaces (cfg_net config') ! 0)) = [Some ''10.0.0.2'', Some ''10.0.0.4'']"
    using three_addresses_v4 [of ?H empty_world] unfolding ifs three_addresses_names by simp
  ultimately show ?thesis using run by (intro exI conjI)
qed

end
