(* ===== verification/Qmp.thy ===== *)
theory Qmp
  imports Host
begin

section \<open>Talking to the hypervisor (src/network.c)\<close>

text \<open>
  Pausing and resuming is a QMP dialogue on the hypervisor's control socket: messages are JSON texts
  that end in carriage return and newline.  What successive receives return is \<open>qmp_chunks\<close>; an
  empty chunk is the end of the stream, beyond the list a receive fails.
\<close>

definition CC_OCI_MSG_SEPARATOR :: string where
  "CC_OCI_MSG_SEPARATOR = [CHR 13, CHR 10]"

text \<open>
  The inner loop: the complete messages of what was received, and the rest.  The text is JSON and has no
  NUL bytes, at which \<^verbatim>\<open>g_strstr_len\<close> would stop.
\<close>

function take_msgs :: "string \<Rightarrow> string list \<times> string" where
  "take_msgs received =
     (if received = [] then ([], received)
      else (case strstr_pos CC_OCI_MSG_SEPARATOR received of
              None \<Rightarrow> ([], received)
            | Some msg_len \<Rightarrow>
                (let (msgs, rest) = take_msgs (drop (msg_len + length CC_OCI_MSG_SEPARATOR) received)
                 in (take msg_len received # msgs, rest))))"
  by pat_completeness auto
termination by (relation "measure length") (auto simp: CC_OCI_MSG_SEPARATOR_def)

declare take_msgs.simps [simp del]

text \<open>
  The outer loop.  It stops only when exactly the expected number of messages is there, and then
  asserts that nothing is left; at the end of the stream the error is read through a null pointer.
\<close>

fun qmp_recv_loop :: "nat \<Rightarrow> string list \<Rightarrow> string \<Rightarrow> string list \<Rightarrow> (bool \<times> string list) c_result" where
  "qmp_recv_loop expected_count [] received msgs = Inr (False, msgs)"
| "qmp_recv_loop expected_count (chunk # chunks) received msgs =
     (if chunk = [] then Inl NullDeref
      else
        let (new, rest) = take_msgs (received @ chunk); msgs' = msgs @ new
        in if length msgs' = expected_count then (if rest = [] then Inr (True, msgs') else Inl AssertFail)
           else qmp_recv_loop expected_count chunks rest msgs')"

definition cc_oci_qmp_msg_recv :: "nat \<Rightarrow> string list \<Rightarrow> (bool \<times> string list) c_result" where
  "cc_oci_qmp_msg_recv expected_count chunks =
     (if expected_count = 0 then Inl AssertFail else qmp_recv_loop expected_count chunks [] [])"

text \<open>A result that should be empty but is not is reported, and accepted all the same.\<close>

definition cc_oci_qmp_check_result :: "env \<Rightarrow> string \<Rightarrow> bool \<Rightarrow> bool" where
  "cc_oci_qmp_check_result E result expect_empty =
     (case json_load E result of
        None \<Rightarrow> False
      | Some j \<Rightarrow>
          (case json_read_member j ''return'' of
             None \<Rightarrow> False
           | Some r \<Rightarrow>
               (case r of
                  JObject ms \<Rightarrow> if length ms \<noteq> 0 \<and> expect_empty then True else True
                | _ \<Rightarrow> False)))"

definition qmp_capabilities :: string where
  "qmp_capabilities = ''{ \"execute\": \"qmp_capabilities\" }''"

text \<open>Which of the answers is the one to the command.\<close>

definition qmp_reply_index :: "nat \<Rightarrow> nat option" where
  "qmp_reply_index expected_resp_count =
     (if expected_resp_count = 1 then Some 0 else if expected_resp_count = 2 then Some 1
      else if expected_resp_count = 3 then Some 0 else None)"

definition qmp_nth :: "string list \<Rightarrow> nat \<Rightarrow> gchars" where
  "qmp_nth msgs i = (if i < length msgs then Some (msgs ! i) else None)"

text \<open>\<open>initialised\<close> is the static flag of the function.\<close>

definition qmp_init :: "env \<Rightarrow> host \<Rightarrow> string \<Rightarrow> bool \<Rightarrow> world \<Rightarrow> (bool \<times> bool \<times> world) c_result" where
  "qmp_init E H path initialised w =
     (if initialised then Inr (True, True, w)
      else
        let (sent, w1) = sys E (EvQmp path qmp_capabilities) w
        in if \<not> sent then Inr (False, False, w1)
           else c_bind (cc_oci_qmp_msg_recv 1 (qmp_chunks H w1)) (\<lambda>(ok, msgs).
                  if \<not> ok then Inr (False, False, w1)
                  else (case qmp_nth msgs 0 of
                          None \<Rightarrow> Inr (False, False, w1)
                        | Some m \<Rightarrow>
                            (let good = cc_oci_qmp_check_result E m True in Inr (good, good, w1)))))"

definition cc_oci_qmp_msg_send ::
  "env \<Rightarrow> host \<Rightarrow> string \<Rightarrow> bool \<Rightarrow> string \<Rightarrow> nat \<Rightarrow> bool \<Rightarrow> world \<Rightarrow> (bool \<times> bool \<times> world) c_result" where
  "cc_oci_qmp_msg_send E H path initialised msg expected_resp_count expect_empty w =
     c_bind (qmp_init E H path initialised w) (\<lambda>(ready, init', w1).
       if \<not> ready then Inr (False, init', w1)
       else
         let (sent, w2) = sys E (EvQmp path msg) w1
         in if \<not> sent then Inr (False, init', w2)
            else if expected_resp_count = 0 then Inr (True, init', w2)
            else c_bind (cc_oci_qmp_msg_recv expected_resp_count (qmp_chunks H w2)) (\<lambda>(ok, msgs).
                   if \<not> ok then Inr (False, init', w2)
                   else (case Option.bind (qmp_reply_index expected_resp_count) (qmp_nth msgs) of
                           None \<Rightarrow> Inr (False, init', w2)
                         | Some m \<Rightarrow> Inr (cc_oci_qmp_check_result E m expect_empty, init', w2))))"

definition cc_oci_qmp_pause :: "env \<Rightarrow> host \<Rightarrow> string \<Rightarrow> world \<Rightarrow> (bool \<times> world) c_result" where
  "cc_oci_qmp_pause E H path w =
     c_bind (cc_oci_qmp_msg_send E H path False ''{ \"execute\": \"stop\" }'' 2 False w) (\<lambda>(ok, _, w1). Inr (ok, w1))"

definition cc_oci_qmp_resume :: "env \<Rightarrow> host \<Rightarrow> string \<Rightarrow> world \<Rightarrow> (bool \<times> world) c_result" where
  "cc_oci_qmp_resume E H path w =
     c_bind (cc_oci_qmp_msg_send E H path False ''{ \"execute\": \"cont\" }'' 2 False w) (\<lambda>(ok, _, w1). Inr (ok, w1))"

text \<open>The greeting is received and looked at, but the answer is always true.\<close>

definition cc_oci_qmp_check_welcome :: "env \<Rightarrow> host \<Rightarrow> world \<Rightarrow> bool c_result" where
  "cc_oci_qmp_check_welcome E H w =
     c_bind (cc_oci_qmp_msg_recv 1 (qmp_chunks H w)) (\<lambda>(ok, msgs).
       if \<not> ok then Inr True
       else (case qmp_nth msgs 0 of None \<Rightarrow> Inl AssertFail | Some _ \<Rightarrow> Inr True))"

definition cc_oci_vm_conn_new :: "env \<Rightarrow> host \<Rightarrow> gchars \<Rightarrow> int \<Rightarrow> world \<Rightarrow> (string option \<times> world) c_result" where
  "cc_oci_vm_conn_new E H socket_path pid w =
     (case socket_path of
        None \<Rightarrow> Inr (None, w)
      | Some path \<Rightarrow>
          if \<not> 0 < pid then Inr (None, w)
          else if os_stat E w path = None then Inr (None, w)
          else
            let (ok, w1) = run_events E [EvSocketNew, EvConnect path] w
            in if \<not> ok then Inr (None, w1)
               else c_bind (cc_oci_qmp_check_welcome E H w1) (\<lambda>good. Inr (if good then Some path else None, w1)))"

definition vm_command ::
  "(string \<Rightarrow> world \<Rightarrow> (bool \<times> world) c_result) \<Rightarrow> env \<Rightarrow> host \<Rightarrow> gchars \<Rightarrow> int \<Rightarrow> world \<Rightarrow> (bool \<times> world) c_result" where
  "vm_command cmd E H socket_path pid w =
     (if \<not> (socket_path \<noteq> None \<and> 0 < pid) then Inr (False, w)
      else c_bind (cc_oci_vm_conn_new E H socket_path pid w) (\<lambda>(conn, w1).
             case conn of None \<Rightarrow> Inr (False, w1) | Some path \<Rightarrow> cmd path w1))"

definition cc_oci_vm_pause :: "env \<Rightarrow> host \<Rightarrow> gchars \<Rightarrow> int \<Rightarrow> world \<Rightarrow> (bool \<times> world) c_result" where
  "cc_oci_vm_pause E H socket_path pid w = vm_command (cc_oci_qmp_pause E H) E H socket_path pid w"

definition cc_oci_vm_resume :: "env \<Rightarrow> host \<Rightarrow> gchars \<Rightarrow> int \<Rightarrow> world \<Rightarrow> (bool \<times> world) c_result" where
  "cc_oci_vm_resume E H socket_path pid w = vm_command (cc_oci_qmp_resume E H) E H socket_path pid w"

subsection \<open>The stream as a sequence of messages\<close>

definition qmp_stream :: "string list \<Rightarrow> string" where
  "qmp_stream ms = concat (map (\<lambda>m. m @ CC_OCI_MSG_SEPARATOR) ms)"

lemma strstr_pos_append:
  "strstr_pos pat s = Some i \<Longrightarrow> strstr_pos pat (s @ t) = Some i"
proof (induction s arbitrary: i)
  case Nil
  then show ?case by (cases t) (auto split: if_splits)
next
  case (Cons x xs)
  show ?case
  proof (cases "prefix pat (x # xs)")
    case True
    with Cons.prems show ?thesis using prefix_order.trans [of pat "x # xs" "x # xs @ t"] by simp
  next
    case False
    with Cons.prems obtain j where j: "strstr_pos pat xs = Some j" "i = Suc j" by auto
    from strstr_pos_SomeD [OF j(1)] obtain pre post where "xs = pre @ pat @ post" by blast
    then have "length pat \<le> length (x # xs)" by simp
    then have "\<not> prefix pat (x # xs @ t)"
      using False prefix_length_prefix [of pat "x # xs @ t" "x # xs"] by auto
    with Cons.IH [OF j(1)] j(2) show ?thesis by simp
  qed
qed

lemma take_msgs_append:
  "take_msgs (a @ b) = (let (ms, r) = take_msgs a; (ms', r') = take_msgs (r @ b) in (ms @ ms', r'))"
proof (induction a rule: take_msgs.induct)
  case (1 a)
  show ?case
  proof (cases "strstr_pos CC_OCI_MSG_SEPARATOR a")
    case None
    then have "take_msgs a = ([], a)" by (subst take_msgs.simps) simp
    then show ?thesis by simp
  next
    case (Some p)
    from strstr_pos_SomeD [OF Some] obtain pre post where
      a: "a = pre @ CC_OCI_MSG_SEPARATOR @ post" "length pre = p" by blast
    then have ne: "a \<noteq> []" by (simp add: CC_OCI_MSG_SEPARATOR_def)
    have "drop (p + length CC_OCI_MSG_SEPARATOR) (a @ b) = drop (p + length CC_OCI_MSG_SEPARATOR) a @ b"
      and "take p (a @ b) = take p a" using a by auto
    then show ?thesis
      using "1.IH" [OF ne Some] ne strstr_pos_append [OF Some, of b]
      by (subst take_msgs.simps, subst (2) take_msgs.simps)
        (simp add: Some split: prod.splits)
  qed
qed

lemma strstr_pos_separator:
  "\<not> sublist CC_OCI_MSG_SEPARATOR m \<Longrightarrow>
   strstr_pos CC_OCI_MSG_SEPARATOR (m @ CC_OCI_MSG_SEPARATOR @ rest) = Some (length m)"
proof (induction m)
  case (Cons x m)
  then have no: "\<not> sublist CC_OCI_MSG_SEPARATOR m" "\<not> prefix CC_OCI_MSG_SEPARATOR (x # m)"
    by (auto simp: sublist_Cons_right)
  then have "\<not> prefix CC_OCI_MSG_SEPARATOR (x # m @ CC_OCI_MSG_SEPARATOR @ rest)"
    by (cases m) (auto simp: CC_OCI_MSG_SEPARATOR_def)
  with Cons.IH [OF no(1)] show ?case by simp
qed (simp add: CC_OCI_MSG_SEPARATOR_def)

lemma take_msgs_Nil [simp]: "take_msgs [] = ([], [])"
  by (subst take_msgs.simps) simp

lemma take_msgs_none: "take_msgs r = ([], r') \<Longrightarrow> r' = r"
  by (subst (asm) take_msgs.simps) (auto split: if_splits option.splits prod.splits)

lemma take_msgs_stream:
  "list_all (\<lambda>m. \<not> sublist CC_OCI_MSG_SEPARATOR m) ms \<Longrightarrow> take_msgs (qmp_stream ms) = (ms, [])"
proof (induction ms)
  case (Cons m ms)
  then have "strstr_pos CC_OCI_MSG_SEPARATOR (qmp_stream (m # ms)) = Some (length m)"
    by (simp add: qmp_stream_def strstr_pos_separator)
  moreover have "qmp_stream (m # ms) \<noteq> []" by (simp add: qmp_stream_def CC_OCI_MSG_SEPARATOR_def)
  moreover have "drop (length m + length CC_OCI_MSG_SEPARATOR) (qmp_stream (m # ms)) = qmp_stream ms"
    "take (length m) (qmp_stream (m # ms)) = m" by (simp_all add: qmp_stream_def)
  ultimately show ?case using Cons by (subst take_msgs.simps) simp
qed (simp add: qmp_stream_def)

lemma recv_loop_stream:
  assumes "list_all (\<lambda>m. \<not> sublist CC_OCI_MSG_SEPARATOR m) ms"
    and "\<forall>c \<in> set cs. c \<noteq> []" and "cs \<noteq> []" and "sofar @ concat cs = qmp_stream ms"
    and "take_msgs sofar = (msgs, received)"
  shows "qmp_recv_loop (length ms) cs received msgs = Inr (True, ms)"
  using assms(2-)
proof (induction cs arbitrary: sofar msgs received)
  case (Cons c cs)
  obtain new rest where t: "take_msgs (received @ c) = (new, rest)" by fastforce
  have td: "take_msgs (sofar @ c) = (msgs @ new, rest)"
    using take_msgs_append [of sofar c] Cons.prems(4) t by simp
  show ?case
  proof (cases "cs = []")
    case True
    with Cons.prems(3) td take_msgs_stream [OF assms(1)] have "msgs @ new = ms" "rest = []" by simp_all
    moreover from this(1) have "length msgs + length new = length ms" by auto
    ultimately show ?thesis using t Cons.prems(1) by simp
  next
    case False
    have stream: "(sofar @ c) @ concat cs = qmp_stream ms" using Cons.prems(3) by simp
    obtain more r where m: "take_msgs (rest @ concat cs) = (more, r)" by fastforce
    have "(msgs @ new @ more, r) = (ms, [])"
      using take_msgs_append [of "sofar @ c" "concat cs"] td m stream take_msgs_stream [OF assms(1)] by simp
    moreover have "rest @ concat cs \<noteq> []" using False Cons.prems(1) by (cases cs) auto
    ultimately have "length (msgs @ new) \<noteq> length ms"
      using take_msgs_none [of "rest @ concat cs" r] m by (cases more) auto
    moreover have "qmp_recv_loop (length ms) cs rest (msgs @ new) = Inr (True, ms)"
      using Cons.IH [OF _ False stream td] Cons.prems(1) by simp
    ultimately show ?thesis using t Cons.prems(1) by simp
  qed
qed simp

subsection \<open>Properties\<close>

text \<open>
  C11. However the hypervisor's stream is cut into pieces by the socket, receiving gives exactly its
  messages: for any chunking of a sequence of messages, the receiver that expects that many
  returns them in order.
\<close>

theorem qmp_chunking:
  assumes "list_all (\<lambda>m. \<not> sublist CC_OCI_MSG_SEPARATOR m) ms" and "ms \<noteq> []"
    and "concat chunks = qmp_stream ms" and "[] \<notin> set chunks"
  shows "cc_oci_qmp_msg_recv (length ms) chunks = Inr (True, ms)"
proof -
  have "chunks \<noteq> []"
    using assms(2,3) by (cases ms) (auto simp: qmp_stream_def CC_OCI_MSG_SEPARATOR_def)
  then have "qmp_recv_loop (length ms) chunks [] [] = Inr (True, ms)"
    using assms(1,3,4) by (intro recv_loop_stream [where sofar = "[]"]) auto
  with assms(2) show ?thesis by (simp add: cc_oci_qmp_msg_recv_def)
qed

theorem qmp_chunking_witness:
  "cc_oci_qmp_msg_recv 2 [''{ev'', ''ent}'' @ [CHR 13], [CHR 10] @ ''{\"return\": {}}'' @ [CHR 13, CHR 10]]
     = Inr (True, [''{event}'', ''{\"return\": {}}''])"
proof -
  have "list_all (\<lambda>m. \<not> sublist CC_OCI_MSG_SEPARATOR m) [''{event}'', ''{\"return\": {}}'']"
    by (simp add: CC_OCI_MSG_SEPARATOR_def sublist_Cons_right)
  then show ?thesis
    using qmp_chunking [of "[''{event}'', ''{\"return\": {}}'']"
        "[''{ev'', ''ent}'' @ [CHR 13], [CHR 10] @ ''{\"return\": {}}'' @ [CHR 13, CHR 10]]"]
    by (simp add: qmp_stream_def CC_OCI_MSG_SEPARATOR_def numeral_2_eq_2)
qed

text \<open>
  A message more than expected in the same piece is fatal: with the rest of an unfinished message
  the assertion after the loop fails, and with a complete one the loop goes past the count and
  keeps waiting until a receive fails.
\<close>

theorem qmp_extra_message:
  assumes "list_all (\<lambda>m. \<not> sublist CC_OCI_MSG_SEPARATOR m) (ms @ [extra])" and "ms \<noteq> []"
    and "part \<noteq> []" and "take_msgs part = ([], part)"
  shows "cc_oci_qmp_msg_recv (length ms) [qmp_stream ms @ part] = Inl AssertFail
    \<and> cc_oci_qmp_msg_recv (length ms) [qmp_stream (ms @ [extra])] = Inr (False, ms @ [extra])"
proof -
  have ne: "qmp_stream ms \<noteq> []" "qmp_stream (ms @ [extra]) \<noteq> []"
    using assms(2) by (cases ms; simp add: qmp_stream_def CC_OCI_MSG_SEPARATOR_def)+
  have "take_msgs (qmp_stream ms) = (ms, [])" using assms(1) by (intro take_msgs_stream) simp
  then have "take_msgs (qmp_stream ms @ part) = (ms, part)"
    using take_msgs_append [of "qmp_stream ms" part] assms(4) by simp
  moreover have "take_msgs (qmp_stream (ms @ [extra])) = (ms @ [extra], [])"
    using assms(1) by (rule take_msgs_stream)
  ultimately show ?thesis using ne assms(2,3) by (simp add: cc_oci_qmp_msg_recv_def)
qed

theorem qmp_extra_message_witness:
  "cc_oci_qmp_msg_recv (length [''a'']) [qmp_stream [''a''] @ ''b''] = Inl AssertFail"
proof -
  have "take_msgs ''b'' = ([], ''b'')"
    by (subst take_msgs.simps) (simp add: CC_OCI_MSG_SEPARATOR_def)
  then show ?thesis
    using qmp_extra_message [of "[''a'']" "''b''" "''b''"]
    by (simp add: CC_OCI_MSG_SEPARATOR_def sublist_Cons_right)
qed

end
