(* ===== verification/EnvHome.thy ===== *)
theory EnvHome
  imports PodSpec
begin

section \<open>The HOME variable of the workload (src/oci.c)\<close>

text \<open>
  Before a process is sent to the agent its environment gets a \<^verbatim>\<open>HOME\<close> entry, unless it has one:
  the home directory of its user in the container's password file, in the stateless one, or \<^verbatim>\<open>/\<close>.
\<close>

definition get_user_home_dir :: "env \<Rightarrow> cc_oci_config \<Rightarrow> string \<Rightarrow> world \<Rightarrow> gchars" where
  "get_user_home_dir E config passwd_path w =
     (case passwd_entries E w passwd_path of
        None \<Rightarrow> None
      | Some entries \<Rightarrow> map_of entries (user_uid (proc_user (cfg_process config))))"

definition set_env_home :: "env \<Rightarrow> cc_oci_config \<Rightarrow> world \<Rightarrow> cc_oci_config" where
  "set_env_home E config w =
     (case proc_env (cfg_process config) of
        None \<Rightarrow> config
      | Some env \<Rightarrow>
          if list_ex (prefix ''HOME='') env then config
          else
            (let root = root_path (oci_root (cfg_oci config));
                 user_home_dir =
                   (case get_user_home_dir E config (root @ ''/'' @ PASSWD_PATH) w of
                      Some d \<Rightarrow> d
                    | None \<Rightarrow>
                        (case get_user_home_dir E config (root @ ''/'' @ STATELESS_PASSWD_PATH) w of
                           Some d \<Rightarrow> d
                         | None \<Rightarrow> ''/''))
             in upd_process (proc_env_update (\<lambda>_. Some ((''HOME='' @ user_home_dir) # env))) config))"

text \<open>
  After \<^verbatim>\<open>set_env_home\<close> a process that has an environment has a \<^verbatim>\<open>HOME\<close> entry; nothing is removed
  or reordered, at most one entry is put in front, and doing it again changes nothing.
\<close>

theorem env_home_set:
  "(case proc_env (cfg_process config) of
      None \<Rightarrow> set_env_home E config w = config
    | Some env \<Rightarrow> \<exists>front env'. proc_env (cfg_process (set_env_home E config w)) = Some env'
        \<and> env' = front @ env \<and> length front = (if list_ex (prefix ''HOME='') env then 0 else 1)
        \<and> list_ex (prefix ''HOME='') env')
   \<and> set_env_home E (set_env_home E config w) w' = set_env_home E config w"
proof (cases "proc_env (cfg_process config)")
  case None
  then show ?thesis by (simp add: set_env_home_def)
next
  case (Some env)
  show ?thesis
  proof (cases "list_ex (prefix ''HOME='') env")
    case True
    with Some show ?thesis by (simp add: set_env_home_def)
  next
    case False
    obtain d where "set_env_home E config w =
        upd_process (proc_env_update (\<lambda>_. Some ((''HOME='' @ d) # env))) config"
      using Some False by (auto simp: set_env_home_def Let_def)
    with Some False show ?thesis
      by (auto simp: set_env_home_def)
  qed
qed

end
