(* ===== verification/Proxy.thy ===== *)
theory Proxy
  imports EnvHome Calm
begin

section \<open>Talking to cc-proxy (src/proxy.c)\<close>

text \<open>
  The runtime asks cc-proxy, a separate program, to talk to the agent inside the virtual machine.
  A command is a JSON message; the answer to it is a parameter (\<^verbatim>\<open>proxy_reply\<close>), any text
  at all.  The model covers the exchanges that end: \<^verbatim>\<open>g_main_loop_run\<close> returns when an answer
  arrived.  How a message is framed on the socket is in theory ProxyWire.
\<close>

definition CC_OCI_PROXY_SOCKET :: string where
  "CC_OCI_PROXY_SOCKET = CC_OCI_RUNTIME_DIR_PREFIX @ ''/proxy.sock''"

definition cc_oci_fd_toggle_cloexec :: "env \<Rightarrow> int \<Rightarrow> world \<Rightarrow> bool \<times> world" where
  "cc_oci_fd_toggle_cloexec E fd w = (if fd < 0 then (False, w) else sys E (EvCloexec fd) w)"

definition cc_proxy_connected :: "cc_proxy \<Rightarrow> bool" where
  "cc_proxy_connected proxy \<longleftrightarrow> proxy_socket proxy \<noteq> None"

definition cc_proxy_connect ::
  "env \<Rightarrow> start_data \<Rightarrow> cc_proxy \<Rightarrow> world \<Rightarrow> bool \<times> cc_proxy \<times> world" where
  "cc_proxy_connect E sd proxy w =
     (if cc_proxy_connected proxy then (False, proxy, w)
      else
        let path = (case sd_proxy_socket_path sd of None \<Rightarrow> CC_OCI_PROXY_SOCKET | Some p \<Rightarrow> p);
            (made, w1) = sys E EvSocketNew w
        in if \<not> made then (False, proxy, w1)
           else
             let fd = os_fd E w1;
                 proxy1 = proxy\<lparr>proxy_socket := Some fd\<rparr>;
                 (cloexec, w2) = cc_oci_fd_toggle_cloexec E fd w1
             in if \<not> cloexec then (False, proxy1, w2)
                else
                  let (conn, w3) = sys E (EvConnect path) w2
                  in if \<not> conn then (False, proxy1\<lparr>proxy_socket := None\<rparr>, w3)
                     else (True, proxy1, w3))"

definition cc_proxy_disconnect :: "env \<Rightarrow> cc_proxy \<Rightarrow> world \<Rightarrow> bool \<times> cc_proxy \<times> world" where
  "cc_proxy_disconnect E proxy w =
     (case proxy_socket proxy of
        None \<Rightarrow> (False, proxy, w)
      | Some fd \<Rightarrow>
          (let (ok, w1) = sys E (EvSocketClose fd) w in (ok, proxy\<lparr>proxy_socket := None\<rparr>, w1)))"

definition cc_proxy_hyper_check_response :: "env \<Rightarrow> string \<Rightarrow> bool option" where
  "cc_proxy_hyper_check_response E response =
     (case json_load E response of
        None \<Rightarrow> None
      | Some j \<Rightarrow> map_option json_get_boolean (json_read_member j ''success''))"

text \<open>
  With \<open>want_oob\<close> a descriptor is expected with the answer; when it does not come the text read is
  empty.
\<close>

definition cc_proxy_run_cmd ::
  "env \<Rightarrow> cc_proxy \<Rightarrow> string \<Rightarrow> bool \<Rightarrow> world \<Rightarrow> bool \<times> string \<times> int option \<times> world" where
  "cc_proxy_run_cmd E proxy msg_to_send want_oob w =
     (if \<not> cc_proxy_connected proxy then (False, [], None, w)
      else
        let (_, w1) = sys E (EvSend msg_to_send) w;
            oob = (if want_oob then proxy_oob_fd E w1 msg_to_send else None);
            msg_received =
              (if want_oob \<and> oob = None then [] else proxy_reply E w1 msg_to_send)
        in (cc_proxy_hyper_check_response E msg_received = Some True, msg_received, oob, w1))"

definition proxy_message :: "env \<Rightarrow> string \<Rightarrow> members \<Rightarrow> string" where
  "proxy_message E cmd data =
     json_to_data E (JObject (mk_object [(''id'', JString cmd), (''data'', JObject (mk_object data))]))"

definition cc_proxy_cmd_hello :: "env \<Rightarrow> cc_proxy \<Rightarrow> gchars \<Rightarrow> world \<Rightarrow> bool \<times> world" where
  "cc_proxy_cmd_hello E proxy container_id w =
     (case container_id of
        None \<Rightarrow> (False, w)
      | Some cid \<Rightarrow>
          if \<not> cc_proxy_connected proxy then (False, w)
          else
            (let msg = proxy_message E ''hello''
                   [(''containerId'', JString cid), (''ctlSerial'', json_str (agent_ctl_socket proxy)),
                    (''ioSerial'', json_str (agent_tty_socket proxy)),
                    (''console'', json_str (vm_console_socket proxy))];
                 (ok, _, _, w1) = cc_proxy_run_cmd E proxy msg False w
             in (ok, w1)))"

definition attach_message :: "env \<Rightarrow> string \<Rightarrow> string" where
  "attach_message E cid = proxy_message E ''attach'' [(''containerId'', JString cid)]"

definition cc_proxy_attach :: "env \<Rightarrow> cc_proxy \<Rightarrow> gchars \<Rightarrow> world \<Rightarrow> bool \<times> world" where
  "cc_proxy_attach E proxy container_id w =
     (case container_id of
        None \<Rightarrow> (False, w)
      | Some cid \<Rightarrow>
          if \<not> cc_proxy_connected proxy then (False, w)
          else (let (ok, _, _, w1) = cc_proxy_run_cmd E proxy (attach_message E cid) False w
                in (ok, w1)))"

definition cc_proxy_cmd_bye ::
  "env \<Rightarrow> start_data \<Rightarrow> cc_proxy \<Rightarrow> gchars \<Rightarrow> world \<Rightarrow> bool \<times> cc_proxy \<times> world" where
  "cc_proxy_cmd_bye E sd proxy container_id w =
     (case container_id of
        None \<Rightarrow> (False, proxy, w)
      | Some cid \<Rightarrow>
          (let (conn, proxy1, w1) = cc_proxy_connect E sd proxy w
           in if \<not> conn then (False, proxy1, w1)
              else let msg = proxy_message E ''bye'' [(''containerId'', JString cid)];
                       (ok, _, _, w2) = cc_proxy_run_cmd E proxy1 msg False w1
                   in (ok, proxy1, w2)))"

definition IO_STREAMS_NUMBER :: int where
  "IO_STREAMS_NUMBER = 2"

definition cc_proxy_cmd_allocate_io ::
  "env \<Rightarrow> cc_proxy \<Rightarrow> bool \<Rightarrow> world \<Rightarrow> (int option \<times> int) option \<times> world" where
  "cc_proxy_cmd_allocate_io E proxy tty w =
     (let msg = proxy_message E ''allocateIO'' [(''nStreams'', JInt (if tty then 1 else IO_STREAMS_NUMBER))];
          (ok, reply, oob, w1) = cc_proxy_run_cmd E proxy msg True w
      in if \<not> ok then (None, w1)
         else
           (let io_base = Option.bind (json_load E reply) (\<lambda>j.
                  Option.bind (json_read_member j ''data'') (\<lambda>d. json_read_member d ''ioBase''))
            in (map_option (\<lambda>v. (oob, wrap32s (json_get_int v))) io_base, w1)))"

text \<open>
  When the control socket cannot be monitored the function returns true without having said hello;
  waiting for the socket to appear is not modelled, it ends with the socket present.
\<close>

definition cc_proxy_wait_until_ready :: "env \<Rightarrow> cc_oci_config \<Rightarrow> world \<Rightarrow> bool \<times> world" where
  "cc_proxy_wait_until_ready E config w =
     (case cfg_proxy config of
        None \<Rightarrow> (False, w)
      | Some proxy \<Rightarrow>
          (case agent_ctl_socket proxy of
             None \<Rightarrow> (False, w)
           | Some ctl \<Rightarrow>
               (let (monitored, w1) =
                      (if os_stat E w ctl = None then sys E (EvMonitor ctl) w else (True, w))
                in if \<not> monitored then (True, w1)
                   else cc_proxy_cmd_hello E proxy (cfg_optarg_container_id config) w1)))"

definition hyper_message :: "env \<Rightarrow> string \<Rightarrow> members \<Rightarrow> string" where
  "hyper_message E cmd payload =
     proxy_message E ''hyper'' [(''hyperName'', JString cmd), (''data'', JObject payload)]"

definition cc_proxy_run_hyper_cmd ::
  "env \<Rightarrow> cc_oci_config \<Rightarrow> string \<Rightarrow> members \<Rightarrow> world \<Rightarrow> bool \<times> world" where
  "cc_proxy_run_hyper_cmd E config cmd payload w =
     (case cfg_proxy config of
        None \<Rightarrow> (False, w)
      | Some proxy \<Rightarrow>
          (let (ok, _, _, w1) = cc_proxy_run_cmd E proxy (hyper_message E cmd payload) False w
           in (ok, w1)))"

subsection \<open>Pods and containers\<close>

definition get_pcie_ifname :: "nat \<Rightarrow> string" where
  "get_pcie_ifname index = ''enp0s'' @ nat_to_dec (index + PCI_OFFSET)"

definition iface_json :: "nat \<times> cc_oci_net_if_cfg \<Rightarrow> json" where
  "iface_json ic =
     JObject (mk_object
       [(''device'', JString (get_pcie_ifname (fst ic))),
        (''newDeviceName'', json_str (if_ifname (snd ic))),
        (''ipAddresses'', JArray (map (\<lambda>a. JObject (mk_object
            [(''ipAddress'', json_str (ipv4_ip_address a)), (''netMask'', json_str (ipv4_subnet_mask a))]))
          (if_ipv4_addrs (snd ic))))])"

definition route_json :: "cc_oci_net_ipv4_route \<Rightarrow> json" where
  "route_json r =
     JObject (mk_object
       ((''dest'', json_str (route_dest r))
        # (case route_gateway r of None \<Rightarrow> [] | Some g \<Rightarrow> [(''gateway'', JString g)])
        @ (case route_ifname r of None \<Rightarrow> [] | Some i \<Rightarrow> [(''device'', JString i)])))"

definition pod_create_payload :: "cc_oci_config \<Rightarrow> string \<Rightarrow> members" where
  "pod_create_payload config hostname =
     mk_object
       [(''hostname'', JString hostname), (''containers'', JArray []), (''shareDir'', JString ''rootfs''),
        (''interfaces'', JArray (map iface_json (enumerate 0 (net_interfaces (cfg_net config))))),
        (''routes'', JArray (map route_json
           (filter (\<lambda>r. route_dest r \<noteq> None) (net_routes (cfg_net config)))))]"

definition cc_proxy_hyper_pod_create :: "env \<Rightarrow> cc_oci_config \<Rightarrow> world \<Rightarrow> bool \<times> world" where
  "cc_proxy_hyper_pod_create E config w =
     (case (cfg_proxy config, net_hostname (cfg_net config)) of
        (Some _, Some hostname) \<Rightarrow>
          cc_proxy_run_hyper_cmd E config ''startpod'' (pod_create_payload config hostname) w
      | _ \<Rightarrow> (False, w))"

text \<open>One environment variable, cut at its first \<^verbatim>\<open>=\<close>.\<close>

definition env_json :: "string \<Rightarrow> json option" where
  "env_json var =
     map_option (\<lambda>i. JObject (mk_object [(''value'', JString (drop (Suc i) var)), (''env'', JString (take i var))]))
       (first_pos (CHR ''='') var)"

fun envs_json :: "string list \<Rightarrow> json list option" where
  "envs_json [] = Some []"
| "envs_json (v # vs) =
     (case env_json v of None \<Rightarrow> None | Some j \<Rightarrow> map_option (\<lambda>js. j # js) (envs_json vs))"

definition strv_list :: "strv \<Rightarrow> string list" where
  "strv_list v = (case v of None \<Rightarrow> [] | Some l \<Rightarrow> l)"

definition new_container_payload ::
  "oci_cfg_process \<Rightarrow> gchars \<Rightarrow> string \<Rightarrow> gchars \<Rightarrow> json list \<Rightarrow> members" where
  "new_container_payload process container_id rootfs img envs =
     mk_object
       [(''id'', json_str container_id), (''rootfs'', JString rootfs), (''image'', json_str img),
        (''restartPolicy'', JString ''never''), (''initialize'', JBool False),
        (''process'', JObject (mk_object
           [(''terminal'', JBool (proc_terminal process)), (''stdio'', JInt (proc_stdio_stream process)),
            (''stderr'', JInt (proc_stderr_stream process)), (''workdir'', JString (proc_cwd process)),
            (''args'', JArray (map JString (strv_list (proc_args process)))), (''envs'', JArray envs)]))]"

definition cc_proxy_run_hyper_new_container ::
  "env \<Rightarrow> cc_oci_config \<Rightarrow> gchars \<Rightarrow> string \<Rightarrow> gchars \<Rightarrow> world \<Rightarrow> bool \<times> cc_oci_config \<times> world" where
  "cc_proxy_run_hyper_new_container E config container_id rootfs img w =
     (let config1 = set_env_home E config w
      in (case envs_json (strv_list (proc_env (cfg_process config1))) of
            None \<Rightarrow> (False, config1, w)
          | Some envs \<Rightarrow>
              (let (ok, w1) = cc_proxy_run_hyper_cmd E config1 ''newcontainer''
                     (new_container_payload (cfg_process config1) container_id rootfs img envs) w
               in (ok, config1, w1))))"

definition streams_ok :: "oci_cfg_process \<Rightarrow> bool" where
  "streams_ok p \<longleftrightarrow> \<not> (proc_stdio_stream p < 0 \<or> proc_stderr_stream p < 0)"

definition cc_proxy_hyper_new_pod_container ::
  "env \<Rightarrow> start_data \<Rightarrow> cc_oci_config \<Rightarrow> gchars \<Rightarrow> gchars \<Rightarrow> string \<Rightarrow> gchars \<Rightarrow> world
     \<Rightarrow> bool \<times> cc_oci_config \<times> world" where
  "cc_proxy_hyper_new_pod_container E sd config container_id pod_id rootfs img w =
     (case cfg_proxy config of
        None \<Rightarrow> (False, config, w)
      | Some proxy \<Rightarrow>
          (let (conn, proxy1, w1) = cc_proxy_connect E sd proxy w;
               config1 = config\<lparr>cfg_proxy := Some proxy1\<rparr>;
               (ret, config2, w2) =
                 (if \<not> conn then (False, config1, w1)
                  else
                    let (att, w2) = cc_proxy_attach E proxy1 pod_id w1
                    in if \<not> att then (False, config1, w2)
                       else if \<not> streams_ok (cfg_process config1) then (False, config1, w2)
                       else cc_proxy_run_hyper_new_container E config1 container_id rootfs img w2);
               (_, proxy3, w3) = cc_proxy_disconnect E proxy1 w2
           in (ret, config2\<lparr>cfg_proxy := Some proxy3\<rparr>, w3)))"

definition cc_proxy_hyper_new_container ::
  "env \<Rightarrow> start_data \<Rightarrow> cc_oci_config \<Rightarrow> world \<Rightarrow> bool \<times> cc_oci_config \<times> world" where
  "cc_proxy_hyper_new_container E sd config w =
     cc_proxy_hyper_new_pod_container E sd config
       (cfg_optarg_container_id config) (cfg_optarg_container_id config) [] (Some []) w"

definition cc_proxy_hyper_kill_container ::
  "env \<Rightarrow> start_data \<Rightarrow> cc_oci_config \<Rightarrow> int \<Rightarrow> world \<Rightarrow> bool \<times> cc_oci_config \<times> world" where
  "cc_proxy_hyper_kill_container E sd config signum w =
     (case (cfg_proxy config, cc_pod_container_id config) of
        (Some proxy, Some cid) \<Rightarrow>
          (let (conn, proxy1, w1) = cc_proxy_connect E sd proxy w;
               config1 = config\<lparr>cfg_proxy := Some proxy1\<rparr>
           in if \<not> conn then (False, config1, w1)
              else
                let (att, w2) = cc_proxy_attach E proxy1 (Some cid) w1
                in if \<not> att then (False, config1, w2)
                   else
                     let (ok, w3) = cc_proxy_run_hyper_cmd E config1 ''killcontainer''
                            (mk_object [(''container'', json_str (cfg_optarg_container_id config)),
                                        (''signal'', JString (int_to_dec signum))]) w2;
                         (_, proxy3, w4) = cc_proxy_disconnect E proxy1 w3
                     in (ok, config1\<lparr>cfg_proxy := Some proxy3\<rparr>, w4))
      | _ \<Rightarrow> (False, config, w))"

definition cc_proxy_hyper_destroy_pod ::
  "env \<Rightarrow> start_data \<Rightarrow> cc_oci_config \<Rightarrow> world \<Rightarrow> bool \<times> cc_oci_config \<times> world" where
  "cc_proxy_hyper_destroy_pod E sd config w =
     (case cfg_proxy config of
        None \<Rightarrow> (False, config, w)
      | Some proxy \<Rightarrow>
          (let (conn, proxy1, w1) = cc_proxy_connect E sd proxy w;
               config1 = config\<lparr>cfg_proxy := Some proxy1\<rparr>
           in if \<not> conn then (False, config1, w1)
              else
                let (att, w2) = cc_proxy_attach E proxy1 (cfg_optarg_container_id config) w1
                in if \<not> att then (False, config1, w2)
                   else
                     let (ok, w3) = cc_proxy_run_hyper_cmd E config1 ''destroypod'' [] w2;
                         (_, proxy3, w4) = cc_proxy_disconnect E proxy1 w3
                     in (ok, config1\<lparr>cfg_proxy := Some proxy3\<rparr>, w4)))"

definition exec_payload :: "cc_oci_config \<Rightarrow> json list \<Rightarrow> members" where
  "exec_payload config envs =
     (let process = cfg_process config
      in mk_object
           [(''container'', json_str (cfg_optarg_container_id config)),
            (''process'', JObject (mk_object
               ([(''terminal'', JBool (proc_terminal process)), (''stdio'', JInt (proc_stdio_stream process)),
                 (''stderr'', JInt (proc_stderr_stream process))]
                @ (if proc_cwd process = [] then [] else [(''workdir'', JString (proc_cwd process))])
                @ [(''args'', JArray (map JString (strv_list (proc_args process)))), (''envs'', JArray envs)])))])"

definition cc_proxy_hyper_exec_command ::
  "env \<Rightarrow> cc_oci_config \<Rightarrow> world \<Rightarrow> bool \<times> cc_oci_config \<times> world" where
  "cc_proxy_hyper_exec_command E config w =
     (if cfg_proxy config = None then (False, config, w)
      else if \<not> streams_ok (cfg_process config) then (False, config, w)
      else
        (let config1 = set_env_home E config w
         in (case envs_json (strv_list (proc_env (cfg_process config1))) of
               None \<Rightarrow> (False, config1, w)
             | Some envs \<Rightarrow>
                 (let (ok, w1) = cc_proxy_run_hyper_cmd E config1 ''execcmd'' (exec_payload config1 envs) w
                  in (ok, config1, w1)))))"

subsection \<open>What the pieces of a session do\<close>

definition proxy_path :: "start_data \<Rightarrow> string" where
  "proxy_path sd = (case sd_proxy_socket_path sd of None \<Rightarrow> CC_OCI_PROXY_SOCKET | Some p \<Rightarrow> p)"

lemma connect_True:
  assumes "cc_proxy_connect E sd proxy w = (True, proxy', w')"
  shows "\<exists>fd. proxy_socket proxy = None \<and> proxy' = proxy\<lparr>proxy_socket := Some fd\<rparr>
    \<and> map fst (w_trace w') = map fst (w_trace w) @ [EvSocketNew, EvCloexec fd, EvConnect (proxy_path sd)]"
  using assms
  by (auto simp: cc_proxy_connect_def cc_proxy_connected_def cc_oci_fd_toggle_cloexec_def Let_def proxy_path_def
      dest!: sys_trace_eq split: prod.splits if_splits option.splits)

lemma run_cmd_trace:
  assumes "cc_proxy_run_cmd E proxy msg oob w = (ok, reply, fd, w')"
  shows "map fst (w_trace w') = map fst (w_trace w) @ (if cc_proxy_connected proxy then [EvSend msg] else [])"
    and "ok \<Longrightarrow> cc_proxy_connected proxy \<and> cc_proxy_hyper_check_response E reply = Some True"
  using assms
  by (auto simp: cc_proxy_run_cmd_def Let_def dest!: sys_trace_eq split: prod.splits if_splits)

lemma attach_trace:
  assumes "cc_proxy_attach E proxy cid w = (ok, w')"
  shows "map fst (w_trace w') = map fst (w_trace w) @
           (case cid of Some c \<Rightarrow> if cc_proxy_connected proxy then [EvSend (attach_message E c)] else [] | None \<Rightarrow> [])"
    and "ok \<Longrightarrow> cid \<noteq> None \<and> cc_proxy_connected proxy"
  using assms
  by (auto simp: cc_proxy_attach_def dest!: run_cmd_trace(1) split: prod.splits if_splits option.splits)

lemma hyper_cmd_trace:
  assumes "cc_proxy_run_hyper_cmd E config cmd payload w = (ok, w')" and "cfg_proxy config = Some proxy"
    and "cc_proxy_connected proxy"
  shows "map fst (w_trace w') = map fst (w_trace w) @ [EvSend (hyper_message E cmd payload)]"
  using assms
  by (auto simp: cc_proxy_run_hyper_cmd_def dest!: run_cmd_trace(1) split: prod.splits)

lemma disconnect_trace:
  assumes "cc_proxy_disconnect E proxy w = (ok, proxy', w')"
  shows "proxy_socket proxy' = None"
    and "map fst (w_trace w') = map fst (w_trace w) @
           (case proxy_socket proxy of None \<Rightarrow> [] | Some fd \<Rightarrow> [EvSocketClose fd])"
  using assms
  by (auto simp: cc_proxy_disconnect_def dest!: sys_trace_eq split: prod.splits option.splits)

lemma set_env_home_proxy [simp]: "cfg_proxy (set_env_home E c w) = cfg_proxy c"
  by (auto simp: set_env_home_def Let_def split: option.splits)

lemma new_container_trace:
  assumes "cc_proxy_run_hyper_new_container E config cid rootfs img w = (ok, config', w')"
    and "cfg_proxy config = Some proxy" and "cc_proxy_connected proxy"
  shows "config' = set_env_home E config w"
    and "ok \<Longrightarrow> \<exists>envs. envs_json (strv_list (proc_env (cfg_process config'))) = Some envs \<and>
      map fst (w_trace w') = map fst (w_trace w)
        @ [EvSend (hyper_message E ''newcontainer'' (new_container_payload (cfg_process config') cid rootfs img envs))]"
  using assms
  by (auto simp: cc_proxy_run_hyper_new_container_def Let_def dest!: hyper_cmd_trace
      split: prod.splits option.splits)

subsection \<open>Properties\<close>

text \<open>
  C24. Starting a container through the proxy: whatever happens the connection is closed again; on
  success the session was exactly connect, attach to the pod, one newcontainer message that
  carries the process (with valid stream numbers and an environment of name-value pairs),
  disconnect.
\<close>

theorem new_pod_container_session:
  assumes "cc_proxy_hyper_new_pod_container E sd config cid pod_id rootfs img w = (ok, config', w')"
  shows "(case cfg_proxy config' of None \<Rightarrow> True | Some proxy \<Rightarrow> proxy_socket proxy = None)
    \<and> (ok \<longrightarrow> (\<exists>fd pod envs.
          pod_id = Some pod
        \<and> streams_ok (cfg_process config)
        \<and> envs_json (strv_list (proc_env (cfg_process config'))) = Some envs
        \<and> map fst (new_events w w') =
            [EvSocketNew, EvCloexec fd, EvConnect (proxy_path sd),
             EvSend (attach_message E pod),
             EvSend (hyper_message E ''newcontainer''
               (new_container_payload (cfg_process config') cid rootfs img envs)),
             EvSocketClose fd]))"
proof (cases "cfg_proxy config")
  case None
  with assms show ?thesis by (simp add: cc_proxy_hyper_new_pod_container_def)
next
  case (Some proxy)
  obtain conn proxy1 w1 where c: "cc_proxy_connect E sd proxy w = (conn, proxy1, w1)"
    by (metis prod_cases3)
  let ?config1 = "config\<lparr>cfg_proxy := Some proxy1\<rparr>"
  obtain att w2 where a: "cc_proxy_attach E proxy1 pod_id w1 = (att, w2)" by fastforce
  obtain okn configN wn where n:
    "cc_proxy_run_hyper_new_container E ?config1 cid rootfs img w2 = (okn, configN, wn)"
    by (metis prod_cases3)
  note defs = cc_proxy_hyper_new_pod_container_def Some c a n Let_def
  have closed: "case cfg_proxy config' of None \<Rightarrow> True | Some proxy \<Rightarrow> proxy_socket proxy = None"
    using assms by (auto simp: defs dest: disconnect_trace(1) split: if_splits prod.splits)
  have "\<exists>fd pod envs. pod_id = Some pod \<and> streams_ok (cfg_process config)
      \<and> envs_json (strv_list (proc_env (cfg_process config'))) = Some envs
      \<and> map fst (w_trace w') = map fst (w_trace w) @
          [EvSocketNew, EvCloexec fd, EvConnect (proxy_path sd), EvSend (attach_message E pod),
           EvSend (hyper_message E ''newcontainer''
             (new_container_payload (cfg_process config') cid rootfs img envs)), EvSocketClose fd]"
    if "ok"
  proof -
    from assms that have go: "conn" "att" "streams_ok (cfg_process config)" "okn"
      by (auto simp: defs split: if_splits prod.splits)
    then obtain ok3 proxy3 where d: "cc_proxy_disconnect E proxy1 wn = (ok3, proxy3, w')"
      and config': "config' = configN\<lparr>cfg_proxy := Some proxy3\<rparr>"
      using assms by (auto simp: defs split: prod.splits)
    obtain fd where fd: "proxy1 = proxy\<lparr>proxy_socket := Some fd\<rparr>"
      "map fst (w_trace w1) = map fst (w_trace w) @ [EvSocketNew, EvCloexec fd, EvConnect (proxy_path sd)]"
      using connect_True [OF c [unfolded go(1) [THEN eqTrueI]]] by blast
    obtain pod where pod: "pod_id = Some pod" "cc_proxy_connected proxy1"
      using attach_trace(2) [OF a] go(2) by auto
    have "cfg_proxy ?config1 = Some proxy1" by simp
    from new_container_trace(2) [OF n this pod(2) go(4)] obtain envs where
      envs: "envs_json (strv_list (proc_env (cfg_process configN))) = Some envs"
      "map fst (w_trace wn) = map fst (w_trace w2) @ [EvSend (hyper_message E ''newcontainer''
         (new_container_payload (cfg_process configN) cid rootfs img envs))]" by blast
    show ?thesis
      using pod fd envs go attach_trace(1) [OF a] disconnect_trace(2) [OF d] config' by auto
  qed
  then show ?thesis
    using closed by (auto simp: new_events_def drop_map [symmetric])
qed

definition proxy_config :: cc_oci_config where
  "proxy_config = zero_config\<lparr>cfg_proxy := Some zero_proxy\<rparr>"

theorem new_pod_container_session_witness:
  "\<exists>config' w' fd pod envs.
     cc_proxy_hyper_new_pod_container (calm_env (\<lambda>_. None)) zero_start_data proxy_config
       (Some ''c'') (Some ''p'') ''rootfs'' None empty_world = (True, config', w')
     \<and> map fst (new_events empty_world w') =
            [EvSocketNew, EvCloexec fd, EvConnect (proxy_path zero_start_data),
             EvSend (attach_message (calm_env (\<lambda>_. None)) pod),
             EvSend (hyper_message (calm_env (\<lambda>_. None)) ''newcontainer''
               (new_container_payload (cfg_process config') (Some ''c'') ''rootfs'' None envs)),
             EvSocketClose fd]"
proof -
  let ?r = "cc_proxy_hyper_new_pod_container (calm_env (\<lambda>_. None)) zero_start_data proxy_config
    (Some ''c'') (Some ''p'') ''rootfs'' None empty_world"
  have "fst ?r" by code_simp
  then obtain config' w' where r: "?r = (True, config', w')" by (metis (full_types) prod.collapse)
  from new_pod_container_session [OF r, THEN conjunct2, rule_format, OF TrueI] obtain fd pod envs where
    "map fst (new_events empty_world w') = [EvSocketNew, EvCloexec fd, EvConnect (proxy_path zero_start_data),
       EvSend (attach_message (calm_env (\<lambda>_. None)) pod),
       EvSend (hyper_message (calm_env (\<lambda>_. None)) ''newcontainer''
         (new_container_payload (cfg_process config') (Some ''c'') ''rootfs'' None envs)), EvSocketClose fd]"
    by (elim exE conjE)
  with r show ?thesis by (intro exI conjI)
qed

end
