(* ===== verification/Program.thy ===== *)
theory Program
  imports Host Proxy
begin

section \<open>Functions with a common exit\<close>

text \<open>
  The long functions of the runtime are sequences of steps over their local variables, with \<^verbatim>\<open>goto\<close> to a
  clean-up at the end.  Here such a function is a list of steps; a step goes on to the next one,
  jumps to \<^verbatim>\<open>out\<close> or to \<^verbatim>\<open>child_failed\<close>, returns, or faults.
\<close>

datatype 's jump = Next 's | Out 's | ChildFailed 's | Return 's | Crash c_fault

fun run_prog :: "('s \<Rightarrow> 's jump) list \<Rightarrow> 's \<Rightarrow> 's jump" where
  "run_prog [] s = Next s"
| "run_prog (p # ps) s = (case p s of Next s' \<Rightarrow> run_prog ps s' | j \<Rightarrow> j)"

text \<open>A predicate on the state at which a step or a program stops, wherever it goes.\<close>

fun jump_all :: "('s \<Rightarrow> bool) \<Rightarrow> 's jump \<Rightarrow> bool" where
  "jump_all P (Next s) = P s"
| "jump_all P (Out s) = P s"
| "jump_all P (ChildFailed s) = P s"
| "jump_all P (Return s) = P s"
| "jump_all P (Crash f) = True"

lemma run_prog_append:
  "run_prog (ps @ qs) s = (case run_prog ps s of Next s' \<Rightarrow> run_prog qs s' | j \<Rightarrow> j)"
  by (induction ps arbitrary: s) (auto split: jump.splits)

lemma jump_all_mono: "jump_all P j \<Longrightarrow> (\<And>s. P s \<Longrightarrow> Q s) \<Longrightarrow> jump_all Q j"
  by (cases j) auto

text \<open>
  The contract of a family of steps that keep an invariant, and what it gives for programs made
  of them.
\<close>

locale kept_by_steps =
  fixes I :: "'s \<Rightarrow> bool" and steps :: "('s \<Rightarrow> 's jump) set"
  assumes step_keeps: "p \<in> steps \<Longrightarrow> I s \<Longrightarrow> jump_all I (p s)"
begin

lemma prog_keeps: "set ps \<subseteq> steps \<Longrightarrow> I s \<Longrightarrow> jump_all I (run_prog ps s)"
proof (induction ps arbitrary: s)
  case (Cons p ps)
  then have "jump_all I (p s)" by (auto intro: step_keeps)
  with Cons show ?case by (cases "p s") auto
qed simp

lemma prog_keeps_Next: "set ps \<subseteq> steps \<Longrightarrow> I s \<Longrightarrow> run_prog ps s = Next s' \<Longrightarrow> I s'"
  using prog_keeps [of ps s] by simp

end

subsection \<open>How a function of the runtime ends\<close>

datatype 'a outcome = Ret 'a | Exited world | Fault c_fault

fun o_bind :: "'a outcome \<Rightarrow> ('a \<Rightarrow> 'b outcome) \<Rightarrow> 'b outcome" where
  "o_bind (Ret x) f = f x"
| "o_bind (Exited w) f = Exited w"
| "o_bind (Fault e) f = Fault e"

fun of_result :: "'a c_result \<Rightarrow> 'a outcome" where
  "of_result (Inl e) = Fault e"
| "of_result (Inr x) = Ret x"

lemma o_bind_Ret: "o_bind m f = Ret y \<longleftrightarrow> (\<exists>x. m = Ret x \<and> f x = Ret y)"
  by (cases m) simp_all

lemma of_result_Ret [simp]: "of_result m = Ret x \<longleftrightarrow> m = Inr x"
  by (cases m) simp_all

subsection \<open>The local variables of the launching functions\<close>

text \<open>
  \<^verbatim>\<open>ret\<close>, the configuration, the timestamp, the netlink handle, the descriptor and the base number the
  proxy allocated, and the arguments for the hypervisor.
\<close>

record launch =
  l_ret :: bool
  l_config :: cc_oci_config
  l_world :: world
  l_timestamp :: gchars
  l_hndl :: bool
  l_io_fd :: int
  l_io_base :: int
  l_args :: "string list"

definition launch_start :: "cc_oci_config \<Rightarrow> world \<Rightarrow> launch" where
  "launch_start config w = \<lparr>l_ret = False, l_config = config, l_world = w, l_timestamp = None,
     l_hndl = False, l_io_fd = - 1, l_io_base = - 1, l_args = []\<rparr>"

text \<open>An event whose failure jumps to \<^verbatim>\<open>out\<close>.\<close>

definition must :: "env \<Rightarrow> (launch \<Rightarrow> event) \<Rightarrow> launch \<Rightarrow> launch jump" where
  "must E ev s =
     (let (ok, w1) = sys E (ev s) (l_world s); s1 = s\<lparr>l_world := w1\<rparr>
      in if ok then Next s1 else Out s1)"

definition launch_proxy :: "launch \<Rightarrow> cc_proxy option" where
  "launch_proxy s = cfg_proxy (l_config s)"

definition set_launch_proxy :: "cc_proxy \<Rightarrow> launch \<Rightarrow> launch" where
  "set_launch_proxy p s = s\<lparr>l_config := (l_config s)\<lparr>cfg_proxy := Some p\<rparr>\<rparr>"

end
