(* ===== verification/Hypervisor.thy ===== *)
theory Hypervisor
  imports Networking ConfigFile
begin

section \<open>The hypervisor's command line (src/hypervisor.c)\<close>

text \<open>
  The command line is a file with one argument per line, in which comments are dropped and special
  tags such as \<^verbatim>\<open>@KERNEL@\<close> are replaced; arguments for the network devices are added.
\<close>

definition CC_OCI_HYPERVISOR_CMDLINE_FILE :: string where
  "CC_OCI_HYPERVISOR_CMDLINE_FILE = ''hypervisor.args''"

definition UUID_MAX :: nat where
  "UUID_MAX = 37"

subsection \<open>Network devices\<close>

definition cc_oci_expand_net_cmdline :: "cc_oci_config \<Rightarrow> gchars" where
  "cc_oci_expand_net_cmdline config =
     map_option (\<lambda>h. ''ip=::::::'' @ h @ ''::off::'') (net_hostname (cfg_net config))"

definition cc_oci_expand_netdev_cmdline :: "cc_oci_config \<Rightarrow> nat \<Rightarrow> string" where
  "cc_oci_expand_netdev_cmdline config index =
     (let interfaces = net_interfaces (cfg_net config)
      in if index < length interfaces then
           (let tap = fmt_s (if_tap_device (interfaces ! index))
            in ''tap,ifname='' @ tap @ '',script=no,downscript=no,id='' @ tap @ '',vhost=on'')
         else [])"

definition cc_oci_expand_net_device_cmdline :: "cc_oci_config \<Rightarrow> nat \<Rightarrow> string" where
  "cc_oci_expand_net_device_cmdline config index =
     (let interfaces = net_interfaces (cfg_net config)
      in if index < length interfaces then
           (let c = interfaces ! index;
                device = ''driver=virtio-net-pci,bus=/pci-lite-host/pcie.0,addr='' @ nat_to_hex (index + PCI_OFFSET)
                         @ '',netdev='' @ fmt_s (if_tap_device c)
            in (case if_mac_address c of None \<Rightarrow> device | Some mac \<Rightarrow> device @ '',mac='' @ mac))
         else [])"

definition cc_oci_append_network_args :: "cc_oci_config \<Rightarrow> string list \<Rightarrow> string list" where
  "cc_oci_append_network_args config additional_args =
     additional_args @
     (if net_interfaces (cfg_net config) = [] then [''-net'' @ [CHR 10] @ ''none'' @ [CHR 10]]
      else concat (map (\<lambda>index. [''-netdev'', cc_oci_expand_netdev_cmdline config index,
                                 ''-device'', cc_oci_expand_net_device_cmdline config index])
                    [0..<length (net_interfaces (cfg_net config))]))"

definition cc_oci_populate_extra_args :: "cc_oci_config \<Rightarrow> string list \<Rightarrow> string list" where
  "cc_oci_populate_extra_args config additional_args = cc_oci_append_network_args config additional_args"

subsection \<open>The identifier of the virtual machine\<close>

text \<open>
  The bytes are printed into a buffer of \<^verbatim>\<open>UUID_MAX\<close> bytes; \<open>idx\<close> is \<^verbatim>\<open>uuid_index\<close>, which \<^verbatim>\<open>g_snprintf\<close>
  advances by the length of the text even when it had to cut it.
\<close>

definition uuid_pattern :: string where
  "uuid_pattern = ''00000000-0000-0000-0000-000000000000'' @ [NUL]"

fun uuid_fmt :: "8 word list \<Rightarrow> string \<Rightarrow> nat \<Rightarrow> string \<times> nat" where
  "uuid_fmt [] s idx = (s, idx)"
| "uuid_fmt (b # bs) s idx =
     (if \<not> idx < UUID_MAX then (s, idx)
      else
        let s1 = s @ buf_copy (UUID_MAX - idx) (hex2 b);
            idx1 = idx + 2;
            (s2, idx2) =
              (if idx1 < UUID_MAX \<and> uuid_pattern ! idx1 = CHR ''-''
               then (s1 @ buf_copy (UUID_MAX - idx1) ''-'', idx1 + 1) else (s1, idx1))
        in uuid_fmt bs s2 idx2)"

definition uuid_str :: "8 word list \<Rightarrow> string" where
  "uuid_str uuid = fst (uuid_fmt (take 16 uuid) [] 0)"

text \<open>\<^verbatim>\<open>g_strrstr (uuid_str, "-") + 1\<close>.\<close>

definition after_last :: "char \<Rightarrow> string \<Rightarrow> string" where
  "after_last d s = rev (takeWhile (\<lambda>c. c \<noteq> d) (rev s))"

subsection \<open>One line of the file\<close>

definition g_ascii_isspace :: "char \<Rightarrow> bool" where
  "g_ascii_isspace c \<longleftrightarrow> c \<in> {CHR '' '', CHR 9, CHR 10, CHR 12, CHR 13}"

definition g_strstrip :: "string \<Rightarrow> string" where
  "g_strstrip s = rev (dropWhile g_ascii_isspace (rev (dropWhile g_ascii_isspace s)))"

text \<open>
  A \<^verbatim>\<open>#\<close> after white space starts a comment.  Each search looks at \<^verbatim>\<open>LINE_MAX\<close> bytes at most; the first
  argument counts what is left of the window, the second is the character before.
\<close>

fun cut_comment :: "nat \<Rightarrow> char \<Rightarrow> string \<Rightarrow> string" where
  "cut_comment 0 p s = s"
| "cut_comment (Suc n) p [] = []"
| "cut_comment (Suc n) p (c # cs) =
     (if c = CHR ''#'' then (if g_ascii_isspace p then [] else c # cut_comment LINE_MAX c cs)
      else c # cut_comment n c cs)"

definition expand_arg :: "(string \<times> gchars) list \<Rightarrow> string \<Rightarrow> string" where
  "expand_arg tags arg =
     (case arg of
        [] \<Rightarrow> fold (\<lambda>(name, val) a. cc_oci_replace_string a (Some name) val) tags []
      | c # cs \<Rightarrow>
          if c = CHR ''#'' then []
          else fold (\<lambda>(name, val) a. cc_oci_replace_string a (Some name) val) tags
                 (c # cut_comment (LINE_MAX - 1) c cs))"

definition special_tags ::
  "cc_oci_config \<Rightarrow> string \<Rightarrow> cc_oci_vm_cfg \<Rightarrow> nat \<Rightarrow> 8 word list \<Rightarrow> cc_proxy \<Rightarrow> (string \<times> gchars) list" where
  "special_tags config workload_dir vm bytes uuid proxy =
     [(''@WORKLOAD_DIR@'', Some workload_dir), (''@KERNEL@'', Some (vm_kernel_path vm)),
      (''@KERNEL_PARAMS@'', vm_kernel_params vm), (''@KERNEL_NET_PARAMS@'', cc_oci_expand_net_cmdline config),
      (''@IMAGE@'', Some (vm_image_path vm)), (''@SIZE@'', Some (nat_to_dec bytes)),
      (''@COMMS_SOCKET@'', Some (comms_path (cfg_state config))),
      (''@PROCESS_SOCKET@'', Some (''socket,id=procsock,path='' @ procsock_path (cfg_state config) @ '',server,nowait'')),
      (''@CONSOLE_DEVICE@'', Some (''socket,path='' @ fmt_s (vm_console_socket proxy)
          @ '',server,nowait,id=charconsole0,signal=off'')),
      (''@NAME@'', Some (after_last (CHR ''-'') (uuid_str uuid))), (''@UUID@'', Some (uuid_str uuid)),
      (''@AGENT_CTL_SOCKET@'', agent_ctl_socket proxy), (''@AGENT_TTY_SOCKET@'', agent_tty_socket proxy)]"

text \<open>The first argument, the program, is looked up in the search path.\<close>

definition resolve_program :: "host \<Rightarrow> world \<Rightarrow> string list \<Rightarrow> string list" where
  "resolve_program H w args =
     (case args of
        [] \<Rightarrow> []
      | a # as \<Rightarrow>
          (if prefix ''/'' a then a
           else case find_program H w a of None \<Rightarrow> a | Some cmd \<Rightarrow> cmd) # as)"

definition cc_oci_expand_cmdline ::
  "env \<Rightarrow> host \<Rightarrow> cc_oci_config \<Rightarrow> string list \<Rightarrow> world \<Rightarrow> bool \<times> cc_oci_config \<times> string list" where
  "cc_oci_expand_cmdline E H config args w =
     (case (cfg_vm config, cfg_bundle_path config, cfg_proxy config) of
        (Some vm, Some _, Some proxy) \<Rightarrow>
          (let workload_dir = cc_oci_get_workload_dir config
           in if vm_image_path vm = [] \<or> os_stat E w (vm_image_path vm) = None then (False, config, args)
              else if vm_kernel_path vm = [] \<or> os_stat E w (vm_kernel_path vm) = None then (False, config, args)
              else if workload_dir = [] \<or> os_stat E w workload_dir \<noteq> Some FDir then (False, config, args)
              else
                (let rp = runtime_path (cfg_state config);
                     proxy' = proxy\<lparr>vm_console_socket := Some (g_build_path rp CC_OCI_CONSOLE_SOCKET),
                                    agent_ctl_socket := Some (g_build_path rp CC_OCI_AGENT_CTL_SOCKET),
                                    agent_tty_socket := Some (g_build_path rp CC_OCI_AGENT_TTY_SOCKET)\<rparr>;
                     tags = special_tags config workload_dir vm (file_size H w (vm_image_path vm))
                              (random_uuid H w) proxy'
                 in (True, config\<lparr>cfg_proxy := Some proxy'\<rparr>,
                     map (expand_arg tags) (resolve_program H w args))))
      | _ \<Rightarrow> (False, config, args))"

subsection \<open>The whole command line\<close>

definition cc_oci_vm_args_file_path :: "env \<Rightarrow> cc_oci_config \<Rightarrow> world \<Rightarrow> gchars" where
  "cc_oci_vm_args_file_path E config w =
     (case cc_oci_get_bundlepath_file (cfg_bundle_path config) (Some CC_OCI_HYPERVISOR_CMDLINE_FILE) of
        None \<Rightarrow> None
      | Some f \<Rightarrow>
          find (\<lambda>p. os_stat E w p \<noteq> None)
            [f, g_build_path SYSCONFDIR CC_OCI_HYPERVISOR_CMDLINE_FILE,
             g_build_path DEFAULTSDIR CC_OCI_HYPERVISOR_CMDLINE_FILE])"

definition cc_oci_vm_args_get ::
  "env \<Rightarrow> host \<Rightarrow> cc_oci_config \<Rightarrow> string list \<Rightarrow> world \<Rightarrow> string list option \<times> cc_oci_config" where
  "cc_oci_vm_args_get E H config hypervisor_extra_args w =
     (case cc_oci_file_to_strv (cc_oci_vm_args_file_path E config w) w of
        None \<Rightarrow> (None, config)
      | Some args \<Rightarrow>
          (let (ok, config', args') = cc_oci_expand_cmdline E H config args w
           in if \<not> ok then (None, config')
              else (Some (map g_strstrip (filter (\<lambda>a. a \<noteq> []) args') @ map g_strstrip hypervisor_extra_args), config')))"

end
