(* ===== verification/Process.thy ===== *)
theory Process
  imports Program Hypervisor
begin

section \<open>Hooks, the shim and the hypervisor process (src/process.c)\<close>

text \<open>
  Running the hooks of a container, starting the shim from the side of the parent and of the child,
  and the descriptors the children keep.
\<close>

subsection \<open>Hooks\<close>

definition hook_argv :: "oci_cfg_hook \<Rightarrow> string list" where
  "hook_argv hook =
     hook_path hook # (case hook_args hook of None \<Rightarrow> [hook_path hook] | Some as \<Rightarrow> as)"

text \<open>The state is sent with its newlines replaced, and one newline after it.\<close>

definition hook_input :: "string \<Rightarrow> string" where
  "hook_input state = map (\<lambda>c. if c = CHR 10 then CHR '' '' else c) state @ [CHR 10]"

definition cc_run_hook :: "env \<Rightarrow> oci_cfg_hook \<Rightarrow> string \<Rightarrow> world \<Rightarrow> bool \<times> world" where
  "cc_run_hook E hook state w =
     (if state = [] then (False, w)
      else
        let (_, w1) = sys E (EvHook (hook_path hook) (hook_argv hook) (hook_env hook) (hook_input state)) w
        in (case hook_outcome E w1 hook of
              HookSpawnFailed \<Rightarrow> (False, w1)
            | HookWriteEpipe \<Rightarrow> (True, w1)
            | HookWriteFailed \<Rightarrow> (False, w1)
            | HookExit code \<Rightarrow> (code = 0, w1)))"

fun run_hooks_loop :: "env \<Rightarrow> oci_cfg_hook list \<Rightarrow> string \<Rightarrow> bool \<Rightarrow> world \<Rightarrow> bool \<times> world" where
  "run_hooks_loop E [] state stop_on_failure w = (True, w)"
| "run_hooks_loop E (h # hs) state stop_on_failure w =
     (let (ok, w1) = cc_run_hook E h state w
      in if \<not> ok \<and> stop_on_failure then (False, w1)
         else run_hooks_loop E hs state stop_on_failure w1)"

definition cc_run_hooks ::
  "env \<Rightarrow> oci_cfg_hook list \<Rightarrow> string \<Rightarrow> bool \<Rightarrow> world \<Rightarrow> bool \<times> world" where
  "cc_run_hooks E hooks state_file stop_on_failure w =
     (if hooks = [] then (True, w)
      else (case w_files w state_file of
              None \<Rightarrow> (False, w)
            | Some container_state \<Rightarrow>
                run_hooks_loop E hooks (cstr_at container_state 0) stop_on_failure w))"

subsection \<open>Starting the shim\<close>

definition CC_OCI_SHIM :: string where
  "CC_OCI_SHIM = ''/usr/libexec/cc-shim''"

text \<open>The parent: pipes for errors and arguments, a socket pair, the lock file, then \<^verbatim>\<open>fork\<close>.\<close>

definition shim_lock_path :: "cc_oci_config \<Rightarrow> string" where
  "shim_lock_path config = runtime_path (cfg_state config) @ ''/'' @ CC_OCI_SHIM_LOCK_FILE"

definition set_workload_pid :: "int \<Rightarrow> cc_oci_config \<Rightarrow> cc_oci_config" where
  "set_workload_pid pid config = config\<lparr>cfg_state := (cfg_state config)\<lparr>workload_pid := pid\<rparr>\<rparr>"

definition cc_shim_launch :: "env \<Rightarrow> cc_oci_config \<Rightarrow> world \<Rightarrow> bool \<times> cc_oci_config \<times> world" where
  "cc_shim_launch E config w =
     (if cfg_proxy config = None then (False, config, w)
      else
        let (ok, w1) = run_events E [EvPipe, EvPipe, EvSocketpair, EvCreat (shim_lock_path config)] w
        in if \<not> ok then (False, config, w1)
           else
             let (forked, w2) = sys E EvFork w1;
                 pid = (if forked then os_pid E w2 else - 1)
             in (forked, set_workload_pid pid config, w2))"

text \<open>The descriptors the child closes: all but the standard ones and those it keeps.\<close>

definition cc_oci_close_fds :: "host \<Rightarrow> int list \<Rightarrow> world \<Rightarrow> int list option" where
  "cc_oci_close_fds H keep w = map_option (filter (\<lambda>fd. \<not> fd < 3 \<and> fd \<notin> set keep)) (open_fds H w)"

definition cc_oci_setup_shim ::
  "env \<Rightarrow> host \<Rightarrow> cc_oci_config \<Rightarrow> int \<Rightarrow> int \<Rightarrow> int \<Rightarrow> world \<Rightarrow> bool \<times> int list \<times> world" where
  "cc_oci_setup_shim E H config proxy_fd proxy_io_fd shim_flock_fd w =
     (if proxy_fd < 0 \<or> proxy_io_fd < 0 \<or> shim_flock_fd < 0 then (False, [], w)
      else
        let (_, w1) = sys E EvSetsid w;
            (ok, w2) =
              (case cfg_console config of
                 Some console \<Rightarrow>
                   if proc_terminal (cfg_process config) then
                     (let (opened, w2) = sys E (EvOpen console) w1; tty_fd = os_fd E w2
                      in if \<not> opened then (False, w2)
                         else run_events E [EvDup2 tty_fd 0, EvDup2 tty_fd 1, EvDup2 tty_fd 2,
                                            EvIoctl 0 ''TIOCSCTTY''] w2)
                   else (True, w1)
               | None \<Rightarrow> (True, w1))
        in if \<not> ok then (False, [], w2)
           else (True, (case cc_oci_close_fds H [proxy_fd, proxy_io_fd, shim_flock_fd] w2 of
                          None \<Rightarrow> [] | Some closed \<Rightarrow> closed), w2))"

text \<open>A missing container id ends the vector early.\<close>

definition shim_argv :: "start_data \<Rightarrow> cc_oci_config \<Rightarrow> int \<Rightarrow> int \<Rightarrow> int \<Rightarrow> string list" where
  "shim_argv sd config proxy_socket_fd proxy_io_fd proxy_io_base =
     [(case sd_shim_path sd of None \<Rightarrow> CC_OCI_SHIM | Some p \<Rightarrow> p), ''-c''] @
     (case cfg_optarg_container_id config of
        None \<Rightarrow> []
      | Some cid \<Rightarrow>
          [cid, ''-p'', int_to_dec proxy_socket_fd, ''-o'', int_to_dec proxy_io_fd,
           ''-s'', int_to_dec proxy_io_base] @
          (if proc_terminal (cfg_process config) then []
           else [''-e'', int_to_dec (wrap32s (proxy_io_base + 1))]))"

text \<open>
  The child.  \<open>received\<close> is what it reads from the argument pipe and the socket (\<open>None\<close> when a read
  fails); \<open>fds\<close> is its descriptor table, \<open>D\<close> and \<open>Cl\<close> say which \<^verbatim>\<open>dup\<close> and \<^verbatim>\<open>close\<close> succeed.  It ends by
  executing the shim, or writes to the error pipe and exits, or aborts when \<^verbatim>\<open>execvp\<close> fails.
\<close>

datatype child_end = ChildRuns | ChildExits | ChildAborts | ChildFaults

definition child_fails :: "env \<Rightarrow> world \<Rightarrow> child_end \<times> world" where
  "child_fails E w = (let (_, w1) = sys E (EvPipeWrite ''E'') w in (ChildExits, snd (sys E (EvExit 1) w1)))"

definition shim_child ::
  "env \<Rightarrow> host \<Rightarrow> start_data \<Rightarrow> cc_oci_config \<Rightarrow> bool \<Rightarrow> (int \<times> int \<times> int) option \<Rightarrow> int
     \<Rightarrow> (int list \<Rightarrow> bool) \<Rightarrow> (int \<Rightarrow> bool) \<Rightarrow> int list \<Rightarrow> world \<Rightarrow> child_end \<times> world" where
  "shim_child E H sd config initial_workload received flock_fd D Cl fds w =
     (case received of
        None \<Rightarrow> child_fails E w
      | Some (sock_fd, proxy_io_base, io_fd) \<Rightarrow>
          if io_fd < 0 \<or> sock_fd < 0 then child_fails E w
          else
            let (ok1, proxy_socket_fd, fds1) = dup_over_stdio D Cl sock_fd fds;
                (ok2, proxy_io_fd, fds2) = (if ok1 then dup_over_stdio D Cl io_fd fds1 else (False, io_fd, fds1));
                (ok3, shim_flock_fd, fds3) = (if ok2 then dup_over_stdio D Cl flock_fd fds2 else (False, flock_fd, fds2))
            in if \<not> ok3 then child_fails E w
               else
                 let (_, w1) = cc_oci_fd_toggle_cloexec E proxy_socket_fd w;
                     (_, w2) = cc_oci_fd_toggle_cloexec E proxy_io_fd w1;
                     (_, w3) = cc_oci_fd_toggle_cloexec E shim_flock_fd w2;
                     (locked, w4) = (if initial_workload then sys E (EvFlock CC_OCI_SHIM_LOCK_FILE) w3 else (True, w3))
                 in if \<not> locked then child_fails E w4
                    else
                      let (ready, _, w5) = cc_oci_setup_shim E H config proxy_socket_fd proxy_io_fd shim_flock_fd w4
                      in if \<not> ready then child_fails E w5
                         else
                           let (ran, w6) = sys E (EvExec (shim_argv sd config proxy_socket_fd proxy_io_fd proxy_io_base)) w5
                           in (if ran then ChildRuns else ChildAborts, w6))"

end
