(* ===== verification/Launch.thy ===== *)
theory Launch
  imports Process
begin

section \<open>Launching a virtual machine or a pod container (src/process.c, src/pod.c)\<close>

text \<open>
  \<^verbatim>\<open>cc_oci_vm_launch\<close> and \<^verbatim>\<open>cc_pod_container_create\<close> as programs over \<open>launch\<close> states, one step for every
  block of the code between two jumps.  Note which steps set \<^verbatim>\<open>ret\<close>: a jump to \<^verbatim>\<open>out\<close> returns its
  current value.
\<close>

subsection \<open>Integers on a pipe\<close>

text \<open>Both ends of a pipe are on the same machine and use its representation: four bytes, the lowest first.\<close>

definition c_int_bytes :: "int \<Rightarrow> string" where
  "c_int_bytes i = map (\<lambda>k. char_of (nat (i mod 2 ^ 32) div 256 ^ k mod 256)) [0, 1, 2, 3]"

definition bytes_c_int :: "string \<Rightarrow> int" where
  "bytes_c_int s = wrap32s (\<Sum>k\<leftarrow>[0, 1, 2, 3]. int (of_char (s ! k)) * 256 ^ k)"

subsection \<open>Steps both functions have\<close>

definition st_timestamp :: "env \<Rightarrow> launch \<Rightarrow> launch jump" where
  "st_timestamp E s =
     (case os_timestamp E (l_world s) of
        None \<Rightarrow> Out s
      | Some t \<Rightarrow> Next (s\<lparr>l_timestamp := Some t, l_config := upd_status OCI_STATUS_CREATED (l_config s)\<rparr>))"

definition connect_proxy :: "env \<Rightarrow> start_data \<Rightarrow> launch \<Rightarrow> bool \<times> launch" where
  "connect_proxy E sd s =
     (case launch_proxy s of
        None \<Rightarrow> (False, s)
      | Some proxy \<Rightarrow>
          (let (ok, proxy', w') = cc_proxy_connect E sd proxy (l_world s)
           in (ok, set_launch_proxy proxy' (s\<lparr>l_world := w'\<rparr>))))"

definition st_shim :: "env \<Rightarrow> launch \<Rightarrow> launch jump" where
  "st_shim E s =
     (let (ok, config', w') = cc_shim_launch E (l_config s) (l_world s);
          s' = s\<lparr>l_config := config', l_world := w'\<rparr>
      in if ok then Next s' else Out s')"

definition st_state_file :: "env \<Rightarrow> launch \<Rightarrow> launch jump" where
  "st_state_file E s =
     (let (ok, config', w') = cc_oci_state_file_create E (l_config s) (l_timestamp s) (l_world s);
          s' = s\<lparr>l_ret := ok, l_config := config', l_world := w'\<rparr>
      in if ok then Next s' else Out s')"

text \<open>\<^verbatim>\<open>g_socket_get_fd\<close>, and writing the number to the shim's argument pipe.\<close>

definition st_send_proxy_fd :: "env \<Rightarrow> launch \<Rightarrow> launch jump" where
  "st_send_proxy_fd E s =
     (case launch_proxy s of
        None \<Rightarrow> Crash NullDeref
      | Some proxy \<Rightarrow>
          (case proxy_socket proxy of
             None \<Rightarrow> Out s
           | Some fd \<Rightarrow> if fd < 0 then Out s else must E (\<lambda>_. EvPipeWrite (c_int_bytes fd)) s))"

definition st_allocate_io :: "env \<Rightarrow> launch \<Rightarrow> launch jump" where
  "st_allocate_io E s =
     (case launch_proxy s of
        None \<Rightarrow> Crash NullDeref
      | Some proxy \<Rightarrow>
          (let (got, w') = cc_proxy_cmd_allocate_io E proxy (proc_terminal (cfg_process (l_config s))) (l_world s);
               s' = s\<lparr>l_world := w'\<rparr>
           in (case got of
                 None \<Rightarrow> Out s'
               | Some (fd, io_base) \<Rightarrow>
                   Next (s'\<lparr>l_io_fd := (case fd of None \<Rightarrow> - 1 | Some f \<Rightarrow> f), l_io_base := io_base\<rparr>))))"

definition st_send_io_base :: "env \<Rightarrow> launch \<Rightarrow> launch jump" where
  "st_send_io_base E s = must E (\<lambda>s. EvPipeWrite (c_int_bytes (l_io_base s))) s"

text \<open>\<^verbatim>\<open>cc_oci_socket_connection_from_fd\<close> wraps the shim's socket; a failure leaves \<^verbatim>\<open>ret\<close> as it is.\<close>

definition st_shim_socket :: "env \<Rightarrow> launch \<Rightarrow> launch jump" where
  "st_shim_socket E s = must E (\<lambda>_. EvSocketNew) s"

definition st_send_io_fd :: "env \<Rightarrow> launch \<Rightarrow> launch jump" where
  "st_send_io_fd E s =
     (let (ok, w') = sys E (EvSendFd (l_io_fd s)) (l_world s); s' = s\<lparr>l_ret := ok, l_world := w'\<rparr>
      in if ok then Next s' else Out s')"

definition io_streams :: "int \<Rightarrow> oci_cfg_process \<Rightarrow> oci_cfg_process" where
  "io_streams io_base p =
     p\<lparr>proc_stdio_stream := io_base,
       proc_stderr_stream := (if proc_terminal p then 0 else wrap32s (io_base + 1))\<rparr>"

definition st_streams :: "launch \<Rightarrow> launch jump" where
  "st_streams s = Next (s\<lparr>l_config := upd_process (io_streams (l_io_base s)) (l_config s)\<rparr>)"

text \<open>A blocking read of a child's error pipe: any byte means that the child failed.\<close>

definition st_child_check :: "env \<Rightarrow> launch \<Rightarrow> launch jump" where
  "st_child_check E s = (if 0 < child_err_bytes E (l_world s) then Out (s\<lparr>l_ret := False\<rparr>) else Next s)"

definition st_disconnect :: "env \<Rightarrow> launch \<Rightarrow> launch jump" where
  "st_disconnect E s =
     (case launch_proxy s of
        None \<Rightarrow> Crash NullDeref
      | Some proxy \<Rightarrow>
          (let (ok, proxy', w') = cc_proxy_disconnect E proxy (l_world s)
           in Next (set_launch_proxy proxy' (s\<lparr>l_ret := ok, l_world := w'\<rparr>))))"

definition st_pid_file :: "env \<Rightarrow> launch \<Rightarrow> launch jump" where
  "st_pid_file E s =
     (case cfg_pid_file (l_config s) of
        None \<Rightarrow> Next s
      | Some f \<Rightarrow>
          (let (ok, w') = cc_oci_create_pidfile E (Some f) (workload_pid (cfg_state (l_config s))) (l_world s);
               s' = s\<lparr>l_ret := ok, l_world := w'\<rparr>
           in if ok then Next s' else Out s'))"

subsection \<open>Steps of the virtual machine\<close>

definition st_vm_connect :: "env \<Rightarrow> start_data \<Rightarrow> launch \<Rightarrow> launch jump" where
  "st_vm_connect E sd s = (let (ok, s') = connect_proxy E sd s in if ok then Next s' else Return (s'\<lparr>l_ret := False\<rparr>))"

definition st_pipe :: "env \<Rightarrow> launch \<Rightarrow> launch jump" where
  "st_pipe E s = must E (\<lambda>_. EvPipe) s"

definition st_vm_fork :: "env \<Rightarrow> launch \<Rightarrow> launch jump" where
  "st_vm_fork E s =
     (case cfg_vm (l_config s) of
        None \<Rightarrow> Crash NullDeref
      | Some vm \<Rightarrow>
          (let (forked, w') = sys E EvFork (l_world s);
               pid = (if forked then os_pid E w' else - 1);
               s' = s\<lparr>l_config := (l_config s)\<lparr>cfg_vm := Some (vm\<lparr>vm_pid := pid\<rparr>)\<rparr>, l_world := w'\<rparr>
           in if forked then Next s' else Out s'))"

text \<open>The result of the hooks is only logged.\<close>

definition st_prestart :: "env \<Rightarrow> launch \<Rightarrow> launch jump" where
  "st_prestart E s =
     (let (_, w') = cc_run_hooks E (hooks_prestart (cfg_hooks (l_config s)))
            (state_file_path (cfg_state (l_config s))) True (l_world s)
      in Next (s\<lparr>l_world := w'\<rparr>))"

definition cc_oci_vm_netcfg_get ::
  "env \<Rightarrow> host \<Rightarrow> cc_oci_config \<Rightarrow> bool \<Rightarrow> world \<Rightarrow> (bool \<times> cc_oci_config \<times> world) c_result" where
  "cc_oci_vm_netcfg_get E H config hndl w = cc_oci_network_discover E H config hndl w"

definition st_network :: "env \<Rightarrow> host \<Rightarrow> launch \<Rightarrow> launch jump" where
  "st_network E H s =
     (if \<not> cc_oci_enable_networking E then Next s
      else
        let (hndl, w1) = netlink_init E (l_world s)
        in if \<not> hndl then ChildFailed (s\<lparr>l_world := w1\<rparr>)
           else (case cc_oci_vm_netcfg_get E H (l_config s) True w1 of
                   Inl e \<Rightarrow> Crash e
                 | Inr (ok, config2, w2) \<Rightarrow>
                     (let s2 = s\<lparr>l_hndl := True, l_config := config2, l_world := w2\<rparr>
                      in if \<not> ok then ChildFailed s2
                         else let (made, w3) = cc_oci_network_create E H config2 True w2;
                                  s3 = s2\<lparr>l_world := w3\<rparr>
                              in if made then Next s3 else ChildFailed s3)))"

definition st_vm_args :: "env \<Rightarrow> host \<Rightarrow> launch \<Rightarrow> launch jump" where
  "st_vm_args E H s =
     (let (args, config') = cc_oci_vm_args_get E H (l_config s) (cc_oci_populate_extra_args (l_config s) []) (l_world s)
      in (case args of
            None \<Rightarrow> Out (s\<lparr>l_ret := False, l_config := config'\<rparr>)
          | Some as \<Rightarrow> Next (s\<lparr>l_ret := True, l_config := config', l_args := as\<rparr>)))"

text \<open>The arguments go to the child as one text with a newline between them, after its length.\<close>

definition hypervisor_text :: "launch \<Rightarrow> string" where
  "hypervisor_text s = strjoinv (CHR 10) (l_args s)"

definition hypervisor_text_len :: "launch \<Rightarrow> nat" where
  "hypervisor_text_len s = g_utf8_strlen (hypervisor_text s) (length (hypervisor_text s))"

definition st_send_args_len :: "env \<Rightarrow> launch \<Rightarrow> launch jump" where
  "st_send_args_len E s = must E (\<lambda>s. EvPipeWrite (c_int_bytes (int (hypervisor_text_len s)))) s"

definition st_send_args :: "env \<Rightarrow> launch \<Rightarrow> launch jump" where
  "st_send_args E s = must E (\<lambda>s. EvPipeWrite (take (hypervisor_text_len s) (hypervisor_text s))) s"

definition st_proxy_ready :: "env \<Rightarrow> launch \<Rightarrow> launch jump" where
  "st_proxy_ready E s =
     (let (ok, w') = cc_proxy_wait_until_ready E (l_config s) (l_world s); s' = s\<lparr>l_world := w'\<rparr>
      in if ok then Next s' else Out s')"

definition st_pod_create :: "env \<Rightarrow> launch \<Rightarrow> launch jump" where
  "st_pod_create E s =
     (let (ok, w') = cc_proxy_hyper_pod_create E (l_config s) (l_world s); s' = s\<lparr>l_world := w'\<rparr>
      in if ok then Next s' else Out s')"

subsection \<open>The two functions\<close>

definition vm_launch_steps :: "env \<Rightarrow> host \<Rightarrow> start_data \<Rightarrow> (launch \<Rightarrow> launch jump) list" where
  "vm_launch_steps E H sd =
     [st_timestamp E, st_vm_connect E sd, st_pipe E, st_pipe E, st_vm_fork E, st_shim E, st_state_file E,
      st_prestart E, st_network E H, st_vm_args E H, st_send_args_len E, st_send_args E, st_child_check E,
      st_proxy_ready E, st_pod_create E, st_send_proxy_fd E, st_allocate_io E, st_send_io_base E,
      st_shim_socket E, st_send_io_fd E, st_streams, st_child_check E, st_state_file E, st_disconnect E,
      st_pid_file E]"

text \<open>
  The clean-up at \<^verbatim>\<open>out\<close>: close the netlink socket, and kill the shim when the result is false.  A jump
  to \<^verbatim>\<open>child_failed\<close> is meant for the child but is also taken by the parent: it ends the process.
\<close>

definition vm_launch_out :: "env \<Rightarrow> launch \<Rightarrow> bool \<times> cc_oci_config \<times> world" where
  "vm_launch_out E s =
     (let w1 = (if cc_oci_enable_networking E then netlink_close E (l_hndl s) (l_world s) else l_world s);
          w2 = (if \<not> l_ret s \<and> 0 < workload_pid (cfg_state (l_config s))
                then snd (sys E (EvKill (workload_pid (cfg_state (l_config s))) SIGKILL) w1) else w1)
      in (l_ret s, l_config s, w2))"

definition launch_result ::
  "env \<Rightarrow> (launch \<Rightarrow> bool \<times> cc_oci_config \<times> world) \<Rightarrow> launch jump \<Rightarrow> (bool \<times> cc_oci_config \<times> world) outcome" where
  "launch_result E cleanup j =
     (case j of
        Next s \<Rightarrow> Ret (cleanup s)
      | Out s \<Rightarrow> Ret (cleanup s)
      | Return s \<Rightarrow> Ret (l_ret s, l_config s, l_world s)
      | ChildFailed s \<Rightarrow> Exited (snd (sys E (EvExit 1) (l_world s)))
      | Crash e \<Rightarrow> Fault e)"

definition cc_oci_vm_launch ::
  "env \<Rightarrow> host \<Rightarrow> start_data \<Rightarrow> cc_oci_config \<Rightarrow> world \<Rightarrow> (bool \<times> cc_oci_config \<times> world) outcome" where
  "cc_oci_vm_launch E H sd config w =
     launch_result E (vm_launch_out E) (run_prog (vm_launch_steps E H sd) (launch_start config w))"

definition st_pod_connect :: "env \<Rightarrow> start_data \<Rightarrow> launch \<Rightarrow> launch jump" where
  "st_pod_connect E sd s = (let (ok, s') = connect_proxy E sd s in if ok then Next s' else Out s')"

definition st_pod_attach :: "env \<Rightarrow> launch \<Rightarrow> launch jump" where
  "st_pod_attach E s =
     (case (cfg_pod (l_config s), launch_proxy s) of
        (Some pod, Some proxy) \<Rightarrow>
          (let (ok, w') = cc_proxy_attach E proxy (pod_sandbox_name pod) (l_world s); s' = s\<lparr>l_world := w'\<rparr>
           in if ok then Next s' else Out s')
      | _ \<Rightarrow> Crash NullDeref)"

definition pod_create_steps :: "env \<Rightarrow> start_data \<Rightarrow> (launch \<Rightarrow> launch jump) list" where
  "pod_create_steps E sd =
     [st_timestamp E, st_pod_connect E sd, st_pod_attach E, st_shim E, st_pid_file E, st_send_proxy_fd E,
      st_allocate_io E, st_send_io_base E, st_shim_socket E, st_send_io_fd E, st_streams, st_child_check E,
      st_state_file E, st_disconnect E]"

definition cc_pod_container_create ::
  "env \<Rightarrow> start_data \<Rightarrow> cc_oci_config \<Rightarrow> world \<Rightarrow> (bool \<times> cc_oci_config \<times> world) outcome" where
  "cc_pod_container_create E sd config w =
     (if cfg_pod config = None \<or> cfg_proxy config = None then Ret (False, config, w)
      else launch_result E (\<lambda>s. (l_ret s, l_config s, l_world s))
             (run_prog (pod_create_steps E sd) (launch_start config w)))"

definition cc_pod_container_start ::
  "env \<Rightarrow> start_data \<Rightarrow> cc_oci_config \<Rightarrow> world \<Rightarrow> bool \<times> cc_oci_config \<times> world" where
  "cc_pod_container_start E sd config w =
     (case cfg_pod config of
        None \<Rightarrow> (False, config, w)
      | Some pod \<Rightarrow>
          if pod_sandbox pod then (False, config, w)
          else (case cc_pod_container_id config of
                  None \<Rightarrow> (False, config, w)
                | Some pod_id \<Rightarrow>
                    cc_proxy_hyper_new_pod_container E sd config (cfg_optarg_container_id config) (Some pod_id)
                      ''rootfs'' (cfg_optarg_container_id config) w))"

end
