(* ===== verification/Exec.thy ===== *)
theory Exec
  imports Launch
begin

section \<open>Running another process in a container (src/process.c)\<close>

text \<open>
  \<^verbatim>\<open>cc_oci_exec_shim\<close> starts a shim for the new process.  \<^verbatim>\<open>ret\<close> is set at the very end; on every failure
  the pid recorded in the configuration gets a \<^verbatim>\<open>SIGTERM\<close>.
\<close>

definition exec_shim_steps :: "env \<Rightarrow> (launch \<Rightarrow> launch jump) list" where
  "exec_shim_steps E =
     [st_shim E, st_send_proxy_fd E, st_send_io_base E, st_shim_socket E, st_send_io_fd E, st_child_check E]"

definition exec_shim_out :: "env \<Rightarrow> launch \<Rightarrow> bool \<times> cc_oci_config \<times> world" where
  "exec_shim_out E s =
     (let w1 = (if l_ret s then l_world s
                else snd (sys E (EvKill (workload_pid (cfg_state (l_config s))) SIGTERM) (l_world s)))
      in (l_ret s, l_config s, w1))"

definition cc_oci_exec_shim ::
  "env \<Rightarrow> cc_oci_config \<Rightarrow> int \<Rightarrow> int \<Rightarrow> world \<Rightarrow> (bool \<times> cc_oci_config \<times> world) outcome" where
  "cc_oci_exec_shim E config io_base proxy_io_fd w =
     launch_result E (exec_shim_out E)
       (run_prog (exec_shim_steps E) ((launch_start config w)\<lparr>l_io_base := io_base, l_io_fd := proxy_io_fd\<rparr>))"

definition cc_oci_is_attach_mode :: "env \<Rightarrow> cc_oci_config \<Rightarrow> bool" where
  "cc_oci_is_attach_mode E config \<longleftrightarrow> os_isatty E \<and> \<not> cfg_detached_mode config"

text \<open>In attach mode the runtime waits for the shim and fails when its exit status is not zero.\<close>

definition cc_oci_vm_connect ::
  "env \<Rightarrow> host \<Rightarrow> start_data \<Rightarrow> cc_oci_config \<Rightarrow> world \<Rightarrow> (bool \<times> cc_oci_config \<times> world) outcome" where
  "cc_oci_vm_connect E H sd config w =
     (case cfg_proxy config of
        None \<Rightarrow> Ret (False, config, w)
      | Some proxy \<Rightarrow>
          (let (conn, proxy1, w1) = cc_proxy_connect E sd proxy w;
               config1 = config\<lparr>cfg_proxy := Some proxy1\<rparr>
           in if \<not> conn then Ret (False, config1, w1)
              else (case cc_pod_container_id config1 of
                      None \<Rightarrow> Ret (False, config1, w1)
                    | Some container_id \<Rightarrow>
                        (let (att, w2) = cc_proxy_attach E proxy1 (Some container_id) w1
                         in if \<not> att then Ret (False, config1, w2)
                            else
                              let (got, w3) = cc_proxy_cmd_allocate_io E proxy1 (proc_terminal (cfg_process config1)) w2
                              in (case got of
                                    None \<Rightarrow> Ret (False, config1, w3)
                                  | Some (fd, io_base) \<Rightarrow>
                                      (let config2 = upd_process (io_streams io_base) config1;
                                           (ran, config3, w4) = cc_proxy_hyper_exec_command E config2 w3
                                       in if \<not> ran then Ret (False, config3, w4)
                                          else o_bind (cc_oci_exec_shim E config3 io_base (case fd of None \<Rightarrow> - 1 | Some f \<Rightarrow> f) w4)
                                                 (\<lambda>(ok, config4, w5).
                                                    Ret (ok \<and> (cc_oci_is_attach_mode E config4 \<longrightarrow> child_exit H w5 = 0), config4, w5))))))))"

subsection \<open>What happens when the shim cannot be started\<close>

text \<open>
  C39. When the shim for the new process cannot be forked, the runtime sends \<^verbatim>\<open>SIGTERM\<close> to pid -1,
  that is to every process it may signal; when it fails before that (no pipe), the signal goes to
  the pid the configuration held before, the workload of the running container.
\<close>

theorem exec_shim_failure_kills:
  assumes "cfg_proxy config \<noteq> None"
    and "run_events E [EvPipe, EvPipe, EvSocketpair, EvCreat (shim_lock_path config)] w = (ok, w1)"
    and "ok \<longrightarrow> \<not> os_ok E w1 EvFork"
  shows "\<exists>config' w'. cc_oci_exec_shim E config io_base io_fd w = Ret (False, config', w')
    \<and> fst (last (w_trace w')) = EvKill (if ok then - 1 else workload_pid (cfg_state config)) SIGTERM"
proof -
  let ?config' = "if ok then set_workload_pid (- 1) config else config"
    and ?w2 = "if ok then snd (sys E EvFork w1) else w1"
  have launch: "cc_shim_launch E config w = (False, ?config', ?w2)"
    using assms(1,3) sys_ok [of E EvFork w1]
    unfolding cc_shim_launch_def Let_def assms(2) by (auto simp: case_prod_unfold)
  have pid: "workload_pid (cfg_state ?config') = (if ok then - 1 else workload_pid (cfg_state config))"
    by (simp add: set_workload_pid_def)
  let ?s = "(launch_start config w)\<lparr>l_io_base := io_base, l_io_fd := io_fd\<rparr>"
  have "run_prog (exec_shim_steps E) ?s = Out (?s\<lparr>l_config := ?config', l_world := ?w2\<rparr>)"
    using launch by (simp add: exec_shim_steps_def st_shim_def launch_start_def)
  then have "cc_oci_exec_shim E config io_base io_fd w =
      Ret (False, ?config', snd (sys E (EvKill (workload_pid (cfg_state ?config')) SIGTERM) ?w2))"
    by (simp add: cc_oci_exec_shim_def launch_result_def exec_shim_out_def launch_start_def)
  then show ?thesis unfolding pid by (simp add: sys_trace)
qed

text \<open>A host on which everything works except \<^verbatim>\<open>fork\<close>.\<close>

definition no_fork_env :: env where
  "no_fork_env = (calm_env (\<lambda>_. None))\<lparr>os_ok := (\<lambda>w ev. ev \<noteq> EvFork)\<rparr>"

theorem exec_shim_failure_kills_witness:
  "\<exists>config' w'. cc_oci_exec_shim no_fork_env proxy_config 1 7 empty_world = Ret (False, config', w')
     \<and> fst (last (w_trace w')) = EvKill (- 1) 15"
proof -
  obtain w1 where
    "run_events no_fork_env [EvPipe, EvPipe, EvSocketpair, EvCreat (shim_lock_path proxy_config)] empty_world = (True, w1)"
    by (simp add: no_fork_env_def sys_def Let_def)
  then show ?thesis
    using exec_shim_failure_kills [of proxy_config no_fork_env empty_world True w1 1 7]
    by (simp add: no_fork_env_def proxy_config_def SIGTERM_def)
qed

end
