(* ===== verification/StateTyped.thy ===== *)
theory StateTyped
  imports StateComplete
begin

section \<open>The types of what is read from a state file\<close>

text \<open>
  The fields of \<^verbatim>\<open>struct oci_state\<close> have the types of oci.h: pids and stream numbers are C ints, paths
  fit their buffers.  Whatever a state file contains, the reader stores nothing else.
\<close>

definition vm_typed :: "cc_oci_vm_cfg \<Rightarrow> bool" where
  "vm_typed vm \<longleftrightarrow> is_gint (vm_pid vm) \<and> length (vm_hypervisor_path vm) < PATH_MAX
     \<and> length (vm_image_path vm) < PATH_MAX \<and> length (vm_kernel_path vm) < PATH_MAX
     \<and> length (vm_workload_path vm) < PATH_MAX"

definition state_typed :: "oci_state \<Rightarrow> bool" where
  "state_typed st \<longleftrightarrow> is_gint (st_pid st) \<and> (\<forall>m \<in> set (st_mounts st). length (mount_dest m) < PATH_MAX)
     \<and> (case st_vm st of None \<Rightarrow> True | Some vm \<Rightarrow> vm_typed vm)
     \<and> (case st_process st of None \<Rightarrow> True | Some p \<Rightarrow> process_wf p)"

lemma user_section_process:
  "handle_user_section node c = Inr c' \<Longrightarrow> process_wf (cfg_process c') = process_wf (cfg_process c)"
  by (auto simp: handle_user_section_def c_bind_Inr process_wf_def split: if_splits)

lemma process_section_typed:
  assumes "handle_process_section node c = Inr c'" and "process_wf (cfg_process c)"
  shows "process_wf (cfg_process c')"
proof -
  have "c_fold handle_user_section nodes c = Inr c' \<Longrightarrow> process_wf (cfg_process c')" for nodes
    using user_section_process assms(2)
    by (auto intro: c_fold_invariant [where P = "\<lambda>c. process_wf (cfg_process c)" and f = handle_user_section])
  then show ?thesis
    using assms atoi_range
    by (auto simp: handle_process_section_def process_wf_def c_bind_Inr simp del: c_fold.simps(2)
        split: list.splits if_splits)
qed

lemma process_typed:
  assumes "process_handle_section node zero_config = Inr (b, c)"
  shows "process_wf (cfg_process c)"
proof -
  let ?c0 = "upd_process (proc_stderr_stream_update (\<lambda>_. - 1)) (upd_process (proc_stdio_stream_update (\<lambda>_. - 1)) zero_config)"
  have zero: "process_wf (cfg_process ?c0)"
    by (simp add: process_wf_def zero_config_def zero_process_def is_gint_def PATH_MAX_def)
  have run: "c_fold handle_process_section (gchildren node) ?c0 = Inr c"
    using assms by (auto simp: process_handle_section_def c_bind_Inr Let_def)
  show ?thesis
    by (rule c_fold_invariant [where P = "\<lambda>c. process_wf (cfg_process c)", OF _ zero run])
      (rule process_section_typed)
qed

text \<open>Fields the predicate does not look at, and how it changes with the others.\<close>

lemma typed_other_fields [simp]:
  "state_typed (st_oci_version_update f1 st) = state_typed st"
  "state_typed (st_id_update f2 st) = state_typed st"
  "state_typed (st_bundle_path_update f3 st) = state_typed st"
  "state_typed (st_comms_path_update f4 st) = state_typed st"
  "state_typed (st_procsock_path_update f5 st) = state_typed st"
  "state_typed (st_status_update f6 st) = state_typed st"
  "state_typed (st_create_time_update f7 st) = state_typed st"
  "state_typed (st_annotations_update f8 st) = state_typed st"
  "state_typed (st_console_update f9 st) = state_typed st"
  "state_typed (st_proxy_update f10 st) = state_typed st"
  "state_typed (st_pod_update f11 st) = state_typed st"
  by (simp_all add: state_typed_def)

lemma typed_fields:
  "state_typed st \<Longrightarrow> is_gint i \<Longrightarrow> state_typed (st\<lparr>st_pid := i\<rparr>)"
  "state_typed st \<Longrightarrow> \<forall>m \<in> set ms. length (mount_dest m) < PATH_MAX \<Longrightarrow> state_typed (st\<lparr>st_mounts := ms\<rparr>)"
  "state_typed st \<Longrightarrow> vm_typed vm \<Longrightarrow> state_typed (st\<lparr>st_vm := Some vm\<rparr>)"
  "state_typed st \<Longrightarrow> process_wf p \<Longrightarrow> state_typed (st\<lparr>st_process := Some p\<rparr>)"
  "state_typed st \<Longrightarrow> st_vm st = Some vm \<Longrightarrow> vm_typed vm"
  "state_typed st \<Longrightarrow> m \<in> set (st_mounts st) \<Longrightarrow> length (mount_dest m) < PATH_MAX"
  by (simp_all add: state_typed_def)

lemma strdup_typed:
  assumes "\<And>f st. state_typed (upd f st) = state_typed st"
    and "update_subelements_and_strdup upd node a = Inr b" and "state_typed (fst a)"
  shows "state_typed (fst b)"
  using assms by (cases "gdata node") (auto simp: update_subelements_and_strdup_def)

lemmas string_section_defs = handle_state_ociVersion_section_def handle_state_id_section_def
  handle_state_bundlePath_section_def handle_state_commsPath_section_def
  handle_state_processPath_section_def handle_state_created_section_def

lemma value_typed:
  "handle_state_pid_section node a = Inr b \<Longrightarrow> state_typed (fst a) \<Longrightarrow> state_typed (fst b)"
  "handle_state_status_section node a = Inr b \<Longrightarrow> state_typed (fst a) \<Longrightarrow> state_typed (fst b)"
  "handle_state_console_section node a = Inr b \<Longrightarrow> state_typed (fst a) \<Longrightarrow> state_typed (fst b)"
  "handle_state_annotations_section node a = Inr b \<Longrightarrow> state_typed (fst a) \<Longrightarrow> state_typed (fst b)"
  "handle_state_proxy_section node a = Inr b \<Longrightarrow> state_typed (fst a) \<Longrightarrow> state_typed (fst b)"
  "handle_state_pod_section node a = Inr b \<Longrightarrow> state_typed (fst a) \<Longrightarrow> state_typed (fst b)"
  by (cases a; auto simp: handle_state_pid_section_def handle_state_status_section_def
      handle_state_console_section_def handle_state_annotations_section_def handle_state_proxy_section_def
      handle_state_pod_section_def Let_def wrap32s_range intro: typed_fields
      split: option.splits if_splits prod.splits)+

lemma mounts_typed:
  assumes "handle_state_mounts_section node a = Inr b" and "state_typed (fst a)"
  shows "state_typed (fst b)"
proof -
  have fit: "\<forall>m \<in> set (st_mounts (fst a)). length (mount_dest m) < PATH_MAX"
    using assms(2) by (simp add: state_typed_def)
  then have "\<forall>m \<in> set (butlast (st_mounts (fst a))). length (mount_dest m) < PATH_MAX"
    by (auto dest: in_set_butlastD)
  with fit show ?thesis
    using assms
    by (cases a) (auto simp: handle_state_mounts_section_def Let_def intro!: typed_fields(2)
        split: option.splits if_splits prod.splits)
qed

lemma vm_section_typed:
  assumes "handle_state_vm_section node a = Inr b" and "state_typed (fst a)"
  shows "state_typed (fst b)"
proof -
  obtain st n where a: "a = (st, n)" by fastforce
  show ?thesis
  proof (cases "st_vm st")
    case (Some vm)
    then have "vm_typed vm" using assms(2) a typed_fields(5) by simp
    then show ?thesis
      using assms a Some
      by (auto simp: handle_state_vm_section_def Let_def vm_typed_def wrap32s_range intro!: typed_fields(3)
          split: option.splits if_splits prod.splits)
  qed (use assms a in \<open>auto simp: handle_state_vm_section_def split: option.splits\<close>)
qed

lemma handler_typed:
  assumes "map_of state_handlers name = Some (h, k)" and "h node a = Inr b" and "state_typed (fst a)"
  shows "state_typed (fst b)"
proof -
  have "(name, h, k) \<in> set state_handlers" using assms(1) by (rule map_of_SomeD)
  then show ?thesis
    using assms(2,3) unfolding state_handlers_def
    by (auto simp: string_section_defs elim!: strdup_typed [rotated] intro: value_typed mounts_typed vm_section_typed)
qed

lemma sections_typed:
  assumes "handle_state_sections node a = Inr b" and "state_typed (fst a)"
  shows "state_typed (fst b)"
proof (cases "gdata node")
  case (Some name)
  obtain st cnt where a: "a = (st, cnt)" by fastforce
  show ?thesis
  proof (cases "map_of state_handlers name")
    case None
    then show ?thesis
      using assms Some a
      by (auto simp: handle_state_sections_def handle_state_process_section_def c_bind_Inr
          intro!: typed_fields(4) dest: process_typed split: if_splits)
  next
    case h: (Some hk)
    obtain hd k where hk: "hk = (hd, k)" by fastforce
    from assms(1) Some h hk a obtain st' n where
      run: "c_fold hd (gchildren node) (st, cnt name) = Inr (st', n)" and b: "b = (st', cnt(name := n))"
      by (auto simp: handle_state_sections_def c_bind_Inr)
    have "state_typed (fst (st', n))"
      using handler_typed [of name hd k] h hk assms(2) a
      by (intro c_fold_invariant [where P = "\<lambda>a. state_typed (fst a)", OF _ _ run]) auto
    then show ?thesis using b by simp
  qed
qed (use assms in \<open>simp add: handle_state_sections_def\<close>)

lemma state_read_well_typed:
  assumes "cc_oci_state_file_read E f w = Inr (Some st)"
  shows "state_typed st"
proof -
  let ?st0 = "zero_state\<lparr>st_vm := Some zero_vm, st_proxy := Some zero_proxy\<rparr>"
  obtain node cnt where run: "c_fold handle_state_sections (gchildren node) (?st0, \<lambda>_. 0) = Inr (st, cnt)"
    using assms by (auto simp: cc_oci_state_file_read_def c_bind_Inr split: option.splits if_splits)
  have "state_typed ?st0"
    by (simp add: state_typed_def vm_typed_def zero_defs is_gint_def PATH_MAX_def)
  then have "state_typed (fst (st, cnt))"
    using sections_typed by (intro c_fold_invariant [where P = "\<lambda>a. state_typed (fst a)", OF _ _ run]) auto
  then show ?thesis by simp
qed

text \<open>
  C18. Type soundness of the state reader: whatever text the state file holds, a state that is
  accepted has pids and stream numbers in the range of a C int and paths that fit their
  buffers.
\<close>

theorem state_read_types:
  assumes "cc_oci_state_file_read E f w = Inr (Some st)"
  shows "state_typed st"
  using assms by (rule state_read_well_typed)

theorem state_read_types_witness:
  "\<exists>f w st. cc_oci_state_file_read (calm_env (\<lambda>_. None)) f w = Inr (Some st) \<and> st_pid st = 42 \<and> state_typed st"
proof -
  obtain config' w' where run:
    "cc_oci_state_file_create (calm_env (\<lambda>_. None)) sample_config (Some ''t'') empty_world = (True, config', w')"
    using sample_config_created
    by (cases "cc_oci_state_file_create (calm_env (\<lambda>_. None)) sample_config (Some ''t'') empty_world") auto
  have "cc_oci_state_file_read (calm_env (\<lambda>_. None)) (Some (state_file_path (cfg_state config'))) w' =
      Inr (Some (state_saved sample_config ''t''))"
    using state_file_read_back [OF calm_json sample_config_wf run refl] .
  moreover have "st_pid (state_saved sample_config ''t'') = 42"
    by (simp add: state_saved_def sample_config_def)
  ultimately show ?thesis using state_read_types by blast
qed

end
