(* ===== verification/Daemon.thy ===== *)
theory Daemon
  imports JsonGlib "HOL-Library.Word" "HOL-Library.AList"
begin

section \<open>The proxy daemon (proxy/proxy.go, proxy/vm.go, proxy/protocol.go, proxy/api)\<close>

text \<open>
  cc-proxy serves the runtime and the shims, one goroutine per connection, and multiplexes their I/O
  streams over one channel per virtual machine.  Pointers to \<^verbatim>\<open>vm\<close> structures are numbers into a heap.
  The library \<^verbatim>\<open>hyperstart\<close> that talks to the agent is a parameter: its answers, and those of the
  system, during one request are a record.  An error is its text.

  This theory has the handlers as functions.  Each is composed of sections between which the lock
  of the proxy is released; theory DaemonConc interleaves those sections.
\<close>

subsection \<open>Decoding a request (encoding/json)\<close>

text \<open>
  A key of an object selects the field with exactly that name, or else the first whose name is equal
  under case folding; two letters outside ASCII fold to s and k.
\<close>

definition ascii_lower :: "char \<Rightarrow> char" where
  "ascii_lower c = (let n = of_char c :: nat in if 65 \<le> n \<and> n \<le> 90 then char_of (n + 32) else c)"

fun fold_key :: "string \<Rightarrow> string" where
  "fold_key (a # b # c # r) =
     (if a = CHR 0xE2 \<and> b = CHR 0x84 \<and> c = CHR 0xAA then CHR ''k'' # fold_key r
      else if a = CHR 0xC5 \<and> b = CHR 0xBF then CHR ''s'' # fold_key (c # r)
      else ascii_lower a # fold_key (b # c # r))"
| "fold_key [a, b] = (if a = CHR 0xC5 \<and> b = CHR 0xBF then ''s'' else [ascii_lower a, ascii_lower b])"
| "fold_key [a] = [ascii_lower a]"
| "fold_key [] = []"

definition key_field :: "string list \<Rightarrow> string \<Rightarrow> string option" where
  "key_field names k = (if k \<in> set names then Some k else find (\<lambda>n. fold_key n = fold_key k) names)"

text \<open>
  The value of a field of a type: None is a type error.  A null leaves the field as it is.  The
  first error is reported at the end, the other members are still decoded.
\<close>

fun go_string :: "json \<Rightarrow> string \<Rightarrow> string option" where
  "go_string (JString s) old = Some s"
| "go_string JNull old = Some old"
| "go_string _ old = None"

fun go_int :: "json \<Rightarrow> int \<Rightarrow> int option" where
  "go_int (JInt i) old = (if - (2 ^ 63) \<le> i \<and> i < 2 ^ 63 then Some i else None)"
| "go_int JNull old = Some old"
| "go_int _ old = None"

fun unmarshal_members ::
  "string list \<Rightarrow> (string \<Rightarrow> json \<Rightarrow> 's \<Rightarrow> 's option) \<Rightarrow> members \<Rightarrow> bool \<Rightarrow> 's \<Rightarrow> bool \<times> 's" where
  "unmarshal_members names set_field [] ok s = (ok, s)"
| "unmarshal_members names set_field ((k, v) # ms) ok s =
     (case key_field names k of
        None \<Rightarrow> unmarshal_members names set_field ms ok s
      | Some f \<Rightarrow>
          (case set_field f v s of
             None \<Rightarrow> unmarshal_members names set_field ms False s
           | Some s' \<Rightarrow> unmarshal_members names set_field ms ok s'))"

text \<open>Data that is not there at all is an empty text, which is not a document.\<close>

definition unmarshal ::
  "string list \<Rightarrow> (string \<Rightarrow> json \<Rightarrow> 's \<Rightarrow> 's option) \<Rightarrow> 's \<Rightarrow> json option \<Rightarrow> 's option" where
  "unmarshal names set_field zero data =
     (case data of
        Some (JObject ms) \<Rightarrow>
          (let (ok, s) = unmarshal_members names set_field ms True zero in if ok then Some s else None)
      | Some JNull \<Rightarrow> Some zero
      | _ \<Rightarrow> None)"

subsection \<open>The messages (proxy/api/api.go, proxy/api/protocol.go)\<close>

record Hello =
  hello_ContainerID :: string
  hello_CtlSerial :: string
  hello_IoSerial :: string
  hello_Console :: string

definition unmarshal_Hello :: "json option \<Rightarrow> Hello option" where
  "unmarshal_Hello = unmarshal [''containerId'', ''ctlSerial'', ''ioSerial'', ''console'']
     (\<lambda>f v h. if f = ''containerId'' then map_option (\<lambda>x. h\<lparr>hello_ContainerID := x\<rparr>) (go_string v (hello_ContainerID h))
              else if f = ''ctlSerial'' then map_option (\<lambda>x. h\<lparr>hello_CtlSerial := x\<rparr>) (go_string v (hello_CtlSerial h))
              else if f = ''ioSerial'' then map_option (\<lambda>x. h\<lparr>hello_IoSerial := x\<rparr>) (go_string v (hello_IoSerial h))
              else map_option (\<lambda>x. h\<lparr>hello_Console := x\<rparr>) (go_string v (hello_Console h)))
     \<lparr>hello_ContainerID = [], hello_CtlSerial = [], hello_IoSerial = [], hello_Console = []\<rparr>"

text \<open>\<^verbatim>\<open>Attach\<close> and \<^verbatim>\<open>Bye\<close> both are one container id, \<^verbatim>\<open>AllocateIo\<close> is one number.\<close>

definition unmarshal_ContainerID :: "json option \<Rightarrow> string option" where
  "unmarshal_ContainerID = unmarshal [''containerId''] (\<lambda>f v s. go_string v s) []"

definition unmarshal_AllocateIo :: "json option \<Rightarrow> int option" where
  "unmarshal_AllocateIo = unmarshal [''nStreams''] (\<lambda>f v n. go_int v n) 0"

record Hyper =
  hyper_HyperName :: string
  hyper_Data :: "json option"

definition unmarshal_Hyper :: "json option \<Rightarrow> Hyper option" where
  "unmarshal_Hyper = unmarshal [''hyperName'', ''data'']
     (\<lambda>f v h. if f = ''hyperName'' then map_option (\<lambda>x. h\<lparr>hyper_HyperName := x\<rparr>) (go_string v (hyper_HyperName h))
              else Some (h\<lparr>hyper_Data := Some v\<rparr>))
     \<lparr>hyper_HyperName = [], hyper_Data = None\<rparr>"

record Request =
  req_ID :: string
  req_Data :: "json option"

definition unmarshal_Request :: "json option \<Rightarrow> Request option" where
  "unmarshal_Request = unmarshal [''id'', ''data'']
     (\<lambda>f v r. if f = ''id'' then map_option (\<lambda>x. r\<lparr>req_ID := x\<rparr>) (go_string v (req_ID r))
              else Some (r\<lparr>req_Data := Some v\<rparr>))
     \<lparr>req_ID = [], req_Data = None\<rparr>"

record Response =
  resp_Success :: bool
  resp_Error :: string
  resp_Data :: members

text \<open>\<^verbatim>\<open>omitempty\<close> leaves out an empty error and empty data.\<close>

definition marshal_Response :: "Response \<Rightarrow> json" where
  "marshal_Response r =
     JObject ([(''success'', JBool (resp_Success r))]
       @ (if resp_Error r = [] then [] else [(''error'', JString (resp_Error r))])
       @ (if resp_Data r = [] then [] else [(''data'', JObject (resp_Data r))]))"

record handlerResponse =
  hr_err :: "string option"
  hr_results :: members
  hr_file :: "nat option"

definition no_response :: handlerResponse where
  "no_response = \<lparr>hr_err = None, hr_results = [], hr_file = None\<rparr>"

definition SetError :: "string option \<Rightarrow> handlerResponse \<Rightarrow> handlerResponse" where
  "SetError e hr = hr\<lparr>hr_err := e\<rparr>"

definition SetErrorMsg :: "string \<Rightarrow> handlerResponse \<Rightarrow> handlerResponse" where
  "SetErrorMsg msg hr = SetError (Some msg) hr"

definition AddResult :: "string \<Rightarrow> json \<Rightarrow> handlerResponse \<Rightarrow> handlerResponse" where
  "AddResult k v hr = hr\<lparr>hr_results := json_object_set (hr_results hr) k v\<rparr>"

definition SetFile :: "nat \<Rightarrow> handlerResponse \<Rightarrow> handlerResponse" where
  "SetFile f hr = hr\<lparr>hr_file := Some f\<rparr>"

subsection \<open>Virtual machines and I/O sessions (proxy/vm.go)\<close>

text \<open>
  Sequence numbers are 64-bit and wrap.  A Go map is an association list with distinct keys, in some
  order.  The socket of a session is a number.  Whether \<^verbatim>\<open>vmLost\<close> has been closed is a flag.
\<close>

record ioSession =
  s_nStreams :: int
  s_ioBase :: "64 word"
  s_clientID :: "64 word"
  s_client :: nat

type_synonym sessions = "(64 word \<times> ioSession) list"

record vm =
  v_containerID :: string
  v_ctlSerial :: string
  v_ioSerial :: string
  v_console :: string
  v_nextIoBase :: "64 word"
  v_ioSessions :: sessions
  v_lost :: bool

definition newVM :: "string \<Rightarrow> string \<Rightarrow> string \<Rightarrow> vm" where
  "newVM cid ctlSerial ioSerial =
     \<lparr>v_containerID = cid, v_ctlSerial = ctlSerial, v_ioSerial = ioSerial, v_console = [], v_nextIoBase = 1,
      v_ioSessions = [], v_lost = False\<rparr>"

definition setConsole :: "string \<Rightarrow> vm \<Rightarrow> vm" where
  "setConsole path v = v\<lparr>v_console := path\<rparr>"

definition findSession :: "vm \<Rightarrow> 64 word \<Rightarrow> ioSession option" where
  "findSession v seq = map_of (v_ioSessions v) seq"

text \<open>What the agent library and the system answer during one request: the text of an error, or none.\<close>

record answers =
  an_console :: "string option"
  an_open :: "string option"
  an_ready :: "string option"
  an_send :: "string option"
  an_socketpair :: "string option"
  an_file :: "string option"
  an_unmarshal :: string

definition Connect :: "answers \<Rightarrow> vm \<Rightarrow> string option" where
  "Connect A v =
     (if v_console v \<noteq> [] \<and> an_console A \<noteq> None then an_console A
      else if an_open A \<noteq> None then an_open A
      else an_ready A)"

text \<open>The loop that stores a session under each of its numbers.\<close>

fun store_session :: "nat \<Rightarrow> 64 word \<Rightarrow> ioSession \<Rightarrow> sessions \<Rightarrow> sessions" where
  "store_session 0 seq s tbl = tbl"
| "store_session (Suc n) seq s tbl = store_session n (seq + 1) s (AList.update seq s tbl)"

definition AllocateIo :: "int \<Rightarrow> 64 word \<Rightarrow> nat \<Rightarrow> vm \<Rightarrow> 64 word \<times> vm" where
  "AllocateIo n clientID c v =
     (let ioBase = v_nextIoBase v;
          session = \<lparr>s_nStreams = n, s_ioBase = ioBase, s_clientID = clientID, s_client = c\<rparr>
      in (ioBase, v\<lparr>v_nextIoBase := ioBase + word_of_int n,
                    v_ioSessions := store_session (nat n) ioBase session (v_ioSessions v)\<rparr>))"

fun delete_range :: "nat \<Rightarrow> 64 word \<Rightarrow> sessions \<Rightarrow> sessions" where
  "delete_range 0 seq tbl = tbl"
| "delete_range (Suc n) seq tbl = delete_range n (seq + 1) (AList.delete seq tbl)"

text \<open>The second component is the socket that is closed.\<close>

definition CloseIo :: "64 word \<Rightarrow> vm \<Rightarrow> vm \<times> nat option" where
  "CloseIo seq v =
     (case map_of (v_ioSessions v) seq of
        None \<Rightarrow> (v, None)
      | Some session \<Rightarrow>
          (v\<lparr>v_ioSessions := delete_range (nat (s_nStreams session)) seq (v_ioSessions v)\<rparr>, Some (s_client session)))"

text \<open>All entries go; a session is closed when its base number is met.\<close>

definition Close :: "vm \<Rightarrow> vm \<times> nat list" where
  "Close v =
     (v\<lparr>v_ioSessions := []\<rparr>,
      map (\<lambda>(seq, session). s_client session) (filter (\<lambda>(seq, session). seq = s_ioBase session) (v_ioSessions v)))"

text \<open>
  The goroutine that hands the output of the virtual machine to the clients.  The list is what \<^verbatim>\<open>ReadIoMessage\<close>
  delivers before it fails.  Every message comes with the virtual machine as it is when the
  session is looked up (other goroutines allocate and close streams meanwhile) and with the sockets
  that take data at that moment.  The result is what was written to which socket, and the virtual
  machine \<open>v\<close> of the last moment, marked as lost when reading failed.
\<close>

fun ioHyperToClients ::
  "(vm \<times> (nat \<Rightarrow> bool) \<times> 64 word \<times> string) list \<Rightarrow> vm \<Rightarrow> (nat \<times> 64 word \<times> string) list \<times> vm" where
  "ioHyperToClients [] v = ([], v\<lparr>v_lost := True\<rparr>)"
| "ioHyperToClients ((now, alive, seq, msg) # msgs) v =
     (case findSession now seq of
        None \<Rightarrow> ioHyperToClients msgs v
      | Some session \<Rightarrow>
          if alive (s_client session)
          then (let (outs, v') = ioHyperToClients msgs v in ((s_client session, seq, msg) # outs, v'))
          else ([], v))"

text \<open>
  The goroutine that forwards the input of one client: it stops at a message with another number
  than the base of the session, and closes the socket then.  \<open>sent\<close> is what the agent's channel accepts.
\<close>

fun ioClientToHyper ::
  "ioSession \<Rightarrow> (64 word \<times> string) list \<Rightarrow> (64 word \<times> string) list \<times> bool" where
  "ioClientToHyper session [] = ([], False)"
| "ioClientToHyper session ((seq, msg) # msgs) =
     (if seq \<noteq> s_ioBase session then ([], True)
      else let (sent, closed) = ioClientToHyper session msgs in ((seq, msg) # sent, closed))"

subsection \<open>The handlers (proxy/proxy.go)\<close>

record proxy =
  p_vms :: "(string \<times> nat) list"
  p_heap :: "vm list"
  p_enableVMConsole :: bool
  p_sockets :: nat

record client =
  c_id :: "64 word"
  c_vm :: "nat option"

definition newProxy :: proxy where
  "newProxy = \<lparr>p_vms = [], p_heap = [], p_enableVMConsole = False, p_sockets = 0\<rparr>"

definition update_vm :: "nat \<Rightarrow> (vm \<Rightarrow> vm) \<Rightarrow> proxy \<Rightarrow> proxy" where
  "update_vm r f p = p\<lparr>p_heap := (p_heap p)[r := f (p_heap p ! r)]\<rparr>"

text \<open>
  hello.  The first section, under the lock, registers the virtual machine unless the id is taken.
  A malformed request is noted as an error but goes on.
\<close>

definition hello_register :: "Hello \<Rightarrow> proxy \<Rightarrow> (nat \<times> proxy) option" where
  "hello_register h p =
     (if map_of (p_vms p) (hello_ContainerID h) \<noteq> None then None
      else
        let r = length (p_heap p);
            v = newVM (hello_ContainerID h) (hello_CtlSerial h) (hello_IoSerial h);
            v' = (if hello_Console h \<noteq> [] \<and> p_enableVMConsole p then setConsole (hello_Console h) v else v)
        in Some (r, p\<lparr>p_vms := AList.update (hello_ContainerID h) r (p_vms p), p_heap := p_heap p @ [v']\<rparr>))"

definition unregister :: "string \<Rightarrow> proxy \<Rightarrow> proxy" where
  "unregister cid p = p\<lparr>p_vms := AList.delete cid (p_vms p)\<rparr>"

definition hello_malformed :: "Hello \<Rightarrow> bool" where
  "hello_malformed h \<longleftrightarrow> hello_ContainerID h = [] \<or> hello_CtlSerial h = [] \<or> hello_IoSerial h = []"

definition helloHandler ::
  "answers \<Rightarrow> json option \<Rightarrow> client \<Rightarrow> proxy \<Rightarrow> handlerResponse \<times> client \<times> proxy" where
  "helloHandler A data c p =
     (case unmarshal_Hello data of
        None \<Rightarrow> (SetErrorMsg (an_unmarshal A) no_response, c, p)
      | Some h \<Rightarrow>
          (let hr = (if hello_malformed h then SetErrorMsg ''malformed hello command'' no_response else no_response)
           in (case hello_register h p of
                 None \<Rightarrow> (SetErrorMsg (hello_ContainerID h @ '': container already registered'') hr, c, p)
               | Some (r, p1) \<Rightarrow>
                   (case Connect A (p_heap p1 ! r) of
                      Some e \<Rightarrow> (SetErrorMsg e hr, c, unregister (hello_ContainerID h) p1)
                    | None \<Rightarrow> (hr, c\<lparr>c_vm := Some r\<rparr>, p1)))))"

definition attachHandler ::
  "answers \<Rightarrow> json option \<Rightarrow> client \<Rightarrow> proxy \<Rightarrow> handlerResponse \<times> client \<times> proxy" where
  "attachHandler A data c p =
     (case unmarshal_ContainerID data of
        None \<Rightarrow> (SetErrorMsg (an_unmarshal A) no_response, c, p)
      | Some cid \<Rightarrow>
          (case map_of (p_vms p) cid of
             None \<Rightarrow> (SetErrorMsg (''unknown containerID: '' @ cid) no_response, c, p)
           | Some r \<Rightarrow> (no_response, c\<lparr>c_vm := Some r\<rparr>, p)))"

definition byeHandler ::
  "answers \<Rightarrow> json option \<Rightarrow> client \<Rightarrow> proxy \<Rightarrow> handlerResponse \<times> client \<times> proxy" where
  "byeHandler A data c p =
     (case unmarshal_ContainerID data of
        None \<Rightarrow> (SetErrorMsg (an_unmarshal A) no_response, c, p)
      | Some cid \<Rightarrow>
          (case map_of (p_vms p) cid of
             None \<Rightarrow> (SetErrorMsg (''unknown containerID: '' @ cid) no_response, c, p)
           | Some r \<Rightarrow> (no_response, c\<lparr>c_vm := None\<rparr>, unregister (v_containerID (p_heap p ! r)) p)))"

text \<open>A wrong number of streams is noted as an error, but the streams are allocated all the same.\<close>

definition allocateIoHandler ::
  "answers \<Rightarrow> json option \<Rightarrow> client \<Rightarrow> proxy \<Rightarrow> handlerResponse \<times> client \<times> proxy" where
  "allocateIoHandler A data c p =
     (case unmarshal_AllocateIo data of
        None \<Rightarrow> (SetErrorMsg (an_unmarshal A) no_response, c, p)
      | Some n \<Rightarrow>
          (let hr = (if n < 1 \<or> 2 < n
                     then SetErrorMsg (''asking for unexpected number of streams ('' @ int_to_dec n @ '')'') no_response
                     else no_response)
           in (case c_vm c of
                 None \<Rightarrow> (SetErrorMsg ''client not attached to a vm'' hr, c, p)
               | Some r \<Rightarrow>
                   (case (an_socketpair A, an_file A) of
                      (Some e, _) \<Rightarrow> (SetErrorMsg e hr, c, p)
                    | (None, Some e) \<Rightarrow> (SetErrorMsg e hr, c, p)
                    | (None, None) \<Rightarrow>
                        (let c0 = p_sockets p; c1 = p_sockets p + 1;
                             (ioBase, v') = AllocateIo n (c_id c) c1 (p_heap p ! r);
                             hr' = SetFile c0 (AddResult ''ioBase'' (JInt (uint ioBase)) hr)
                         in (hr', c, update_vm r (\<lambda>_. v') (p\<lparr>p_sockets := p_sockets p + 2\<rparr>)))))))"

definition hyperHandler ::
  "answers \<Rightarrow> json option \<Rightarrow> client \<Rightarrow> proxy \<Rightarrow> handlerResponse \<times> client \<times> proxy" where
  "hyperHandler A data c p =
     (case unmarshal_Hyper data of
        None \<Rightarrow> (SetErrorMsg (an_unmarshal A) no_response, c, p)
      | Some h \<Rightarrow>
          (case c_vm c of
             None \<Rightarrow> (SetErrorMsg ''client not attached to a vm'' no_response, c, p)
           | Some r \<Rightarrow> (SetError (an_send A) no_response, c, p)))"

subsection \<open>Serving a connection (proxy/protocol.go)\<close>

definition handlers ::
  "string \<Rightarrow> (answers \<Rightarrow> json option \<Rightarrow> client \<Rightarrow> proxy \<Rightarrow> handlerResponse \<times> client \<times> proxy) option" where
  "handlers = map_of [(''hello'', helloHandler), (''attach'', attachHandler), (''bye'', byeHandler),
     (''allocateIO'', allocateIoHandler), (''hyper'', hyperHandler)]"

definition failure :: "string \<Rightarrow> members \<Rightarrow> Response" where
  "failure e data = \<lparr>resp_Success = False, resp_Error = e, resp_Data = data\<rparr>"

definition handleRequest ::
  "answers \<Rightarrow> Request \<Rightarrow> client \<Rightarrow> proxy \<Rightarrow> Response \<times> nat option \<times> client \<times> proxy" where
  "handleRequest A req c p =
     (if req_ID req = [] then (failure ''no 'id' field in request'' [], None, c, p)
      else (case handlers (req_ID req) of
              None \<Rightarrow> (failure (''no payload named ''  @ [CHR 39] @ req_ID req @ [CHR 39]) [], None, c, p)
            | Some handler \<Rightarrow>
                (case handler A (req_Data req) c p of
                   (hr, c', p') \<Rightarrow>
                     (case hr_err hr of
                        Some e \<Rightarrow> (failure e (hr_results hr), hr_file hr, c', p')
                      | None \<Rightarrow> (\<lparr>resp_Success = True, resp_Error = [], resp_Data = hr_results hr\<rparr>, hr_file hr, c', p')))))"

text \<open>
  The loop over the requests of one connection: \<open>reqs\<close> is what \<^verbatim>\<open>ReadMessage\<close> delivers before it fails,
  with the answers met during each; \<open>writes\<close> is how many responses the client still takes.  A file
  goes out before its response.
\<close>

fun Serve ::
  "(answers \<times> Request) list \<Rightarrow> nat \<Rightarrow> client \<Rightarrow> proxy \<Rightarrow> (nat option \<times> Response) list \<times> client \<times> proxy" where
  "Serve [] writes c p = ([], c, p)"
| "Serve ((A, req) # reqs) writes c p =
     (case handleRequest A req c p of
        (resp, f, c', p') \<Rightarrow>
          (case writes of
             0 \<Rightarrow> ([], c', p')
           | Suc n \<Rightarrow> (let (outs, c'', p'') = Serve reqs n c' p' in ((f, resp) # outs, c'', p''))))"

subsection \<open>Descriptors from the service manager and over a socket\<close>

text \<open>\<^verbatim>\<open>strconv.Atoi\<close>: an optional sign and digits, in the range of 64 bits.\<close>

definition go_atoi :: "string \<Rightarrow> int option" where
  "go_atoi s =
     (let neg = (s \<noteq> [] \<and> hd s = CHR ''-'');
          ds = (if s \<noteq> [] \<and> (hd s = CHR ''-'' \<or> hd s = CHR ''+'') then tl s else s);
          n = (if neg then - digits_val 0 ds else digits_val 0 ds)
      in if ds \<noteq> [] \<and> list_all is_digit ds \<and> - (2 ^ 63) \<le> n \<and> n < 2 ^ 63 then Some n else None)"

definition listenFds :: "string \<Rightarrow> string \<Rightarrow> int \<Rightarrow> int list" where
  "listenFds listen_pid listen_fds getpid =
     (if go_atoi listen_pid \<noteq> Some getpid then []
      else (case go_atoi listen_fds of None \<Rightarrow> [] | Some nfds \<Rightarrow> [3..2 + nfds]))"

text \<open>Where the daemon listens: an activated socket, or a path.\<close>

datatype listening = ListenFd int | ListenPath string | TooMany nat

definition listen_on :: "int list \<Rightarrow> string \<Rightarrow> string \<Rightarrow> listening" where
  "listen_on fds DefaultSocketPath ArgSocketPath =
     (if 1 < length fds then TooMany (length fds)
      else if length fds = 1 then ListenFd (hd fds)
      else ListenPath (if ArgSocketPath \<noteq> [] then ArgSocketPath
                       else if DefaultSocketPath = [] then ''/var/run/cc-oci-runtime/proxy.sock''
                       else DefaultSocketPath))"

text \<open>
  \<^verbatim>\<open>ReadFd\<close>: the bytes read, the length of the out of band data, the byte read, and the descriptors of
  each control message, None where parsing fails.
\<close>

definition ReadFd :: "nat \<Rightarrow> nat \<Rightarrow> char \<Rightarrow> int list option list option \<Rightarrow> int option" where
  "ReadFd n oobn tag scms =
     (if oobn = 0 \<or> n \<noteq> 1 \<and> tag \<noteq> CHR ''F'' then None
      else (case scms of Some [Some [fd]] \<Rightarrow> Some fd | _ \<Rightarrow> None))"

end
