(* ===== verification/DaemonConc.thy ===== *)
theory DaemonConc
  imports Daemon
begin

section \<open>The goroutines of the proxy daemon, interleaved\<close>

text \<open>
  The lock of the proxy is held for single accesses to the table of virtual machines, so a request
  can be interrupted between two of them.  A goroutine is at one of these points:

  \<^item> \<open>Accepted\<close>: \<^verbatim>\<open>serveNewClient\<close> has read \<^verbatim>\<open>nextClientID\<close> and not yet counted it up,
  \<^item> \<open>Serving\<close>: between two requests,
  \<^item> \<open>InHello\<close>: hello has registered its virtual machine and is connecting to it,
  \<^item> \<open>InBye\<close>: bye has found the virtual machine and not yet removed it.

  The other requests have at most one locked section and are single steps.  The last rule is the
  goroutine that waits for a lost virtual machine.  Labels say what a client asked for.
\<close>

datatype goroutine = Accepted "64 word" | Serving client | InHello client Hello nat | InBye client nat

record daemon =
  d_proxy :: proxy
  d_nextClientID :: "64 word"
  d_conns :: "nat \<Rightarrow> goroutine option"

definition daemon_start :: "bool \<Rightarrow> daemon" where
  "daemon_start console = \<lparr>d_proxy = newProxy\<lparr>p_enableVMConsole := console\<rparr>, d_nextClientID = 1, d_conns = Map.empty\<rparr>"

definition set_conn :: "nat \<Rightarrow> goroutine option \<Rightarrow> daemon \<Rightarrow> daemon" where
  "set_conn k g d = d\<lparr>d_conns := (d_conns d)(k := g)\<rparr>"

datatype label = LAccept | LCount | LHello Hello | LHelloDone | LHelloFailed | LBye string | LByeDone | LAttach string
  | LAlloc int | LHyper | LHangup | LLost

inductive dstep :: "daemon \<Rightarrow> nat \<times> label \<Rightarrow> daemon \<Rightarrow> bool" where
  accept: "d_conns d k = None \<Longrightarrow> dstep d (k, LAccept) (set_conn k (Some (Accepted (d_nextClientID d))) d)"
| count: "d_conns d k = Some (Accepted i) \<Longrightarrow>
    dstep d (k, LCount) (set_conn k (Some (Serving \<lparr>c_id = i, c_vm = None\<rparr>)) (d\<lparr>d_nextClientID := d_nextClientID d + 1\<rparr>))"
| hello: "d_conns d k = Some (Serving c) \<Longrightarrow> unmarshal_Hello data = Some h \<Longrightarrow> hello_register h (d_proxy d) = Some (r, p') \<Longrightarrow>
    dstep d (k, LHello h) (set_conn k (Some (InHello c h r)) (d\<lparr>d_proxy := p'\<rparr>))"
| hello_done: "d_conns d k = Some (InHello c h r) \<Longrightarrow>
    dstep d (k, LHelloDone) (set_conn k (Some (Serving (c\<lparr>c_vm := Some r\<rparr>))) d)"
| hello_failed: "d_conns d k = Some (InHello c h r) \<Longrightarrow>
    dstep d (k, LHelloFailed) (set_conn k (Some (Serving c)) (d\<lparr>d_proxy := unregister (hello_ContainerID h) (d_proxy d)\<rparr>))"
| bye: "d_conns d k = Some (Serving c) \<Longrightarrow> unmarshal_ContainerID data = Some cid \<Longrightarrow>
    map_of (p_vms (d_proxy d)) cid = Some r \<Longrightarrow> dstep d (k, LBye cid) (set_conn k (Some (InBye c r)) d)"
| bye_done: "d_conns d k = Some (InBye c r) \<Longrightarrow>
    dstep d (k, LByeDone) (set_conn k (Some (Serving (c\<lparr>c_vm := None\<rparr>)))
      (d\<lparr>d_proxy := unregister (v_containerID (p_heap (d_proxy d) ! r)) (d_proxy d)\<rparr>))"
| attach: "d_conns d k = Some (Serving c) \<Longrightarrow> unmarshal_ContainerID data = Some cid \<Longrightarrow>
    attachHandler A data c (d_proxy d) = (hr, c', p') \<Longrightarrow>
    dstep d (k, LAttach cid) (set_conn k (Some (Serving c')) (d\<lparr>d_proxy := p'\<rparr>))"
| alloc: "d_conns d k = Some (Serving c) \<Longrightarrow> unmarshal_AllocateIo data = Some n \<Longrightarrow>
    allocateIoHandler A data c (d_proxy d) = (hr, c', p') \<Longrightarrow>
    dstep d (k, LAlloc n) (set_conn k (Some (Serving c')) (d\<lparr>d_proxy := p'\<rparr>))"
| hyper: "d_conns d k = Some (Serving c) \<Longrightarrow> hyperHandler A data c (d_proxy d) = (hr, c', p') \<Longrightarrow>
    dstep d (k, LHyper) (set_conn k (Some (Serving c')) (d\<lparr>d_proxy := p'\<rparr>))"
| hangup: "d_conns d k = Some (Serving c) \<Longrightarrow> dstep d (k, LHangup) (set_conn k None d)"
| lost: "r < length (p_heap (d_proxy d)) \<Longrightarrow>
    dstep d (r, LLost) (d\<lparr>d_proxy := update_vm r (\<lambda>v. (fst (Close v))\<lparr>v_lost := True\<rparr>) (d_proxy d)\<rparr>)"

inductive_cases dstep_allocE: "dstep d (k, LAlloc n) d'"

inductive druns :: "daemon \<Rightarrow> (nat \<times> label) list \<Rightarrow> daemon \<Rightarrow> bool" where
  no_step: "druns d [] d"
| one_more: "dstep d l d' \<Longrightarrow> druns d' ls d'' \<Longrightarrow> druns d (l # ls) d''"

inductive_simps druns_Nil [simp]: "druns d [] d'"
inductive_simps druns_Cons: "druns d (l # ls) d'"

lemma set_conn_simps [simp]:
  "d_proxy (set_conn k g d) = d_proxy d" "d_nextClientID (set_conn k g d) = d_nextClientID d"
  "d_conns (set_conn k g d) j = (if j = k then g else d_conns d j)"
  by (simp_all add: set_conn_def)

subsection \<open>A request that is not interrupted\<close>

text \<open>
  The sections put together are the handlers of theory Daemon: without another step in between,
  hello and bye do what \<^verbatim>\<open>helloHandler\<close> and \<^verbatim>\<open>byeHandler\<close> do.
\<close>

lemma hello_uninterrupted:
  assumes "d_conns d k = Some (Serving c)" and "unmarshal_Hello data = Some h"
    and "hello_register h (d_proxy d) = Some rp" and "helloHandler A data c (d_proxy d) = (hr, c', p')"
  shows "\<exists>last d'. druns d [(k, LHello h), (k, last)] d' \<and> d_conns d' k = Some (Serving c') \<and> d_proxy d' = p'"
proof -
  obtain r p1 where rp: "rp = (r, p1)" by force
  let ?d1 = "set_conn k (Some (InHello c h r)) (d\<lparr>d_proxy := p1\<rparr>)"
  have one: "dstep d (k, LHello h) ?d1" using assms(1-3) rp by (auto intro: dstep.hello)
  have at: "d_conns ?d1 k = Some (InHello c h r)" by simp
  show ?thesis
  proof (cases "Connect A (p_heap p1 ! r)")
    case None
    then show ?thesis
      using one dstep.hello_done [OF at] assms(2-4) rp
      by (intro exI [of _ LHelloDone]) (force simp: helloHandler_def druns_Cons)
  next
    case (Some e)
    then show ?thesis
      using one dstep.hello_failed [OF at] assms(2-4) rp
      by (intro exI [of _ LHelloFailed]) (force simp: helloHandler_def druns_Cons)
  qed
qed

lemma bye_uninterrupted:
  assumes "d_conns d k = Some (Serving c)" and "unmarshal_ContainerID data = Some cid"
    and "map_of (p_vms (d_proxy d)) cid = Some r" and "byeHandler A data c (d_proxy d) = (hr, c', p')"
  shows "\<exists>d'. druns d [(k, LBye cid), (k, LByeDone)] d' \<and> d_conns d' k = Some (Serving c') \<and> d_proxy d' = p'"
proof -
  let ?d1 = "set_conn k (Some (InBye c r)) d"
  have "dstep d (k, LBye cid) ?d1" using assms(1-3) by (rule dstep.bye)
  moreover have "d_conns ?d1 k = Some (InBye c r)" by simp
  ultimately show ?thesis
    using dstep.bye_done [of ?d1 k c r] assms by (force simp: byeHandler_def druns_Cons)
qed

subsection \<open>Running the steps\<close>

text \<open>
  The messages a client sends for a request, and a scheduler that takes the step of a label when it is
  possible and everything outside answers well.  Every step it takes is one of the relation.
\<close>

definition marshal_Hello :: "Hello \<Rightarrow> json" where
  "marshal_Hello h =
     JObject ([(''containerId'', JString (hello_ContainerID h)), (''ctlSerial'', JString (hello_CtlSerial h)),
       (''ioSerial'', JString (hello_IoSerial h))]
       @ (if hello_Console h = [] then [] else [(''console'', JString (hello_Console h))]))"

definition marshal_ContainerID :: "string \<Rightarrow> json" where
  "marshal_ContainerID cid = JObject [(''containerId'', JString cid)]"

definition marshal_AllocateIo :: "int \<Rightarrow> json" where
  "marshal_AllocateIo n = JObject [(''nStreams'', JInt n)]"

lemma unmarshal_marshal_Hello: "unmarshal_Hello (Some (marshal_Hello h)) = Some h"
  by (cases h) (simp add: marshal_Hello_def unmarshal_Hello_def unmarshal_def key_field_def)

lemma unmarshal_marshal_ContainerID: "unmarshal_ContainerID (Some (marshal_ContainerID cid)) = Some cid"
  by (simp add: marshal_ContainerID_def unmarshal_ContainerID_def unmarshal_def key_field_def)

lemma unmarshal_marshal_AllocateIo:
  "- (2 ^ 63) \<le> n \<Longrightarrow> n < 2 ^ 63 \<Longrightarrow> unmarshal_AllocateIo (Some (marshal_AllocateIo n)) = Some n"
  by (simp add: marshal_AllocateIo_def unmarshal_AllocateIo_def unmarshal_def key_field_def)

definition calm_answers :: answers where
  "calm_answers = \<lparr>an_console = None, an_open = None, an_ready = None, an_send = None, an_socketpair = None,
     an_file = None, an_unmarshal = []\<rparr>"

fun try_step :: "nat \<times> label \<Rightarrow> daemon \<Rightarrow> daemon option" where
  "try_step (k, LAccept) d =
     (if d_conns d k = None then Some (set_conn k (Some (Accepted (d_nextClientID d))) d) else None)"
| "try_step (k, LCount) d =
     (case d_conns d k of
        Some (Accepted i) \<Rightarrow>
          Some (set_conn k (Some (Serving \<lparr>c_id = i, c_vm = None\<rparr>)) (d\<lparr>d_nextClientID := d_nextClientID d + 1\<rparr>))
      | _ \<Rightarrow> None)"
| "try_step (k, LHello h) d =
     (case d_conns d k of
        Some (Serving c) \<Rightarrow>
          (case hello_register h (d_proxy d) of
             Some (r, p') \<Rightarrow> Some (set_conn k (Some (InHello c h r)) (d\<lparr>d_proxy := p'\<rparr>))
           | None \<Rightarrow> None)
      | _ \<Rightarrow> None)"
| "try_step (k, LHelloDone) d =
     (case d_conns d k of
        Some (InHello c h r) \<Rightarrow> Some (set_conn k (Some (Serving (c\<lparr>c_vm := Some r\<rparr>))) d) | _ \<Rightarrow> None)"
| "try_step (k, LHelloFailed) d =
     (case d_conns d k of
        Some (InHello c h r) \<Rightarrow>
          Some (set_conn k (Some (Serving c)) (d\<lparr>d_proxy := unregister (hello_ContainerID h) (d_proxy d)\<rparr>))
      | _ \<Rightarrow> None)"
| "try_step (k, LBye cid) d =
     (case (d_conns d k, map_of (p_vms (d_proxy d)) cid) of
        (Some (Serving c), Some r) \<Rightarrow> Some (set_conn k (Some (InBye c r)) d) | _ \<Rightarrow> None)"
| "try_step (k, LByeDone) d =
     (case d_conns d k of
        Some (InBye c r) \<Rightarrow>
          Some (set_conn k (Some (Serving (c\<lparr>c_vm := None\<rparr>)))
            (d\<lparr>d_proxy := unregister (v_containerID (p_heap (d_proxy d) ! r)) (d_proxy d)\<rparr>))
      | _ \<Rightarrow> None)"
| "try_step (k, LAttach cid) d =
     (case d_conns d k of
        Some (Serving c) \<Rightarrow>
          (case attachHandler calm_answers (Some (marshal_ContainerID cid)) c (d_proxy d) of
             (hr, c', p') \<Rightarrow> Some (set_conn k (Some (Serving c')) (d\<lparr>d_proxy := p'\<rparr>)))
      | _ \<Rightarrow> None)"
| "try_step (k, LAlloc n) d =
     (case d_conns d k of
        Some (Serving c) \<Rightarrow>
          if - (2 ^ 63) \<le> n \<and> n < 2 ^ 63 then
            (case allocateIoHandler calm_answers (Some (marshal_AllocateIo n)) c (d_proxy d) of
               (hr, c', p') \<Rightarrow> Some (set_conn k (Some (Serving c')) (d\<lparr>d_proxy := p'\<rparr>)))
          else None
      | _ \<Rightarrow> None)"
| "try_step (k, LHangup) d = (case d_conns d k of Some (Serving c) \<Rightarrow> Some (set_conn k None d) | _ \<Rightarrow> None)"
| "try_step (k, _) d = None"

lemma try_step_sound: "try_step l d = Some d' \<Longrightarrow> dstep d l d'"
  by (cases "(l, d)" rule: try_step.cases)
    (auto split: if_splits option.splits goroutine.splits prod.splits
      intro: dstep.intros unmarshal_marshal_Hello unmarshal_marshal_ContainerID unmarshal_marshal_AllocateIo [simplified])

fun try_steps :: "(nat \<times> label) list \<Rightarrow> daemon \<Rightarrow> daemon option" where
  "try_steps [] d = Some d"
| "try_steps (l # ls) d = (case try_step l d of None \<Rightarrow> None | Some d' \<Rightarrow> try_steps ls d')"

lemma try_steps_sound: "try_steps ls d = Some d' \<Longrightarrow> druns d ls d'"
  by (induction ls arbitrary: d) (auto simp: druns_Cons dest: try_step_sound split: option.splits)

end
