(* ===== verification/DaemonProps.thy ===== *)
theory DaemonProps
  imports DaemonConc
begin

section \<open>Properties of the proxy daemon\<close>

text \<open>
  Streams as a contract that the table of a virtual machine satisfies, routing of the output of the
  agent, and what holds of every interleaving of the connections.
\<close>

subsection \<open>The contract of a table of streams\<close>

text \<open>
  Numbers below \<open>used\<close> may be taken, those from there on are free.  An allocation of \<open>n\<close> streams takes
  the next \<open>n\<close> numbers and leaves the others alone, as long as the numbers do not run out.
\<close>

locale stream_table =
  fixes ok :: "'v \<Rightarrow> bool" and used :: "'v \<Rightarrow> nat" and lookup :: "'v \<Rightarrow> 64 word \<Rightarrow> 's option"
    and alloc :: "int \<Rightarrow> 64 word \<Rightarrow> nat \<Rightarrow> 'v \<Rightarrow> 'v"
  assumes lookup_used: "ok v \<Longrightarrow> lookup v seq \<noteq> None \<Longrightarrow> unat seq < used v"
    and alloc_ok: "ok v \<Longrightarrow> 0 \<le> n \<Longrightarrow> used v + nat n < 2 ^ 64 \<Longrightarrow> ok (alloc n i c v)"
    and alloc_used: "0 \<le> n \<Longrightarrow> used v + nat n < 2 ^ 64 \<Longrightarrow> used (alloc n i c v) = used v + nat n"
    and alloc_other: "0 \<le> n \<Longrightarrow> used v + nat n < 2 ^ 64 \<Longrightarrow> unat seq < used v \<Longrightarrow>
      lookup (alloc n i c v) seq = lookup v seq"
begin

lemma alloc_keeps:
  assumes "ok v" and "0 \<le> n" and "used v + nat n < 2 ^ 64" and "lookup v seq = Some s"
  shows "lookup (alloc n i c v) seq = Some s"
  using assms alloc_other [of n v seq i c] lookup_used [of v seq] by simp

end

subsection \<open>The table of a virtual machine\<close>

lemma map_of_delete [simp]: "map_of (AList.delete k al) = (map_of al)(k := None)"
  by (simp add: delete_conv')

lemma store_session_lookup:
  "unat seq + n < 2 ^ 64 \<Longrightarrow>
   map_of (store_session n seq s tbl) x =
     (if unat seq \<le> unat x \<and> unat x < unat seq + n then Some s else map_of tbl x)"
proof (induction n arbitrary: seq tbl)
  case (Suc n)
  have step: "unat (seq + 1) = Suc (unat seq)"
    using Suc.prems by (simp add: unat_word_ariths)
  have "unat (seq + 1) + n < 2 ^ 64" using Suc.prems step by simp
  note IH = Suc.IH [OF this, of "AList.update seq s tbl"]
  have "x = seq \<longleftrightarrow> unat x = unat seq" by (rule word_unat_eq_iff)
  then show ?case using IH step by (auto simp: update_conv')
qed auto

definition vm_streams_ok :: "vm \<Rightarrow> bool" where
  "vm_streams_ok v \<longleftrightarrow> (\<forall>seq s. map_of (v_ioSessions v) seq = Some s \<longrightarrow> unat seq < unat (v_nextIoBase v))"

definition vm_used :: "vm \<Rightarrow> nat" where
  "vm_used v = unat (v_nextIoBase v)"

definition vm_alloc :: "int \<Rightarrow> 64 word \<Rightarrow> nat \<Rightarrow> vm \<Rightarrow> vm" where
  "vm_alloc n i c v = snd (AllocateIo n i c v)"

lemma vm_alloc_used:
  assumes "0 \<le> n" and "vm_used v + nat n < 2 ^ 64"
  shows "vm_used (vm_alloc n i c v) = vm_used v + nat n"
proof -
  have "n < 2 ^ 64" using assms by simp
  then have "unat (word_of_int n :: 64 word) = nat n"
    using assms(1) by (simp add: unat_eq_nat_uint uint_word_of_int_eq take_bit_int_eq_self)
  then show ?thesis
    using assms by (simp add: vm_used_def vm_alloc_def AllocateIo_def Let_def unat_word_ariths)
qed

lemma vm_alloc_lookup:
  assumes "vm_used v + nat n < 2 ^ 64"
  shows "findSession (vm_alloc n i c v) seq =
    (if vm_used v \<le> unat seq \<and> unat seq < vm_used v + nat n
     then Some \<lparr>s_nStreams = n, s_ioBase = v_nextIoBase v, s_clientID = i, s_client = c\<rparr> else findSession v seq)"
  using assms by (simp add: findSession_def vm_alloc_def AllocateIo_def vm_used_def Let_def store_session_lookup)

interpretation io: stream_table vm_streams_ok vm_used findSession vm_alloc
proof
  show "vm_streams_ok v \<Longrightarrow> findSession v seq \<noteq> None \<Longrightarrow> unat seq < vm_used v" for v seq
    by (auto simp: vm_streams_ok_def findSession_def vm_used_def)
  show "vm_used (vm_alloc n i c v) = vm_used v + nat n" if "0 \<le> n" "vm_used v + nat n < 2 ^ 64" for n i c v
    using that by (rule vm_alloc_used)
  show "findSession (vm_alloc n i c v) seq = findSession v seq"
    if "0 \<le> n" "vm_used v + nat n < 2 ^ 64" "unat seq < vm_used v" for n i c v seq
    using that by (simp add: vm_alloc_lookup)
  show "vm_streams_ok (vm_alloc n i c v)"
    if "vm_streams_ok v" "0 \<le> n" "vm_used v + nat n < 2 ^ 64" for n i c v
    using that vm_alloc_used [OF that(2,3), of i c] vm_alloc_lookup [OF that(3), of i c]
    by (force simp: vm_streams_ok_def findSession_def vm_used_def split: if_splits)
qed

subsection \<open>The invariant of the daemon\<close>

text \<open>References are valid, and a virtual machine is registered under its own id.\<close>

fun goroutine_refs :: "goroutine \<Rightarrow> nat set" where
  "goroutine_refs (Accepted i) = {}"
| "goroutine_refs (Serving c) = set_option (c_vm c)"
| "goroutine_refs (InHello c h r) = insert r (set_option (c_vm c))"
| "goroutine_refs (InBye c r) = insert r (set_option (c_vm c))"

definition refs_ok :: "daemon \<Rightarrow> bool" where
  "refs_ok d \<longleftrightarrow>
     (\<forall>cid r. map_of (p_vms (d_proxy d)) cid = Some r \<longrightarrow>
        r < length (p_heap (d_proxy d)) \<and> v_containerID (p_heap (d_proxy d) ! r) = cid)
   \<and> (\<forall>k g. d_conns d k = Some g \<longrightarrow> (\<forall>r \<in> goroutine_refs g. r < length (p_heap (d_proxy d))))"

lemma attach_result:
  assumes "attachHandler A data c p = (hr, c', p')"
  shows "p' = p" and "c' = c \<or> (\<exists>cid r. map_of (p_vms p) cid = Some r \<and> c' = c\<lparr>c_vm := Some r\<rparr>)"
  using assms by (auto simp: attachHandler_def split: option.splits)

lemma hyper_result: "hyperHandler A data c p = (hr, c', p') \<Longrightarrow> p' = p \<and> c' = c"
  by (auto simp: hyperHandler_def split: option.splits)

lemma alloc_result:
  assumes "allocateIoHandler A data c p = (hr, c', p')" and "unmarshal_AllocateIo data = Some n"
  shows "c' = c" and "p' = p \<or> (\<exists>r. c_vm c = Some r \<and>
    p' = update_vm r (vm_alloc n (c_id c) (p_sockets p + 1)) (p\<lparr>p_sockets := p_sockets p + 2\<rparr>))"
  using assms
  by (auto simp: allocateIoHandler_def vm_alloc_def update_vm_def Let_def case_prod_unfold split: option.splits)

lemma register_result:
  assumes "hello_register h p = Some (r, p')"
  shows "r = length (p_heap p)" and "p_vms p' = AList.update (hello_ContainerID h) r (p_vms p)"
    and "\<exists>v. p_heap p' = p_heap p @ [v] \<and> v_containerID v = hello_ContainerID h \<and> v_ioSessions v = [] \<and> v_nextIoBase v = 1"
  using assms
  by (auto simp: hello_register_def newVM_def setConsole_def Let_def split: if_splits)

lemma update_vm_simps [simp]:
  "p_vms (update_vm r f p) = p_vms p" "length (p_heap (update_vm r f p)) = length (p_heap p)"
  "r < length (p_heap p) \<Longrightarrow> p_heap (update_vm r f p) ! j = (if j = r then f (p_heap p ! r) else p_heap p ! j)"
  by (simp_all add: update_vm_def)

lemma unregister_simps [simp]:
  "p_heap (unregister cid p) = p_heap p" "map_of (p_vms (unregister cid p)) = (map_of (p_vms p))(cid := None)"
  by (simp_all add: unregister_def)

lemma vm_alloc_id [simp]: "v_containerID (vm_alloc n i c v) = v_containerID v"
  by (simp add: vm_alloc_def AllocateIo_def Let_def)

lemma refs_step:
  assumes "dstep d l d'" and "refs_ok d"
  shows "refs_ok d'"
  using assms
proof cases
  case (hello k c data h r p')
  note reg = register_result [OF hello(5)]
  show ?thesis
    using assms(2) hello reg
    by (auto simp: refs_ok_def update_conv' nth_append less_Suc_eq split: if_splits; fastforce)
next
  case (attach k c data cid A hr c' p')
  then show ?thesis
    using assms(2) attach_result [OF attach(5)] by (fastforce simp: refs_ok_def split: if_splits)
next
  case (alloc k c data n A hr c' p')
  then show ?thesis
    using assms(2) alloc_result [OF alloc(5,4)] by (fastforce simp: refs_ok_def split: if_splits)
next
  case (hyper k c A data hr c' p')
  then show ?thesis
    using assms(2) hyper_result [OF hyper(4)] by (fastforce simp: refs_ok_def split: if_splits)
qed (fastforce simp: refs_ok_def Close_def split: if_splits)+

subsection \<open>Streams stay with their client\<close>

fun polite :: "label \<Rightarrow> bool" where
  "polite (LAlloc n) = (0 \<le> n \<and> n \<le> 2)"
| "polite _ = True"

text \<open>The numbers of every virtual machine last for at least \<open>m\<close> more.\<close>

definition streams_ok :: "nat \<Rightarrow> daemon \<Rightarrow> bool" where
  "streams_ok m d \<longleftrightarrow> (\<forall>v \<in> set (p_heap (d_proxy d)). vm_streams_ok v \<and> vm_used v + m < 2 ^ 64)"

lemma fresh_vm_ok: "v_ioSessions v = [] \<Longrightarrow> v_nextIoBase v = 1 \<Longrightarrow> vm_streams_ok v \<and> vm_used v = 1"
  by (simp add: vm_streams_ok_def vm_used_def)

lemma streams_ok_update:
  assumes "streams_ok (m + 2) d" and "r < length (p_heap (d_proxy d))" and "p_heap (d_proxy d') = (p_heap (d_proxy d))[r := v]"
    and "vm_streams_ok v" and "vm_used v \<le> vm_used (p_heap (d_proxy d) ! r) + 2"
  shows "streams_ok m d'"
proof -
  have "vm_used (p_heap (d_proxy d) ! r) + (m + 2) < 2 ^ 64" using assms(1,2) by (simp add: streams_ok_def)
  then have "vm_used v + m < 2 ^ 64" using assms(5) by linarith
  moreover have "set (p_heap (d_proxy d')) \<subseteq> insert v (set (p_heap (d_proxy d)))"
    unfolding assms(3) by (rule set_update_subset_insert)
  ultimately show ?thesis using assms(1,4) by (fastforce simp: streams_ok_def)
qed

text \<open>One step: the numbers used grow by at most two, and a stream is found as before unless its virtual machine is closed.\<close>

lemma heap_step:
  assumes "dstep d (k, l) d'" and "refs_ok d" and "streams_ok (m + 2) d" and "polite l" and "m + 1 < 2 ^ 64"
  shows "streams_ok m d'"
    and "r < length (p_heap (d_proxy d)) \<Longrightarrow> (k, l) \<noteq> (r, LLost) \<Longrightarrow>
      findSession (p_heap (d_proxy d) ! r) seq = Some s \<Longrightarrow>
      r < length (p_heap (d_proxy d')) \<and> findSession (p_heap (d_proxy d') ! r) seq = Some s"
proof -
  have "streams_ok m d' \<and> (r < length (p_heap (d_proxy d)) \<and> (k, l) \<noteq> (r, LLost)
      \<and> findSession (p_heap (d_proxy d) ! r) seq = Some s \<longrightarrow>
      r < length (p_heap (d_proxy d')) \<and> findSession (p_heap (d_proxy d') ! r) seq = Some s)"
    using assms(1)
  proof cases
    case (hello c data h r p')
    then show ?thesis
      using assms(3,5) register_result [OF hello(5)] fresh_vm_ok by (fastforce simp: streams_ok_def nth_append)
  next
    case (attach c data cid A hr c' p')
    then show ?thesis
      using assms(3) attach_result(1) [OF attach(5)] by (fastforce simp: streams_ok_def)
  next
    case (hyper c A data hr c' p')
    then show ?thesis
      using assms(3) hyper_result [OF hyper(4)] by (fastforce simp: streams_ok_def)
  next
    case (alloc c data n A hr c' p')
    then have n: "0 \<le> n" "nat n \<le> 2" using assms(4) by auto
    from alloc_result [OF alloc(5,4)] consider "p' = d_proxy d"
      | j where "c_vm c = Some j" "p' = update_vm j (vm_alloc n (c_id c) (p_sockets (d_proxy d) + 1))
          ((d_proxy d)\<lparr>p_sockets := p_sockets (d_proxy d) + 2\<rparr>)"
      by auto
    then show ?thesis
    proof cases
      case 1
      then show ?thesis using assms(3) alloc by (fastforce simp: streams_ok_def)
    next
      case (2 j)
      let ?v = "p_heap (d_proxy d) ! j"
      have j: "j < length (p_heap (d_proxy d))"
        using assms(2) alloc(3) 2(1) by (fastforce simp: refs_ok_def)
      then have v: "vm_streams_ok ?v" "vm_used ?v + nat n < 2 ^ 64"
        using assms(3) n(2) by (auto simp: streams_ok_def dest!: nth_mem [of j])
      have heap: "p_heap (d_proxy d') = (p_heap (d_proxy d))[j := vm_alloc n (c_id c) (p_sockets (d_proxy d) + 1) ?v]"
        using alloc 2 by (simp add: update_vm_def)
      have "streams_ok m d'"
        using io.alloc_ok [OF v(1) n(1) v(2)] io.alloc_used [OF n(1) v(2)] n(2)
        by (intro streams_ok_update [OF assms(3) j heap]) simp_all
      then show ?thesis
        using io.alloc_keeps [OF v(1) n(1) v(2)] j by (auto simp: heap nth_list_update)
    qed
  next
    case lost
    let ?v = "(fst (Close (p_heap (d_proxy d) ! k)))\<lparr>v_lost := True\<rparr>"
    have heap: "p_heap (d_proxy d') = (p_heap (d_proxy d))[k := ?v]"
      using lost by (simp add: update_vm_def)
    have "streams_ok m d'"
      by (rule streams_ok_update [OF assms(3) _ heap]) (use lost in \<open>simp_all add: Close_def vm_streams_ok_def vm_used_def\<close>)
    then show ?thesis using lost by (auto simp: heap nth_list_update)
  qed (use assms(3) in \<open>fastforce simp: streams_ok_def\<close>)+
  then show "streams_ok m d'"
    and "r < length (p_heap (d_proxy d)) \<Longrightarrow> (k, l) \<noteq> (r, LLost) \<Longrightarrow>
      findSession (p_heap (d_proxy d) ! r) seq = Some s \<Longrightarrow>
      r < length (p_heap (d_proxy d')) \<and> findSession (p_heap (d_proxy d') ! r) seq = Some s"
    by blast+
qed


lemma run_keeps_streams:
  assumes "druns d ls d'" and "refs_ok d" and "streams_ok (m + 2 * length ls) d" and "list_all (\<lambda>(k, l). polite l) ls"
    and "m + 2 * length ls < 2 ^ 64"
  shows "refs_ok d' \<and> streams_ok m d'"
    and "r < length (p_heap (d_proxy d)) \<Longrightarrow> (r, LLost) \<notin> set ls \<Longrightarrow>
      findSession (p_heap (d_proxy d) ! r) seq = Some s \<Longrightarrow> findSession (p_heap (d_proxy d') ! r) seq = Some s"
proof -
  have "refs_ok d' \<and> streams_ok m d' \<and> (r < length (p_heap (d_proxy d)) \<and> (r, LLost) \<notin> set ls
      \<and> findSession (p_heap (d_proxy d) ! r) seq = Some s \<longrightarrow> findSession (p_heap (d_proxy d') ! r) seq = Some s)"
    using assms
  proof (induction rule: druns.induct)
    case (one_more d l d1 ls d')
    obtain k lab where l: "l = (k, lab)" by force
    let ?m = "m + 2 * length ls"
    have "streams_ok (?m + 2) d" "polite lab" "?m + 1 < 2 ^ 64" using one_more.prems l by (simp_all add: algebra_simps)
    note step = heap_step [OF one_more.hyps(1) [unfolded l] one_more.prems(1) this]
    have "refs_ok d1" using one_more.hyps(1) one_more.prems(1) by (rule refs_step)
    then show ?case
      using one_more.IH step(1) step(2) [of r seq s] one_more.prems(3,4) l by auto
  qed simp
  then show "refs_ok d' \<and> streams_ok m d'"
    and "r < length (p_heap (d_proxy d)) \<Longrightarrow> (r, LLost) \<notin> set ls \<Longrightarrow>
      findSession (p_heap (d_proxy d) ! r) seq = Some s \<Longrightarrow> findSession (p_heap (d_proxy d') ! r) seq = Some s"
    by blast+
qed

lemma start_ok: "refs_ok (daemon_start console)" "streams_ok m (daemon_start console)"
  by (simp_all add: refs_ok_def streams_ok_def daemon_start_def newProxy_def)

lemma found_in_heap: "refs_ok d \<Longrightarrow> map_of (p_vms (d_proxy d)) cid = Some r \<Longrightarrow> r < length (p_heap (d_proxy d))"
  by (auto simp: refs_ok_def)

text \<open>
  C3. Isolation of the clients: as long as nobody asks for a negative number of streams or for more than
  two at once, and for fewer than \<open>2 ^ 62\<close> steps, a stream that was allocated stays with its client,
  whatever the goroutines of all clients do and however they are interleaved, until its virtual
  machine is lost.
\<close>

theorem streams_stay:
  assumes "druns (daemon_start console) ls d" and "druns d ls' d'" and "list_all (\<lambda>(k, l). polite l) (ls @ ls')"
    and "length ls + length ls' < 2 ^ 62" and "r < length (p_heap (d_proxy d))" and "(r, LLost) \<notin> set ls'"
    and "findSession (p_heap (d_proxy d) ! r) seq = Some session"
  shows "findSession (p_heap (d_proxy d') ! r) seq = Some session"
proof -
  have "refs_ok d \<and> streams_ok (0 + 2 * length ls') d"
    by (rule run_keeps_streams(1) [OF assms(1) start_ok]) (use assms(3,4) in \<open>simp_all\<close>)
  then show ?thesis
    using run_keeps_streams(2) [OF assms(2), of 0 r seq session] assms(3-) by simp
qed

definition sample_hello :: "string \<Rightarrow> Hello" where
  "sample_hello cid = \<lparr>hello_ContainerID = cid, hello_CtlSerial = ''/c'', hello_IoSerial = ''/t'', hello_Console = []\<rparr>"

theorem streams_stay_witness:
  "\<exists>ls d ls' d'. druns (daemon_start False) ls d \<and> druns d ls' d'
     \<and> findSession (p_heap (d_proxy d) ! 0) 2 = Some \<lparr>s_nStreams = 2, s_ioBase = 1, s_clientID = 1, s_client = 1\<rparr>
     \<and> findSession (p_heap (d_proxy d') ! 0) 2 = Some \<lparr>s_nStreams = 2, s_ioBase = 1, s_clientID = 1, s_client = 1\<rparr>"
proof -
  let ?ls = "[(0, LAccept), (0, LCount), (0, LHello (sample_hello ''c'')), (0, LHelloDone), (0, LAlloc 2)]"
  let ?ls' = "[(1, LAccept), (1, LCount), (1, LAttach ''c''), (1, LAlloc 1), (0, LBye ''c''), (0, LByeDone)]"
  have "map_option (\<lambda>d. (findSession (p_heap (d_proxy d) ! 0) 2, length (p_heap (d_proxy d)))) (try_steps ?ls (daemon_start False))
     = Some (Some \<lparr>s_nStreams = 2, s_ioBase = 1, s_clientID = 1, s_client = 1\<rparr>, 1)" by code_simp
  then obtain d where d: "druns (daemon_start False) ?ls d" "length (p_heap (d_proxy d)) = 1"
    "findSession (p_heap (d_proxy d) ! 0) 2 = Some \<lparr>s_nStreams = 2, s_ioBase = 1, s_clientID = 1, s_client = 1\<rparr>"
    and td: "try_steps ?ls (daemon_start False) = Some d"
    by (auto simp del: try_steps.simps dest: try_steps_sound)
  have "(case try_steps ?ls (daemon_start False) of None \<Rightarrow> False | Some d \<Rightarrow> try_steps ?ls' d \<noteq> None)" by code_simp
  then obtain d' where d': "druns d ?ls' d'" using td by (auto simp del: try_steps.simps dest: try_steps_sound)
  have "findSession (p_heap (d_proxy d') ! 0) 2 = Some \<lparr>s_nStreams = 2, s_ioBase = 1, s_clientID = 1, s_client = 1\<rparr>"
    by (rule streams_stay [OF d(1) d']) (simp_all add: d)
  with d d' show ?thesis by blast
qed

subsection \<open>What a negative request does\<close>




subsection \<open>Output\<close>

definition takes :: "vm \<times> (nat \<Rightarrow> bool) \<times> 64 word \<times> string \<Rightarrow> bool" where
  "takes m \<longleftrightarrow> (case m of (now, alive, seq, _) \<Rightarrow>
     (case findSession now seq of None \<Rightarrow> True | Some s \<Rightarrow> alive (s_client s)))"

definition delivery :: "vm \<times> (nat \<Rightarrow> bool) \<times> 64 word \<times> string \<Rightarrow> (nat \<times> 64 word \<times> string) option" where
  "delivery m = (case m of (now, _, seq, msg) \<Rightarrow> map_option (\<lambda>s. (s_client s, seq, msg)) (findSession now seq))"

text \<open>
  C21. Output is routed by its sequence number: every message goes, in order, to the socket of the session
  that has its number at that moment, whatever the other goroutines do to the table between two
  messages, and messages without a session are dropped.  The first message to a client that has gone
  away ends this for all clients of the virtual machine, and without it being counted as lost.
\<close>

theorem output_routing:
  "ioHyperToClients msgs v =
     (List.map_filter delivery (takeWhile takes msgs), if list_all takes msgs then v\<lparr>v_lost := True\<rparr> else v)"
  by (induction msgs v rule: ioHyperToClients.induct)
    (auto simp: takes_def delivery_def map_filter_simps case_prod_unfold split: option.splits)

subsection \<open>Races\<close>

text \<open>The identifier of a client is read before it is counted up: two clients that connect together share it.\<close>

lemma client_ids_clash:
  "\<exists>d c c'. druns (daemon_start False) [(0, LAccept), (1, LAccept), (0, LCount), (1, LCount)] d
     \<and> d_conns d 0 = Some (Serving c) \<and> d_conns d 1 = Some (Serving c') \<and> c_id c = c_id c'"
proof -
  have "(case try_steps [(0, LAccept), (1, LAccept), (0, LCount), (1, LCount)] (daemon_start False) of
      Some d \<Rightarrow> d_conns d 0 = Some (Serving \<lparr>c_id = 1, c_vm = None\<rparr>) \<and> d_conns d 1 = Some (Serving \<lparr>c_id = 1, c_vm = None\<rparr>)
    | None \<Rightarrow> False)" by code_simp
  then show ?thesis
    by (auto simp del: try_steps.simps dest!: try_steps_sound split: option.splits)
qed

text \<open>Ids never change, and a goroutine inside bye stays there until it is done.\<close>

lemma step_keeps_id:
  assumes "dstep d l d'" and "refs_ok d" and "r < length (p_heap (d_proxy d))"
  shows "r < length (p_heap (d_proxy d')) \<and> v_containerID (p_heap (d_proxy d') ! r) = v_containerID (p_heap (d_proxy d) ! r)"
  using assms(1)
proof cases
  case (hello k c data h r' p')
  then show ?thesis using assms(3) register_result(3) [OF hello(5)] by (auto simp: nth_append)
next
  case (attach k c data cid A hr c' p')
  then show ?thesis using assms(3) attach_result(1) [OF attach(5)] by simp
next
  case (alloc k c data n A hr c' p')
  then have "r' < length (p_heap (d_proxy d))" if "c_vm c = Some r'" for r'
    using assms(2) that by (fastforce simp: refs_ok_def)
  then show ?thesis using assms(3) alloc alloc_result(2) [OF alloc(5,4)] by auto
next
  case (hyper k c A data hr c' p')
  then show ?thesis using assms(3) hyper_result [OF hyper(4)] by simp
next
  case (lost r')
  then show ?thesis using assms(3) by (simp add: Close_def)
qed (use assms(3) in simp_all)

lemma step_keeps_bye:
  "dstep d l d' \<Longrightarrow> d_conns d k = Some (InBye c r) \<Longrightarrow> l \<noteq> (k, LByeDone) \<Longrightarrow> d_conns d' k = Some (InBye c r)"
  by (erule dstep.cases) auto

lemma run_keeps_bye:
  assumes "druns d ls d'" and "refs_ok d" and "d_conns d k = Some (InBye c r)" and "r < length (p_heap (d_proxy d))"
    and "(k, LByeDone) \<notin> set ls"
  shows "refs_ok d' \<and> d_conns d' k = Some (InBye c r) \<and> v_containerID (p_heap (d_proxy d') ! r) = v_containerID (p_heap (d_proxy d) ! r)"
  using assms
proof (induction rule: druns.induct)
  case (one_more d l d1 ls d')
  then show ?case
    using refs_step [OF one_more.hyps(1)] step_keeps_id [OF one_more.hyps(1)] step_keeps_bye [OF one_more.hyps(1)] by auto
qed simp

lemma run_refs: "druns d ls d' \<Longrightarrow> refs_ok d \<Longrightarrow> refs_ok d'"
  by (induction rule: druns.induct) (auto intro: refs_step)

inductive_cases dstep_byeE: "dstep d (k, LBye cid) d'"
inductive_cases dstep_bye_doneE: "dstep d (k, LByeDone) d'"

text \<open>
  C34. A bye can remove a virtual machine that nobody said bye to: bye looks the virtual machine up and
  removes its id in two sections.  Whatever happens between the two, the second section removes the
  id, and that alone, also when by then another virtual machine \<open>r'\<close> has been registered under it.
  That one and the clients of it are left as they are, but no attach finds it any more.
\<close>

theorem stale_bye_unregisters:
  assumes "druns (daemon_start console) ls d" and "dstep d (k, LBye cid) d1"
    and "druns d1 ls' d2" and "(k, LByeDone) \<notin> set ls'" and "dstep d2 (k, LByeDone) d3"
    and "map_of (p_vms (d_proxy d2)) cid = Some r'"
  shows "map_of (p_vms (d_proxy d3)) = (map_of (p_vms (d_proxy d2)))(cid := None)
    \<and> p_heap (d_proxy d3) = p_heap (d_proxy d2) \<and> v_containerID (p_heap (d_proxy d3) ! r') = cid
    \<and> (\<forall>j. j \<noteq> k \<longrightarrow> d_conns d3 j = d_conns d2 j)
    \<and> (\<forall>A data c. unmarshal_ContainerID data = Some cid \<longrightarrow>
         attachHandler A data c (d_proxy d3) = (SetErrorMsg (''unknown containerID: '' @ cid) no_response, c, d_proxy d3))"
proof -
  have refs: "refs_ok d" using run_refs [OF assms(1)] start_ok(1) by blast
  obtain c r where r: "map_of (p_vms (d_proxy d)) cid = Some r" and d1: "d1 = set_conn k (Some (InBye c r)) d"
    using assms(2) by (auto elim: dstep_byeE)
  have "r < length (p_heap (d_proxy d1))" "v_containerID (p_heap (d_proxy d1) ! r) = cid"
    using refs r by (auto simp: d1 refs_ok_def)
  then have kept: "refs_ok d2" "d_conns d2 k = Some (InBye c r)" "v_containerID (p_heap (d_proxy d2) ! r) = cid"
    using run_keeps_bye [OF assms(3) refs_step [OF assms(2) refs] _ _ assms(4)] by (auto simp: d1)
  have d3: "d3 = set_conn k (Some (Serving (c\<lparr>c_vm := None\<rparr>))) (d2\<lparr>d_proxy := unregister cid (d_proxy d2)\<rparr>)"
    using assms(5) kept(2,3) by (auto elim: dstep_bye_doneE)
  moreover have "v_containerID (p_heap (d_proxy d2) ! r') = cid" using kept(1) assms(6) by (auto simp: refs_ok_def)
  ultimately show ?thesis by (simp add: attachHandler_def)
qed

text \<open>Client 1 says bye to the first virtual machine, client 0 replaces it, and client 1 removes the second.\<close>

theorem stale_bye_unregisters_witness:
  "\<exists>d d1 d2 d3 ls'. dstep d (1, LBye ''c'') d1 \<and> druns d1 ls' d2 \<and> dstep d2 (1, LByeDone) d3
    \<and> map_of (p_vms (d_proxy d)) ''c'' = Some 0 \<and> map_of (p_vms (d_proxy d2)) ''c'' = Some 1
    \<and> d_conns d3 0 = Some (Serving \<lparr>c_id = 1, c_vm = Some 1\<rparr>) \<and> map_of (p_vms (d_proxy d3)) ''c'' = None"
proof -
  let ?ls = "[(0, LAccept), (0, LCount), (1, LAccept), (1, LCount), (0, LHello (sample_hello ''c'')), (0, LHelloDone)]"
  let ?ls' = "[(0, LBye ''c''), (0, LByeDone), (0, LHello (sample_hello ''c'')), (0, LHelloDone)]"
  have "(case try_steps ?ls (daemon_start False) of None \<Rightarrow> False
    | Some d \<Rightarrow> map_of (p_vms (d_proxy d)) ''c'' = Some 0 \<and> (case try_step (1, LBye ''c'') d of None \<Rightarrow> False
    | Some d1 \<Rightarrow> (case try_steps ?ls' d1 of None \<Rightarrow> False
    | Some d2 \<Rightarrow> map_of (p_vms (d_proxy d2)) ''c'' = Some 1 \<and> d_conns d2 0 = Some (Serving \<lparr>c_id = 1, c_vm = Some 1\<rparr>)
        \<and> try_step (1, LByeDone) d2 \<noteq> None)))"
    by code_simp
  then obtain d d1 d2 d3 where run: "druns (daemon_start False) ?ls d" "dstep d (1, LBye ''c'') d1" "druns d1 ?ls' d2"
    "dstep d2 (1, LByeDone) d3" and at: "map_of (p_vms (d_proxy d)) ''c'' = Some 0" "map_of (p_vms (d_proxy d2)) ''c'' = Some 1"
    "d_conns d2 0 = Some (Serving \<lparr>c_id = 1, c_vm = Some 1\<rparr>)"
    by (auto simp del: try_steps.simps try_step.simps dest!: try_steps_sound try_step_sound split: option.splits)
  have "map_of (p_vms (d_proxy d3)) ''c'' = None \<and> d_conns d3 0 = Some (Serving \<lparr>c_id = 1, c_vm = Some 1\<rparr>)"
    using stale_bye_unregisters [OF run(1-3) _ run(4) at(2)] at(3) by simp
  with run(2-4) at(1,2) show ?thesis by blast
qed

end
