(* ===== verification/ProxyWire.thy ===== *)
theory ProxyWire
  imports Proxy Util
begin

section \<open>Messages on the proxy socket (src/proxy.c)\<close>

text \<open>
  A message is a four-byte big-endian length, four reserved bytes and the text.  The reader is a
  callback of the main loop that calls \<^verbatim>\<open>recvmsg\<close> on the descriptor of the socket with a buffer of
  \<^verbatim>\<open>LINE_MAX\<close> bytes.  That descriptor never blocks: \<^verbatim>\<open>g_socket_set_blocking\<close> only changes what the functions
  of \<^verbatim>\<open>GSocket\<close> do, which keep the descriptor itself in non-blocking mode.  What successive calls
  return is a list; beyond its end nothing more arrives and every call gives \<^verbatim>\<open>EAGAIN\<close>.
\<close>

definition HEADER_MESSAGE_LENGTH :: nat where
  "HEADER_MESSAGE_LENGTH = 4"

definition MESSAGE_HEADER_LENGTH :: nat where
  "MESSAGE_HEADER_LENGTH = 8"

definition byte_char :: "nat \<Rightarrow> char" where
  "byte_char n = char_of (n mod 256)"

definition char_byte :: "char \<Rightarrow> 8 word" where
  "char_byte c = of_nat (of_char c)"

text \<open>\<^verbatim>\<open>htonl\<close> of a 32-bit length, as the bytes in memory.\<close>

definition be32 :: "nat \<Rightarrow> string" where
  "be32 n = [byte_char (n div 16777216), byte_char (n div 65536), byte_char (n div 256), byte_char n]"

text \<open>
  The bytes \<^verbatim>\<open>cc_proxy_msg_write\<close> puts on the socket.  The length counts characters, and that many
  bytes of the text are written.
\<close>

definition cc_proxy_msg_write :: "string \<Rightarrow> string" where
  "cc_proxy_msg_write msg_to_send =
     (let len = g_utf8_strlen msg_to_send (length msg_to_send)
      in be32 len @ replicate 4 NUL @ take len msg_to_send)"

text \<open>The results of \<^verbatim>\<open>recvmsg\<close>: some bytes and perhaps a descriptor, the end of the stream, or an error.\<close>

datatype recv = RecvData string "int option" | RecvEof | RecvAgain | RecvError

text \<open>
  The loop after the first chunk; the result is None when it never ends: it polls for bytes that do not
  come, or the stream has ended, which is not an error and is reported again by every call.
\<close>

fun read_tail :: "nat \<Rightarrow> nat \<Rightarrow> string \<Rightarrow> recv list \<Rightarrow> string option" where
  "read_tail got needed msg [] = (if got < needed then None else Some msg)"
| "read_tail got needed msg (RecvData d _ # rs) = read_tail (got + length d) needed (msg @ d) rs"
| "read_tail got needed msg (RecvEof # rs) = None"
| "read_tail got needed msg (RecvAgain # rs) =
     (if got < needed then read_tail got needed msg rs else Some msg)"
| "read_tail got needed msg (RecvError # rs) = Some msg"

text \<open>
  The callback: \<open>Quit\<close> ends the main loop with the text received, \<open>Stay\<close> keeps the watch (the
  descriptor has been read, the text is to come), \<open>Dead\<close> removes the watch and leaves the main loop running.
\<close>

datatype watch = Quit string | Stay int | Dead

definition first_chunk :: "string \<Rightarrow> nat \<times> string" where
  "first_chunk buf =
     (unat (cc_oci_get_big_endian_32 (map char_byte (take 4 (buf @ replicate 4 NUL)))),
      drop MESSAGE_HEADER_LENGTH buf)"

definition cc_proxy_msg_read :: "bool \<Rightarrow> recv list \<Rightarrow> watch option" where
  "cc_proxy_msg_read want_oob recvs =
     (case recvs of
        RecvData buf ctl # rs \<Rightarrow>
          if buf = [] then Some Dead
          else if want_oob then
            (case ctl of
               None \<Rightarrow> Some (Quit [])
             | Some fd \<Rightarrow> if hd buf = CHR ''F'' then Some (Stay fd) else Some (Quit []))
          else
            (let (payload_length, msg) = first_chunk buf
             in if payload_length + MESSAGE_HEADER_LENGTH \<le> length buf then Some (Quit msg)
                else map_option Quit (read_tail (length buf) (payload_length + MESSAGE_HEADER_LENGTH) msg rs))
      | _ \<Rightarrow> Some Dead)"

subsection \<open>The length field\<close>

lemma length_be32 [simp]: "length (be32 n) = 4"
  by (simp add: be32_def)

lemma unat_char_byte: "unat (char_byte c) = of_char c"
  by (simp add: char_byte_def unat_of_nat)

lemma of_byte_char: "of_char (byte_char n) = n mod (256 :: nat)"
  by (simp add: byte_char_def of_char_of)

lemma big_endian_value:
  "unat (cc_oci_get_big_endian_32 [a, b, c, d]) =
   unat a * 16777216 + unat b * 65536 + unat c * 256 + unat d"
proof -
  let ?A = "push_bit 24 (ucast a :: 32 word)" and ?B = "push_bit 16 (ucast b :: 32 word)"
    and ?C = "push_bit 8 (ucast c :: 32 word)" and ?D = "ucast d :: 32 word"
  have lt: "unat x < 256" for x :: "8 word"
    using unsigned_less [of x, where 'a = nat] by simp
  have "?A OR ?B OR ?C OR ?D = ?A + ?B + ?C + ?D"
  proof -
    have "?A OR ?B = ?A + ?B"
      by (rule disjunctive_add [symmetric]) (auto simp: bit_simps dest: bit_imp_le_length)
    moreover have "(?A OR ?B) OR ?C = (?A OR ?B) + ?C"
      by (rule disjunctive_add [symmetric]) (auto simp: bit_simps dest: bit_imp_le_length)
    moreover have "((?A OR ?B) OR ?C) OR ?D = ((?A OR ?B) OR ?C) + ?D"
      by (rule disjunctive_add [symmetric]) (auto simp: bit_simps dest: bit_imp_le_length)
    ultimately show ?thesis by (simp only: or.assoc [symmetric])
  qed
  also have "\<dots> = of_nat (unat a * 16777216 + unat b * 65536 + unat c * 256 + unat d)"
    by (simp add: push_bit_eq_mult)
  finally have "cc_oci_get_big_endian_32 [a, b, c, d] =
      of_nat (unat a * 16777216 + unat b * 65536 + unat c * 256 + unat d)"
    by (simp add: cc_oci_get_big_endian_32_def)
  moreover have "unat a * 16777216 + unat b * 65536 + unat c * 256 + unat d < 2 ^ 32"
    using lt [of a] lt [of b] lt [of c] lt [of d] by simp
  ultimately show ?thesis by (simp only: unat_of_nat) simp
qed

lemma base256_digits:
  fixes n :: nat
  shows "n div 16777216 * 16777216 + n div 65536 mod 256 * 65536 + n div 256 mod 256 * 256 + n mod 256 = n"
proof -
  have q2: "n div 65536 = n div 256 div 256" and q3: "n div 16777216 = n div 65536 div 256"
    using div_mult2_eq [of n 256 256] div_mult2_eq [of n 65536 256] by simp_all
  have "n div 256 * 256 + n mod 256 = n" and "n div 65536 * 256 + n div 256 mod 256 = n div 256"
    and "n div 16777216 * 256 + n div 65536 mod 256 = n div 65536"
    unfolding q2 q3 by (rule div_mult_mod_eq)+
  then show ?thesis by linarith
qed

lemma be32_value:
  assumes "n < 4294967296"
  shows "unat (cc_oci_get_big_endian_32 (map char_byte (be32 n))) = n"
  using base256_digits [of n] assms
  by (simp add: be32_def big_endian_value unat_char_byte of_byte_char)

lemma first_chunk_frame:
  assumes "n < 4294967296"
  shows "first_chunk (be32 n @ replicate 4 NUL @ body) = (n, body)"
proof -
  have "take 4 ((be32 n @ replicate 4 NUL @ body) @ replicate 4 NUL) = be32 n"
    by (simp add: be32_def)
  then show ?thesis
    using be32_value [OF assms] by (simp add: first_chunk_def be32_def MESSAGE_HEADER_LENGTH_def)
qed

lemmas buffer_sizes = MESSAGE_HEADER_LENGTH_def LINE_MAX_def

lemma fits_len: "n + MESSAGE_HEADER_LENGTH \<le> LINE_MAX \<Longrightarrow> n < 4294967296"
  by (simp add: buffer_sizes)

text \<open>The bytes that a list of results delivers, when the stream neither ends nor fails meanwhile.\<close>

fun received :: "recv list \<Rightarrow> string" where
  "received (RecvData d _ # rs) = d @ received rs"
| "received (_ # rs) = received rs"
| "received [] = []"

definition flowing :: "recv list \<Rightarrow> bool" where
  "flowing rs \<longleftrightarrow> RecvEof \<notin> set rs \<and> RecvError \<notin> set rs"

lemma read_tail_flowing:
  assumes "flowing rs" and "got + length (received rs) = needed"
  shows "read_tail got needed msg rs = Some (msg @ received rs)"
  using assms
proof (induction rs arbitrary: got msg)
  case (Cons r rs)
  then have "flowing rs" by (simp add: flowing_def)
  show ?case
  proof (cases r)
    case (RecvData d fd)
    then show ?thesis using Cons.IH [OF \<open>flowing rs\<close>, of "got + length d" "msg @ d"] Cons.prems by simp
  next
    case RecvAgain
    then show ?thesis using Cons.IH [OF \<open>flowing rs\<close>, of got msg] Cons.prems by (cases "received rs") auto
  qed (use Cons.prems in \<open>auto simp: flowing_def\<close>)
qed simp

lemma strlen_ascii_all: "list_all is_ascii s \<Longrightarrow> g_utf8_strlen s (length s) = length s"
  by (intro g_utf8_strlen_ascii) (simp_all add: list_all_iff)

subsection \<open>Properties\<close>

text \<open>
  An ASCII message that fits the receive buffer survives the wire: when one \<^verbatim>\<open>recvmsg\<close> returns the
  whole frame, the reader ends the main loop with exactly the text that was sent.
\<close>

theorem wire_roundtrip:
  assumes "list_all is_ascii msg" and "length msg + MESSAGE_HEADER_LENGTH \<le> LINE_MAX"
  shows "cc_proxy_msg_read False (RecvData (cc_proxy_msg_write msg) fd # rs) = Some (Quit msg)"
proof -
  have frame: "cc_proxy_msg_write msg = be32 (length msg) @ replicate 4 NUL @ msg"
    using strlen_ascii_all [OF assms(1)] by (simp add: cc_proxy_msg_write_def)
  show ?thesis
    using first_chunk_frame [OF fits_len [OF assms(2)], of msg]
    by (simp add: cc_proxy_msg_read_def frame) (simp add: be32_def MESSAGE_HEADER_LENGTH_def)
qed

theorem wire_roundtrip_witness:
  "cc_proxy_msg_read False [RecvData (cc_proxy_msg_write ''hello'') None] = Some (Quit ''hello'')"
proof -
  have "list_all is_ascii ''hello''" by code_simp
  then show ?thesis using wire_roundtrip [of "''hello''" None "[]"] by (simp add: buffer_sizes)
qed

text \<open>
  A frame is read back in whatever pieces it arrives, with any number of polls in between, when the first piece has
  the whole header.
\<close>

lemma read_in_pieces:
  assumes "length msg < 4294967296" and "flowing rs" and "8 \<le> length d"
    and "d @ received rs = be32 (length msg) @ replicate 4 NUL @ msg"
  shows "cc_proxy_msg_read False (RecvData d fd # rs) = Some (Quit msg)"
proof -
  have d: "d = be32 (length msg) @ replicate 4 NUL @ drop 8 d"
    using arg_cong [OF assms(4), of "take 8"] assms(3) append_take_drop_id [of 8 d] by (simp add: take_append)
  have msg: "msg = drop 8 d @ received rs"
    using arg_cong [OF assms(4), of "drop 8"] assms(3) by simp
  have first: "first_chunk d = (length msg, drop 8 d)"
    using first_chunk_frame [OF assms(1), of "drop 8 d"] d by simp
  have len: "length d + length (received rs) = length msg + 8"
    using arg_cong [OF assms(4), of length] by simp
  have ne: "d \<noteq> []" using assms(3) by auto
  show ?thesis
  proof (cases "length msg + 8 \<le> length d")
    case True
    then have "received rs = []" using len by (metis add_le_same_cancel1 le_zero_eq length_0_conv)
    then have "drop 8 d = msg" using msg by simp
    then show ?thesis using True first ne by (simp add: cc_proxy_msg_read_def MESSAGE_HEADER_LENGTH_def)
  next
    case False
    have "read_tail (length d) (length msg + 8) (drop 8 d) rs = Some msg"
      using read_tail_flowing [OF assms(2) len, of "drop 8 d"] msg by simp
    then show ?thesis
      using False first ne by (simp add: cc_proxy_msg_read_def MESSAGE_HEADER_LENGTH_def)
  qed
qed

text \<open>
  A first piece without the whole header spoils the message: what is missing of the header is taken for
  the beginning of the text.
\<close>

lemma split_header_spoils:
  assumes "length msg < 4294967296" and "4 \<le> k" and "k < 8"
  shows "cc_proxy_msg_read False [RecvData (take k (be32 (length msg) @ replicate 4 NUL)) fd,
      RecvData (drop k (be32 (length msg) @ replicate 4 NUL) @ msg) None] =
    Some (Quit (replicate (8 - k) NUL @ msg))"
proof -
  let ?d = "take k (be32 (length msg) @ replicate 4 NUL)" and ?r = "drop k (be32 (length msg) @ replicate 4 NUL) @ msg"
  have d: "?d = be32 (length msg) @ replicate (k - 4) NUL" using assms(2,3) by (simp add: take_append)
  have r: "drop k (be32 (length msg) @ replicate 4 NUL) = replicate (8 - k) NUL" using assms(2,3) by (simp add: drop_append)
  have "take 4 (?d @ replicate 4 NUL) = be32 (length msg)" unfolding d by simp
  then have first: "first_chunk ?d = (length msg, [])"
    using be32_value [OF assms(1)] assms(3) by (simp add: first_chunk_def MESSAGE_HEADER_LENGTH_def)
  have "length ?d = k" using assms(3) by simp
  moreover from this have "?d \<noteq> []" using assms(2) by (metis list.size(3) not_numeral_le_zero)
  ultimately show ?thesis
    unfolding cc_proxy_msg_read_def using first assms(3) r by (simp add: MESSAGE_HEADER_LENGTH_def del: take_append)
qed

text \<open>When the proxy closes the connection in the middle of an answer, the loop does not end.\<close>

lemma closed_reply_never_ends:
  assumes "first_chunk d = (n, m)" and "d \<noteq> []" and "length d < n + 8" and "RecvEof \<in> set rs" and "RecvError \<notin> set rs"
    and "length d + length (received rs) < n + 8"
  shows "cc_proxy_msg_read False (RecvData d fd # rs) = None"
proof -
  have "read_tail got needed msg rs = None" if "got + length (received rs) < needed" "RecvEof \<in> set rs" "RecvError \<notin> set rs"
    for got needed msg
    using that
  proof (induction rs arbitrary: got msg)
    case (Cons r rs)
    then show ?case by (cases r) auto
  qed simp
  from this [OF assms(6,4,5)] show ?thesis
    using assms(1-3) by (auto simp: cc_proxy_msg_read_def MESSAGE_HEADER_LENGTH_def)
qed

text \<open>
  A message with a multi-byte character is cut: fewer bytes than its text has are written, and the
  reader gets only that prefix.
\<close>

theorem non_ascii_truncated:
  assumes "list_ex utf8_cont msg" and "length msg + MESSAGE_HEADER_LENGTH \<le> LINE_MAX"
  shows "\<exists>cut. cc_proxy_msg_read False [RecvData (cc_proxy_msg_write msg) None] = Some (Quit cut)
           \<and> strict_prefix cut msg"
proof -
  let ?n = "g_utf8_strlen msg (length msg)"
  obtain c where c: "c \<in> set msg" "utf8_cont c"
    using assms(1) by (auto simp: list_ex_iff)
  have less: "?n < length msg"
    using length_filter_less [OF c(1), of "\<lambda>c. \<not> utf8_cont c"] c(2) by (simp add: g_utf8_strlen_def)
  have "cc_proxy_msg_write msg = be32 ?n @ replicate 4 NUL @ take ?n msg"
    by (simp add: cc_proxy_msg_write_def Let_def)
  then have "cc_proxy_msg_read False [RecvData (cc_proxy_msg_write msg) None] = Some (Quit (take ?n msg))"
    using first_chunk_frame [of ?n "take ?n msg"] less fits_len [OF assms(2)]
    by (simp add: cc_proxy_msg_read_def) (simp add: be32_def MESSAGE_HEADER_LENGTH_def)
  moreover have "strict_prefix (take ?n msg) msg"
    using less by (auto simp: strict_prefix_def take_is_prefix)
  ultimately show ?thesis by blast
qed

theorem non_ascii_truncated_witness:
  "\<exists>cut. cc_proxy_msg_read False [RecvData (cc_proxy_msg_write [CHR 0xC3, CHR 0xA9, CHR ''!'']) None] = Some (Quit cut)
     \<and> strict_prefix cut [CHR 0xC3, CHR 0xA9, CHR ''!'']"
proof (rule non_ascii_truncated)
  show "list_ex utf8_cont [CHR 0xC3, CHR 0xA9, CHR ''!'']" by (simp add: utf8_cont_def)
qed (simp add: buffer_sizes)

end
