(* ===== verification/Shim.thy ===== *)
theory Shim
  imports ProxyWire
begin

unbundle bit_operations_syntax

section \<open>The shim (shim/shim.c, shim/utils.c)\<close>

text \<open>
  The process that stands for a workload on the host.  It forwards signals and its standard input
  to the proxy and copies the output of the workload to its own.  Bytes are \<^typ>\<open>8 word\<close> values, the
  sequence numbers 64-bit words.
\<close>

definition CC_BUFSIZ :: nat where "CC_BUFSIZ = 8192"
definition STREAM_HEADER_SIZE :: nat where "STREAM_HEADER_SIZE = 12"
definition STREAM_HEADER_LENGTH_OFFSET :: nat where "STREAM_HEADER_LENGTH_OFFSET = 8"
definition HYPERSTART_MAX_RECV_BYTES :: nat where "HYPERSTART_MAX_RECV_BYTES = 10240"
definition SIGWINCH :: int where "SIGWINCH = 28"
definition EINTR :: int where "EINTR = 4"

type_synonym bytes = "8 word list"

subsection \<open>Integers in network byte order\<close>

definition set_big_endian_32 :: "32 word \<Rightarrow> bytes" where
  "set_big_endian_32 val = [ucast (drop_bit 24 val), ucast (drop_bit 16 val), ucast (drop_bit 8 val), ucast val]"

definition get_big_endian_32 :: "bytes \<Rightarrow> 32 word" where
  "get_big_endian_32 buf =
     (push_bit 24 (ucast (buf ! 0)) OR push_bit 16 (ucast (buf ! 1)) OR push_bit 8 (ucast (buf ! 2)) OR ucast (buf ! 3))"

definition set_big_endian_64 :: "64 word \<Rightarrow> bytes" where
  "set_big_endian_64 val = set_big_endian_32 (ucast (drop_bit 32 val)) @ set_big_endian_32 (ucast val)"

definition get_big_endian_64 :: "bytes \<Rightarrow> 64 word" where
  "get_big_endian_64 buf =
     (push_bit 32 (ucast (get_big_endian_32 buf)) OR ucast (get_big_endian_32 (drop 4 buf)))"

subsection \<open>What the shim reads and writes\<close>

text \<open>
  Successive results of \<^verbatim>\<open>read\<close> on a descriptor: data, or an error.  At the end of the list, and for an
  empty piece, it returns 0.
\<close>

datatype input = Data bytes | Fail

fun c_read :: "nat \<Rightarrow> input list \<Rightarrow> bytes option \<times> input list" where
  "c_read n [] = (Some [], [])"
| "c_read n (Fail # ins) = (None, ins)"
| "c_read n (Data d # ins) = (Some (take n d), if length d \<le> n then ins else Data (drop n d) # ins)"

text \<open>
  The outside of the shim: pending signals, three inputs, the results of the writes to come (all
  are complete after the last), the window size, and everything written so far.
\<close>

record shim_io =
  sh_signals :: "int list"
  sh_proxy :: "input list"
  sh_ctl :: "input list"
  sh_stdin :: "input list"
  sh_writes :: "int list"
  sh_winsize :: "(int \<times> int) option"
  sh_out :: "(int \<times> bytes) list"

definition c_write :: "int \<Rightarrow> bytes \<Rightarrow> shim_io \<Rightarrow> int \<times> shim_io" where
  "c_write fd bs s =
     (let r = (case sh_writes s of [] \<Rightarrow> int (length bs) | r # _ \<Rightarrow> min r (int (length bs)))
      in (r, s\<lparr>sh_writes := tl (sh_writes s), sh_out := sh_out s @ (if 0 < r then [(fd, take (nat r) bs)] else [])\<rparr>))"

text \<open>
  \<open>Overflow\<close> is a write beyond an allocated buffer, \<open>Stuck\<close> a loop that has used up its fuel.
\<close>

datatype 'a shim_result = Ok 'a | Exits int | Overflow | Stuck

fun s_bind :: "'a shim_result \<Rightarrow> ('a \<Rightarrow> 'b shim_result) \<Rightarrow> 'b shim_result" where
  "s_bind (Ok x) f = f x"
| "s_bind (Exits n) f = Exits n"
| "s_bind Overflow f = Overflow"
| "s_bind Stuck f = Stuck"

record cc_shim =
  container_id :: gchars
  proxy_sock_fd :: int
  proxy_io_fd :: int
  io_seq_no :: "64 word"
  err_seq_no :: "64 word"
  exiting :: bool

type_synonym pollfd = "int \<times> bool"

record shim_state =
  s_shim :: cc_shim
  s_poll :: "pollfd list"
  s_io :: shim_io

definition MAX_POLL_FDS :: nat where "MAX_POLL_FDS = 4"
definition SIGNAL_FD_INDEX :: nat where "SIGNAL_FD_INDEX = 0"
definition PROXY_IO_INDEX :: nat where "PROXY_IO_INDEX = 1"
definition PROXY_CTL_INDEX :: nat where "PROXY_CTL_INDEX = 2"
definition STDIN_INDEX :: nat where "STDIN_INDEX = 3"

text \<open>The initialiser names only the first descriptor; the others are 0.\<close>

definition poll_fds_init :: "pollfd list" where
  "poll_fds_init = [(- 1, False), (0, False), (0, False), (0, False)]"

definition add_pollfd :: "pollfd list \<Rightarrow> nat \<Rightarrow> int \<Rightarrow> pollfd list" where
  "add_pollfd fds idx fd = (if fd < 0 \<or> MAX_POLL_FDS \<le> idx then fds else fds[idx := (fd, True)])"

subsection \<open>Control messages\<close>

definition get_proxy_ctl_msg :: "string \<Rightarrow> bytes" where
  "get_proxy_ctl_msg json =
     set_big_endian_32 (of_nat (length json)) @ replicate 4 0 @ map char_byte json"

definition quoted :: "string \<Rightarrow> string" where
  "quoted s = CHR 0x22 # s @ [CHR 0x22]"

definition hyper_payload :: "string \<Rightarrow> string \<Rightarrow> string" where
  "hyper_payload hyper_cmd json =
     ''{'' @ quoted ''id'' @ '':'' @ quoted ''hyper'' @ '','' @ quoted ''data'' @ '':{'' @ quoted ''hyperName'' @ '':''
     @ quoted hyper_cmd @ '','' @ quoted ''data'' @ '':'' @ json @ ''}}''"

text \<open>
  The write loop.  The test for an interrupted call compares the number of bytes written with
  \<^verbatim>\<open>EINTR\<close>, which is 4.
\<close>

fun send_loop :: "nat \<Rightarrow> int \<Rightarrow> bytes \<Rightarrow> shim_io \<Rightarrow> shim_io shim_result" where
  "send_loop 0 fd bs s = Stuck"
| "send_loop (Suc n) fd bs s =
     (if bs = [] then Ok s
      else
        let (ret, s') = c_write fd bs s
        in if ret = EINTR then send_loop n fd bs s'
           else if ret \<le> 0 then Ok s'
           else send_loop n fd (drop (nat ret) bs) s')"

definition send_proxy_hyper_message :: "nat \<Rightarrow> int \<Rightarrow> string \<Rightarrow> string \<Rightarrow> shim_io \<Rightarrow> shim_io shim_result" where
  "send_proxy_hyper_message fuel fd hyper_cmd json s =
     (if fd < 0 then Ok s else send_loop fuel fd (get_proxy_ctl_msg (hyper_payload hyper_cmd json)) s)"

subsection \<open>Signals\<close>

definition winsize_json :: "64 word \<Rightarrow> int \<Rightarrow> int \<Rightarrow> string" where
  "winsize_json seq row column =
     ''{'' @ quoted ''seq'' @ '':'' @ int_to_dec (uint seq) @ '', '' @ quoted ''row'' @ '':'' @ int_to_dec row
     @ '', '' @ quoted ''column'' @ '':'' @ int_to_dec column @ ''}''"

definition kill_json :: "string \<Rightarrow> int \<Rightarrow> string" where
  "kill_json cid sig =
     ''{'' @ quoted ''container'' @ '':'' @ quoted cid @ '', '' @ quoted ''signal'' @ '':'' @ int_to_dec sig @ ''}''"

fun signals_loop :: "nat \<Rightarrow> string \<Rightarrow> cc_shim \<Rightarrow> int list \<Rightarrow> shim_io \<Rightarrow> shim_io shim_result" where
  "signals_loop fuel cid shim [] s = Ok s"
| "signals_loop fuel cid shim (sig # sigs) s =
     (if sig = SIGWINCH then
        (case sh_winsize s of
           None \<Rightarrow> signals_loop fuel cid shim sigs s
         | Some (row, column) \<Rightarrow>
             s_bind (send_proxy_hyper_message fuel (proxy_sock_fd shim) ''winsize'' (winsize_json (io_seq_no shim) row column) s)
               (signals_loop fuel cid shim sigs))
      else
        s_bind (send_proxy_hyper_message fuel (proxy_sock_fd shim) ''killcontainer'' (kill_json cid sig) s)
          (signals_loop fuel cid shim sigs))"

definition handle_signals :: "nat \<Rightarrow> shim_state \<Rightarrow> shim_state shim_result" where
  "handle_signals fuel st =
     (case container_id (s_shim st) of
        None \<Rightarrow> Ok st
      | Some cid \<Rightarrow>
          if proxy_sock_fd (s_shim st) < 0 then Ok st
          else s_bind (signals_loop fuel cid (s_shim st) (sh_signals (s_io st)) ((s_io st)\<lparr>sh_signals := []\<rparr>))
                 (\<lambda>s. Ok (st\<lparr>s_io := s\<rparr>)))"

subsection \<open>Standard input\<close>

definition stream_frame :: "64 word \<Rightarrow> bytes \<Rightarrow> bytes" where
  "stream_frame seq payload =
     set_big_endian_64 seq @ set_big_endian_32 (of_nat (length payload + STREAM_HEADER_SIZE)) @ payload"

definition handle_stdin :: "shim_state \<Rightarrow> shim_state" where
  "handle_stdin st =
     (if proxy_io_fd (s_shim st) < 0 then st
      else
        let (got, rest) = c_read CC_BUFSIZ (sh_stdin (s_io st)); s = (s_io st)\<lparr>sh_stdin := rest\<rparr>
        in (case got of
              None \<Rightarrow> st\<lparr>s_io := s\<rparr>
            | Some d \<Rightarrow>
                (let (_, s') = c_write (proxy_io_fd (s_shim st)) (stream_frame (io_seq_no (s_shim st)) d) s
                 in st\<lparr>s_io := s',
                       s_poll := (if d = [] then (s_poll st)[STDIN_INDEX := (- 1, snd (s_poll st ! STDIN_INDEX))]
                                  else s_poll st)\<rparr>)))"

subsection \<open>Output of the workload\<close>

text \<open>
  \<open>buf\<close> is what has been read, \<open>cap\<close> the size the buffer is allocated with.
\<close>

function read_io_loop ::
  "bytes \<Rightarrow> nat \<Rightarrow> nat \<Rightarrow> nat \<Rightarrow> input list \<Rightarrow> ((bytes \<times> nat) option \<times> input list) shim_result" where
  "read_io_loop buf cap need_read stream_len ins =
     (if need_read \<le> length buf then Ok (Some (buf, stream_len), ins)
      else
        let want = min (need_read - length buf) CC_BUFSIZ
        in if cap < length buf + want then Overflow
           else (case c_read want ins of
                   (None, _) \<Rightarrow> Exits 1
                 | (Some d, ins') \<Rightarrow>
                     if d = [] then Exits 1
                     else if stream_len = 0 \<and> STREAM_HEADER_SIZE \<le> length (buf @ d) then
                       (let sl = unat (get_big_endian_32 (drop STREAM_HEADER_LENGTH_OFFSET (buf @ d)))
                        in if sl = STREAM_HEADER_SIZE then Ok (Some (buf @ d, sl), ins')
                           else if HYPERSTART_MAX_RECV_BYTES < sl then Ok (None, ins')
                           else if STREAM_HEADER_SIZE < sl then read_io_loop (buf @ d) sl sl sl ins'
                           else read_io_loop (buf @ d) cap need_read sl ins')
                     else read_io_loop (buf @ d) cap need_read stream_len ins'))"
  by pat_completeness auto

termination
  by (relation "measures [\<lambda>(buf, cap, need_read, stream_len, ins). if stream_len = 0 then 1 else 0,
        \<lambda>(buf, cap, need_read, stream_len, ins). need_read - length buf]")
    (auto simp: STREAM_HEADER_SIZE_def intro!: diff_less_mono2)

declare read_io_loop.simps [simp del]

definition read_IO_message :: "input list \<Rightarrow> ((bytes \<times> nat) option \<times> input list) shim_result" where
  "read_IO_message ins = read_io_loop [] STREAM_HEADER_SIZE STREAM_HEADER_SIZE 0 ins"

function write_loop :: "int \<Rightarrow> bytes \<Rightarrow> shim_io \<Rightarrow> shim_io" where
  "write_loop fd bs s =
     (if bs = [] then s
      else let (ret, s') = c_write fd bs s in if ret \<le> 0 then s' else write_loop fd (drop (nat ret) bs) s')"
  by pat_completeness auto

termination
  by (relation "measure (\<lambda>(fd, bs, s). length bs)") auto

declare write_loop.simps [simp del]

text \<open>
  The end of a workload is a message without payload followed by one with a single byte, the exit
  status.
\<close>

definition handle_proxy_output :: "shim_state \<Rightarrow> shim_state shim_result" where
  "handle_proxy_output st =
     s_bind (read_IO_message (sh_proxy (s_io st))) (\<lambda>(msg, rest).
       let shim = s_shim st; st1 = st\<lparr>s_io := (s_io st)\<lparr>sh_proxy := rest\<rparr>\<rparr>
       in (case msg of
             None \<Rightarrow> Ok st1
           | Some (buf, stream_len) \<Rightarrow>
               (let seq = get_big_endian_64 buf
                in if stream_len = 0 \<or> HYPERSTART_MAX_RECV_BYTES < stream_len then Ok st1
                   else if seq \<noteq> io_seq_no shim \<and> seq \<noteq> io_seq_no shim + 1 then Ok st1
                   else if \<not> exiting shim \<and> stream_len = STREAM_HEADER_SIZE then
                     Ok (st1\<lparr>s_shim := shim\<lparr>exiting := True\<rparr>\<rparr>)
                   else if exiting shim \<and> stream_len = STREAM_HEADER_SIZE + 1 then
                     Exits (sint (buf ! STREAM_HEADER_SIZE))
                   else
                     Ok (st1\<lparr>s_io := write_loop (if seq = io_seq_no shim then 1 else 2)
                               (take (stream_len - STREAM_HEADER_SIZE) (drop STREAM_HEADER_SIZE buf)) (s_io st1)\<rparr>))))"

definition handle_proxy_ctl :: "shim_state \<Rightarrow> shim_state shim_result" where
  "handle_proxy_ctl st =
     (let (got, rest) = c_read (LINE_MAX - 1) (sh_ctl (s_io st))
      in (case got of
            None \<Rightarrow> Exits 1
          | Some d \<Rightarrow> if d = [] then Exits 1 else Ok (st\<lparr>s_io := (s_io st)\<lparr>sh_ctl := rest\<rparr>\<rparr>)))"

subsection \<open>The command line\<close>

text \<open>\<^verbatim>\<open>strtoll\<close>: the value, whether it was out of range, and the text after the number.\<close>

definition strtoll :: "string \<Rightarrow> int \<times> bool \<times> string" where
  "strtoll s =
     (let (neg, t) = strtol_body (dropWhile is_space s);
          ds = takeWhile is_digit t; v = (if neg then - digits_val 0 ds else digits_val 0 ds)
      in if ds = [] then (0, False, s) else (sat64 v, sat64 v \<noteq> v, dropWhile is_digit t))"

definition parse_numeric_option :: "string \<Rightarrow> int" where
  "parse_numeric_option input =
     (let (num, erange, endptr) = strtoll input in if erange \<or> endptr \<noteq> [] then - 1 else num)"

text \<open>The options \<^verbatim>\<open>getopt_long\<close> returns, in order, with their arguments.\<close>

fun parse_options :: "(char \<times> string) list \<Rightarrow> cc_shim \<times> bool \<Rightarrow> (cc_shim \<times> bool) shim_result" where
  "parse_options [] (shim, debug) = Ok (shim, debug)"
| "parse_options ((c, optarg) # opts) (shim, debug) =
     (let num = parse_numeric_option optarg
      in if c = CHR ''c'' then parse_options opts (shim\<lparr>container_id := Some optarg\<rparr>, debug)
         else if c = CHR ''p'' then
           (if wrap32s num < 0 then Exits 1 else parse_options opts (shim\<lparr>proxy_sock_fd := wrap32s num\<rparr>, debug))
         else if c = CHR ''o'' then
           (if wrap32s num < 0 then Exits 1 else parse_options opts (shim\<lparr>proxy_io_fd := wrap32s num\<rparr>, debug))
         else if c = CHR ''s'' then
           (if num = - 1 then Exits 1 else parse_options opts (shim\<lparr>io_seq_no := of_int num\<rparr>, debug))
         else if c = CHR ''e'' then
           (if num = - 1 then Exits 1 else parse_options opts (shim\<lparr>err_seq_no := of_int num\<rparr>, debug))
         else if c = CHR ''d'' then parse_options opts (shim, True)
         else if c = CHR ''h'' then Exits 0
         else Exits 1)"

definition shim_init :: cc_shim where
  "shim_init = \<lparr>container_id = None, proxy_sock_fd = - 1, proxy_io_fd = - 1, io_seq_no = 0, err_seq_no = 0,
     exiting = False\<rparr>"

definition required_options :: "cc_shim \<Rightarrow> bool" where
  "required_options shim \<longleftrightarrow>
     container_id shim \<noteq> None \<and> proxy_sock_fd shim \<noteq> - 1 \<and> proxy_io_fd shim \<noteq> - 1 \<and> io_seq_no shim \<noteq> 0"

definition shim_signal_table :: "int list" where
  "shim_signal_table = [1, 2, 5, 6, 10, 12, 14, 15, 16, 17, 17, 18, 20, 21, 22, 23, 24, 25, 26, 27, 28, 29, 29, 30, 31]"

text \<open>What the kernel answers while the shim starts.\<close>

record shim_host =
  fd_valid :: "int \<Rightarrow> bool"
  signal_pipe :: "(int \<times> int) option"
  nonblock_ok :: "int \<Rightarrow> bool"
  sigaction_ok :: "int \<Rightarrow> bool"
  stdin_tty :: bool

definition set_fd_nonblocking :: "shim_host \<Rightarrow> int \<Rightarrow> bool" where
  "set_fd_nonblocking SH fd \<longleftrightarrow> 0 \<le> fd \<and> nonblock_ok SH fd"

definition assign_all_signals :: "shim_host \<Rightarrow> bool" where
  "assign_all_signals SH \<longleftrightarrow> list_all (sigaction_ok SH) shim_signal_table"

definition shim_start :: "shim_host \<Rightarrow> (char \<times> string) list \<Rightarrow> shim_io \<Rightarrow> shim_state shim_result" where
  "shim_start SH opts s =
     s_bind (parse_options opts (shim_init, False)) (\<lambda>(shim, debug).
       if \<not> required_options shim then Exits 1
       else if \<not> fd_valid SH (proxy_sock_fd shim) \<or> \<not> fd_valid SH (proxy_io_fd shim) then Exits 1
       else (case signal_pipe SH of
               None \<Rightarrow> Exits 1
             | Some (rd, wr) \<Rightarrow>
                 if \<not> set_fd_nonblocking SH rd \<or> \<not> set_fd_nonblocking SH wr \<or> \<not> assign_all_signals SH then Exits 1
                 else
                   let fds = add_pollfd (add_pollfd (add_pollfd poll_fds_init SIGNAL_FD_INDEX rd)
                               PROXY_IO_INDEX (proxy_io_fd shim)) PROXY_CTL_INDEX (proxy_sock_fd shim)
                   in Ok \<lparr>s_shim = shim,
                          s_poll = (if stdin_tty SH \<or> fd_valid SH 0 then add_pollfd fds STDIN_INDEX 0 else fds),
                          s_io = s\<rparr>))"

subsection \<open>The main loop\<close>

text \<open>One result of \<^verbatim>\<open>poll\<close>: an error, or which of the four descriptors have events.\<close>

datatype poll_result = PollError | Ready bool bool bool bool

definition when_ready :: "bool \<Rightarrow> (shim_state \<Rightarrow> shim_state shim_result) \<Rightarrow> shim_state \<Rightarrow> shim_state shim_result" where
  "when_ready ready handler st = (if ready then handler st else Ok st)"

fun shim_loop :: "nat \<Rightarrow> poll_result list \<Rightarrow> shim_state \<Rightarrow> shim_state shim_result" where
  "shim_loop fuel [] st = Ok st"
| "shim_loop fuel (PollError # ps) st = Exits 0"
| "shim_loop fuel (Ready sg io ctl inp # ps) st =
     s_bind (when_ready sg (handle_signals fuel) st) (\<lambda>st1.
       s_bind (when_ready io handle_proxy_output st1) (\<lambda>st2.
         s_bind (when_ready ctl handle_proxy_ctl st2) (\<lambda>st3.
           s_bind (when_ready inp (\<lambda>s. Ok (handle_stdin s)) st3) (shim_loop fuel ps))))"

end
