(* ===== verification/ShimProps.thy ===== *)
theory ShimProps
  imports Shim
begin

section \<open>Properties of the shim\<close>

text \<open>
  Frames survive being cut into pieces and the receive buffer never overflows; output, signals and
  the exit status of the workload pass through the shim unchanged; when sending to the proxy ends.
  The contract of a stream of frames is a locale, interpreted on the reader of the shim.
\<close>

subsection \<open>The codecs\<close>

lemma big_endian_32_roundtrip: "get_big_endian_32 (set_big_endian_32 v @ rest) = v"
proof (rule bit_word_eqI)
  fix n assume "n < LENGTH(32)"
  then have n: "n < 32" by simp
  consider "n < 8" | "8 \<le> n \<and> n < 16" | "16 \<le> n \<and> n < 24" | "24 \<le> n" by linarith
  then show "bit (get_big_endian_32 (set_big_endian_32 v @ rest)) n \<longleftrightarrow> bit v n"
    by cases (use n in \<open>auto simp: get_big_endian_32_def set_big_endian_32_def bit_simps\<close>)
qed

lemma length_set_big_endian [simp]: "length (set_big_endian_32 v) = 4" "length (set_big_endian_64 u) = 8"
  by (simp_all add: set_big_endian_32_def set_big_endian_64_def)

lemma big_endian_64_roundtrip: "get_big_endian_64 (set_big_endian_64 v @ rest) = v"
proof (rule bit_word_eqI)
  fix n assume "n < LENGTH(64)"
  then show "bit (get_big_endian_64 (set_big_endian_64 v @ rest)) n \<longleftrightarrow> bit v n"
    by (cases "n < 32")
      (auto simp: get_big_endian_64_def set_big_endian_64_def big_endian_32_roundtrip bit_simps)
qed

subsection \<open>Reading in pieces\<close>

text \<open>A stream of bytes arriving in non-empty pieces.\<close>

definition arrives :: "input list \<Rightarrow> bytes \<Rightarrow> bool" where
  "arrives ins bs \<longleftrightarrow> (\<exists>ds. ins = map Data ds \<and> [] \<notin> set ds \<and> concat ds = bs)"

lemma c_read_arrives:
  assumes "arrives ins bs" and "bs \<noteq> []" and "0 < n"
  obtains d bs' ins' where "c_read n ins = (Some d, ins')" "d \<noteq> []" "length d \<le> n" "bs = d @ bs'" "arrives ins' bs'"
proof -
  obtain ds where ds: "ins = map Data ds" "[] \<notin> set ds" "concat ds = bs"
    using assms(1) by (auto simp: arrives_def)
  then obtain e es where e: "ds = e # es" using assms(2) by (cases ds) auto
  show thesis
  proof (cases "length e \<le> n")
    case True
    then show thesis
      using ds e by (intro that [of e "map Data es" "concat es"]) (auto simp: arrives_def)
  next
    case False
    then have "arrives (Data (drop n e) # map Data es) (drop n e @ concat es)"
      using ds e by (auto simp: arrives_def intro!: exI [of _ "drop n e # es"])
    then show thesis
      using ds e False assms(3)
      by (intro that [of "take n e" "Data (drop n e) # map Data es" "drop n e @ concat es"]) auto
  qed
qed

lemma append_split:
  assumes "a @ b = d @ c" and "length d \<le> length a"
  shows "a = d @ drop (length d) a \<and> c = drop (length d) a @ b"
  using assms by (auto simp: append_eq_append_conv2)

text \<open>One round of the loop that has read something.\<close>

lemma read_io_step:
  assumes "length buf < need_read" and "length buf + min (need_read - length buf) CC_BUFSIZ \<le> cap"
    and "c_read (min (need_read - length buf) CC_BUFSIZ) ins = (Some d, ins')" and "d \<noteq> []"
  shows "read_io_loop buf cap need_read stream_len ins =
    (if stream_len = 0 \<and> STREAM_HEADER_SIZE \<le> length (buf @ d) then
       (let sl = unat (get_big_endian_32 (drop STREAM_HEADER_LENGTH_OFFSET (buf @ d)))
        in if sl = STREAM_HEADER_SIZE then Ok (Some (buf @ d, sl), ins')
           else if HYPERSTART_MAX_RECV_BYTES < sl then Ok (None, ins')
           else if STREAM_HEADER_SIZE < sl then read_io_loop (buf @ d) sl sl sl ins'
           else read_io_loop (buf @ d) cap need_read sl ins')
     else read_io_loop (buf @ d) cap need_read stream_len ins')"
  using assms by (subst read_io_loop.simps) (simp add: Let_def)

text \<open>Once the length is known, the rest of the message is read whatever the pieces are.\<close>

lemma read_body:
  assumes "arrives ins (body @ rest)" and "sl \<noteq> 0" and "length buf + length body = need"
  shows "\<exists>ins'. read_io_loop buf need need sl ins = Ok (Some (buf @ body, sl), ins') \<and> arrives ins' rest"
  using assms
proof (induction "length body" arbitrary: buf body ins rule: less_induct)
  case less
  show ?case
  proof (cases "body = []")
    case True
    then show ?thesis using less.prems by (subst read_io_loop.simps) auto
  next
    case False
    let ?want = "min (need - length buf) CC_BUFSIZ"
    have pos: "0 < ?want" using False less.prems(3) by (cases body) (auto simp: CC_BUFSIZ_def)
    have ne: "body @ rest \<noteq> []" using False by simp
    obtain d bs' ins' where d: "c_read ?want ins = (Some d, ins')" "d \<noteq> []" "length d \<le> ?want"
      "body @ rest = d @ bs'" "arrives ins' bs'"
      by (rule c_read_arrives [OF less.prems(1) ne pos])
    have len: "length d \<le> length body" using d(3) less.prems(3) by linarith
    define body' where "body' = drop (length d) body"
    have body: "body = d @ body'" "bs' = body' @ rest"
      using append_split [OF d(4) len] by (simp_all add: body'_def)
    have "read_io_loop buf need need sl ins = read_io_loop (buf @ d) need need sl ins'"
      using read_io_step [OF _ _ d(1,2), of need sl] less.prems(2,3) pos by simp
    moreover have "length body' < length body" using body(1) d(2) by simp
    ultimately show ?thesis
      using less.hyps [of body' ins' "buf @ d"] less.prems(2,3) d(5) body by auto
  qed
qed

text \<open>What the loop does once the twelve bytes of the header are there.\<close>

definition after_header :: "bytes \<Rightarrow> input list \<Rightarrow> ((bytes \<times> nat) option \<times> input list) shim_result" where
  "after_header hdr ins =
     (let sl = unat (get_big_endian_32 (drop STREAM_HEADER_LENGTH_OFFSET hdr))
      in if sl = STREAM_HEADER_SIZE then Ok (Some (hdr, sl), ins)
         else if HYPERSTART_MAX_RECV_BYTES < sl then Ok (None, ins)
         else if STREAM_HEADER_SIZE < sl then read_io_loop hdr sl sl sl ins
         else Ok (Some (hdr, sl), ins))"

lemma read_header:
  assumes "arrives ins (hdr @ rest)" and "length buf + length hdr = STREAM_HEADER_SIZE" and "hdr \<noteq> []"
  shows "\<exists>ins'. read_io_loop buf STREAM_HEADER_SIZE STREAM_HEADER_SIZE 0 ins = after_header (buf @ hdr) ins'
    \<and> arrives ins' rest"
  using assms
proof (induction "length hdr" arbitrary: buf hdr ins rule: less_induct)
  case less
  let ?want = "min (STREAM_HEADER_SIZE - length buf) CC_BUFSIZ"
  have pos: "0 < ?want" using less.prems(2,3) by (cases hdr) (auto simp: CC_BUFSIZ_def)
  have ne: "hdr @ rest \<noteq> []" using less.prems(3) by simp
  obtain d bs' ins' where d: "c_read ?want ins = (Some d, ins')" "d \<noteq> []" "length d \<le> ?want"
    "hdr @ rest = d @ bs'" "arrives ins' bs'"
    by (rule c_read_arrives [OF less.prems(1) ne pos])
  have len: "length d \<le> length hdr" using d(3) less.prems(2) by linarith
  define hdr' where "hdr' = drop (length d) hdr"
  have hdr: "hdr = d @ hdr'" "bs' = hdr' @ rest"
    using append_split [OF d(4) len] by (simp_all add: hdr'_def)
  show ?case
  proof (cases "hdr' = []")
    case True
    have "read_io_loop buf STREAM_HEADER_SIZE STREAM_HEADER_SIZE 0 ins = after_header (buf @ hdr) ins'"
      using read_io_step [OF _ _ d(1,2), of STREAM_HEADER_SIZE 0] less.prems(2) hdr(1) True pos
      by (simp add: Let_def after_header_def read_io_loop.simps [of "buf @ d" STREAM_HEADER_SIZE])
    then show ?thesis using d(5) hdr True by auto
  next
    case False
    then have short: "\<not> STREAM_HEADER_SIZE \<le> length (buf @ d)" using less.prems(2) hdr(1) by (cases hdr') simp_all
    have "read_io_loop buf STREAM_HEADER_SIZE STREAM_HEADER_SIZE 0 ins =
        read_io_loop (buf @ d) STREAM_HEADER_SIZE STREAM_HEADER_SIZE 0 ins'"
      using read_io_step [OF _ _ d(1,2), of STREAM_HEADER_SIZE 0] less.prems(2) short pos by simp
    moreover have "length hdr' < length hdr" using hdr(1) d(2) by simp
    ultimately show ?thesis
      using less.hyps [of hdr' ins' "buf @ d"] less.prems(2) d(5) hdr False by auto
  qed
qed


subsection \<open>Frames\<close>

lemma frame_header:
  "stream_frame seq payload = (set_big_endian_64 seq @ set_big_endian_32 (of_nat (length payload + 12))) @ payload"
  by (simp add: stream_frame_def STREAM_HEADER_SIZE_def)

lemma frame_fields:
  assumes "length payload + 12 < 4294967296"
  shows "get_big_endian_64 (stream_frame seq payload) = seq"
    and "unat (get_big_endian_32 (drop 8 (set_big_endian_64 seq @ set_big_endian_32 (of_nat (length payload + 12))))) =
         length payload + 12"
    and "drop 12 (stream_frame seq payload) = payload"
proof -
  show "get_big_endian_64 (stream_frame seq payload) = seq"
    by (simp add: stream_frame_def big_endian_64_roundtrip)
  show "unat (get_big_endian_32 (drop 8 (set_big_endian_64 seq @ set_big_endian_32 (of_nat (length payload + 12))))) =
      length payload + 12"
    using assms big_endian_32_roundtrip [of "of_nat (length payload + 12)" "[]"]
    by (simp add: unat_of_nat del: of_nat_add)
  show "drop 12 (stream_frame seq payload) = payload"
    by (simp add: frame_header)
qed

lemma read_frame:
  assumes "arrives ins (stream_frame seq payload @ rest)"
    and "length payload + STREAM_HEADER_SIZE \<le> HYPERSTART_MAX_RECV_BYTES"
  shows "\<exists>ins'. read_IO_message ins = Ok (Some (stream_frame seq payload, length payload + STREAM_HEADER_SIZE), ins')
    \<and> arrives ins' rest"
proof -
  let ?hdr = "set_big_endian_64 seq @ set_big_endian_32 (of_nat (length payload + 12))"
  have small: "length payload + 12 < 4294967296"
    using assms(2) by (simp add: STREAM_HEADER_SIZE_def HYPERSTART_MAX_RECV_BYTES_def)
  have "arrives ins (?hdr @ payload @ rest)" using assms(1) by (simp add: frame_header)
  then obtain ins1 where h: "read_IO_message ins = after_header ?hdr ins1" "arrives ins1 (payload @ rest)"
    using read_header [of ins ?hdr "payload @ rest" "[]"]
    by (auto simp: read_IO_message_def STREAM_HEADER_SIZE_def set_big_endian_64_def set_big_endian_32_def)
  show ?thesis
  proof (cases "payload = []")
    case True
    then show ?thesis
      using h frame_fields(2) [OF small, of seq]
      by (auto simp: after_header_def STREAM_HEADER_SIZE_def STREAM_HEADER_LENGTH_OFFSET_def frame_header Let_def)
  next
    case False
    then have pos: "0 < length payload" by simp
    have "read_IO_message ins = read_io_loop ?hdr (length payload + 12) (length payload + 12) (length payload + 12) ins1"
      using h(1) frame_fields(2) [OF small, of seq] assms(2) pos
      by (simp add: after_header_def STREAM_HEADER_SIZE_def STREAM_HEADER_LENGTH_OFFSET_def Let_def)
    moreover have "length ?hdr + length payload = length payload + 12" by simp
    ultimately show ?thesis
      using read_body [OF h(2), of "length payload + 12" ?hdr "length payload + 12"]
      by (auto simp: frame_header STREAM_HEADER_SIZE_def)
  qed
qed

text \<open>
  The contract of a reader of frames: a valid message that is next on the stream, in whatever pieces, is
  read, and what follows it is left.  Then any sequence of messages is read back in order.
\<close>

primrec read_n :: "(input list \<Rightarrow> ('m \<times> input list) option) \<Rightarrow> nat \<Rightarrow> input list \<Rightarrow> ('m list \<times> input list) option" where
  "read_n rd 0 ins = Some ([], ins)"
| "read_n rd (Suc n) ins =
     (case rd ins of
        None \<Rightarrow> None
      | Some (m, ins') \<Rightarrow> map_option (\<lambda>(ms, ins''). (m # ms, ins'')) (read_n rd n ins'))"

locale framed_stream =
  fixes frame :: "'m \<Rightarrow> bytes" and valid :: "'m \<Rightarrow> bool" and rd :: "input list \<Rightarrow> ('m \<times> input list) option"
  assumes read_one: "valid m \<Longrightarrow> arrives ins (frame m @ rest) \<Longrightarrow> \<exists>ins'. rd ins = Some (m, ins') \<and> arrives ins' rest"
begin

lemma read_sequence:
  "list_all valid ms \<Longrightarrow> arrives ins (concat (map frame ms) @ rest) \<Longrightarrow>
    \<exists>ins'. read_n rd (length ms) ins = Some (ms, ins') \<and> arrives ins' rest"
proof (induction ms arbitrary: ins)
  case (Cons m ms)
  then obtain ins1 where one: "rd ins = Some (m, ins1)" "arrives ins1 (concat (map frame ms) @ rest)"
    using read_one [of m ins "concat (map frame ms) @ rest"] by auto
  then show ?case using Cons.IH [OF _ one(2)] Cons.prems(1) by auto
qed simp

end

text \<open>The next frame as the shim reads it: its sequence number and its payload.\<close>

definition next_frame :: "input list \<Rightarrow> ((64 word \<times> bytes) \<times> input list) option" where
  "next_frame ins =
     (case read_IO_message ins of
        Ok (Some (buf, len), ins') \<Rightarrow> Some ((get_big_endian_64 buf, drop STREAM_HEADER_SIZE (take len buf)), ins')
      | _ \<Rightarrow> None)"

definition fits_buffer :: "64 word \<times> bytes \<Rightarrow> bool" where
  "fits_buffer m \<longleftrightarrow> length (snd m) + STREAM_HEADER_SIZE \<le> HYPERSTART_MAX_RECV_BYTES"

interpretation stream: framed_stream "\<lambda>(seq, payload). stream_frame seq payload" fits_buffer next_frame
proof unfold_locales
  fix m :: "64 word \<times> bytes" and ins rest
  obtain seq payload where m: "m = (seq, payload)" by fastforce
  assume "fits_buffer m" and "arrives ins ((case m of (seq, payload) \<Rightarrow> stream_frame seq payload) @ rest)"
  then have fits: "length payload + STREAM_HEADER_SIZE \<le> HYPERSTART_MAX_RECV_BYTES"
    and arr: "arrives ins (stream_frame seq payload @ rest)" by (simp_all add: m fits_buffer_def)
  have small: "length payload + 12 < 4294967296"
    using fits by (simp add: STREAM_HEADER_SIZE_def HYPERSTART_MAX_RECV_BYTES_def)
  have "length (stream_frame seq payload) = length payload + STREAM_HEADER_SIZE"
    by (simp add: stream_frame_def set_big_endian_64_def set_big_endian_32_def STREAM_HEADER_SIZE_def)
  then show "\<exists>ins'. next_frame ins = Some (m, ins') \<and> arrives ins' rest"
    using read_frame [OF arr fits] frame_fields(1,3) [OF small, of seq]
    by (auto simp: next_frame_def m STREAM_HEADER_SIZE_def)
qed

text \<open>
  C5. The stream round trip: frames as the shim itself builds them, one after the other, arriving in any
  pieces and followed by anything, are read back in order with their sequence numbers and
  payloads, and what follows them is left for the next read.
\<close>

theorem stream_roundtrip:
  assumes "arrives ins (concat (map (\<lambda>(seq, payload). stream_frame seq payload) ms) @ rest)" and "list_all fits_buffer ms"
  shows "\<exists>ins'. read_n next_frame (length ms) ins = Some (ms, ins') \<and> arrives ins' rest"
  using assms(2,1) by (rule stream.read_sequence)

theorem stream_roundtrip_witness:
  "\<exists>ins'. read_n next_frame 2 [Data (take 5 (stream_frame 7 [104, 105])), Data (drop 5 (stream_frame 7 [104, 105]) @ stream_frame 8 [33] @ [0])]
       = Some ([(7, [104, 105]), (8, [33])], ins') \<and> arrives ins' [0]"
proof -
  have "arrives [Data (take 5 (stream_frame 7 [104, 105])), Data (drop 5 (stream_frame 7 [104, 105]) @ stream_frame 8 [33] @ [0])]
      (concat (map (\<lambda>(seq, payload). stream_frame seq payload) [(7, [104, 105]), (8, [33])]) @ [0])"
    unfolding arrives_def
    by (intro exI [of _ "[take 5 (stream_frame 7 [104, 105]), drop 5 (stream_frame 7 [104, 105]) @ stream_frame 8 [33] @ [0]]"])
      (simp add: frame_header set_big_endian_64_def set_big_endian_32_def)
  then show ?thesis
    using stream_roundtrip [of _ "[(7, [104, 105]), (8, [33])]" "[0]"]
    by (simp add: fits_buffer_def STREAM_HEADER_SIZE_def HYPERSTART_MAX_RECV_BYTES_def numeral_2_eq_2)
qed

subsection \<open>The receive buffer\<close>

text \<open>The invariant of the read loop: the buffer has room for everything that is still wanted.\<close>

definition message_fits :: "((bytes \<times> nat) option \<times> input list) shim_result \<Rightarrow> bool" where
  "message_fits r =
     (case r of
        Ok (None, _) \<Rightarrow> True
      | Ok (Some (buf, stream_len), _) \<Rightarrow>
          stream_len \<le> HYPERSTART_MAX_RECV_BYTES \<and> length buf = max STREAM_HEADER_SIZE stream_len
      | Exits n \<Rightarrow> n = 1
      | Overflow \<Rightarrow> False
      | Stuck \<Rightarrow> False)"

lemma header_within_max: "STREAM_HEADER_SIZE \<le> HYPERSTART_MAX_RECV_BYTES"
  by (simp add: STREAM_HEADER_SIZE_def HYPERSTART_MAX_RECV_BYTES_def)

lemma c_read_length: "c_read n ins = (Some d, ins') \<Longrightarrow> length d \<le> n"
  by (cases "(n, ins)" rule: c_read.cases) auto

lemma read_io_loop_fits:
  assumes "cap = need_read" and "length buf \<le> need_read" and "stream_len \<le> HYPERSTART_MAX_RECV_BYTES"
    and "need_read = max STREAM_HEADER_SIZE stream_len"
    and "stream_len = 0 \<and> length buf < STREAM_HEADER_SIZE \<or> STREAM_HEADER_SIZE \<le> length buf"
  shows "message_fits (read_io_loop buf cap need_read stream_len ins)"
  using assms
proof (induction buf cap need_read stream_len ins rule: read_io_loop.induct)
  case step: (1 buf cap need_read stream_len ins)
  let ?want = "min (need_read - length buf) CC_BUFSIZ"
  show ?case
  proof (cases "need_read \<le> length buf")
    case True
    then show ?thesis using step.prems by (subst read_io_loop.simps) (auto simp: message_fits_def)
  next
    case False
    have room: "\<not> cap < length buf + ?want" using \<open>cap = need_read\<close> False by auto
    obtain got ins' where got: "c_read ?want ins = (got, ins')" by fastforce
    show ?thesis
    proof (cases "got = None \<or> got = Some []")
      case True
      then show ?thesis
        using False room got by (subst read_io_loop.simps) (auto simp: message_fits_def)
    next
      case more: False
      then obtain d where d: "got = Some d" "d \<noteq> []" by auto
      have len: "length d \<le> ?want" using c_read_length got d(1) by blast
      note IH = step.IH [OF False refl room got [symmetric] d]
      have "length buf < need_read" "length buf + ?want \<le> cap" using False room by auto
      note unfold_loop = read_io_step [OF this got [unfolded d(1)] d(2), of stream_len]
      show ?thesis
        unfolding unfold_loop using IH step.prems len
          header_within_max
        by (auto simp: message_fits_def Let_def)
    qed
  qed
qed

text \<open>
  C13. The receive buffer is never overrun: whatever the proxy sends and however it arrives, reading a
  message ends without a write past the allocation, and a message that is accepted fills its
  buffer exactly and stays within the agreed maximum.
\<close>

theorem io_message_in_bounds:
  "message_fits (read_IO_message ins)"
  by (simp add: read_IO_message_def read_io_loop_fits STREAM_HEADER_SIZE_def)


subsection \<open>Messages to the proxy\<close>

lemma c_write_all:
  assumes "sh_writes s = []"
  shows "c_write fd bs s = (int (length bs), s\<lparr>sh_out := sh_out s @ (if bs = [] then [] else [(fd, bs)])\<rparr>)"
  using assms by (cases s) (auto simp: c_write_def)

lemma send_all:
  assumes "sh_writes s = []" and "4 < length bs" and "2 \<le> fuel"
  shows "send_loop fuel fd bs s = Ok (s\<lparr>sh_out := sh_out s @ [(fd, bs)]\<rparr>)"
proof -
  obtain n where "fuel = Suc (Suc n)" using assms(3) by (cases fuel; cases "fuel - 1") auto
  then show ?thesis
    using assms(1,2) by (auto simp: c_write_all EINTR_def)
qed

lemma send_four_bytes: "sh_writes s = [] \<Longrightarrow> length bs = 4 \<Longrightarrow> send_loop fuel fd bs s = Stuck"
  by (induction fuel arbitrary: s) (auto simp: c_write_all EINTR_def)

text \<open>The bytes left when the scripted results of the calls are used up and the next write takes everything.\<close>

fun left_over :: "int list \<Rightarrow> nat \<Rightarrow> nat" where
  "left_over [] n = n"
| "left_over (w # ws) n =
     (let r = min w (int n)
      in if n = 0 \<or> r \<le> 0 then 0 else if r = 4 then left_over ws n else left_over ws (n - nat r))"

lemma left_over_0 [simp]: "left_over ws 0 = 0"
  by (cases ws) auto

definition after_write :: "int \<Rightarrow> bytes \<Rightarrow> shim_io \<Rightarrow> shim_io" where
  "after_write fd bs s = snd (c_write fd bs s)"

lemma after_write_writes [simp]: "sh_writes (after_write fd bs s) = tl (sh_writes s)"
  by (simp add: after_write_def c_write_def Let_def)

lemma send_round:
  assumes "sh_writes s = w # ws" and "r = min w (int (length bs))"
  shows "send_loop (Suc n) fd bs s =
    (if bs = [] then Ok s
     else if r = 4 then send_loop n fd bs (after_write fd bs s)
     else if r \<le> 0 then Ok (after_write fd bs s)
     else send_loop n fd (drop (nat r) bs) (after_write fd bs s))"
  using assms by (simp add: after_write_def c_write_def Let_def EINTR_def)

lemma send_stuck: "left_over (sh_writes s) (length bs) = 4 \<Longrightarrow> send_loop fuel fd bs s = Stuck"
proof (induction fuel arbitrary: bs s)
  case (Suc n)
  show ?case
  proof (cases "sh_writes s")
    case Nil
    then show ?thesis using Suc.prems send_four_bytes [of s bs "Suc n"] by (simp del: send_loop.simps)
  next
    case (Cons w ws)
    then show ?thesis
      using Suc.prems Suc.IH by (simp add: send_round [OF Cons refl] Let_def del: send_loop.simps split: if_splits)
  qed
qed simp

lemma send_ends:
  "left_over (sh_writes s) (length bs) \<noteq> 4 \<Longrightarrow> send_loop (length (sh_writes s) + 2) fd bs s \<noteq> Stuck"
proof (induction "sh_writes s" arbitrary: bs s)
  case Nil
  then show ?case by (simp add: numeral_2_eq_2 c_write_all EINTR_def)
next
  case (Cons w ws)
  have s: "sh_writes s = w # ws" using Cons.hyps(2) by simp
  have ws: "ws = sh_writes (after_write fd bs s)" by (simp add: s)
  define n where "n = length ws + 2"
  have IH: "left_over ws (length bs') \<noteq> 4 \<Longrightarrow> send_loop n fd bs' (after_write fd bs s) \<noteq> Stuck" for bs'
    using Cons.hyps(1) [OF ws, of bs'] unfolding ws [symmetric] n_def by blast
  have "send_loop (Suc n) fd bs s \<noteq> Stuck"
    using Cons.prems IH by (auto simp: send_round [OF s refl] s Let_def simp del: send_loop.simps split: if_splits)
  moreover have "length (sh_writes s) + 2 = Suc n" by (simp add: s n_def)
  ultimately show ?case by metis
qed

lemma ctl_msg_length [simp]: "length (get_proxy_ctl_msg json) = 8 + length json"
  by (simp add: get_proxy_ctl_msg_def)

lemma hyper_payload_length: "20 < length (hyper_payload cmd json)"
  by (simp add: hyper_payload_def quoted_def)

text \<open>
  C17. Sending a message to the proxy never ends exactly when the results of the write calls leave four bytes: the
  next write returns 4, which the loop takes for \<^verbatim>\<open>EINTR\<close>, and sends the same bytes again.  Otherwise it ends,
  after one round for each short write and two more.
\<close>

theorem send_ends_iff:
  "((\<forall>fuel. send_proxy_hyper_message fuel fd cmd json s = Stuck)
     \<longleftrightarrow> 0 \<le> fd \<and> left_over (sh_writes s) (length (get_proxy_ctl_msg (hyper_payload cmd json))) = 4)
   \<and> (send_proxy_hyper_message (length (sh_writes s) + 2) fd cmd json s = Stuck
     \<longleftrightarrow> 0 \<le> fd \<and> left_over (sh_writes s) (length (get_proxy_ctl_msg (hyper_payload cmd json))) = 4)"
proof -
  let ?msg = "get_proxy_ctl_msg (hyper_payload cmd json)"
  have "left_over (sh_writes s) (length ?msg) = 4 \<longleftrightarrow> send_loop (length (sh_writes s) + 2) fd ?msg s = Stuck"
    using send_stuck [of s ?msg] send_ends [of s ?msg] by blast
  then show ?thesis
    using send_stuck [of s ?msg] unfolding send_proxy_hyper_message_def
    by (cases "fd < 0") (auto simp del: send_loop.simps ctl_msg_length)
qed

text \<open>An idle outside world, for the concrete instances.\<close>

definition quiet_io :: shim_io where
  "quiet_io = \<lparr>sh_signals = [], sh_proxy = [], sh_ctl = [], sh_stdin = [], sh_writes = [], sh_winsize = Some (24, 80),
     sh_out = []\<rparr>"

text \<open>What a signal becomes: a command of the agent and its argument, or nothing.\<close>

definition signal_message :: "string \<Rightarrow> 64 word \<Rightarrow> (int \<times> int) option \<Rightarrow> int \<Rightarrow> (string \<times> string) option" where
  "signal_message cid seq win sig =
     (if sig = SIGWINCH then map_option (\<lambda>(row, column). (''winsize'', winsize_json seq row column)) win
      else Some (''killcontainer'', kill_json cid sig))"

definition signal_frames :: "int \<Rightarrow> string \<Rightarrow> 64 word \<Rightarrow> (int \<times> int) option \<Rightarrow> int list \<Rightarrow> (int \<times> bytes) list" where
  "signal_frames fd cid seq win sigs =
     map (\<lambda>(cmd, json). (fd, get_proxy_ctl_msg (hyper_payload cmd json))) (List.map_filter (signal_message cid seq win) sigs)"

lemma signals_loop_all:
  assumes "sh_writes s = []" and "0 \<le> proxy_sock_fd shim" and "2 \<le> fuel"
  shows "signals_loop fuel cid shim sigs s =
    Ok (s\<lparr>sh_out := sh_out s @ signal_frames (proxy_sock_fd shim) cid (io_seq_no shim) (sh_winsize s) sigs\<rparr>)"
  using assms
proof (induction sigs arbitrary: s)
  case (Cons sig sigs)
  have send: "send_proxy_hyper_message fuel (proxy_sock_fd shim) cmd json s =
      Ok (s\<lparr>sh_out := sh_out s @ [(proxy_sock_fd shim, get_proxy_ctl_msg (hyper_payload cmd json))]\<rparr>)" for cmd json
    using Cons.prems send_all by (simp add: send_proxy_hyper_message_def)
  show ?case
    using Cons.IH Cons.prems
    by (cases "sh_winsize s")
      (auto simp: send signal_frames_def signal_message_def map_filter_simps)
qed (simp add: signal_frames_def map_filter_simps)

text \<open>
  C28. Signals are forwarded: with a working connection every pending signal becomes exactly one message
  to the proxy, in the order of arrival (a window change carries the new size and is dropped when
  there is no terminal), and nothing else is written.
\<close>

theorem signals_forwarded:
  assumes "container_id (s_shim st) = Some cid" and "0 \<le> proxy_sock_fd (s_shim st)"
    and "sh_writes (s_io st) = []" and "2 \<le> fuel"
  shows "handle_signals fuel st =
    Ok (st\<lparr>s_io := (s_io st)\<lparr>sh_signals := [], sh_out := sh_out (s_io st) @
          signal_frames (proxy_sock_fd (s_shim st)) cid (io_seq_no (s_shim st)) (sh_winsize (s_io st)) (sh_signals (s_io st))\<rparr>\<rparr>)"
  using assms by (simp add: handle_signals_def signals_loop_all)

definition sample_shim :: shim_state where
  "sample_shim = \<lparr>s_shim = \<lparr>container_id = Some ''c1'', proxy_sock_fd = 5, proxy_io_fd = 6, io_seq_no = 7, err_seq_no = 8,
     exiting = False\<rparr>, s_poll = poll_fds_init, s_io = quiet_io\<lparr>sh_signals := [15, 28]\<rparr>\<rparr>"

theorem signals_forwarded_witness:
  "\<exists>st. handle_signals 2 sample_shim = Ok st \<and> sh_out (s_io st) =
     [(5, get_proxy_ctl_msg (hyper_payload ''killcontainer'' (kill_json ''c1'' 15))),
      (5, get_proxy_ctl_msg (hyper_payload ''winsize'' (winsize_json 7 24 80)))]"
  using signals_forwarded [of sample_shim "''c1''" 2]
  by (simp add: sample_shim_def quiet_io_def signal_frames_def signal_message_def SIGWINCH_def map_filter_simps)


subsection \<open>The life of a workload\<close>

text \<open>The stream of a workload's output: the flag tells standard error from standard output.\<close>

definition output_frame :: "64 word \<Rightarrow> bool \<times> bytes \<Rightarrow> bytes" where
  "output_frame seq out = stream_frame (if fst out then seq + 1 else seq) (snd out)"

definition output_fd :: "bool \<times> bytes \<Rightarrow> int \<times> bytes" where
  "output_fd out = (if fst out then 2 else 1, snd out)"

lemma write_loop_all:
  assumes "sh_writes s = []" and "bs \<noteq> []"
  shows "write_loop fd bs s = s\<lparr>sh_out := sh_out s @ [(fd, bs)]\<rparr>"
  using assms by (simp add: write_loop.simps [of fd bs] write_loop.simps [of fd "[]"] c_write_all)

text \<open>One message, by what it means in the current phase.\<close>

lemma handle_frame:
  assumes "arrives (sh_proxy (s_io st)) (output_frame (io_seq_no (s_shim st)) out @ rest)"
    and "length (snd out) + STREAM_HEADER_SIZE \<le> HYPERSTART_MAX_RECV_BYTES"
  obtains ins where "arrives ins rest"
    and "handle_proxy_output st =
      (let st1 = st\<lparr>s_io := (s_io st)\<lparr>sh_proxy := ins\<rparr>\<rparr>
       in if \<not> exiting (s_shim st) \<and> snd out = [] then Ok (st1\<lparr>s_shim := (s_shim st)\<lparr>exiting := True\<rparr>\<rparr>)
          else if exiting (s_shim st) \<and> length (snd out) = 1 then Exits (sint (hd (snd out)))
          else Ok (st1\<lparr>s_io := write_loop (fst (output_fd out)) (snd out) (s_io st1)\<rparr>))"
proof -
  let ?seq = "if fst out then io_seq_no (s_shim st) + 1 else io_seq_no (s_shim st)"
  obtain ins where msg: "read_IO_message (sh_proxy (s_io st)) =
      Ok (Some (stream_frame ?seq (snd out), length (snd out) + STREAM_HEADER_SIZE), ins)" "arrives ins rest"
    using read_frame [of _ ?seq "snd out" rest] assms by (auto simp: output_frame_def)
  have small: "length (snd out) + 12 < 4294967296"
    using assms(2) by (simp add: STREAM_HEADER_SIZE_def HYPERSTART_MAX_RECV_BYTES_def)
  have byte: "stream_frame ?seq (snd out) ! 12 = hd (snd out)" if "length (snd out) = 1"
    using that by (cases "snd out") (simp_all add: frame_header nth_append)
  show thesis
    using assms(2) msg(1) frame_fields(1,3) [OF small, of ?seq] byte
    by (intro that [OF msg(2)])
      (auto simp: handle_proxy_output_def Let_def STREAM_HEADER_SIZE_def output_fd_def)
qed


lemma loop_output:
  assumes "handle_proxy_output st = r"
  shows "shim_loop fuel (Ready False True False False # ps) st = s_bind r (shim_loop fuel ps)"
  using assms by (cases r) (simp_all add: when_ready_def)

lemma outputs_copied:
  assumes "arrives (sh_proxy (s_io st)) (concat (map (output_frame (io_seq_no (s_shim st))) outs) @ rest)"
    and "\<forall>out \<in> set outs. snd out \<noteq> [] \<and> length (snd out) + STREAM_HEADER_SIZE \<le> HYPERSTART_MAX_RECV_BYTES"
    and "\<not> exiting (s_shim st)" and "sh_writes (s_io st) = []"
  shows "\<exists>st'. (\<forall>ps. shim_loop fuel (replicate (length outs) (Ready False True False False) @ ps) st = shim_loop fuel ps st')
    \<and> sh_out (s_io st') = sh_out (s_io st) @ map output_fd outs \<and> s_shim st' = s_shim st
    \<and> arrives (sh_proxy (s_io st')) rest"
  using assms
proof (induction outs arbitrary: st)
  case Nil
  then show ?case by (intro exI [of _ st]) simp
next
  case (Cons out outs)
  let ?seq = "io_seq_no (s_shim st)"
  obtain ins where ins: "arrives ins (concat (map (output_frame ?seq) outs) @ rest)"
    and out: "handle_proxy_output st =
      (let st1 = st\<lparr>s_io := (s_io st)\<lparr>sh_proxy := ins\<rparr>\<rparr>
       in if \<not> exiting (s_shim st) \<and> snd out = [] then Ok (st1\<lparr>s_shim := (s_shim st)\<lparr>exiting := True\<rparr>\<rparr>)
          else if exiting (s_shim st) \<and> length (snd out) = 1 then Exits (sint (hd (snd out)))
          else Ok (st1\<lparr>s_io := write_loop (fst (output_fd out)) (snd out) (s_io st1)\<rparr>))"
    using handle_frame [of st out "concat (map (output_frame ?seq) outs) @ rest"] Cons.prems(1,2) by auto
  let ?st1 = "st\<lparr>s_io := (s_io st)\<lparr>sh_proxy := ins, sh_out := sh_out (s_io st) @ [output_fd out]\<rparr>\<rparr>"
  have "handle_proxy_output st = Ok ?st1"
    using out Cons.prems(2-4) by (simp add: Let_def write_loop_all output_fd_def)
  then show ?case
    using Cons.IH [of ?st1] Cons.prems(2-4) ins by (fastforce simp: loop_output simp del: shim_loop.simps(3))
qed

text \<open>
  C12. The life of a workload as the shim sees it: whatever it printed, in any pieces, is copied to standard
  output and standard error in order; the empty message and the status byte after it then end the
  shim with that status, whatever else is in the stream.
\<close>

theorem workload_exit:
  assumes "arrives (sh_proxy (s_io st))
      (concat (map (output_frame (io_seq_no (s_shim st))) outs) @
       output_frame (io_seq_no (s_shim st)) (err, []) @ output_frame (io_seq_no (s_shim st)) (err', [code]) @ rest)"
    and "\<forall>out \<in> set outs. snd out \<noteq> [] \<and> length (snd out) + STREAM_HEADER_SIZE \<le> HYPERSTART_MAX_RECV_BYTES"
    and "\<not> exiting (s_shim st)" and "sh_writes (s_io st) = []"
  shows "\<exists>st'. shim_loop fuel (replicate (length outs) (Ready False True False False)) st = Ok st'
    \<and> sh_out (s_io st') = sh_out (s_io st) @ map output_fd outs
    \<and> shim_loop fuel (replicate (length outs + 2) (Ready False True False False)) st = Exits (sint code)"
proof -
  let ?rdy = "Ready False True False False" and ?seq = "io_seq_no (s_shim st)"
  obtain st' where st': "\<And>ps. shim_loop fuel (replicate (length outs) ?rdy @ ps) st = shim_loop fuel ps st'"
    "sh_out (s_io st') = sh_out (s_io st) @ map output_fd outs" "s_shim st' = s_shim st"
    "arrives (sh_proxy (s_io st')) (output_frame ?seq (err, []) @ output_frame ?seq (err', [code]) @ rest)"
    using outputs_copied [OF assms] by blast
  have small: "length [code] + STREAM_HEADER_SIZE \<le> HYPERSTART_MAX_RECV_BYTES"
    by (simp add: STREAM_HEADER_SIZE_def HYPERSTART_MAX_RECV_BYTES_def)
  obtain ins where ins: "arrives ins (output_frame ?seq (err', [code]) @ rest)"
    and eof: "handle_proxy_output st' =
      Ok (st'\<lparr>s_io := (s_io st')\<lparr>sh_proxy := ins\<rparr>, s_shim := (s_shim st)\<lparr>exiting := True\<rparr>\<rparr>)"
    using handle_frame [of st' "(err, [])" "output_frame ?seq (err', [code]) @ rest"] st'(3,4) header_within_max assms(3)
    by (auto simp: Let_def)
  let ?st2 = "st'\<lparr>s_io := (s_io st')\<lparr>sh_proxy := ins\<rparr>, s_shim := (s_shim st)\<lparr>exiting := True\<rparr>\<rparr>"
  have "handle_proxy_output ?st2 = Exits (sint code)"
    using handle_frame [of ?st2 "(err', [code])" rest] ins small by (auto simp: Let_def)
  then have "shim_loop fuel (replicate (length outs) ?rdy @ [?rdy, ?rdy]) st = Exits (sint code)"
    unfolding st'(1) by (simp add: loop_output eof del: shim_loop.simps(3))
  moreover have "replicate (length outs + 2) ?rdy = replicate (length outs) ?rdy @ [?rdy, ?rdy]"
    unfolding replicate_add by (simp add: numeral_2_eq_2)
  ultimately show ?thesis
    using st'(1) [of "[]"] st'(2) by auto
qed

theorem workload_exit_witness:
  "\<exists>st'. shim_loop 2 [Ready False True False False]
       (sample_shim\<lparr>s_io := quiet_io\<lparr>sh_proxy := [Data (stream_frame 7 [104] @ stream_frame 7 [] @ stream_frame 7 [3])]\<rparr>\<rparr>) = Ok st'
     \<and> sh_out (s_io st') = [(1, [104])]
     \<and> shim_loop 2 (replicate 3 (Ready False True False False))
       (sample_shim\<lparr>s_io := quiet_io\<lparr>sh_proxy := [Data (stream_frame 7 [104] @ stream_frame 7 [] @ stream_frame 7 [3])]\<rparr>\<rparr>)
       = Exits 3"
proof -
  let ?bytes = "stream_frame 7 [104] @ stream_frame 7 [] @ stream_frame 7 [3]"
  let ?st = "sample_shim\<lparr>s_io := quiet_io\<lparr>sh_proxy := [Data ?bytes]\<rparr>\<rparr>"
  have "arrives [Data ?bytes] ?bytes"
    unfolding arrives_def
    by (intro exI [of _ "[?bytes]"]) (simp add: stream_frame_def set_big_endian_64_def set_big_endian_32_def)
  then show ?thesis
    using workload_exit [of ?st "[(False, [104])]" False False 3 "[]" 2]
    by (simp add: sample_shim_def quiet_io_def output_frame_def output_fd_def STREAM_HEADER_SIZE_def
        HYPERSTART_MAX_RECV_BYTES_def numeral_3_eq_3 del: shim_loop.simps(3))
qed


subsection \<open>The runtime and the shim speak the same protocol\<close>

lemma big_endian_digit:
  assumes "n < 4294967296"
  shows "ucast (drop_bit k (of_nat n :: 32 word)) = char_byte (byte_char (n div 2 ^ k))"
proof -
  have "unat (ucast (drop_bit k (of_nat n :: 32 word)) :: 8 word) = n div 2 ^ k mod 256"
    using assms drop_bit_eq_div [of k n]
    by (simp add: unsigned_ucast_eq unat_drop_bit_eq unat_of_nat take_bit_eq_mod)
  then show ?thesis by (intro unsigned_word_eqI [where ?'a = nat]) (simp add: unat_char_byte of_byte_char)
qed

lemma framing_agrees:
  assumes "list_all is_ascii msg" and "length msg < 4294967296"
  shows "get_proxy_ctl_msg msg = map char_byte (cc_proxy_msg_write msg)"
proof -
  have "char_byte NUL = 0" by (simp add: char_byte_def)
  then show ?thesis
    using strlen_ascii_all [OF assms(1)] big_endian_digit [OF assms(2)] big_endian_digit [OF assms(2), of 0]
    by (simp add: get_proxy_ctl_msg_def set_big_endian_32_def cc_proxy_msg_write_def be32_def Let_def)
qed

text \<open>
  The shim frames a control message exactly as the runtime does: for an ASCII text that fits the
  length field the two functions put the same bytes on the proxy's socket.
\<close>

theorem same_framing:
  assumes "list_all is_ascii msg" and "length msg < 4294967296"
  shows "get_proxy_ctl_msg msg = map char_byte (cc_proxy_msg_write msg)"
  using assms by (rule framing_agrees)

theorem same_framing_witness:
  "get_proxy_ctl_msg ''{}'' = map char_byte (cc_proxy_msg_write ''{}'')"
proof -
  have "list_all is_ascii ''{}''" by code_simp
  then show ?thesis using same_framing [of "''{}''"] by simp
qed

end
