(* ===== verification/DaemonWire.thy ===== *)
theory DaemonWire
  imports DaemonProps ShimProps
begin

section \<open>The runtime and the proxy daemon together (proxy/api/protocol.go)\<close>

text \<open>
  The daemon's side of the socket, and what comes of putting the two programs together: requests of
  the runtime reach the handlers of the daemon, and the daemon's responses are understood by the
  runtime, provided that the first piece that arrives has the whole header.
\<close>

subsection \<open>Messages\<close>

text \<open>\<^verbatim>\<open>Read\<close> of a connection: at the end of the stream and on failure it is an error.\<close>

definition go_read :: "nat \<Rightarrow> input list \<Rightarrow> (bytes \<times> input list) option" where
  "go_read n ins = (case c_read n ins of (Some d, ins') \<Rightarrow> if d = [] then None else Some (d, ins') | (None, _) \<Rightarrow> None)"

function read_data :: "nat \<Rightarrow> bytes \<Rightarrow> input list \<Rightarrow> (bytes \<times> input list) option" where
  "read_data need data ins =
     (if length data < need then
        (case go_read (need - length data) ins of
           None \<Rightarrow> None
         | Some (d, ins') \<Rightarrow> read_data need (data @ d) ins')
      else Some (data, ins))"
  by pat_completeness auto

termination
  by (relation "measure (\<lambda>(need, data, ins). need - length data)")
    (auto simp: go_read_def neq_Nil_conv split: prod.splits option.splits if_splits)

declare read_data.simps [simp del]

definition ReadMessage :: "input list \<Rightarrow> (bytes \<times> input list) option" where
  "ReadMessage ins =
     (case go_read 8 ins of
        None \<Rightarrow> None
      | Some (buf, ins1) \<Rightarrow>
          if length buf \<noteq> 8 then None else read_data (unat (get_big_endian_32 buf)) [] ins1)"

text \<open>A message goes out in two writes: the header, then the data.\<close>

definition WriteMessage :: "string \<Rightarrow> string list" where
  "WriteMessage data = [be32 (length data) @ replicate 4 NUL, data]"

lemma read_data_arrives:
  assumes "arrives ins (body @ rest)" and "length data + length body = need"
  shows "\<exists>ins'. read_data need data ins = Some (data @ body, ins') \<and> arrives ins' rest"
  using assms
proof (induction "length body" arbitrary: data body ins rule: less_induct)
  case less
  show ?case
  proof (cases "body = []")
    case True
    then show ?thesis using less.prems by (subst read_data.simps) simp
  next
    case False
    then have ne: "body @ rest \<noteq> []" and pos: "0 < length body" by auto
    obtain d bs' ins' where d: "c_read (length body) ins = (Some d, ins')" "d \<noteq> []" "length d \<le> length body"
      "body @ rest = d @ bs'" "arrives ins' bs'"
      by (rule c_read_arrives [OF less.prems(1) ne pos])
    define body' where "body' = drop (length d) body"
    have "take (length d) body = d" using arg_cong [OF d(4), of "take (length d)"] d(3) by simp
    then have body: "body = d @ body'" unfolding body'_def by (metis append_take_drop_id)
    have bs': "bs' = body' @ rest" using d(4) by (simp add: body)
    have "length body' < length body" using body d(2) by simp
    from less.hyps [OF this, of ins' "data @ d"]
    have "\<exists>ins''. read_data need (data @ d) ins' = Some (data @ body, ins'') \<and> arrives ins'' rest"
      using d(5) bs' less.prems(2) body by simp
    moreover have "go_read (need - length data) ins = Some (d, ins')"
      using d less.prems(2) by (auto simp: go_read_def)
    moreover have "length data < need" using less.prems(2) pos by linarith
    ultimately show ?thesis by (subst read_data.simps) simp
  qed
qed

text \<open>A frame whose header arrives in one piece is read back, in whatever pieces its body arrives.\<close>

lemma daemon_reads_frame:
  assumes "arrives (Data d # ins) (set_big_endian_32 (of_nat (length body)) @ replicate 4 0 @ body @ rest)"
    and "length body < 4294967296" and "8 \<le> length d"
  shows "\<exists>ins'. ReadMessage (Data d # ins) = Some (body, ins') \<and> arrives ins' rest"
proof -
  let ?hdr = "set_big_endian_32 (of_nat (length body)) @ replicate 4 0"
  obtain ds where ds: "ins = map Data ds" "[] \<notin> set (d # ds)" "d @ concat ds = ?hdr @ body @ rest"
    using assms(1) by (auto simp: arrives_def)
  have hdr: "take 8 d = ?hdr" and tail: "drop 8 d @ concat ds = body @ rest"
    using arg_cong [OF ds(3), of "take 8"] arg_cong [OF ds(3), of "drop 8"] assms(3) by simp_all
  let ?ins = "if length d \<le> 8 then ins else Data (drop 8 d) # ins"
  have "arrives ?ins (body @ rest)"
    using ds(1,2) tail by (auto simp: arrives_def intro: exI [of _ "drop 8 d # ds"] exI [of _ ds])
  from read_data_arrives [OF this, of "[]" "length body"]
  have "\<exists>ins'. read_data (length body) [] ?ins = Some (body, ins') \<and> arrives ins' rest" by simp
  moreover have "unat (get_big_endian_32 ?hdr) = length body"
    using assms(2) by (simp add: big_endian_32_roundtrip unat_of_nat)
  ultimately show ?thesis
    using assms(3) hdr by (auto simp: ReadMessage_def go_read_def)
qed

text \<open>
  C14. From the runtime to the daemon: a message in ASCII as the runtime (or the shim) writes it is read by the
  daemon as the text that was sent, in whatever pieces the text arrives, when the eight bytes of the
  header arrive together; what follows is left for the next message.
\<close>

theorem runtime_to_daemon:
  assumes "list_all is_ascii msg" and "length msg < 4294967296"
    and "arrives (Data d # ins) (map char_byte (cc_proxy_msg_write msg) @ rest)" and "8 \<le> length d"
  shows "\<exists>ins'. ReadMessage (Data d # ins) = Some (map char_byte msg, ins') \<and> arrives ins' rest"
  using assms(2-4) daemon_reads_frame [of d ins "map char_byte msg" rest]
  by (simp add: framing_agrees [OF assms(1,2), symmetric] get_proxy_ctl_msg_def)

theorem runtime_to_daemon_witness:
  "\<exists>ins. ReadMessage [Data (map char_byte (cc_proxy_msg_write ''{}'')), Data [1]] = Some (map char_byte ''{}'', ins) \<and> arrives ins [1]"
proof -
  have "list_all is_ascii ''{}''" by code_simp
  moreover have "arrives [Data (map char_byte (cc_proxy_msg_write ''{}'')), Data [1]] (map char_byte (cc_proxy_msg_write ''{}'') @ [1])"
    by (auto simp: arrives_def cc_proxy_msg_write_def be32_def Let_def
        intro!: exI [of _ "[map char_byte (cc_proxy_msg_write ''{}''), [1]]"])
  ultimately show ?thesis
    by (intro runtime_to_daemon) (simp_all add: cc_proxy_msg_write_def be32_def Let_def)
qed

text \<open>
  C29. From the daemon to the runtime: a response that the daemon writes is received by the runtime as the
  text that was sent, in whatever pieces the two writes arrive and however often the runtime finds
  nothing to read in between, when the first piece has the whole header and the connection lasts.
\<close>

theorem response_in_pieces:
  assumes "length data < 4294967296" and "d @ received rs = concat (WriteMessage data)" and "8 \<le> length d"
    and "RecvEof \<notin> set rs" and "RecvError \<notin> set rs"
  shows "cc_proxy_msg_read False (RecvData d fd # rs) = Some (Quit data)"
  using assms by (intro read_in_pieces) (simp_all add: WriteMessage_def flowing_def)

theorem response_in_pieces_witness:
  "cc_proxy_msg_read False [RecvData (hd (WriteMessage ''ok'')) None, RecvAgain, RecvData ''o'' None, RecvAgain, RecvData ''k'' None]
    = Some (Quit ''ok'')"
  by (rule response_in_pieces) (simp_all add: WriteMessage_def be32_def)

subsection \<open>A request and its response\<close>

text \<open>
  One request of a client, from text to text: \<open>parse\<close> and \<open>print\<close> are the text format of \<^verbatim>\<open>encoding/json\<close>.
  None is a request that ends the connection.
\<close>

definition serve_text ::
  "(string \<Rightarrow> json option) \<Rightarrow> (json \<Rightarrow> string) \<Rightarrow> answers \<Rightarrow> client \<Rightarrow> proxy \<Rightarrow> string
     \<Rightarrow> (string \<times> nat option \<times> client \<times> proxy) option" where
  "serve_text parse print A c p msg =
     (case parse msg of
        None \<Rightarrow> None
      | Some j \<Rightarrow>
          (case unmarshal_Request (Some j) of
             None \<Rightarrow> None
           | Some req \<Rightarrow>
               (case handleRequest A req c p of
                  (resp, f, c', p') \<Rightarrow> Some (print (marshal_Response resp), f, c', p'))))"

text \<open>The two JSON libraries read what the other one writes.\<close>

definition same_json :: "env \<Rightarrow> (string \<Rightarrow> json option) \<Rightarrow> (json \<Rightarrow> string) \<Rightarrow> bool" where
  "same_json E parse print \<longleftrightarrow>
     (\<forall>j. json_wf j \<longrightarrow> parse (json_to_data E j) = Some j \<and> json_load E (print j) = Some j)"

text \<open>
  The proxy the runtime talks to is the daemon, serving this client.  A file the daemon sends along
  with its response gets a number of the runtime, \<open>rcv\<close>.
\<close>

definition answered_by ::
  "env \<Rightarrow> (string \<Rightarrow> json option) \<Rightarrow> (json \<Rightarrow> string) \<Rightarrow> (nat \<Rightarrow> int) \<Rightarrow> answers \<Rightarrow> client \<Rightarrow> proxy \<Rightarrow> bool" where
  "answered_by E parse print rcv A c p \<longleftrightarrow>
     (\<forall>w msg. case serve_text parse print A c p msg of
        None \<Rightarrow> True
      | Some (reply, f, _) \<Rightarrow> proxy_reply E w msg = reply \<and> proxy_oob_fd E w msg = map_option rcv f)"

lemma answered:
  assumes "answered_by E parse print rcv A c p" and "serve_text parse print A c p msg = Some (reply, f, x)"
  shows "proxy_reply E w msg = reply" and "proxy_oob_fd E w msg = map_option rcv f"
  using assms(1) [unfolded answered_by_def, rule_format, of w msg] assms(2) by simp_all

lemma request_understood:
  assumes "same_json E parse print" and "\<forall>m \<in> set data. json_wf (snd m)" and "distinct (map fst data)"
  shows "Option.bind (parse (proxy_message E cmd data)) (\<lambda>j. unmarshal_Request (Some j))
    = Some \<lparr>req_ID = cmd, req_Data = Some (JObject data)\<rparr>"
proof -
  have "json_wf (JObject [(''id'', JString cmd), (''data'', JObject data)])" using assms(2,3) by simp
  then have "parse (proxy_message E cmd data) = Some (JObject [(''id'', JString cmd), (''data'', JObject data)])"
    using assms(1,3) by (simp add: same_json_def proxy_message_def mk_object_distinct)
  then show ?thesis by (simp add: unmarshal_Request_def unmarshal_def key_field_def)
qed

lemma allocate_io_sends:
  assumes "cc_proxy_connected proxy"
  shows "snd (cc_proxy_cmd_allocate_io E proxy tty w) =
    snd (sys E (EvSend (proxy_message E ''allocateIO'' [(''nStreams'', JInt (if tty then 1 else 2))])) w)"
  using assms by (cases tty) (simp_all add: cc_proxy_cmd_allocate_io_def cc_proxy_run_cmd_def IO_STREAMS_NUMBER_def Let_def case_prod_unfold)

text \<open>
  C6. The two programs agree on the streams of a process: when the proxy of the runtime is the daemon, serving
  a client that is attached to a virtual machine, the runtime sends one request; for that request
  the daemon stores one session of this client, with one end of a pair of sockets, under as many
  consecutive numbers as the runtime needs; and the runtime gets the other end of that pair
  and the first of the numbers (as a 32-bit number).
\<close>

theorem allocate_io_end_to_end:
  assumes "same_json E parse print" and "answered_by E parse print rcv A c p" and "cc_proxy_connected proxy"
    and "c_vm c = Some r" and "r < length (p_heap p)" and "an_socketpair A = None" and "an_file A = None"
    and "vm_used (p_heap p ! r) + 2 < 2 ^ 63"
  defines "base \<equiv> v_nextIoBase (p_heap p ! r)"
  shows "\<exists>msg ok reply f p' s. w_trace (snd (cc_proxy_cmd_allocate_io E proxy tty w)) = w_trace w @ [(EvSend msg, ok)]
    \<and> serve_text parse print A c p msg = Some (reply, Some f, c, p')
    \<and> fst (cc_proxy_cmd_allocate_io E proxy tty w) = Some (Some (rcv f), wrap32s (uint base))
    \<and> (\<forall>i < if tty then 1 else 2. findSession (p_heap p' ! r) (base + of_nat i) = Some s)
    \<and> s_clientID s = c_id c \<and> s_ioBase s = base \<and> s_nStreams s = (if tty then 1 else 2)
    \<and> f = p_sockets p \<and> s_client s = p_sockets p + 1"
proof -
  let ?n = "if tty then 1 else 2 :: int"
  let ?msg = "proxy_message E ''allocateIO'' [(''nStreams'', JInt ?n)]"
  let ?v = "vm_alloc ?n (c_id c) (p_sockets p + 1) (p_heap p ! r)"
  let ?p' = "update_vm r (\<lambda>_. ?v) (p\<lparr>p_sockets := p_sockets p + 2\<rparr>)"
  let ?resp = "\<lparr>resp_Success = True, resp_Error = [], resp_Data = [(''ioBase'', JInt (uint base))]\<rparr>"
  let ?s = "\<lparr>s_nStreams = ?n, s_ioBase = base, s_clientID = c_id c, s_client = p_sockets p + 1\<rparr>"
  have used: "vm_used (p_heap p ! r) = unat base" by (simp add: vm_used_def base_def)
  have req: "Option.bind (parse ?msg) (\<lambda>j. unmarshal_Request (Some j)) =
      Some \<lparr>req_ID = ''allocateIO'', req_Data = Some (marshal_AllocateIo ?n)\<rparr>"
    unfolding marshal_AllocateIo_def by (rule request_understood [OF assms(1)]) simp_all
  have handled: "handleRequest A \<lparr>req_ID = ''allocateIO'', req_Data = Some (marshal_AllocateIo ?n)\<rparr> c p =
      (?resp, Some (p_sockets p), c, ?p')"
    using assms(4-7)
    by (simp add: handleRequest_def handlers_def allocateIoHandler_def unmarshal_marshal_AllocateIo no_response_def
        AddResult_def SetFile_def Let_def case_prod_unfold vm_alloc_def AllocateIo_def base_def)
  have served: "serve_text parse print A c p ?msg = Some (print (marshal_Response ?resp), Some (p_sockets p), c, ?p')"
    using req handled by (auto simp: serve_text_def bind_eq_Some_conv)
  note reply = answered [OF assms(2) served]
  have "unat base < 9223372036854775808" using assms(8) used by simp
  then have "- 9223372036854775808 \<le> uint base" "uint base < 9223372036854775808" unfolding uint_nat by linarith+
  then have "json_load E (print (marshal_Response ?resp)) = Some (marshal_Response ?resp)"
    using assms(1) by (simp add: same_json_def marshal_Response_def)
  then have "fst (cc_proxy_cmd_allocate_io E proxy tty w) = Some (Some (rcv (p_sockets p)), wrap32s (uint base))"
    using reply assms(3)
    by (cases tty) (simp_all add: cc_proxy_cmd_allocate_io_def cc_proxy_run_cmd_def cc_proxy_hyper_check_response_def
        IO_STREAMS_NUMBER_def Let_def case_prod_unfold marshal_Response_def json_read_member_def json_get_boolean_def json_get_int_def)
  moreover have "w_trace (snd (cc_proxy_cmd_allocate_io E proxy tty w)) = w_trace w @ [(EvSend ?msg, os_ok E w (EvSend ?msg))]"
    using assms(3) by (simp add: allocate_io_sends sys_trace)
  moreover have "findSession (p_heap ?p' ! r) (base + of_nat i) = Some ?s" if "i < (if tty then 1 else 2)" for i
  proof -
    have "unat (base + of_nat i) = unat base + i" using assms(8) used that by (simp add: unat_word_ariths unat_of_nat split: if_splits)
    then show ?thesis
      using that assms(5,8) used vm_alloc_lookup [of "p_heap p ! r" ?n "c_id c" "p_sockets p + 1" "base + of_nat i"]
      by (auto simp: base_def [symmetric] split: if_splits)
  qed
  ultimately show ?thesis
    using served
    by (intro exI [of _ ?msg] exI [of _ "os_ok E w (EvSend ?msg)"] exI [of _ "print (marshal_Response ?resp)"] exI [of _ "p_sockets p"] exI [of _ ?p']
        exI [of _ ?s]) (simp del: update_vm_simps)
qed

definition daemon_env :: "client \<Rightarrow> proxy \<Rightarrow> env" where
  "daemon_env c p = (calm_env (\<lambda>_. None))
     \<lparr>proxy_reply := (\<lambda>w msg. case serve_text read_json enc_json calm_answers c p msg of None \<Rightarrow> [] | Some (reply, _) \<Rightarrow> reply),
      proxy_oob_fd := (\<lambda>w msg. case serve_text read_json enc_json calm_answers c p msg of
         Some (_, f, _) \<Rightarrow> map_option (\<lambda>n. int n + 9) f | None \<Rightarrow> None)\<rparr>"

theorem allocate_io_end_to_end_witness:
  "fst (cc_proxy_cmd_allocate_io
      (daemon_env \<lparr>c_id = 7, c_vm = Some 0\<rparr> (newProxy\<lparr>p_heap := [newVM ''c'' ''/c'' ''/t'']\<rparr>))
      (zero_proxy\<lparr>proxy_socket := Some 3\<rparr>) False empty_world) = Some (Some 9, 1)"
proof -
  let ?c = "\<lparr>c_id = 7, c_vm = Some 0\<rparr>" and ?p = "newProxy\<lparr>p_heap := [newVM ''c'' ''/c'' ''/t'']\<rparr>"
  have "same_json (daemon_env ?c ?p) read_json enc_json"
    by (simp add: same_json_def daemon_env_def calm_env_def read_enc_json)
  moreover have "answered_by (daemon_env ?c ?p) read_json enc_json (\<lambda>n. int n + 9) calm_answers ?c ?p"
    by (simp add: answered_by_def daemon_env_def split: option.splits)
  moreover have "vm_used (p_heap ?p ! 0) + 2 < 2 ^ 63" by (simp add: vm_used_def newVM_def)
  ultimately show ?thesis
    using allocate_io_end_to_end [of "daemon_env ?c ?p" read_json enc_json "\<lambda>n. int n + 9" calm_answers ?c ?p
        "zero_proxy\<lparr>proxy_socket := Some 3\<rparr>" 0 False empty_world]
    by (auto simp: calm_answers_def cc_proxy_connected_def newVM_def newProxy_def wrap32s_def)
qed

end
