(* ===== verification/Lifecycle.thy ===== *)
theory Lifecycle
  imports Exec Qmp StateComplete
begin

section \<open>The life of a container (src/oci.c)\<close>

text \<open>
  Creating, starting, stopping, signalling, pausing and entering a container.  Every command is a
  process of its own: what one leaves for the next is the state file.
\<close>

subsection \<open>Reading the state back\<close>

definition strlcpy :: "gchars \<Rightarrow> string \<Rightarrow> string" where
  "strlcpy src old = (case src of None \<Rightarrow> old | Some s \<Rightarrow> buf_copy PATH_MAX s)"

definition state_into_config :: "oci_state \<Rightarrow> cc_oci_config \<Rightarrow> cc_oci_config" where
  "state_into_config st config =
     config\<lparr>cfg_bundle_path := st_bundle_path st,
            cfg_state := (cfg_state config)\<lparr>workload_pid := st_pid st, status := st_status st,
              comms_path := strlcpy (st_comms_path st) (comms_path (cfg_state config)),
              procsock_path := strlcpy (st_procsock_path st) (procsock_path (cfg_state config))\<rparr>\<rparr>"

text \<open>The result: success, the configuration, the state and the path of \<^verbatim>\<open>config.json\<close>.\<close>

definition cc_oci_get_config_and_state ::
  "env \<Rightarrow> cc_oci_config \<Rightarrow> world \<Rightarrow> (bool \<times> cc_oci_config \<times> oci_state option \<times> gchars) c_result" where
  "cc_oci_get_config_and_state E config w =
     (let (got, config1) = cc_oci_runtime_path_get config
      in if \<not> got then Inr (False, config1, None, None)
         else
           let (got2, config2) = cc_oci_state_file_get config1
           in if \<not> got2 then Inr (False, config2, None, None)
              else c_bind (cc_oci_state_file_read E (Some (state_file_path (cfg_state config2))) w) (\<lambda>st_opt.
                     case st_opt of
                       None \<Rightarrow> Inr (False, config2, None, None)
                     | Some st \<Rightarrow>
                         (let config3 = state_into_config st config2;
                              config_file = cc_oci_config_file_path (st_bundle_path st)
                          in if config_file = None then Inr (False, config3, None, None)
                             else Inr (True, config3, Some st, config_file))))"

text \<open>The fields move from the state to the configuration.\<close>

definition cc_oci_config_update :: "cc_oci_config \<Rightarrow> oci_state \<Rightarrow> cc_oci_config \<times> oci_state" where
  "cc_oci_config_update config st =
     (let c1 = (if st_mounts st \<noteq> [] then upd_mounts (\<lambda>_. st_mounts st) config else config);
          c2 = (case st_process st of
                  None \<Rightarrow> c1
                | Some p \<Rightarrow> if proc_args (cfg_process c1) = None then upd_process (\<lambda>_. p) c1 else c1);
          c3 = (if st_console st \<noteq> None then c2\<lparr>cfg_console := st_console st\<rparr> else c2);
          c4 = (if st_vm st \<noteq> None then c3\<lparr>cfg_vm := st_vm st\<rparr> else c3);
          c5 = (if st_proxy st \<noteq> None then c4\<lparr>cfg_proxy := st_proxy st\<rparr> else c4);
          c6 = (if st_pod st \<noteq> None then c5\<lparr>cfg_pod := st_pod st\<rparr> else c5);
          c7 = c6\<lparr>cfg_state := (cfg_state c6)\<lparr>procsock_path := strlcpy (st_procsock_path st) (procsock_path (cfg_state c6))\<rparr>\<rparr>
      in (c7, st\<lparr>st_mounts := [], st_console := None, st_vm := None, st_proxy := None, st_pod := None,
                 st_process := (if st_process st \<noteq> None \<and> proc_args (cfg_process c1) = None then None
                                else st_process st)\<rparr>))"

subsection \<open>Signals\<close>

definition SIGSTOP :: int where "SIGSTOP = 19"

text \<open>
  A pod sandbox is only marked stopped.  After the signal the status is written as stopped; when the
  agent cannot be told about a \<^verbatim>\<open>SIGKILL\<close> or \<^verbatim>\<open>SIGSTOP\<close> the state file stays at stopping.
\<close>

definition cc_oci_kill ::
  "env \<Rightarrow> start_data \<Rightarrow> cc_oci_config \<Rightarrow> oci_state \<Rightarrow> int \<Rightarrow> world \<Rightarrow> bool \<times> cc_oci_config \<times> world" where
  "cc_oci_kill E sd config st signum w =
     (let last_status = cfg_status config
      in if cc_pod_is_sandbox config then
           (let (ok, c1, w1) = cc_oci_state_file_create E (upd_status OCI_STATUS_STOPPED config) (st_create_time st) w
            in if ok then (True, c1, w1) else (False, upd_status last_status c1, w1))
         else
           (let (ok, c1, w1) = cc_oci_state_file_create E (upd_status OCI_STATUS_STOPPING config) (st_create_time st) w
            in if \<not> ok then (False, upd_status last_status c1, w1)
               else
                 let (sent, w2) = sys E (EvKill (st_pid st) signum) w1
                 in if \<not> sent then
                      (let (_, c2, w3) = cc_oci_state_file_create E (upd_status last_status c1) (st_create_time st) w2
                       in (False, c2, w3))
                    else
                      let (told, c2, w3) =
                            (if signum = SIGKILL \<or> signum = SIGSTOP
                             then cc_proxy_hyper_kill_container E sd c1 signum w2 else (True, c1, w2))
                      in if \<not> told then (False, c2, w3)
                         else
                           let last_status' = cfg_status c2;
                               (ok2, c3, w4) = cc_oci_state_file_create E (upd_status OCI_STATUS_STOPPED c2) (st_create_time st) w3
                           in if ok2 then (True, c3, w4) else (False, upd_status last_status' c3, w4)))"

definition cc_oci_vm_running :: "env \<Rightarrow> oci_state \<Rightarrow> world \<Rightarrow> bool \<times> world" where
  "cc_oci_vm_running E st w =
     (case st_vm st of
        None \<Rightarrow> (False, w)
      | Some vm \<Rightarrow> if vm_pid vm = 0 then (False, w) else sys E (EvKill (vm_pid vm) 0) w)"

subsection \<open>Clean-up\<close>

definition cc_oci_cleanup :: "env \<Rightarrow> cc_oci_config \<Rightarrow> world \<Rightarrow> (bool \<times> world) c_result" where
  "cc_oci_cleanup E config w =
     (let (ok, w1) = cc_oci_handle_unmounts E config w
      in if \<not> ok then Inr (False, w1)
         else c_bind (cc_oci_state_file_delete E config w1) (\<lambda>(ok2, w2).
                if \<not> ok2 then Inr (False, w2) else Inr (cc_oci_runtime_dir_delete E config w2)))"

subsection \<open>Creation\<close>

definition cc_oci_config_file_parse ::
  "env \<Rightarrow> host \<Rightarrow> cc_oci_config \<Rightarrow> world \<Rightarrow> (bool \<times> cc_oci_config \<times> world) c_result" where
  "cc_oci_config_file_parse E H config w =
     (case (cfg_bundle_path config, cc_oci_config_file_path (cfg_bundle_path config)) of
        (Some bundle_dir, Some config_file) \<Rightarrow>
          (let cwd = current_dir H w; (there, w1) = sys E (EvChdir bundle_dir) w
           in if \<not> there then Inr (False, config, w1)
              else
                let back = (\<lambda>ret c. Inr (ret, c, snd (sys E (EvChdir cwd) w1)))
                in (case cc_oci_json_parse E (Some config_file) w1 of
                      None \<Rightarrow> back False config
                    | Some root \<Rightarrow>
                        c_bind (cc_oci_process_config E w1 root config start_spec_handlers) (\<lambda>(ok, config1).
                          if \<not> ok then back False config1
                          else let (found, config2) = get_spec_vm_from_cfg_file E w1 config1 in back found config2)))
      | _ \<Rightarrow> Inr (False, config, w))"

definition cc_oci_create ::
  "env \<Rightarrow> host \<Rightarrow> start_data \<Rightarrow> cc_oci_config \<Rightarrow> world \<Rightarrow> (bool \<times> cc_oci_config \<times> world) outcome" where
  "cc_oci_create E H sd config w =
     o_bind (of_result (cc_oci_config_file_parse E H config w)) (\<lambda>(parsed, c1, w1).
       if \<not> parsed then Ret (False, c1, w1)
       else o_bind (of_result (cc_oci_config_check c1)) (\<lambda>good.
         if \<not> good then Ret (False, c1, w1)
         else
           let (dir_ok, c2, w2) = cc_oci_runtime_dir_setup E c1 w1
           in if \<not> dir_ok then Ret (False, c2, w2)
              else
                let (ns_ok, w3) = cc_oci_ns_setup E c2 w2
                in if \<not> ns_ok then Ret (False, c2, w3)
                   else o_bind (of_result (cc_oci_handle_mounts E c2 w3)) (\<lambda>(mounts_ok, c4, w4).
                          if \<not> mounts_ok then Ret (False, c4, w4)
                          else if cfg_dry_run_mode c4 then Ret (True, c4, w4)
                          else if cc_pod_is_vm c4 then cc_oci_vm_launch E H sd c4 w4
                          else cc_pod_container_create E sd c4 w4)))"


subsection \<open>Start\<close>

text \<open>
  Only a created container can be started.  Without a pod the workload is started through the
  agent, in a sandbox the result of that is ignored, in a pod container it is not.  \<open>others\<close> is what
  every other process does to the world while this one waits: for the process socket to appear
  and then for the lock the shim holds.
\<close>

definition start_bundle :: "env \<Rightarrow> start_data \<Rightarrow> cc_oci_config \<Rightarrow> world \<Rightarrow> cc_oci_config" where
  "start_bundle E sd config w =
     (case sd_bundle sd of None \<Rightarrow> config | Some b \<Rightarrow> config\<lparr>cfg_bundle_path := cc_oci_resolve_path E (Some b) w\<rparr>)"

definition start_workload :: "env \<Rightarrow> start_data \<Rightarrow> cc_oci_config \<Rightarrow> world \<Rightarrow> bool \<times> cc_oci_config \<times> world" where
  "start_workload E sd config w =
     (if cfg_pod config = None then cc_proxy_hyper_new_container E sd config w
      else if cc_pod_is_sandbox config then
        (let (_, config', w') = cc_proxy_hyper_new_pod_container E sd config (cfg_optarg_container_id config)
               (cfg_optarg_container_id config) ''rootfs'' (cfg_optarg_container_id config) w
         in (True, config', w'))
      else cc_pod_container_start E sd config w)"

definition start_wait ::
  "env \<Rightarrow> (world \<Rightarrow> world) \<Rightarrow> cc_oci_config \<Rightarrow> world \<Rightarrow> (bool \<times> cc_oci_config \<times> world) c_result" where
  "start_wait E others config w =
     (let (opened, w1) = sys E (EvOpen (shim_lock_path config)) w
      in if \<not> opened then Inr (False, config, w1)
         else
           let (locked, w2) = sys E (EvFlock (shim_lock_path config)) (others w1)
           in if \<not> locked then Inr (False, config, w2)
              else c_bind (cc_oci_get_config_and_state E config w2) (\<lambda>(got, config', _, _).
                     if \<not> got then Inr (False, config', w2)
                     else if cfg_status config' \<noteq> OCI_STATUS_STOPPED \<and> cfg_status config' \<noteq> OCI_STATUS_STOPPING
                     then c_bind (cc_oci_cleanup E config' w2) (\<lambda>(ok, w3). Inr (ok, config', w3))
                     else Inr (True, config', w2)))"

definition cc_oci_start ::
  "env \<Rightarrow> start_data \<Rightarrow> (world \<Rightarrow> world) \<Rightarrow> cc_oci_config \<Rightarrow> oci_state \<Rightarrow> world
     \<Rightarrow> (bool \<times> cc_oci_config \<times> world) c_result" where
  "cc_oci_start E sd others config st w =
     (if st_status st = OCI_STATUS_RUNNING then Inr (False, config, snd (cc_oci_vm_running E st w))
      else if st_status st \<noteq> OCI_STATUS_CREATED then Inr (False, config, w)
      else
        let config1 = start_bundle E sd config w;
            wait = os_isatty E \<and> \<not> cfg_detached_mode config1 \<and> cfg_pod config1 = None;
            monitored = wait \<and> os_stat E w (procsock_path (cfg_state config1)) = None;
            (mon, w1) = (if monitored then sys E (EvMonitor (procsock_path (cfg_state config1))) w else (True, w))
        in if \<not> mon then Inr (False, config1, w1)
           else
             let (up, config2, w2) = start_workload E sd config1 w1
             in if \<not> up then Inr (False, config2, w2)
                else
                  let (saved, config3, w3) = cc_oci_state_file_create E (upd_status OCI_STATUS_RUNNING config2) (st_create_time st) w2
                  in if \<not> saved then Inr (False, config3, w3)
                     else
                       let (_, w4) = cc_run_hooks E (hooks_poststart (cfg_hooks config3)) (state_file_path (cfg_state config3)) False w3
                       in if \<not> wait then Inr (True, config3, w4)
                          else start_wait E others config3 (if monitored then others w4 else w4))"

definition cc_oci_run ::
  "env \<Rightarrow> host \<Rightarrow> start_data \<Rightarrow> (world \<Rightarrow> world) \<Rightarrow> cc_oci_config \<Rightarrow> world
     \<Rightarrow> (bool \<times> cc_oci_config \<times> world) outcome" where
  "cc_oci_run E H sd others config w =
     o_bind (cc_oci_create E H sd config w) (\<lambda>(made, c1, w1).
       if \<not> made then Ret (False, c1, w1)
       else o_bind (of_result (cc_oci_state_file_read E (Some (state_file_path (cfg_state c1))) w1)) (\<lambda>st_opt.
         case st_opt of
           None \<Rightarrow> Ret (False, c1, w1)
         | Some st \<Rightarrow>
             (let (c2, st') = cc_oci_config_update c1 st in of_result (cc_oci_start E sd others c2 st' w1))))"

subsection \<open>Stop\<close>

definition cc_oci_stop ::
  "env \<Rightarrow> start_data \<Rightarrow> cc_oci_config \<Rightarrow> oci_state \<Rightarrow> world \<Rightarrow> (bool \<times> cc_oci_config \<times> world) c_result" where
  "cc_oci_stop E sd config st w =
     (let (up, w1) = cc_oci_vm_running E st w;
          (gone, config1, w2) = (if up then cc_proxy_hyper_destroy_pod E sd config w1 else (True, config, w1))
      in if \<not> gone then Inr (False, config1, w2)
         else
           let (config2, _) = cc_oci_config_update config1 st;
               (bye, config3, w3) =
                 (if \<not> cc_pod_is_vm config2 then (True, config2, w2)
                  else (case cfg_proxy config2 of
                          None \<Rightarrow> (False, config2, w2)
                        | Some proxy \<Rightarrow>
                            (let (ok, proxy', w') = cc_proxy_cmd_bye E sd proxy (cfg_optarg_container_id config2) w2
                             in (ok, config2\<lparr>cfg_proxy := Some proxy'\<rparr>, w'))))
           in if \<not> bye then Inr (False, config3, w3)
              else
                let (_, w4) = cc_run_hooks E (hooks_poststop (cfg_hooks config3)) (state_file_path (cfg_state config3)) False w3
                in c_bind (cc_oci_cleanup E config3 w4) (\<lambda>(ok, w5). Inr (ok, config3, w5)))"

subsection \<open>Pause and resume\<close>

definition cc_oci_toggle ::
  "env \<Rightarrow> host \<Rightarrow> cc_oci_config \<Rightarrow> oci_state \<Rightarrow> bool \<Rightarrow> world \<Rightarrow> (bool \<times> cc_oci_config \<times> world) c_result" where
  "cc_oci_toggle E H config st pause w =
     (let dest_status = (if pause then OCI_STATUS_PAUSED else OCI_STATUS_RUNNING)
      in if st_status st = dest_status then Inr (True, config, w)
         else c_bind ((if pause then cc_oci_vm_pause else cc_oci_vm_resume) E H (st_comms_path st) (st_pid st) w) (\<lambda>(ok, w1).
                if \<not> ok then Inr (False, config, w1)
                else Inr (cc_oci_state_file_create E (upd_status dest_status config) (st_create_time st) w1)))"

subsection \<open>Another process in the container\<close>

text \<open>The handler's verdict on the file is not looked at.\<close>

definition cc_oci_process_exec_file ::
  "env \<Rightarrow> string \<Rightarrow> oci_cfg_process \<Rightarrow> world \<Rightarrow> (bool \<times> oci_cfg_process) c_result" where
  "cc_oci_process_exec_file E process_json process w =
     (case cc_oci_json_parse E (Some process_json) w of
        None \<Rightarrow> Inr (False, process)
      | Some root \<Rightarrow>
          c_bind (process_handle_section root (upd_process (\<lambda>_. process) zero_config)) (\<lambda>(_, config).
            Inr (True, cfg_process config)))"

definition cc_oci_exec ::
  "env \<Rightarrow> host \<Rightarrow> start_data \<Rightarrow> cc_oci_config \<Rightarrow> oci_state \<Rightarrow> gchars \<Rightarrow> world
     \<Rightarrow> (bool \<times> cc_oci_config \<times> world) outcome" where
  "cc_oci_exec E H sd config st process_json w =
     o_bind (of_result (case process_json of
                          None \<Rightarrow> Inr (True, cfg_process config)
                        | Some file_name \<Rightarrow> cc_oci_process_exec_file E file_name (cfg_process config) w)) (\<lambda>(parsed, process).
       if \<not> parsed then Ret (False, config, w)
       else
         let config1 = upd_process (\<lambda>_. process) config;
             config2 = (if st_pod st = None then config1 else config1\<lparr>cfg_pod := st_pod st\<rparr>)
         in o_bind (cc_oci_vm_connect E H sd config2 w) (\<lambda>(ok, config3, w1).
              if \<not> ok then Ret (False, config3, w1)
              else (case sd_pid_file sd of
                      None \<Rightarrow> Ret (True, config3, w1)
                    | Some f \<Rightarrow>
                        (let (made, w2) = cc_oci_create_pidfile E (Some f) (workload_pid (cfg_state config3)) w1
                         in Ret (made, config3, w2)))))"

end
