(* ===== verification/Listing.thy ===== *)
theory Listing
  imports Lifecycle
begin

section \<open>Listing the containers (src/oci.c)\<close>

text \<open>
  Two passes over the runtime directory: the first reads the states and finds how wide the columns have
  to be, the second prints.
\<close>

record format_options =
  use_json :: bool
  show_all :: bool
  id_width :: nat
  pid_width :: nat
  status_width :: nat
  bundle_width :: nat
  created_width :: nat
  hypervisor_width :: nat
  kernel_width :: nat
  image_width :: nat

definition pad :: "nat \<Rightarrow> string \<Rightarrow> string" where
  "pad n s = s @ replicate (n - length s) (CHR '' '')"

definition cc_oci_vm_get_state :: "env \<Rightarrow> string \<Rightarrow> string \<Rightarrow> world \<Rightarrow> oci_state option c_result" where
  "cc_oci_vm_get_state E name root_dir w =
     (let config = cc_oci_config_create\<lparr>cfg_optarg_container_id := Some name, cfg_root_dir := Some root_dir\<rparr>;
          (got, config1) = cc_oci_runtime_path_get config
      in if \<not> got then Inr None
         else let (got2, config2) = cc_oci_state_file_get config1
              in if \<not> got2 then Inr None
                 else cc_oci_state_file_read E (Some (state_file_path (cfg_state config2))) w)"

text \<open>\<^verbatim>\<open>g_string_assign\<close> of NULL leaves the string as it is.\<close>

definition assign_len :: "nat \<Rightarrow> gchars \<Rightarrow> nat" where
  "assign_len old s = (case s of None \<Rightarrow> old | Some t \<Rightarrow> length t)"

text \<open>
  The width of the status column is set once per process, by the first state; \<open>status_max\<close> is the
  static variable that remembers it.
\<close>

definition cc_oci_update_options ::
  "oci_state \<Rightarrow> int \<times> format_options \<Rightarrow> (int \<times> format_options) c_result" where
  "cc_oci_update_options st acc =
     (let (status_max, opts) = acc
      in (case st_vm st of
            None \<Rightarrow> Inl AssertFail
          | Some vm \<Rightarrow>
              (let (status_max', opts1) =
                     (if status_max = 0 then (cc_oci_status_length, opts\<lparr>status_width := nat cc_oci_status_length\<rparr>)
                      else (status_max, opts));
                   l1 = assign_len 0 (st_id st);
                   l2 = length (int_to_dec (wrap32u (st_pid st)));
                   l3 = assign_len l2 (st_bundle_path st);
                   l4 = assign_len l3 (st_create_time st)
               in Inr (status_max', opts1
                    \<lparr>id_width := max (id_width opts1) l1,
                     pid_width := max (max (pid_width opts1) l2) (length ''PID''),
                     bundle_width := max (bundle_width opts1) l3,
                     created_width := max (created_width opts1) l4,
                     hypervisor_width := max (hypervisor_width opts1) (length (vm_hypervisor_path vm)),
                     image_width := max (image_width opts1) (length (vm_image_path vm)),
                     kernel_width := max (kernel_width opts1) (length (vm_kernel_path vm))\<rparr>))))"

definition list_status :: "env \<Rightarrow> oci_state \<Rightarrow> world \<Rightarrow> gchars \<times> world" where
  "list_status E st w =
     (let (up, w1) = cc_oci_vm_running E st w
      in (cc_oci_status_to_str (if up then st_status st else OCI_STATUS_STOPPED), w1))"

text \<open>A row of the table.  A pid of 0 is printed as a string; the other columns are printed as they are.\<close>

definition list_row :: "format_options \<Rightarrow> oci_state \<Rightarrow> cc_oci_vm_cfg \<Rightarrow> gchars \<Rightarrow> string" where
  "list_row opts st vm stname =
     pad (id_width opts) (fmt_s (st_id st)) @ '' ''
     @ (if st_pid st = 0 then pad (pid_width opts) (take (pid_width opts) ''0'')
        else pad (pid_width opts) (int_to_dec (wrap32u (st_pid st)))) @ '' ''
     @ pad (status_width opts) (fmt_s stname) @ '' ''
     @ pad (bundle_width opts) (fmt_s (st_bundle_path st)) @ '' ''
     @ pad (created_width opts) (fmt_s (st_create_time st))
     @ (if show_all opts
        then '' '' @ pad (hypervisor_width opts) (vm_hypervisor_path vm) @ '' '' @ pad (kernel_width opts) (vm_kernel_path vm)
             @ '' '' @ pad (image_width opts) (vm_image_path vm)
        else [])
     @ [CHR 10]"

definition list_json :: "format_options \<Rightarrow> oci_state \<Rightarrow> cc_oci_vm_cfg \<Rightarrow> gchars \<Rightarrow> json" where
  "list_json opts st vm stname =
     JObject (mk_object
       ([(''id'', json_str (st_id st)), (''pid'', JInt (st_pid st)), (''status'', json_str stname),
         (''bundle'', json_str (st_bundle_path st)), (''created'', json_str (st_create_time st))]
        @ (if show_all opts
           then [(''hypervisor'', JString (vm_hypervisor_path vm)), (''kernel'', JString (vm_kernel_path vm)),
                 (''image'', JString (vm_image_path vm))]
           else [])))"

definition cc_oci_list_vm ::
  "env \<Rightarrow> format_options \<Rightarrow> oci_state \<Rightarrow> json list \<times> world \<Rightarrow> (json list \<times> world) c_result" where
  "cc_oci_list_vm E opts st acc =
     (let (array, w) = acc; (stname, w1) = list_status E st w
      in if st_vm st = None \<and> show_all opts then Inl NullDeref
         else
           let vm = (case st_vm st of None \<Rightarrow> zero_vm | Some vm \<Rightarrow> vm)
           in if use_json opts then Inr (array @ [list_json opts st vm stname], w1)
              else Inr (array, snd (sys E (EvPrint (list_row opts st vm stname)) w1)))"

definition list_header :: "format_options \<Rightarrow> string" where
  "list_header opts =
     pad (id_width opts) ''ID'' @ '' '' @ pad (pid_width opts) ''PID'' @ '' '' @ pad (status_width opts) ''STATUS'' @ '' ''
     @ pad (bundle_width opts) ''BUNDLE'' @ '' '' @ pad (created_width opts) ''CREATED''
     @ (if show_all opts
        then '' '' @ pad (hypervisor_width opts) ''HYPERVISOR'' @ '' '' @ pad (kernel_width opts) ''KERNEL''
             @ '' '' @ pad (image_width opts) ''IMAGE''
        else [])
     @ [CHR 10]"

text \<open>The first pass: every directory below the runtime directory that has a readable state.\<close>

fun read_vms ::
  "env \<Rightarrow> string \<Rightarrow> string list \<Rightarrow> bool \<Rightarrow> world \<Rightarrow> int \<times> format_options \<Rightarrow> oci_state list
     \<Rightarrow> (oci_state list \<times> format_options) c_result" where
  "read_vms E dirname [] json w (status_max, opts) vms = Inr (vms, opts)"
| "read_vms E dirname (name # names) json w (status_max, opts) vms =
     (if os_stat E w (g_build_path dirname name) \<noteq> Some FDir then read_vms E dirname names json w (status_max, opts) vms
      else c_bind (cc_oci_vm_get_state E name dirname w) (\<lambda>st_opt.
             case st_opt of
               None \<Rightarrow> read_vms E dirname names json w (status_max, opts) vms
             | Some st \<Rightarrow>
                 c_bind (if json then Inr (status_max, opts) else cc_oci_update_options st (status_max, opts)) (\<lambda>acc.
                   read_vms E dirname names json w acc (vms @ [st]))))"

definition cc_oci_list ::
  "env \<Rightarrow> host \<Rightarrow> cc_oci_config \<Rightarrow> string \<Rightarrow> bool \<Rightarrow> world \<Rightarrow> (bool \<times> world) c_result" where
  "cc_oci_list E H config format all w =
     (let dirname = (case cfg_root_dir config of None \<Rightarrow> CC_OCI_RUNTIME_DIR_PREFIX | Some d \<Rightarrow> d);
          json = (format = ''json'');
          opts0 = \<lparr>use_json = json, show_all = all, id_width = 0, pid_width = 0, status_width = 0, bundle_width = 0,
                   created_width = 0, hypervisor_width = 0, kernel_width = 0, image_width = 0\<rparr>
      in if format \<noteq> ''json'' \<and> format \<noteq> ''table'' then Inr (False, w)
         else c_bind (case list_dir H w dirname of
                        None \<Rightarrow> Inr ([], opts0)
                      | Some names \<Rightarrow> read_vms E dirname names json w (0, opts0) []) (\<lambda>(vms, opts).
                if json \<and> vms = [] then Inr (True, snd (sys E (EvPrint ''null'') w))
                else
                  let w1 = (if json then w else snd (sys E (EvPrint (list_header opts)) w))
                  in c_bind (c_fold (cc_oci_list_vm E opts) vms ([], w1)) (\<lambda>(array, w2).
                       Inr (True, if json then snd (sys E (EvPrint (json_to_data E (JArray array) @ [CHR 10])) w2) else w2))))"

end
