(* ===== verification/Logging.thy ===== *)
theory Logging
  imports Host
begin

section \<open>Logging (src/logging.c)\<close>

text \<open>
  The handler behind \<^verbatim>\<open>g_debug\<close> to \<^verbatim>\<open>g_critical\<close>: it formats a message and appends it to the global log
  file and to the log file of the command.  Syslog, the last resort when a log file cannot be
  written, is output the runtime never looks at and appears as a line on standard error, which is
  where \<^verbatim>\<open>LOG_PERROR\<close> sends it too.
\<close>

datatype log_level = LevelError | LevelCritical | LevelWarning | LevelMessage | LevelInfo | LevelDebug | LevelOther

record cc_log_options =
  lo_enable_debug :: bool
  lo_filename :: gchars
  lo_global_logfile :: gchars
  lo_hypervisor_log_dir :: gchars
  lo_use_json :: bool

definition cc_oci_log_to_json :: "env \<Rightarrow> string \<Rightarrow> string \<Rightarrow> string \<Rightarrow> string" where
  "cc_oci_log_to_json E timestamp level message =
     json_to_data E (JObject (mk_object
       [(''level'', JString level), (''mesg'', JString message), (''time'', JString timestamp)]))"

definition cc_oci_msg_fmt :: "env \<Rightarrow> host \<Rightarrow> gchars \<Rightarrow> string \<Rightarrow> string \<Rightarrow> string \<Rightarrow> bool \<Rightarrow> string" where
  "cc_oci_msg_fmt E H log_domain level message timestamp use_json =
     (if use_json then cc_oci_log_to_json E timestamp level message @ [CHR 10]
      else timestamp @ '':'' @ int_to_dec (wrap32u (own_pid H)) @ '':''
           @ (case log_domain of None \<Rightarrow> [] | Some d \<Rightarrow> d) @ '':'' @ level @ '':'' @ message @ [CHR 10])"

text \<open>\<^verbatim>\<open>cc_oci_error\<close> cuts its text to a buffer and hands it to syslog.\<close>

definition CC_OCI_LOG_BUFSIZE :: nat where
  "CC_OCI_LOG_BUFSIZE = 1024"

definition cc_oci_error :: "env \<Rightarrow> string \<Rightarrow> world \<Rightarrow> world" where
  "cc_oci_error E text w = snd (sys E (EvStderr (buf_copy CC_OCI_LOG_BUFSIZE text)) w)"

definition cc_oci_log_msg_write :: "env \<Rightarrow> string \<Rightarrow> string \<Rightarrow> world \<Rightarrow> bool \<times> world" where
  "cc_oci_log_msg_write E filename message w =
     (let (opened, w1) = sys E (EvOpen filename) w
      in if \<not> opened then (False, cc_oci_error E (''failed to open logfile '' @ filename) w1)
         else
           let (written, w2) = sys E (EvAppend filename message) w1
           in if written then (True, w2) else (False, cc_oci_error E ''failed to write to I/O channel'' w2))"

fun level_name :: "log_level \<Rightarrow> string" where
  "level_name LevelError = ''error''"
| "level_name LevelCritical = ''critical''"
| "level_name LevelWarning = ''warning''"
| "level_name LevelMessage = ''message''"
| "level_name LevelInfo = ''info''"
| "level_name LevelDebug = ''debug''"
| "level_name LevelOther = ''error''"

text \<open>
  The variable \<^verbatim>\<open>final\<close> is overwritten with the plain text format for the global log; what follows uses
  that text.
\<close>

definition cc_oci_log_handler ::
  "env \<Rightarrow> host \<Rightarrow> cc_log_options \<Rightarrow> gchars \<Rightarrow> log_level \<Rightarrow> string \<Rightarrow> world \<Rightarrow> world" where
  "cc_oci_log_handler E H options log_domain level message w =
     (if lo_filename options = None \<and> lo_global_logfile options = None then w
      else if level = LevelDebug \<and> \<not> lo_enable_debug options \<and> lo_global_logfile options = None then w
      else (case os_timestamp E w of
              None \<Rightarrow> w
            | Some timestamp \<Rightarrow>
                (let fmt = cc_oci_msg_fmt E H log_domain (level_name level) message timestamp;
                     final = fmt (lo_use_json options);
                     (go, final, w1) =
                       (case lo_global_logfile options of
                          None \<Rightarrow> (True, final, w)
                        | Some f \<Rightarrow>
                            (let final = (if lo_use_json options then fmt False else final);
                                 (ok, w') = cc_oci_log_msg_write E f final w
                             in (ok, final, w')))
                 in if \<not> go then w1
                    else
                      let w2 = (if level = LevelError \<or> level = LevelCritical
                                then snd (sys E (EvStderr (final @ [CHR 10])) w1) else w1)
                      in if level = LevelDebug \<and> \<not> lo_enable_debug options then w2
                         else (case lo_filename options of
                                 None \<Rightarrow> w2
                               | Some f \<Rightarrow> snd (cc_oci_log_msg_write E f final w2)))))"

text \<open>Initialisation only makes sure that the global log file has a directory.\<close>

definition cc_oci_log_init :: "env \<Rightarrow> cc_log_options \<Rightarrow> world \<Rightarrow> bool \<times> world" where
  "cc_oci_log_init E options w =
     (case lo_global_logfile options of
        None \<Rightarrow> (True, w)
      | Some f \<Rightarrow> sys E (EvMkdirP (g_path_get_dirname f)) w)"

definition qemu_log_files :: "(string \<times> int) list" where
  "qemu_log_files = [(''hypervisor.stdout'', 1), (''hypervisor.stderr'', 2)]"

fun redirect_logs :: "env \<Rightarrow> string \<Rightarrow> string \<Rightarrow> (string \<times> int) list \<Rightarrow> world \<Rightarrow> bool \<times> world" where
  "redirect_logs E dir cid [] w = (True, w)"
| "redirect_logs E dir cid ((name, std_fd) # fs) w =
     (let (made, w1) = sys E (EvCreat (g_build_path dir (cid @ ''-'' @ name))) w
      in if \<not> made then (False, w1)
         else let (duped, w2) = sys E (EvDup2 (os_fd E w1) std_fd) w1
              in if duped then redirect_logs E dir cid fs w2 else (False, w2))"

text \<open>\<^verbatim>\<open>g_strjoin\<close> stops at a NULL argument: without a container id the name is empty.\<close>

definition cc_oci_setup_hypervisor_logs ::
  "env \<Rightarrow> host \<Rightarrow> gchars \<Rightarrow> cc_oci_config \<Rightarrow> world \<Rightarrow> bool \<times> world" where
  "cc_oci_setup_hypervisor_logs E H hypervisor_log_dir config w =
     (case (hypervisor_log_dir, cfg_vm config) of
        (None, _) \<Rightarrow> (True, w)
      | (Some dir, None) \<Rightarrow> (False, w)
      | (Some dir, Some vm) \<Rightarrow>
          if vm_pid vm \<noteq> own_pid H then (False, w)
          else
            let (made, w1) = sys E (EvMkdirP dir) w
            in if \<not> made then (False, w1)
               else (case cfg_optarg_container_id config of
                       None \<Rightarrow> sys E (EvCreat dir) w1
                     | Some cid \<Rightarrow> redirect_logs E dir cid qemu_log_files w1))"


subsection \<open>What ends up in the log file\<close>

definition log_text :: "world \<Rightarrow> string \<Rightarrow> string" where
  "log_text w f = (case w_files w f of None \<Rightarrow> [] | Some t \<Rightarrow> t)"

lemma log_msg_write_text:
  assumes "\<forall>w p c. os_ok E w (EvOpen p) \<and> os_ok E w (EvAppend p c)"
  shows "fst (cc_oci_log_msg_write E f m w)"
    and "log_text (snd (cc_oci_log_msg_write E f m w)) g = (if g = f then log_text w f @ m else log_text w g)"
  using assms by (auto simp: cc_oci_log_msg_write_def sys_def Let_def log_text_def split: option.splits)

lemma log_text_stderr [simp]: "log_text (snd (sys E (EvStderr m) w)) f = log_text w f"
  by (simp add: sys_def Let_def log_text_def)

text \<open>
  When the files can be written, one call of the handler appends exactly one line to the log file of
  the command.  The line is in JSON when that was asked for and there is no global log; with a
  global log the line is plain text, even though the log file was asked for in JSON.
\<close>

theorem log_line_format:
  assumes "\<forall>w p c. os_ok E w (EvOpen p) \<and> os_ok E w (EvAppend p c)"
    and "lo_filename options = Some f" and "lo_global_logfile options \<noteq> Some f"
    and "level \<noteq> LevelDebug \<or> lo_enable_debug options" and "os_timestamp E w = Some t"
  shows "log_text (cc_oci_log_handler E H options domain level message w) f =
    log_text w f @ cc_oci_msg_fmt E H domain (level_name level) message t
      (lo_use_json options \<and> lo_global_logfile options = None)"
  using assms(2-) log_msg_write_text [OF assms(1)]
  by (auto simp: cc_oci_log_handler_def Let_def case_prod_unfold split: option.splits)

definition both_logs :: cc_log_options where
  "both_logs = \<lparr>lo_enable_debug = False, lo_filename = Some ''/l'', lo_global_logfile = Some ''/g'',
     lo_hypervisor_log_dir = None, lo_use_json = True\<rparr>"

theorem log_line_format_witness:
  "log_text (cc_oci_log_handler (calm_env (\<lambda>_. None)) calm_host both_logs None LevelInfo ''hi'' empty_world) ''/l'' =
     cc_oci_msg_fmt (calm_env (\<lambda>_. None)) calm_host None ''info'' ''hi'' ''2016-01-01T00:00:00Z'' False"
  using log_line_format [of "calm_env (\<lambda>_. None)" both_logs "''/l''" LevelInfo empty_world "''2016-01-01T00:00:00Z''"
      calm_host None "''hi''"]
  by (simp add: both_logs_def calm_env_def log_text_def empty_world_def)

end
