(* ===== verification/Commands.thy ===== *)
theory Commands
  imports Listing Logging
begin

section \<open>The command line (src/command.c, src/commands, src/main.c, src/priv.c, src/events.c)\<close>

text \<open>
  Every subcommand as a function of what GLib's option parser left: the values of the options and the
  remaining arguments, without the name of the subcommand.  A handler ends like the functions it
  calls: it returns, ends the process, or faults.
\<close>

record options =
  o_sd :: start_data
  o_argv :: "string list"
  o_format :: gchars
  o_show_all :: bool
  o_run_once :: bool
  o_interval :: int
  o_cwd :: gchars
  o_env :: strv
  o_process_json :: gchars

definition g_print :: "env \<Rightarrow> string \<Rightarrow> world \<Rightarrow> world" where
  "g_print E s w = snd (sys E (EvPrint s) w)"

subsection \<open>Help, set-up and the common handlers\<close>

text \<open>The result: None to go on, or the value to return.\<close>

definition handle_default_usage ::
  "env \<Rightarrow> string list \<Rightarrow> string \<Rightarrow> int \<Rightarrow> gchars \<Rightarrow> world \<Rightarrow> bool option \<times> world" where
  "handle_default_usage E argv cmd min_argc extra w =
     (let argc = int (length argv);
          help = (argv \<noteq> [] \<and> (hd argv = ''--help'' \<or> hd argv = ''-h''))
      in if help \<or> argv = [] \<or> argc < min_argc then
           (Some (if help then argc = 1 else argc \<ge> min_argc),
            g_print E (''Usage: '' @ cmd @ '' <container-id>'' @ (case extra of None \<Rightarrow> [] | Some x \<Rightarrow> '' '' @ x) @ [CHR 10]) w)
         else (None, w))"

definition handle_command_setup ::
  "env \<Rightarrow> string \<Rightarrow> options \<Rightarrow> cc_oci_config \<Rightarrow> world \<Rightarrow> bool \<times> cc_oci_config \<times> world" where
  "handle_command_setup E name opts config w =
     (case handle_default_usage E (o_argv opts) name 1 None w of
        (Some ret, w1) \<Rightarrow> (ret, config, w1)
      | (None, w1) \<Rightarrow>
          (let argv = o_argv opts; sd = o_sd opts;
               config1 = config\<lparr>cfg_optarg_container_id := Some (hd argv)\<rparr>;
               bundle = (case sd_bundle sd of
                           Some b \<Rightarrow> if length argv = 1 then Some (cc_oci_resolve_path E (Some b) w1) else None
                         | None \<Rightarrow> if length argv = 2 then Some (cc_oci_resolve_path E (Some (argv ! 1)) w1) else None)
           in (case bundle of
                 None \<Rightarrow> (False, config1, w1)
               | Some path \<Rightarrow>
                   (True, config1\<lparr>cfg_bundle_path := path, cfg_console := sd_console sd, cfg_pid_file := sd_pid_file sd,
                      cfg_dry_run_mode := sd_dry_run_mode sd, cfg_detached_mode := sd_detach sd\<rparr>, w1))))"

text \<open>
  The bundle option is used up by the set-up: \<^verbatim>\<open>start_data.bundle\<close> is NULL afterwards.
\<close>

definition sd_used :: "start_data \<Rightarrow> start_data" where
  "sd_used sd = sd\<lparr>sd_bundle := None\<rparr>"

text \<open>A handler that failed reports it; what goes to the log is left out here.\<close>

definition read_state ::
  "env \<Rightarrow> options \<Rightarrow> cc_oci_config \<Rightarrow> world \<Rightarrow> (bool \<times> cc_oci_config \<times> oci_state option \<times> gchars) c_result" where
  "read_state E opts config w =
     cc_oci_get_config_and_state E (config\<lparr>cfg_optarg_container_id := Some (hd (o_argv opts))\<rparr>) w"

text \<open>
  The beginning of the commands that rewrite the state: read it, and move what it holds to the
  configuration.
\<close>

definition with_state ::
  "env \<Rightarrow> options \<Rightarrow> cc_oci_config \<Rightarrow> world \<Rightarrow> (cc_oci_config \<Rightarrow> oci_state \<Rightarrow> (bool \<times> world) outcome)
     \<Rightarrow> (bool \<times> world) outcome" where
  "with_state E opts config w act =
     o_bind (of_result (read_state E opts config w)) (\<lambda>(got, config1, st_opt, _).
       case (got, st_opt) of
         (True, Some st) \<Rightarrow> (case cc_oci_config_update config1 st of (config2, st') \<Rightarrow> act config2 st')
       | _ \<Rightarrow> Ret (False, w))"

definition handle_command_toggle ::
  "env \<Rightarrow> host \<Rightarrow> string \<Rightarrow> bool \<Rightarrow> options \<Rightarrow> cc_oci_config \<Rightarrow> world \<Rightarrow> (bool \<times> world) outcome" where
  "handle_command_toggle E H name pause opts config w =
     (case handle_default_usage E (o_argv opts) name 1 None w of
        (Some ret, w1) \<Rightarrow> Ret (ret, w1)
      | (None, w1) \<Rightarrow>
          with_state E opts config w1 (\<lambda>config2 st.
            o_bind (of_result (cc_oci_toggle E H config2 st pause w1)) (\<lambda>(ok, config3, w2).
              Ret (ok, if ok then g_print E ((if pause then ''pause'' else ''resume'') @ ''d container ''
                                      @ fmt_s (cfg_optarg_container_id config3) @ [CHR 10]) w2 else w2))))"

text \<open>
  A missing state file is not an error.  A configuration that cannot be read or processed is not
  one either: \<^verbatim>\<open>ret\<close> is still true from reading the state.
\<close>

definition handle_command_stop ::
  "env \<Rightarrow> string \<Rightarrow> options \<Rightarrow> cc_oci_config \<Rightarrow> world \<Rightarrow> (bool \<times> world) outcome" where
  "handle_command_stop E name opts config w =
     (case handle_default_usage E (o_argv opts) name 1 None w of
        (Some ret, w1) \<Rightarrow> Ret (ret, w1)
      | (None, w1) \<Rightarrow>
          (let (there, config1) = cc_oci_state_file_exists E (config\<lparr>cfg_optarg_container_id := Some (hd (o_argv opts))\<rparr>) w1
           in if \<not> there then Ret (True, w1)
              else o_bind (of_result (cc_oci_get_config_and_state E config1 w1)) (\<lambda>(got, config2, st_opt, config_file).
                     case (got, st_opt) of
                       (True, Some st) \<Rightarrow>
                         (case cc_oci_json_parse E config_file w1 of
                            None \<Rightarrow> Ret (True, w1)
                          | Some root \<Rightarrow>
                              o_bind (of_result (cc_oci_process_config E w1 root config2 stop_spec_handlers)) (\<lambda>(ok, config3).
                                if \<not> ok then Ret (True, w1)
                                else o_bind (of_result (cc_oci_stop E (o_sd opts) config3 st w1)) (\<lambda>(stopped, config4, w2).
                                       Ret (stopped, if stopped then g_print E (''stopped container ''
                                              @ fmt_s (cfg_optarg_container_id config4) @ [CHR 10]) w2 else w2))))
                     | _ \<Rightarrow> Ret (False, w1))))"

subsection \<open>The subcommands\<close>

definition drop_config :: "bool \<times> cc_oci_config \<times> world \<Rightarrow> (bool \<times> world) outcome" where
  "drop_config r = (case r of (ok, _, w) \<Rightarrow> Ret (ok, w))"

definition handler_create ::
  "env \<Rightarrow> host \<Rightarrow> options \<Rightarrow> cc_oci_config \<Rightarrow> world \<Rightarrow> (bool \<times> world) outcome" where
  "handler_create E H opts config w =
     (case handle_command_setup E ''create'' opts config w of
        (ok, config1, w1) \<Rightarrow>
          if \<not> ok then Ret (False, w1) else o_bind (cc_oci_create E H (sd_used (o_sd opts)) config1 w1) drop_config)"

definition handler_run ::
  "env \<Rightarrow> host \<Rightarrow> (world \<Rightarrow> world) \<Rightarrow> options \<Rightarrow> cc_oci_config \<Rightarrow> world \<Rightarrow> (bool \<times> world) outcome" where
  "handler_run E H others opts config w =
     (case handle_command_setup E ''run'' opts config w of
        (ok, config1, w1) \<Rightarrow>
          if \<not> ok then Ret (False, w1) else o_bind (cc_oci_run E H (sd_used (o_sd opts)) others config1 w1) drop_config)"

definition handler_start ::
  "env \<Rightarrow> (world \<Rightarrow> world) \<Rightarrow> options \<Rightarrow> cc_oci_config \<Rightarrow> world \<Rightarrow> (bool \<times> world) outcome" where
  "handler_start E others opts config w =
     (case handle_default_usage E (o_argv opts) ''start'' 1 None w of
        (Some ret, w1) \<Rightarrow> Ret (ret, w1)
      | (None, w1) \<Rightarrow>
          with_state E opts config w1 (\<lambda>config2 st.
            o_bind (of_result (cc_oci_start E (o_sd opts) others config2 st w1)) drop_config))"

text \<open>
  A number is tried first; 0 and everything that is not a number is looked up as a name.
\<close>

definition kill_signal :: "string list \<Rightarrow> int" where
  "kill_signal argv =
     (if length argv = 2
      then let n = atoi (argv ! 1) in if n \<le> 0 then cc_oci_get_signum (Some (argv ! 1)) else n
      else SIGTERM)"

definition handler_kill ::
  "env \<Rightarrow> options \<Rightarrow> cc_oci_config \<Rightarrow> world \<Rightarrow> (bool \<times> world) outcome" where
  "handler_kill E opts config w =
     (case handle_default_usage E (o_argv opts) ''kill'' 1 (Some ''[<signal>]'') w of
        (Some ret, w1) \<Rightarrow> Ret (ret, w1)
      | (None, w1) \<Rightarrow>
          (let signum = kill_signal (o_argv opts)
           in if signum < 0 then Ret (False, w1)
              else with_state E opts config w1 (\<lambda>config2 st.
                     drop_config (cc_oci_kill E (o_sd opts) config2 st signum w1))))"

definition exec_process :: "options \<Rightarrow> oci_cfg_process \<Rightarrow> oci_cfg_process" where
  "exec_process opts p =
     (let p1 = p\<lparr>proc_user := (proc_user p)\<lparr>user_uid := user_uid (sd_user (o_sd opts)), user_gid := user_gid (sd_user (o_sd opts))\<rparr>,
                 proc_env := o_env opts,
                 proc_terminal := (case sd_console (o_sd opts) of None \<Rightarrow> False | Some c \<Rightarrow> c \<noteq> [])\<rparr>;
          p2 = (case o_cwd opts of None \<Rightarrow> p1 | Some d \<Rightarrow> p1\<lparr>proc_cwd := buf_copy PATH_MAX d\<rparr>)
      in if tl (o_argv opts) = [] then p2 else p2\<lparr>proc_args := Some (tl (o_argv opts))\<rparr>)"

definition handler_exec ::
  "env \<Rightarrow> host \<Rightarrow> options \<Rightarrow> cc_oci_config \<Rightarrow> world \<Rightarrow> (bool \<times> world) outcome" where
  "handler_exec E H opts config w =
     (case handle_default_usage E (o_argv opts) ''exec'' 1 (Some ''<cmd> [args]'') w of
        (Some ret, w1) \<Rightarrow> Ret (ret, w1)
      | (None, w1) \<Rightarrow>
          if tl (o_argv opts) = [] \<and> o_process_json opts = None then
            Ret (False, g_print E (''Usage: exec <container-id> <cmd> [args]'' @ [CHR 10]) w1)
          else
            o_bind (of_result (read_state E opts (upd_process (exec_process opts) config) w1)) (\<lambda>(got, config1, st_opt, _).
              case (got, st_opt) of
                (True, Some st) \<Rightarrow>
                  o_bind (cc_oci_exec E H (o_sd opts) (config1\<lparr>cfg_console := sd_console (o_sd opts)\<rparr>) st (o_process_json opts) w1)
                    drop_config
              | _ \<Rightarrow> Ret (False, w1)))"

definition handler_list :: "env \<Rightarrow> host \<Rightarrow> options \<Rightarrow> cc_oci_config \<Rightarrow> world \<Rightarrow> (bool \<times> world) outcome" where
  "handler_list E H opts config w =
     of_result (cc_oci_list E H config (case o_format opts of None \<Rightarrow> ''table'' | Some f \<Rightarrow> f) (o_show_all opts) w)"

definition handler_state :: "env \<Rightarrow> options \<Rightarrow> cc_oci_config \<Rightarrow> world \<Rightarrow> (bool \<times> world) outcome" where
  "handler_state E opts config w =
     (case handle_default_usage E (o_argv opts) ''state'' 1 None w of
        (Some ret, w1) \<Rightarrow> Ret (ret, w1)
      | (None, w1) \<Rightarrow>
          (let (got, config1) = cc_oci_runtime_path_get (config\<lparr>cfg_optarg_container_id := Some (hd (o_argv opts))\<rparr>)
           in if \<not> got then Ret (False, w1)
              else
                let (got2, config2) = cc_oci_state_file_get config1
                in if \<not> got2 then Ret (False, w1)
                   else (case w_files w1 (state_file_path (cfg_state config2)) of
                           None \<Rightarrow> Ret (False, w1)
                         | Some contents \<Rightarrow> Ret (True, g_print E (cstr_at contents 0 @ [CHR 10]) w1))))"

text \<open>
  Commands that only look whether there is a state file.  \<^verbatim>\<open>checkpoint\<close> and \<^verbatim>\<open>restore\<close> do not store
  the container id before they look.
\<close>

definition handler_exists ::
  "env \<Rightarrow> string \<Rightarrow> gchars \<Rightarrow> bool \<Rightarrow> options \<Rightarrow> cc_oci_config \<Rightarrow> world \<Rightarrow> (bool \<times> world) outcome" where
  "handler_exists E name extra set_id opts config w =
     (case handle_default_usage E (o_argv opts) name 1 extra w of
        (Some ret, w1) \<Rightarrow> Ret (ret, w1)
      | (None, w1) \<Rightarrow>
          Ret (fst (cc_oci_state_file_exists E
                 (if set_id then config\<lparr>cfg_optarg_container_id := Some (hd (o_argv opts))\<rparr> else config) w1), w1))"

definition handler_checkpoint :: "env \<Rightarrow> options \<Rightarrow> cc_oci_config \<Rightarrow> world \<Rightarrow> (bool \<times> world) outcome" where
  "handler_checkpoint E = handler_exists E ''checkpoint'' None False"

definition handler_restore :: "env \<Rightarrow> options \<Rightarrow> cc_oci_config \<Rightarrow> world \<Rightarrow> (bool \<times> world) outcome" where
  "handler_restore E = handler_exists E ''restore'' None False"

definition handler_update :: "env \<Rightarrow> options \<Rightarrow> cc_oci_config \<Rightarrow> world \<Rightarrow> (bool \<times> world) outcome" where
  "handler_update E = handler_exists E ''update'' None True"

definition handler_ps :: "env \<Rightarrow> options \<Rightarrow> cc_oci_config \<Rightarrow> world \<Rightarrow> (bool \<times> world) outcome" where
  "handler_ps E = handler_exists E ''ps'' (Some ''<ps options>'') True"


subsection \<open>Events\<close>

text \<open>
  What wakes the main loop of \<^verbatim>\<open>events\<close>: the timer, or a change of a file below the runtime directory
  (whether it was deleted, and its path).
\<close>

datatype loop_event = Tick | FileEvent bool string

definition g_path_get_basename :: "string \<Rightarrow> string" where
  "g_path_get_basename p =
     (if p = [] then ''.'' else if rstrip_slash p = [] then ''/''
      else rev (takeWhile (\<lambda>c. c \<noteq> CHR ''/'') (rev (rstrip_slash p))))"

text \<open>True when the loop is to end.\<close>

definition watcher_destroyed_vm :: "bool \<Rightarrow> string \<Rightarrow> bool" where
  "watcher_destroyed_vm deleted path \<longleftrightarrow> deleted \<and> g_path_get_basename path = CC_OCI_PROCESS_SOCKET"

definition get_container_stats :: "env \<Rightarrow> cc_oci_config \<Rightarrow> gchars" where
  "get_container_stats E config =
     (if cfg_status config \<noteq> OCI_STATUS_RUNNING then None
      else Some (json_to_data E (JObject (mk_object
             [(''type'', JString ''stats''), (''id'', json_str (cfg_optarg_container_id config)),
              (''id'', json_str (cfg_optarg_container_id config)),
              (''data'', JObject (mk_object [(''CgroupStats'',
                 JObject (mk_object [(''cpu_stats'', JObject []), (''memory_stats'', JObject [])]))]))]))))"

text \<open>The timer removes itself when there is nothing to show.\<close>

definition show_interval_stats :: "env \<Rightarrow> cc_oci_config \<Rightarrow> world \<Rightarrow> bool \<times> world" where
  "show_interval_stats E config w =
     (case get_container_stats E config of None \<Rightarrow> (False, w) | Some s \<Rightarrow> (True, g_print E s w))"

text \<open>None: the loop has not ended when the events run out.\<close>

fun stats_loop :: "env \<Rightarrow> cc_oci_config \<Rightarrow> bool \<Rightarrow> loop_event list \<Rightarrow> world \<Rightarrow> world option" where
  "stats_loop E config armed [] w = None"
| "stats_loop E config armed (Tick # evs) w =
     (if armed then let (armed', w') = show_interval_stats E config w in stats_loop E config armed' evs w'
      else stats_loop E config armed evs w)"
| "stats_loop E config armed (FileEvent deleted path # evs) w =
     (if watcher_destroyed_vm deleted path then Some w else stats_loop E config armed evs w)"

definition show_container_stats ::
  "env \<Rightarrow> cc_oci_config \<Rightarrow> int \<Rightarrow> loop_event list \<Rightarrow> world \<Rightarrow> (bool \<times> world) option" where
  "show_container_stats E config interval evs w =
     (if interval \<noteq> 0 then
        (let (mon, w1) = sys E (EvMonitor (runtime_path (cfg_state config))) w
         in if \<not> mon then Some (False, w1) else map_option (Pair True) (stats_loop E config True evs w1))
      else (case get_container_stats E config of
              None \<Rightarrow> Some (False, w)
            | Some s \<Rightarrow> Some (True, g_print E s w)))"

definition handler_events ::
  "env \<Rightarrow> loop_event list \<Rightarrow> options \<Rightarrow> cc_oci_config \<Rightarrow> world \<Rightarrow> (bool \<times> world) outcome option" where
  "handler_events E evs opts config w =
     (case handle_default_usage E (o_argv opts) ''events'' (- 1) None w of
        (Some ret, w1) \<Rightarrow> Some (Ret (ret, w1))
      | (None, w1) \<Rightarrow>
          if o_interval opts \<le> 0 then Some (Ret (False, w1))
          else (case read_state E opts config w1 of
                  Inl e \<Rightarrow> Some (Fault e)
                | Inr (got, config1, _, _) \<Rightarrow>
                    if \<not> got then Some (Ret (False, w1))
                    else map_option Ret (show_container_stats E config1 (if o_run_once opts then 0 else o_interval opts) evs w1)))"

subsection \<open>Options with a callback\<close>

definition handle_option_console :: "gchars \<Rightarrow> start_data \<Rightarrow> bool \<times> start_data" where
  "handle_option_console value sd = (True, case value of None \<Rightarrow> sd | Some v \<Rightarrow> sd\<lparr>sd_console := Some v\<rparr>)"

text \<open>A uid, and a gid after a colon.\<close>

definition handle_option_user :: "gchars \<Rightarrow> start_data \<Rightarrow> bool \<times> start_data" where
  "handle_option_user value sd =
     (case value of
        None \<Rightarrow> (False, sd)
      | Some v \<Rightarrow>
          if v = [] then (False, sd)
          else
            let struid = takeWhile (\<lambda>c. c \<noteq> CHR '':'') v;
                strgid = (case dropWhile (\<lambda>c. c \<noteq> CHR '':'') v of [] \<Rightarrow> None | _ # g \<Rightarrow> Some g);
                (uid, uid_ok) = strtol struid;
                (gid, gid_ok) = (case strgid of None \<Rightarrow> (0, True) | Some g \<Rightarrow> strtol g)
            in if \<not> uid_ok \<or> \<not> gid_ok \<or> uid < 0 \<or> gid < 0 then (False, sd)
               else (True, sd\<lparr>sd_user := (sd_user sd)\<lparr>user_uid := wrap32u uid, user_gid := wrap32u gid\<rparr>\<rparr>))"

subsection \<open>Privileges\<close>

definition cc_oci_get_priv_level :: "host \<Rightarrow> string list \<Rightarrow> string \<Rightarrow> cc_oci_config \<Rightarrow> world \<Rightarrow> int" where
  "cc_oci_get_priv_level H argv name config w =
     (if name = ''help'' \<or> name = ''version'' then - 1
      else if 1 < length argv \<and> (argv ! 1 = ''--help'' \<or> argv ! 1 = ''-h'') then - 1
      else (case cfg_root_dir config of
              None \<Rightarrow> 1
            | Some d \<Rightarrow>
                (case access_w H w d of
                   AccessOk \<Rightarrow> 0
                 | AccessNoEnt \<Rightarrow> if access_w H w (g_path_get_dirname d) = AccessOk then 0 else 1
                 | AccessDenied \<Rightarrow> 1)))"

end
