(* ===== verification/Dispatch.thy ===== *)
theory Dispatch
  imports Commands
begin

section \<open>From the command line to a subcommand (src/main.c, src/command.c, src/commands)\<close>

text \<open>
  GLib's option parser is a parameter: \<open>parse_sub name argv\<close> is what it makes of the options of a
  subcommand, None when it rejects them.  The commit the program was built from is one too.
\<close>

definition PACKAGE_NAME :: string where "PACKAGE_NAME = ''cc-oci-runtime''"
definition PACKAGE_VERSION :: string where "PACKAGE_VERSION = ''2.1.0-rc.4''"

text \<open>The table of subcommands: the name, the description, and whether it has options of its own.\<close>

definition subcommands :: "(string \<times> string \<times> bool) list" where
  "subcommands =
     [(''checkpoint'', ''checkpoint a running container'', False),
      (''create'', ''create and start a container, but do not run workload'', True),
      (''delete'', ''delete resources held by a container'', False),
      (''events'', ''shows container resource usage statistics'', True),
      (''exec'', ''execute a new task inside an existing container'', True),
      (''help'', ''show this help'', False),
      (''kill'', ''send a signal to the container (signal may be symbolic ('' @ [CHR 0x22] @ ''SIGKILL'' @ [CHR 0x22]
         @ ''/'' @ [CHR 0x22] @ ''KILL'' @ [CHR 0x22] @ '') or numeric ('' @ [CHR 0x22] @ ''9'' @ [CHR 0x22] @ ''))'', False),
      (''list'', ''list all container details'', True),
      (''pause'', ''pause all the tasks inside a container'', False),
      (''ps'', ''display the processes running inside a container'', False),
      (''restore'', ''restore a container from a previous checkpoint'', False),
      (''resume'', ''resume a previously paused container'', False),
      (''run'', ''create and run a new container'', True),
      (''start'', ''run workload in a created container'', True),
      (''state'', ''shows the state of a container'', False),
      (''stop'', ''destroy a container'', False),
      (''update'', ''update container resource constraints'', False),
      (''version'', ''shows the program version and OCI spec supported version'', False)]"

definition get_subcmd :: "string \<Rightarrow> (string \<times> string \<times> bool) option" where
  "get_subcmd cmd = find (\<lambda>(name, _, _). name = cmd) subcommands"

definition usage_line :: "string \<Rightarrow> string \<Rightarrow> string" where
  "usage_line name description =
     CHR 9 # pad 15 name @ '' '' @ replicate (8 - length description) (CHR '' '') @ description @ [CHR 10]"

definition usage :: "env \<Rightarrow> world \<Rightarrow> world" where
  "usage E w =
     fold (g_print E)
       ([''Usage:'' @ [CHR 10], PACKAGE_NAME @ '' [global options] [command] [command options]'' @ [CHR 10], [CHR 10],
         ''Supported commands:'' @ [CHR 10]]
        @ map (\<lambda>(name, description, _). usage_line name description) subcommands) w"

definition show_version :: "env \<Rightarrow> string \<Rightarrow> world \<Rightarrow> world" where
  "show_version E git_commit w =
     g_print E (''commit: '' @ git_commit @ [CHR 10])
       (g_print E (''spec version: '' @ CC_OCI_SUPPORTED_SPEC_VERSION @ [CHR 10])
         (g_print E (PACKAGE_NAME @ '' version: '' @ PACKAGE_VERSION @ [CHR 10]) w))"

text \<open>
  The handler of a subcommand by its name.  None: the command blocks for good (only \<^verbatim>\<open>events\<close> can).
\<close>

record surroundings =
  su_env :: env
  su_host :: host
  su_others :: "world \<Rightarrow> world"
  su_events :: "loop_event list"
  su_commit :: string
  su_uid :: int

definition sub_handler ::
  "surroundings \<Rightarrow> string \<Rightarrow> options \<Rightarrow> cc_oci_config \<Rightarrow> world \<Rightarrow> (bool \<times> world) outcome option" where
  "sub_handler S name opts config w =
     (let E = su_env S; H = su_host S
      in if name = ''events'' then handler_events E (su_events S) opts config w
         else Some
           (if name = ''checkpoint'' then handler_checkpoint E opts config w
            else if name = ''create'' then handler_create E H opts config w
            else if name = ''delete'' \<or> name = ''stop'' then handle_command_stop E name opts config w
            else if name = ''exec'' then handler_exec E H opts config w
            else if name = ''help'' then Ret (True, usage E w)
            else if name = ''kill'' then handler_kill E opts config w
            else if name = ''list'' then handler_list E H opts config w
            else if name = ''pause'' then handle_command_toggle E H name True opts config w
            else if name = ''ps'' then handler_ps E opts config w
            else if name = ''restore'' then handler_restore E opts config w
            else if name = ''resume'' then handle_command_toggle E H name False opts config w
            else if name = ''run'' then handler_run E H (su_others S) opts config w
            else if name = ''start'' then handler_start E (su_others S) opts config w
            else if name = ''state'' then handler_state E opts config w
            else if name = ''update'' then handler_update E opts config w
            else Ret (True, show_version E (su_commit S) w)))"

text \<open>The subcommand's own options; without a table of options the arguments are handed on as they are.\<close>

definition no_options :: "start_data \<Rightarrow> string list \<Rightarrow> options" where
  "no_options sd argv = \<lparr>o_sd = sd, o_argv = argv, o_format = None, o_show_all = False, o_run_once = False,
     o_interval = 5, o_cwd = None, o_env = None, o_process_json = None\<rparr>"

definition handle_sub_commands ::
  "surroundings \<Rightarrow> (string \<Rightarrow> start_data \<Rightarrow> string list \<Rightarrow> options option) \<Rightarrow> start_data \<Rightarrow> string list
     \<Rightarrow> string \<times> string \<times> bool \<Rightarrow> cc_oci_config \<Rightarrow> world \<Rightarrow> (bool \<times> world) outcome option" where
  "handle_sub_commands S parse_sub sd argv sub config w =
     (case sub of
        (name, _, has_options) \<Rightarrow>
          (case (if has_options then parse_sub name sd argv else Some (no_options sd argv)) of
             None \<Rightarrow> Some (Ret (False, w))
           | Some opts \<Rightarrow> sub_handler S name (opts\<lparr>o_argv := tl (o_argv opts)\<rparr>) config w))"

text \<open>
  What the parser of the global options leaves: the values, and the arguments from the name of the
  subcommand on.
\<close>

record globals =
  g_log :: cc_log_options
  g_format :: gchars
  g_show_version :: bool
  g_help_text :: gchars
  g_root_dir :: gchars
  g_sd :: start_data
  g_argv :: "string list"

definition setup_logging :: "env \<Rightarrow> cc_log_options \<Rightarrow> world \<Rightarrow> bool \<times> world" where
  "setup_logging E opts w = cc_oci_log_init E opts w"

definition handle_arguments ::
  "surroundings \<Rightarrow> (string \<Rightarrow> start_data \<Rightarrow> string list \<Rightarrow> options option) \<Rightarrow> globals option \<Rightarrow> world
     \<Rightarrow> (bool \<times> world) outcome option" where
  "handle_arguments S parse_sub parsed w =
     (case parsed of
        None \<Rightarrow> Some (Ret (False, w))
      | Some g \<Rightarrow>
          (let E = su_env S; argv = g_argv g;
               w1 = (case g_help_text g of None \<Rightarrow> w | Some t \<Rightarrow> g_print E t w);
               log = (g_log g)\<lparr>lo_use_json := lo_use_json (g_log g) \<or> g_format g = Some ''json''\<rparr>;
               config = (case g_root_dir g of
                           None \<Rightarrow> cc_oci_config_create
                         | Some d \<Rightarrow> cc_oci_config_create\<lparr>cfg_root_dir := Some d\<rparr>)
           in if g_show_version g then Some (Ret (True, show_version E (su_commit S) w1))
              else if argv = [] then Some (Ret (True, usage E w1))
              else (case get_subcmd (hd argv) of
                      None \<Rightarrow> Some (Ret (False, g_print E (''no such command: '' @ hd argv @ [CHR 10]) w1))
                    | Some sub \<Rightarrow>
                        (let priv_level = cc_oci_get_priv_level (su_host S) argv (fst sub) config w1
                         in if priv_level = 1 \<and> su_uid S \<noteq> 0 then Some (Ret (False, w1))
                            else
                              let (logged, w2) = (if 0 \<le> priv_level then setup_logging E log w1 else (True, w1))
                              in if \<not> logged then
                                   Some (Ret (False, snd (sys E (EvStderr (''failed to setup logging'' @ [CHR 10])) w2)))
                                 else handle_sub_commands S parse_sub (g_sd g) argv sub config w2))))"

text \<open>The exit status of the program as a shell reports it.\<close>

definition exit_status :: "(bool \<times> world) outcome \<Rightarrow> int" where
  "exit_status r = (case r of Ret (ok, _) \<Rightarrow> if ok then 0 else 1 | Exited _ \<Rightarrow> 1 | Fault AssertFail \<Rightarrow> 134 | Fault NullDeref \<Rightarrow> 139)"

end
