(* ===== verification/LifeSpec.thy ===== *)
theory LifeSpec
  imports Dispatch StateTyped
begin

section \<open>The life cycle as a state machine\<close>

text \<open>
  What one command leaves for the next is the state file.  The abstraction of a world is therefore
  the status that can be read from that file, if any: its \<open>phase\<close>.
\<close>

definition container_state_path :: "string \<Rightarrow> string \<Rightarrow> string" where
  "container_state_path root cid = path_join (path_join root cid) CC_OCI_STATE_FILE"

definition phase_at :: "env \<Rightarrow> string \<Rightarrow> world \<Rightarrow> oci_status option" where
  "phase_at E p w =
     (case cc_oci_state_file_read E (Some p) w of Inr (Some st) \<Rightarrow> Some (st_status st) | _ \<Rightarrow> None)"

lemma phase_cong: "w_files w p = w_files w' p \<Longrightarrow> phase_at E p w = phase_at E p w'"
  by (simp add: phase_at_def cc_oci_state_file_read_def cc_oci_json_parse_def)

lemma phase_no_file: "w_files w p = None \<Longrightarrow> phase_at E p w = None"
  by (simp add: phase_at_def cc_oci_state_file_read_def cc_oci_json_parse_def)

subsection \<open>Operations that leave the files alone\<close>

named_theorems keeps_files \<open>operations after which every file has its old contents\<close>

lemma quiet_events [keeps_files]:
  "w_files (snd (sys E (EvKill p s) w)) = w_files w"
  "w_files (snd (sys E EvSocketNew w)) = w_files w"
  "w_files (snd (sys E (EvCloexec fd) w)) = w_files w"
  "w_files (snd (sys E (EvConnect m) w)) = w_files w"
  "w_files (snd (sys E (EvSocketClose fd) w)) = w_files w"
  "w_files (snd (sys E (EvSend m) w)) = w_files w"
  "w_files (snd (sys E (EvHook hp as ev i) w)) = w_files w"
  "w_files (snd (sys E (EvQmp m n) w)) = w_files w"
  "w_files (snd (sys E (EvPrint m) w)) = w_files w"
  "w_files (snd (sys E (EvUmount m) w)) = w_files w"
  "w_files (snd (sys E (EvMonitor m) w)) = w_files w"
  "w_files (snd (sys E (EvOpen m) w)) = w_files w"
  "w_files (snd (sys E (EvFlock m) w)) = w_files w"
  by (simp_all add: sys_def Let_def)

lemma cloexec_files [keeps_files]: "w_files (snd (cc_oci_fd_toggle_cloexec E fd w)) = w_files w"
  by (simp add: cc_oci_fd_toggle_cloexec_def keeps_files)

lemma connect_files [keeps_files]: "w_files (snd (snd (cc_proxy_connect E sd proxy w))) = w_files w"
  by (simp add: cc_proxy_connect_def Let_def case_prod_unfold keeps_files)

lemma disconnect_files [keeps_files]: "w_files (snd (snd (cc_proxy_disconnect E proxy w))) = w_files w"
  by (simp add: cc_proxy_disconnect_def Let_def case_prod_unfold keeps_files split: option.splits)

lemma run_cmd_files [keeps_files]: "w_files (snd (snd (snd (cc_proxy_run_cmd E proxy m oob w)))) = w_files w"
  by (simp add: cc_proxy_run_cmd_def Let_def case_prod_unfold keeps_files)

lemma attach_files [keeps_files]: "w_files (snd (cc_proxy_attach E proxy cid w)) = w_files w"
  by (simp add: cc_proxy_attach_def Let_def case_prod_unfold keeps_files split: option.splits)

lemma hyper_cmd_files [keeps_files]: "w_files (snd (cc_proxy_run_hyper_cmd E config cmd args w)) = w_files w"
  by (simp add: cc_proxy_run_hyper_cmd_def Let_def case_prod_unfold keeps_files split: option.splits)

lemma bye_files [keeps_files]: "w_files (snd (snd (cc_proxy_cmd_bye E sd proxy cid w))) = w_files w"
  by (simp add: cc_proxy_cmd_bye_def Let_def case_prod_unfold keeps_files split: option.splits)

lemma new_container_files [keeps_files]:
  "w_files (snd (snd (cc_proxy_run_hyper_new_container E config cid rootfs img w))) = w_files w"
  by (simp add: cc_proxy_run_hyper_new_container_def Let_def case_prod_unfold keeps_files split: option.splits)

lemma new_pod_container_files [keeps_files]:
  "w_files (snd (snd (cc_proxy_hyper_new_pod_container E sd config cid pod rootfs img w))) = w_files w"
  by (simp add: cc_proxy_hyper_new_pod_container_def Let_def case_prod_unfold keeps_files split: option.splits)

lemma kill_container_files [keeps_files]:
  "w_files (snd (snd (cc_proxy_hyper_kill_container E sd config signum w))) = w_files w"
  by (simp add: cc_proxy_hyper_kill_container_def Let_def case_prod_unfold keeps_files split: option.splits)

lemma destroy_pod_files [keeps_files]:
  "w_files (snd (snd (cc_proxy_hyper_destroy_pod E sd config w))) = w_files w"
  by (simp add: cc_proxy_hyper_destroy_pod_def Let_def case_prod_unfold keeps_files split: option.splits)

lemma hook_files [keeps_files]: "w_files (snd (cc_run_hook E hook st w)) = w_files w"
  by (simp add: cc_run_hook_def Let_def case_prod_unfold keeps_files split: hook_outcome.splits)

lemma hooks_loop_files [keeps_files]: "w_files (snd (run_hooks_loop E hooks st stop w)) = w_files w"
  by (induction hooks arbitrary: w) (simp_all add: Let_def case_prod_unfold keeps_files)

lemma hooks_files [keeps_files]: "w_files (snd (cc_run_hooks E hooks f stop w)) = w_files w"
  by (simp add: cc_run_hooks_def keeps_files split: option.splits)

lemma vm_running_files [keeps_files]: "w_files (snd (cc_oci_vm_running E st w)) = w_files w"
  by (simp add: cc_oci_vm_running_def keeps_files split: option.splits)

lemma start_workload_files [keeps_files]: "w_files (snd (snd (start_workload E sd config w))) = w_files w"
  by (simp add: start_workload_def cc_proxy_hyper_new_container_def cc_pod_container_start_def Let_def
      case_prod_unfold keeps_files split: option.splits)

lemma qmp_send_files:
  "cc_oci_qmp_msg_send E H path ini msg n e w = Inr (ok, ini', w') \<Longrightarrow> w_files w' = w_files w"
  by (auto simp: cc_oci_qmp_msg_send_def qmp_init_def c_bind_Inr Let_def case_prod_unfold keeps_files
      split: if_splits option.splits)

lemma vm_command_files:
  assumes "\<And>path w ok w'. cmd path w = Inr (ok, w') \<Longrightarrow> w_files w' = w_files w"
    and "vm_command cmd E H sp pid w = Inr (ok, w')"
  shows "w_files w' = w_files w"
  using assms(2)
  by (auto simp: vm_command_def cc_oci_vm_conn_new_def c_bind_Inr Let_def case_prod_unfold keeps_files
      dest!: assms(1) split: if_splits option.splits)

lemma toggle_files:
  "cc_oci_vm_pause E H sp pid w = Inr (ok, w') \<Longrightarrow> w_files w' = w_files w"
  "cc_oci_vm_resume E H sp pid w = Inr (ok, w') \<Longrightarrow> w_files w' = w_files w"
  by (auto simp: cc_oci_vm_pause_def cc_oci_vm_resume_def cc_oci_qmp_pause_def cc_oci_qmp_resume_def c_bind_Inr
      dest!: qmp_send_files elim!: vm_command_files [rotated])

subsection \<open>Configurations whose state file is the one looked at\<close>

definition at_path :: "string \<Rightarrow> cc_oci_config \<Rightarrow> bool" where
  "at_path p c \<longleftrightarrow> state_wf c \<and> path_join (runtime_path (cfg_state c)) CC_OCI_STATE_FILE = p"

lemma state_wf_fields [simp]:
  "state_wf (c\<lparr>cfg_proxy := x\<rparr>) = state_wf c"
  "state_wf (c\<lparr>cfg_bundle_path := b\<rparr>) = state_wf c"
  "state_wf (upd_status s c) = state_wf c"
  "state_wf (upd_process (proc_env_update f) c) = state_wf c"
  by (simp_all add: state_wf_def process_wf_def)

lemma at_path_fields [simp]:
  "at_path p (c\<lparr>cfg_proxy := x\<rparr>) = at_path p c"
  "at_path p (c\<lparr>cfg_bundle_path := b\<rparr>) = at_path p c"
  "at_path p (upd_status s c) = at_path p c"
  "at_path p (upd_process (proc_env_update f) c) = at_path p c"
  by (simp_all add: at_path_def)

lemma create_cases:
  assumes "cc_oci_state_file_create E c t w = (ok, c', w')"
  shows "c' = c \<or> cc_oci_state_file_get c = (True, c')"
    and "\<not> ok \<Longrightarrow> w_files w' = w_files w"
    and "ok \<Longrightarrow> t \<noteq> None \<and> cc_oci_state_file_get c = (True, c')"
  using assms
  by (auto simp: cc_oci_state_file_create_def cc_oci_state_file_get_def Let_def dest: sys_fail
      split: option.splits if_splits prod.splits)

lemma state_get_path:
  "cc_oci_state_file_get c = (True, c') \<Longrightarrow>
   state_file_path (cfg_state c') = path_join (runtime_path (cfg_state c)) CC_OCI_STATE_FILE"
  by (auto simp: cc_oci_state_file_get_def split: if_splits)

lemma state_get_keeps:
  "cc_oci_state_file_get c = (True, c') \<Longrightarrow> at_path p c' = at_path p c \<and> cfg_status c' = cfg_status c"
  by (auto simp: cc_oci_state_file_get_def at_path_def state_wf_def split: if_splits)

text \<open>Writing the state file: on success the phase is the status written, on failure nothing has changed.\<close>

lemma create_phase:
  assumes "json_glib_contract E" and "at_path p c" and "cc_oci_state_file_create E c t w = (ok, c', w')"
  shows "phase_at E p w' = (if ok then Some (cfg_status c) else phase_at E p w)"
    and "at_path p c'" and "cfg_status c' = cfg_status c"
proof -
  show "at_path p c'" "cfg_status c' = cfg_status c"
    using create_cases(1) [OF assms(3)] state_get_keeps assms(2) by blast+
  show "phase_at E p w' = (if ok then Some (cfg_status c) else phase_at E p w)"
  proof (cases ok)
    case True
    then obtain created where t: "t = Some created" and get: "cc_oci_state_file_get c = (True, c')"
      using create_cases(3) [OF assms(3)] by auto
    have path: "state_file_path (cfg_state c') = p"
      using state_get_path [OF get] assms(2) by (simp add: at_path_def)
    have "cc_oci_state_file_create E c (Some created) w = (True, c', w')" using assms(3) t True by simp
    then have "cc_oci_state_file_read E (Some p) w' = Inr (Some (state_saved c created))"
      using state_file_read_back [OF assms(1) _ _ refl, of c created w c' w'] assms(2)
      unfolding path by (simp add: at_path_def)
    then show ?thesis using True by (simp add: phase_at_def state_saved_def)
  next
    case False
    then show ?thesis using create_cases(2) [OF assms(3)] phase_cong by metis
  qed
qed

lemma env_home_keeps [simp]:
  "at_path p (set_env_home E c w) = at_path p c" "cfg_status (set_env_home E c w) = cfg_status c"
  by (simp_all add: set_env_home_def Let_def split: option.splits)

lemma new_pod_container_keeps:
  "at_path p (fst (snd (cc_proxy_hyper_new_pod_container E sd c cid pod rootfs img w))) = at_path p c"
  by (simp add: cc_proxy_hyper_new_pod_container_def cc_proxy_run_hyper_new_container_def Let_def case_prod_unfold
      split: option.splits)

lemma start_workload_keeps: "at_path p (fst (snd (start_workload E sd c w))) = at_path p c"
  by (simp add: start_workload_def cc_proxy_hyper_new_container_def cc_pod_container_start_def Let_def
      case_prod_unfold new_pod_container_keeps split: option.splits)

lemma kill_container_keeps:
  "at_path p (fst (snd (cc_proxy_hyper_kill_container E sd c signum w))) = at_path p c"
  "cfg_status (fst (snd (cc_proxy_hyper_kill_container E sd c signum w))) = cfg_status c"
  by (simp_all add: cc_proxy_hyper_kill_container_def Let_def case_prod_unfold split: option.splits)

subsection \<open>Signals\<close>

lemmas phase_quiet = keeps_files [THEN fun_cong, THEN phase_cong]

lemma create_results:
  assumes "json_glib_contract E" and "at_path p c"
  shows "phase_at E p (snd (snd (cc_oci_state_file_create E c t w))) =
      (if fst (cc_oci_state_file_create E c t w) then Some (cfg_status c) else phase_at E p w)"
    and "at_path p (fst (snd (cc_oci_state_file_create E c t w)))"
    and "cfg_status (fst (snd (cc_oci_state_file_create E c t w))) = cfg_status c"
  using create_phase [OF assms, of t w] by (simp_all add: prod_eq_iff)

lemma kill_phase:
  assumes "json_glib_contract E" and "at_path p c" and "phase_at E p w = Some (cfg_status c)"
    and "cc_oci_kill E sd c st signum w = (ret, c', w')"
  shows "if ret then phase_at E p w' = Some OCI_STATUS_STOPPED
    else phase_at E p w' = phase_at E p w \<or> phase_at E p w' = Some OCI_STATUS_STOPPING"
  using assms(2-)
  by (auto simp: cc_oci_kill_def Let_def case_prod_unfold create_results [OF assms(1)] phase_quiet kill_container_keeps
      prod_eq_iff split: if_splits)

subsection \<open>Pause and resume\<close>

lemma toggle_phase:
  assumes "json_glib_contract E" and "at_path p c" and "phase_at E p w = Some (st_status st)"
    and "cc_oci_toggle E H c st pause w = Inr (ret, c', w')"
  shows "phase_at E p w' =
    (if ret then Some (if pause then OCI_STATUS_PAUSED else OCI_STATUS_RUNNING) else phase_at E p w)"
proof -
  have quiet: "cc_oci_vm_pause E H sp pid w = Inr (ok, w1) \<Longrightarrow> phase_at E p w1 = phase_at E p w"
    "cc_oci_vm_resume E H sp pid w = Inr (ok, w1) \<Longrightarrow> phase_at E p w1 = phase_at E p w" for sp pid ok w1
    using toggle_files [THEN fun_cong, THEN phase_cong] by blast+
  show ?thesis
    using assms(2-)
    by (auto simp: cc_oci_toggle_def Let_def c_bind_Inr create_results [OF assms(1)] prod_eq_iff
        dest!: quiet split: if_splits)
qed


subsection \<open>Stop\<close>

text \<open>Cleaning up removes files and never writes one.\<close>

definition shrinks :: "string \<Rightarrow> world \<Rightarrow> world \<Rightarrow> bool" where
  "shrinks p w w' \<longleftrightarrow> w_files w' p = w_files w p \<or> w_files w' p = None"

lemma shrinks_refl: "w_files w' = w_files w \<Longrightarrow> shrinks p w w'"
  by (simp add: shrinks_def)

lemma shrinks_trans: "shrinks p a b \<Longrightarrow> shrinks p b c \<Longrightarrow> shrinks p a c"
  by (auto simp: shrinks_def)

lemma shrinks_phase: "shrinks p w w' \<Longrightarrow> phase_at E p w' = phase_at E p w \<or> phase_at E p w' = None"
  using phase_cong phase_no_file unfolding shrinks_def by metis

lemma rm_rf_shrinks: "shrinks p w (snd (cc_oci_rm_rf E d w))"
  by (simp add: shrinks_def cc_oci_rm_rf_def sys_def Let_def)

lemma remove_dirs_shrinks: "shrinks p w (remove_dirs_loop E ms w)"
proof (induction ms arbitrary: w)
  case (Cons m ms)
  show ?case
    using Cons.IH shrinks_trans [OF rm_rf_shrinks Cons.IH] by (simp split: option.splits)
qed (simp add: shrinks_def)

lemma unmount_loop_files: "w_files (snd (unmount_loop E ms w)) = w_files w"
  by (induction ms arbitrary: w) (simp_all add: cc_oci_perform_unmount_def Let_def case_prod_unfold keeps_files)

lemma unmounts_shrink: "shrinks p w (snd (cc_oci_handle_unmounts E c w))"
proof -
  have "shrinks p w (snd (unmount_loop E (cfg_mounts c) w))"
    by (rule shrinks_refl) (rule unmount_loop_files)
  then show ?thesis
    using shrinks_trans [OF _ remove_dirs_shrinks, of p w "snd (unmount_loop E (cfg_mounts c) w)"]
    by (simp add: cc_oci_handle_unmounts_def Let_def case_prod_unfold)
qed

lemma unlink_file: "w_files (snd (sys E (EvUnlink p) w)) p = (if os_ok E w (EvUnlink p) then None else w_files w p)"
  by (simp add: sys_def Let_def)

lemma cleanup_phase:
  assumes "state_file_path (cfg_state c) = p" and "cc_oci_cleanup E c w = Inr (ok, w')"
  shows "shrinks p w w'" and "ok \<Longrightarrow> w_files w' p = None"
proof -
  let ?w1 = "snd (cc_oci_handle_unmounts E c w)"
  let ?w2 = "snd (sys E (EvUnlink p) ?w1)"
  have step1: "shrinks p w ?w1" by (rule unmounts_shrink)
  have step2: "shrinks p ?w1 ?w2" by (auto simp: shrinks_def unlink_file)
  have step3: "shrinks p ?w2 (snd (cc_oci_runtime_dir_delete E c ?w2))"
    using rm_rf_shrinks shrinks_refl by (auto simp: cc_oci_runtime_dir_delete_def Let_def)
  have "w' = ?w1 \<and> \<not> ok \<or> w' = ?w2 \<and> \<not> ok \<or> w' = snd (cc_oci_runtime_dir_delete E c ?w2) \<and> os_ok E ?w1 (EvUnlink p)"
    using assms by (auto simp: cc_oci_cleanup_def cc_oci_state_file_delete_def Let_def case_prod_unfold c_bind_Inr
        prod_eq_iff sys_ok split: if_splits)
  then show "shrinks p w w'" and "ok \<Longrightarrow> w_files w' p = None"
    using step1 step2 step3 shrinks_trans unlink_file [of E p ?w1] by (auto simp: shrinks_def)
qed

lemma config_update_state:
  "state_file_path (cfg_state (fst (cc_oci_config_update c st))) = state_file_path (cfg_state c)"
  by (simp add: cc_oci_config_update_def Let_def split: option.splits)

lemma destroy_pod_state: "cfg_state (fst (snd (cc_proxy_hyper_destroy_pod E sd c w))) = cfg_state c"
  by (simp add: cc_proxy_hyper_destroy_pod_def Let_def case_prod_unfold split: option.splits)

lemma stop_phase:
  assumes "state_file_path (cfg_state c) = p" and "cc_oci_stop E sd c st w = Inr (ret, c', w')"
  shows "phase_at E p w' = None \<or> \<not> ret \<and> phase_at E p w' = phase_at E p w"
proof -
  have quiet: "w_files w0 = w_files w \<Longrightarrow> cc_oci_cleanup E c0 w0 = Inr (ok, w1) \<Longrightarrow> state_file_path (cfg_state c0) = p \<Longrightarrow>
      phase_at E p w1 = None \<or> \<not> ok \<and> phase_at E p w1 = phase_at E p w" for w0 c0 ok w1
    using cleanup_phase [of c0 p E w0 ok w1] shrinks_phase [of p w0 w1 E] phase_cong [of w0 p w E] phase_no_file [of w1 p E]
    by auto
  show ?thesis
    using assms
    by (auto simp: cc_oci_stop_def Let_def case_prod_unfold c_bind_Inr keeps_files phase_quiet config_update_state
        destroy_pod_state prod_eq_iff dest!: quiet [rotated] split: if_splits option.splits)
qed

subsection \<open>Reading the state again\<close>

lemma state_read:
  assumes "cc_oci_get_config_and_state E c w = Inr (True, c1, st_opt, f)"
    and "cfg_optarg_container_id c = Some cid" and "cfg_root_dir c = Some root"
  obtains st where "st_opt = Some st" and "state_typed st"
    and "phase_at E (container_state_path root cid) w = Some (st_status st)"
    and "path_join (runtime_path (cfg_state c1)) CC_OCI_STATE_FILE = container_state_path root cid"
    and "state_file_path (cfg_state c1) = container_state_path root cid"
    and "cfg_oci c1 = cfg_oci c" and "cfg_vm c1 = cfg_vm c"
    and "workload_pid (cfg_state c1) = st_pid st" and "cfg_status c1 = st_status st"
    and "cfg_optarg_container_id c1 = Some cid" and "cfg_root_dir c1 = Some root"
proof -
  obtain st where st: "st_opt = Some st"
    "cc_oci_state_file_read E (Some (container_state_path root cid)) w = Inr (Some st)"
    "c1 = state_into_config st (snd (cc_oci_state_file_get (snd (cc_oci_runtime_path_get c))))"
    using assms
    by (auto simp: cc_oci_get_config_and_state_def cc_oci_runtime_path_get_def cc_oci_state_file_get_def
        container_state_path_def c_bind_Inr Let_def split: option.splits if_splits)
  show thesis
    using st assms(2,3) state_read_well_typed [OF st(2)]
    by (intro that [of st])
      (auto simp: phase_at_def state_into_config_def cc_oci_runtime_path_get_def cc_oci_state_file_get_def
        container_state_path_def)
qed

subsection \<open>Start\<close>

text \<open>What a start does in the background, and up to the point where it waits in the foreground.\<close>

definition waits :: "env \<Rightarrow> cc_oci_config \<Rightarrow> bool" where
  "waits E c \<longleftrightarrow> os_isatty E \<and> \<not> cfg_detached_mode c \<and> cfg_pod c = None"

abbreviation ids :: "cc_oci_config \<Rightarrow> gchars \<times> gchars" where
  "ids c \<equiv> (cfg_optarg_container_id c, cfg_root_dir c)"

lemma env_home_ids: "ids (set_env_home E c w) = ids c"
  by (simp add: set_env_home_def Let_def split: option.splits)

lemma new_pod_container_ids:
  "ids (fst (snd (cc_proxy_hyper_new_pod_container E sd c cid pod rootfs img w))) = ids c"
  by (simp add: cc_proxy_hyper_new_pod_container_def cc_proxy_run_hyper_new_container_def Let_def case_prod_unfold
      env_home_ids [simplified] split: option.splits)

lemma start_workload_ids: "ids (fst (snd (start_workload E sd c w))) = ids c"
  by (simp add: start_workload_def cc_proxy_hyper_new_container_def cc_pod_container_start_def Let_def
      case_prod_unfold new_pod_container_ids [simplified] split: option.splits)

lemma create_ids: "ids (fst (snd (cc_oci_state_file_create E c t w))) = ids c"
proof -
  obtain ok c' w' where r: "cc_oci_state_file_create E c t w = (ok, c', w')" by (metis prod_cases3)
  from create_cases(1) [OF r] have "ids c' = ids c" by (auto simp: cc_oci_state_file_get_def split: if_splits)
  then show ?thesis by (simp add: r)
qed

text \<open>
  Waiting for the shim: \<open>R\<close> is what the other processes do to the phase meanwhile.  Afterwards the
  container is left alone if it was stopped, and otherwise removed.
\<close>

lemma start_wait_phase:
  assumes "start_wait E others c w = Inr (ret, c', w')" and "ids c = (Some cid, Some root)"
    and "p = container_state_path root cid" and "\<And>w. R (phase_at E p w) (phase_at E p (others w))"
  shows "\<exists>q. R\<^sup>*\<^sup>* (phase_at E p w) q
    \<and> (phase_at E p w' = q \<and> (ret \<longrightarrow> q \<in> {Some OCI_STATUS_STOPPED, Some OCI_STATUS_STOPPING})
       \<or> phase_at E p w' = None \<and> q \<notin> {Some OCI_STATUS_STOPPED, Some OCI_STATUS_STOPPING})"
proof -
  let ?w1 = "snd (sys E (EvOpen (shim_lock_path c)) w)"
  let ?w2 = "snd (sys E (EvFlock (shim_lock_path c)) (others ?w1))"
  have w1: "phase_at E p ?w1 = phase_at E p w" and w2: "phase_at E p ?w2 = phase_at E p (others ?w1)"
    by (simp_all add: phase_quiet)
  have during: "R\<^sup>*\<^sup>* (phase_at E p w) (phase_at E p ?w2)"
    using assms(4) [of ?w1] w1 w2 by (simp add: r_into_rtranclp)
  show ?thesis
  proof (cases "fst (sys E (EvOpen (shim_lock_path c)) w)")
    case False
    then have "\<not> ret \<and> w' = ?w1" using assms(1) by (auto simp: start_wait_def case_prod_unfold Let_def)
    then show ?thesis using w1 by (intro exI [of _ "phase_at E p w"]) simp
  next
    case True
    then have "\<not> ret \<and> w' = ?w2 \<or> (\<exists>c1 st f. cc_oci_get_config_and_state E c ?w2 = Inr (True, c1, st, f)
        \<and> (if cfg_status c1 \<noteq> OCI_STATUS_STOPPED \<and> cfg_status c1 \<noteq> OCI_STATUS_STOPPING
           then cc_oci_cleanup E c1 ?w2 = Inr (ret, w') else ret \<and> w' = ?w2))"
      using assms(1) by (auto simp: start_wait_def case_prod_unfold Let_def c_bind_Inr prod_eq_iff split: if_splits)
    then show ?thesis
    proof
      assume "\<not> ret \<and> w' = ?w2"
      then show ?thesis using during by blast
    next
      assume "\<exists>c1 st f. cc_oci_get_config_and_state E c ?w2 = Inr (True, c1, st, f)
        \<and> (if cfg_status c1 \<noteq> OCI_STATUS_STOPPED \<and> cfg_status c1 \<noteq> OCI_STATUS_STOPPING
           then cc_oci_cleanup E c1 ?w2 = Inr (ret, w') else ret \<and> w' = ?w2)"
      then obtain c1 st_opt f where read: "cc_oci_get_config_and_state E c ?w2 = Inr (True, c1, st_opt, f)"
        and fin: "if cfg_status c1 \<noteq> OCI_STATUS_STOPPED \<and> cfg_status c1 \<noteq> OCI_STATUS_STOPPING
           then cc_oci_cleanup E c1 ?w2 = Inr (ret, w') else ret \<and> w' = ?w2" by blast
      have st: "phase_at E p ?w2 = Some (cfg_status c1) \<and> state_file_path (cfg_state c1) = p"
        by (rule state_read [OF read, of cid root]) (use assms(2,3) in auto)
      have "phase_at E p w' = None \<or> \<not> ret \<and> phase_at E p w' = phase_at E p ?w2" if "cc_oci_cleanup E c1 ?w2 = Inr (ret, w')"
        using cleanup_phase [OF _ that, of p] st shrinks_phase [of p ?w2 w' E] phase_no_file [of w' p E] by auto
      then show ?thesis using fin st during by (intro exI [of _ "phase_at E p ?w2"]) (auto split: if_splits)
    qed
  qed
qed

text \<open>The steps of a start, up to the point where it returns or begins to wait.\<close>

lemma start_parts:
  assumes "st_status st = OCI_STATUS_CREATED" and "c1 = start_bundle E sd c w"
    and "m = (if waits E c1 \<and> os_stat E w (procsock_path (cfg_state c1)) = None
      then sys E (EvMonitor (procsock_path (cfg_state c1))) w else (True, w))"
    and "a = start_workload E sd c1 (snd m)"
    and "b = cc_oci_state_file_create E (upd_status OCI_STATUS_RUNNING (fst (snd a))) (st_create_time st) (snd (snd a))"
    and "w4 = snd (cc_run_hooks E (hooks_poststart (cfg_hooks (fst (snd b)))) (state_file_path (cfg_state (fst (snd b)))) False
      (snd (snd b)))"
  shows "cc_oci_start E sd others c st w =
    (if \<not> fst m then Inr (False, c1, snd m)
     else if \<not> fst a then Inr (False, snd a)
     else if \<not> fst b then Inr (False, snd b)
     else if \<not> waits E c1 then Inr (True, fst (snd b), w4)
     else start_wait E others (fst (snd b))
            (if os_stat E w (procsock_path (cfg_state c1)) = None then others w4 else w4))"
  using assms by (simp add: cc_oci_start_def waits_def case_prod_unfold Let_def)

lemma start_phase:
  assumes "json_glib_contract E" and "at_path p c" and "ids c = (Some cid, Some root)" and "p = container_state_path root cid"
    and "\<And>w. R (phase_at E p w) (phase_at E p (others w))" and "cc_oci_start E sd others c st w = Inr (ret, c', w')"
  shows "\<not> ret \<and> phase_at E p w' = phase_at E p w
    \<or> st_status st = OCI_STATUS_CREATED
      \<and> (ret \<and> phase_at E p w' = Some OCI_STATUS_RUNNING
         \<or> os_isatty E \<and> (\<exists>q. R\<^sup>*\<^sup>* (Some OCI_STATUS_RUNNING) q
            \<and> (phase_at E p w' = q \<and> (ret \<longrightarrow> q \<in> {Some OCI_STATUS_STOPPED, Some OCI_STATUS_STOPPING})
               \<or> phase_at E p w' = None \<and> q \<notin> {Some OCI_STATUS_STOPPED, Some OCI_STATUS_STOPPING})))"
proof (cases "st_status st = OCI_STATUS_CREATED")
  case False
  then show ?thesis using assms(6) by (auto simp: cc_oci_start_def phase_quiet split: if_splits)
next
  case True
  define c1 where "c1 = start_bundle E sd c w"
  define m where "m = (if waits E c1 \<and> os_stat E w (procsock_path (cfg_state c1)) = None
      then sys E (EvMonitor (procsock_path (cfg_state c1))) w else (True, w))"
  define a where "a = start_workload E sd c1 (snd m)"
  define b where "b = cc_oci_state_file_create E (upd_status OCI_STATUS_RUNNING (fst (snd a))) (st_create_time st) (snd (snd a))"
  define w4 where "w4 = snd (cc_run_hooks E (hooks_poststart (cfg_hooks (fst (snd b)))) (state_file_path (cfg_state (fst (snd b))))
      False (snd (snd b)))"
  note run = assms(6) [unfolded start_parts [OF True c1_def m_def a_def b_def w4_def]]
  have c1: "at_path p c1" "ids c1 = ids c" using assms(2) by (simp_all add: c1_def start_bundle_def split: option.splits)
  have wm: "phase_at E p (snd m) = phase_at E p w" by (simp add: m_def phase_quiet)
  have wa: "phase_at E p (snd (snd a)) = phase_at E p w" "at_path p (fst (snd a))" "ids (fst (snd a)) = ids c"
    using wm c1 start_workload_ids [of E sd c1 "snd m"] by (simp_all add: a_def phase_quiet start_workload_keeps)
  have wb: "phase_at E p (snd (snd b)) = (if fst b then Some OCI_STATUS_RUNNING else phase_at E p w)" "ids (fst (snd b)) = ids c"
    using create_results(1) [OF assms(1), of p "upd_status OCI_STATUS_RUNNING (fst (snd a))"] wa
      create_ids [of E "upd_status OCI_STATUS_RUNNING (fst (snd a))"] by (simp_all add: b_def)
  have w4: "phase_at E p w4 = phase_at E p (snd (snd b))" by (simp add: w4_def phase_quiet)
  show ?thesis
  proof (cases "fst m \<and> fst a \<and> fst b \<and> waits E c1")
    case False
    then show ?thesis using run wm wa(1) wb(1) w4 True by (auto split: if_splits)
  next
    case wait: True
    let ?w5 = "if os_stat E w (procsock_path (cfg_state c1)) = None then others w4 else w4"
    have "start_wait E others (fst (snd b)) ?w5 = Inr (ret, c', w')" using run wait by simp
    moreover have "R\<^sup>*\<^sup>* (Some OCI_STATUS_RUNNING) (phase_at E p ?w5)"
      using assms(5) [of w4] w4 wb(1) wait by (simp add: r_into_rtranclp)
    moreover have "os_isatty E" using wait by (simp add: waits_def)
    ultimately show ?thesis
      using start_wait_phase [of E others "fst (snd b)" ?w5 ret c' w' cid root p R] wb(2) assms(3-5) True rtranclp_trans [of R]
      by metis
  qed
qed

end
