(* ===== verification/LifeProps.thy ===== *)
theory LifeProps
  imports LifeSpec
begin

section \<open>The commands refine the life cycle\<close>

text \<open>
  The specification: what a command may do to the phase of a container, by its name and its result.
  A failed kill may leave a container that is stopping; a delete that reports success has removed
  the container or found nothing to do.  On a terminal (\<open>tty\<close>) a start may wait in the foreground until the shim
  has ended.  \<open>R\<close> is what other processes, such as another command, do to the phase in that time.  Then the
  start leaves a container that was stopped and removes any other; if it reports success it did one of the two.
\<close>

datatype life_cmd = CmdStart | CmdKill gchars | CmdPause | CmdResume | CmdDelete

inductive life_step ::
  "bool \<Rightarrow> (oci_status option \<Rightarrow> oci_status option \<Rightarrow> bool) \<Rightarrow> life_cmd \<Rightarrow> bool \<Rightarrow> oci_status option \<Rightarrow> oci_status option \<Rightarrow> bool"
for tty R where
  fails: "life_step tty R cmd False p p"
| starts: "life_step tty R CmdStart True (Some OCI_STATUS_CREATED) (Some OCI_STATUS_RUNNING)"
| waits_stopped: "tty \<Longrightarrow> R\<^sup>*\<^sup>* (Some OCI_STATUS_RUNNING) q \<Longrightarrow>
    (ret \<longrightarrow> q \<in> {Some OCI_STATUS_STOPPED, Some OCI_STATUS_STOPPING}) \<Longrightarrow>
    life_step tty R CmdStart ret (Some OCI_STATUS_CREATED) q"
| waits_removes: "tty \<Longrightarrow> R\<^sup>*\<^sup>* (Some OCI_STATUS_RUNNING) q \<Longrightarrow> q \<notin> {Some OCI_STATUS_STOPPED, Some OCI_STATUS_STOPPING} \<Longrightarrow>
    life_step tty R CmdStart ret (Some OCI_STATUS_CREATED) None"
| kills: "life_step tty R (CmdKill sig) True (Some s) (Some OCI_STATUS_STOPPED)"
| kill_stuck: "life_step tty R (CmdKill sig) False (Some s) (Some OCI_STATUS_STOPPING)"
| pauses: "life_step tty R CmdPause True (Some s) (Some OCI_STATUS_PAUSED)"
| resumes: "life_step tty R CmdResume True (Some s) (Some OCI_STATUS_RUNNING)"
| deletes: "life_step tty R CmdDelete ret (Some s) None"
| delete_nothing: "life_step tty R CmdDelete True p p"

inductive_cases life_step_killE: "life_step tty R (CmdKill sig) ret p p'"

fun cmd_name :: "life_cmd \<Rightarrow> string" where
  "cmd_name CmdStart = ''start''"
| "cmd_name (CmdKill _) = ''kill''"
| "cmd_name CmdPause = ''pause''"
| "cmd_name CmdResume = ''resume''"
| "cmd_name CmdDelete = ''delete''"

fun cmd_args :: "life_cmd \<Rightarrow> string list" where
  "cmd_args (CmdKill (Some sig)) = [sig]"
| "cmd_args _ = []"

text \<open>A command given to the program, without options.\<close>

definition life_command ::
  "surroundings \<Rightarrow> start_data \<Rightarrow> string \<Rightarrow> string \<Rightarrow> life_cmd \<Rightarrow> world \<Rightarrow> (bool \<times> world) outcome option" where
  "life_command S sd root cid cmd w =
     sub_handler S (cmd_name cmd) (no_options sd (cid # cmd_args cmd)) (cc_oci_config_create\<lparr>cfg_root_dir := Some root\<rparr>) w"

subsection \<open>What a command knows after reading the state\<close>

lemma usage_skipped:
  assumes "cid \<noteq> ''--help''" and "cid \<noteq> ''-h''"
  shows "handle_default_usage E (cid # args) name 1 extra w = (None, w)"
  using assms by (simp add: handle_default_usage_def)

lemma update_at_path:
  assumes "state_typed st" and "workload_pid (cfg_state c) = st_pid st" and "cfg_oci c = cfg_oci zero_config"
    and "cfg_vm c = None" and "path_join (runtime_path (cfg_state c)) CC_OCI_STATE_FILE = p"
  shows "at_path p (fst (cc_oci_config_update c st))"
    and "cfg_status (fst (cc_oci_config_update c st)) = cfg_status c"
    and "st_status (snd (cc_oci_config_update c st)) = st_status st"
proof -
  show "cfg_status (fst (cc_oci_config_update c st)) = cfg_status c"
    "st_status (snd (cc_oci_config_update c st)) = st_status st"
    by (simp_all add: cc_oci_config_update_def Let_def split: option.splits)
  show "at_path p (fst (cc_oci_config_update c st))"
    using assms
    by (auto simp: at_path_def state_wf_def cc_oci_config_update_def Let_def state_typed_def vm_typed_def process_wf_def
        zero_config_def zero_process_def is_gint_def PATH_MAX_def split: option.splits)
qed


subsection \<open>The commands\<close>

abbreviation fresh_config :: "string \<Rightarrow> string \<Rightarrow> cc_oci_config" where
  "fresh_config root cid \<equiv> cc_oci_config_create\<lparr>cfg_root_dir := Some root, cfg_optarg_container_id := Some cid\<rparr>"

text \<open>The commands that rewrite the state all begin by reading it and updating the configuration.\<close>

lemma ready_config:
  assumes "cc_oci_get_config_and_state E (fresh_config root cid) w = Inr (True, c1, st_opt, f)"
  obtains st where "st_opt = Some st" and "phase_at E (container_state_path root cid) w = Some (st_status st)"
    and "at_path (container_state_path root cid) (fst (cc_oci_config_update c1 st))"
    and "cfg_status (fst (cc_oci_config_update c1 st)) = st_status st"
    and "st_status (snd (cc_oci_config_update c1 st)) = st_status st"
    and "ids (fst (cc_oci_config_update c1 st)) = (Some cid, Some root)"
proof -
  obtain st where st: "st_opt = Some st" "state_typed st"
    "phase_at E (container_state_path root cid) w = Some (st_status st)"
    "path_join (runtime_path (cfg_state c1)) CC_OCI_STATE_FILE = container_state_path root cid"
    "cfg_oci c1 = cfg_oci (fresh_config root cid)" "cfg_vm c1 = cfg_vm (fresh_config root cid)"
    "workload_pid (cfg_state c1) = st_pid st" "cfg_status c1 = st_status st"
    "ids c1 = (Some cid, Some root)"
    by (rule state_read [OF assms]) auto
  moreover have "ids (fst (cc_oci_config_update c1 st)) = ids c1"
    by (simp add: cc_oci_config_update_def Let_def split: option.splits)
  moreover have "cfg_oci c1 = cfg_oci zero_config" "cfg_vm c1 = None"
    using st(5,6) by (simp_all add: cc_oci_config_create_def zero_config_def)
  ultimately show thesis
    using st update_at_path [of st c1 "container_state_path root cid"] by (intro that [of st]) simp_all
qed

lemma after_reading:
  assumes "with_state E (no_options sd (cid # args)) (cc_oci_config_create\<lparr>cfg_root_dir := Some root\<rparr>) w act = Ret (ret, w')"
  shows "\<not> ret \<and> w' = w \<or>
    (\<exists>c st. phase_at E (container_state_path root cid) w = Some (st_status st)
      \<and> at_path (container_state_path root cid) c \<and> ids c = (Some cid, Some root)
      \<and> cfg_status c = st_status st \<and> act c st = Ret (ret, w'))"
proof -
  obtain got c1 st_opt f where
    r: "cc_oci_get_config_and_state E (fresh_config root cid) w = Inr (got, c1, st_opt, f)"
    and k: "(case (got, st_opt) of
        (True, Some st) \<Rightarrow> (case cc_oci_config_update c1 st of (c2, st') \<Rightarrow> act c2 st')
      | _ \<Rightarrow> Ret (False, w)) = Ret (ret, w')"
    using assms by (auto simp: with_state_def read_state_def no_options_def o_bind_Ret)
  show ?thesis
  proof (cases got)
    case True
    then have "cc_oci_get_config_and_state E (fresh_config root cid) w = Inr (True, c1, st_opt, f)" using r by simp
    then obtain st where "st_opt = Some st" "phase_at E (container_state_path root cid) w = Some (st_status st)"
      "at_path (container_state_path root cid) (fst (cc_oci_config_update c1 st))"
      "cfg_status (fst (cc_oci_config_update c1 st)) = st_status st"
      "st_status (snd (cc_oci_config_update c1 st)) = st_status st"
      "ids (fst (cc_oci_config_update c1 st)) = (Some cid, Some root)"
      by (rule ready_config)
    then show ?thesis
      using k True by (intro disjI2 exI [of _ "fst (cc_oci_config_update c1 st)"] exI [of _ "snd (cc_oci_config_update c1 st)"])
        (simp add: case_prod_unfold)
  qed (use k in auto)
qed

lemma drop_config_Ret: "drop_config r = Ret (ok, w) \<longleftrightarrow> (\<exists>c. r = (ok, c, w))"
  by (auto simp: drop_config_def split: prod.splits)

lemma start_refines:
  assumes "json_glib_contract E" and "cid \<noteq> ''--help''" and "cid \<noteq> ''-h''"
    and "\<And>w. R (phase_at E (container_state_path root cid) w) (phase_at E (container_state_path root cid) (others w))"
    and "handler_start E others (no_options sd [cid]) (cc_oci_config_create\<lparr>cfg_root_dir := Some root\<rparr>) w = Ret (ret, w')"
  shows "life_step (os_isatty E) R CmdStart ret (phase_at E (container_state_path root cid) w)
    (phase_at E (container_state_path root cid) w')"
proof -
  let ?p = "container_state_path root cid"
  have "with_state E (no_options sd [cid]) (cc_oci_config_create\<lparr>cfg_root_dir := Some root\<rparr>) w
      (\<lambda>c st. o_bind (of_result (cc_oci_start E sd others c st w)) drop_config) = Ret (ret, w')"
    using assms(5) usage_skipped [OF assms(2,3)] by (simp add: handler_start_def no_options_def)
  from after_reading [OF this] show ?thesis
  proof
    assume "\<not> ret \<and> w' = w"
    then show ?thesis by (simp add: life_step.fails)
  next
    assume "\<exists>c st. phase_at E ?p w = Some (st_status st) \<and> at_path ?p c \<and> ids c = (Some cid, Some root)
      \<and> cfg_status c = st_status st \<and> o_bind (of_result (cc_oci_start E sd others c st w)) drop_config = Ret (ret, w')"
    then obtain c st c' where c: "phase_at E ?p w = Some (st_status st)" "at_path ?p c" "ids c = (Some cid, Some root)"
      "cc_oci_start E sd others c st w = Inr (ret, c', w')"
      by (auto simp: o_bind_Ret drop_config_Ret)
    from start_phase [where R = R and others = others, OF assms(1) c(2,3) refl assms(4) c(4)] show ?thesis
      using c(1) by (elim disjE conjE exE) (auto intro: life_step.intros)
  qed
qed

lemma kill_refines:
  assumes "json_glib_contract E" and "cid \<noteq> ''--help''" and "cid \<noteq> ''-h''"
    and "handler_kill E (no_options sd (cid # args)) (cc_oci_config_create\<lparr>cfg_root_dir := Some root\<rparr>) w = Ret (ret, w')"
  shows "life_step tty R (CmdKill sig) ret (phase_at E (container_state_path root cid) w) (phase_at E (container_state_path root cid) w')"
proof (cases "kill_signal (cid # args) < 0")
  case True
  then show ?thesis
    using assms(4) usage_skipped [OF assms(2,3)] by (auto simp: handler_kill_def no_options_def intro: life_step.intros)
next
  case False
  let ?p = "container_state_path root cid"
  have "with_state E (no_options sd (cid # args)) (cc_oci_config_create\<lparr>cfg_root_dir := Some root\<rparr>) w
      (\<lambda>c st. drop_config (cc_oci_kill E sd c st (kill_signal (cid # args)) w)) = Ret (ret, w')"
    using assms(4) usage_skipped [OF assms(2,3)] False by (simp add: handler_kill_def no_options_def)
  from after_reading [OF this] show ?thesis
    using kill_phase [OF assms(1), of ?p _ w sd _ "kill_signal (cid # args)" ret _ w']
    by (fastforce simp: drop_config_Ret intro: life_step.intros split: if_splits)
qed

lemma toggle_refines:
  assumes "json_glib_contract E" and "cid \<noteq> ''--help''" and "cid \<noteq> ''-h''"
    and "handle_command_toggle E H name pause (no_options sd [cid]) (cc_oci_config_create\<lparr>cfg_root_dir := Some root\<rparr>) w
      = Ret (ret, w')"
  shows "life_step tty R (if pause then CmdPause else CmdResume) ret (phase_at E (container_state_path root cid) w)
    (phase_at E (container_state_path root cid) w')"
proof -
  let ?p = "container_state_path root cid"
  have "with_state E (no_options sd [cid]) (cc_oci_config_create\<lparr>cfg_root_dir := Some root\<rparr>) w
      (\<lambda>c st. o_bind (of_result (cc_oci_toggle E H c st pause w)) (\<lambda>(ok, c', w2).
        Ret (ok, if ok then g_print E ((if pause then ''pause'' else ''resume'') @ ''d container ''
          @ fmt_s (cfg_optarg_container_id c') @ [CHR 10]) w2 else w2))) = Ret (ret, w')"
    using assms(4) usage_skipped [OF assms(2,3)] by (simp add: handle_command_toggle_def no_options_def)
  from after_reading [OF this] show ?thesis
    using toggle_phase [OF assms(1), of ?p _ w _ H pause]
    by (fastforce simp: o_bind_Ret g_print_def phase_quiet intro: life_step.intros split: if_splits)
qed


text \<open>The hooks of the configuration are all that a delete takes from \<^verbatim>\<open>config.json\<close>.\<close>

lemma hooks_section_state: "cfg_state (snd (hooks_handle_section root c)) = cfg_state c"
proof -
  have "cfg_state (fst (fold handle_hooks_section nodes acc)) = cfg_state (fst acc)" for nodes acc
    by (induction nodes arbitrary: acc) (simp_all add: handle_hooks_section_def Let_def case_prod_unfold)
  then show ?thesis by (simp add: hooks_handle_section_def Let_def case_prod_unfold)
qed

lemma config_strings_state: "cfg_state (config_strings node c) = cfg_state c"
  by (simp add: config_strings_def split: list.splits)

lemma stop_handlers_state:
  "process_config_loop E w stop_spec_handlers nodes c = Inr (ok, c') \<Longrightarrow> cfg_state c' = cfg_state c"
proof (induction nodes arbitrary: c)
  case (Cons node nodes)
  show ?case
  proof (cases "gdata node")
    case (Some name)
    have "cfg_state (snd (hooks_handle_section node (config_strings node c))) = cfg_state c"
      by (simp add: hooks_section_state config_strings_state)
    then show ?thesis
      using Cons.prems Some Cons.IH config_strings_state
      by (cases "name = ''hooks''")
        (auto simp: stop_spec_handlers_def hooks_spec_handler_def prod_eq_iff Let_def case_prod_unfold split: if_splits)
  qed (use Cons in simp)
qed simp

lemma delete_refines:
  assumes "cid \<noteq> ''--help''" and "cid \<noteq> ''-h''"
    and "handle_command_stop E name (no_options sd [cid]) (cc_oci_config_create\<lparr>cfg_root_dir := Some root\<rparr>) w = Ret (ret, w')"
  shows "life_step tty R CmdDelete ret (phase_at E (container_state_path root cid) w) (phase_at E (container_state_path root cid) w')"
proof -
  let ?p = "container_state_path root cid"
  obtain there c1 where exists: "cc_oci_state_file_exists E (fresh_config root cid) w = (there, c1)" by fastforce
  have c1: "cfg_optarg_container_id c1 = Some cid" "cfg_root_dir c1 = Some root"
    using exists
    by (auto simp: cc_oci_state_file_exists_def cc_oci_runtime_path_get_def cc_oci_state_file_get_def Let_def split: if_splits)
  note run = assms(3) [unfolded handle_command_stop_def no_options_def options.simps usage_skipped [OF assms(1,2)] list.sel(1)
      option.case prod.case Let_def exists]
  show ?thesis
  proof (cases there)
    case True
    then obtain got c2 st_opt f where read: "cc_oci_get_config_and_state E c1 w = Inr (got, c2, st_opt, f)"
      using run by (auto simp: o_bind_Ret)
    show ?thesis
    proof (cases got)
      case got: True
      have read': "cc_oci_get_config_and_state E c1 w = Inr (True, c2, st_opt, f)" using read got by simp
      obtain st where st: "st_opt = Some st" "phase_at E ?p w = Some (st_status st)" "state_file_path (cfg_state c2) = ?p"
        by (rule state_read [OF read' c1]) auto
      have stop: "life_step tty R CmdDelete ret0 (phase_at E ?p w) (phase_at E ?p w0)"
        if "cc_oci_process_config E w node c2 stop_spec_handlers = Inr (ok, c3)"
          "cc_oci_stop E sd c3 st w = Inr (ret0, c4, w0)" for node ok c3 ret0 c4 w0
        using stop_phase [OF _ that(2), of ?p] stop_handlers_state that(1) st(2,3)
        by (auto simp: cc_oci_process_config_def intro: life_step.intros)
      show ?thesis
        using run True read got st
        by (auto simp: o_bind_Ret g_print_def phase_quiet dest: stop intro: life_step.intros split: option.splits if_splits)
    qed (use run True read in \<open>auto intro: life_step.intros\<close>)
  qed (use run in \<open>auto intro: life_step.intros\<close>)
qed


subsection \<open>Properties\<close>

lemmas command_refines = start_refines kill_refines toggle_refines delete_refines

lemma command_step:
  assumes "json_glib_contract (su_env S)" and "cid \<noteq> ''--help''" and "cid \<noteq> ''-h''"
    and "\<And>w. R (phase_at (su_env S) (container_state_path root cid) w)
      (phase_at (su_env S) (container_state_path root cid) (su_others S w))"
    and "life_command S sd root cid cmd w = Some (Ret (ret, w'))"
  shows "life_step (os_isatty (su_env S)) R cmd ret (phase_at (su_env S) (container_state_path root cid) w)
    (phase_at (su_env S) (container_state_path root cid) w')"
proof (cases cmd)
  case (CmdKill sig)
  then show ?thesis
    using kill_refines [OF assms(1-3)] assms(5) by (simp add: life_command_def sub_handler_def Let_def)
qed (use start_refines [where R = R and others = "su_others S", OF assms(1-4)] toggle_refines [OF assms(1-3), where pause = True]
      toggle_refines [OF assms(1-3), where pause = False] delete_refines [OF assms(2,3)] assms(5)
    in \<open>simp_all add: life_command_def sub_handler_def Let_def\<close>)

text \<open>
  C1. Refinement: every command of the life cycle (start, kill, pause, resume, delete), whatever the
  world answers, on a terminal or not and whether it succeeds or not, takes the phase of its container,
  that is the status that can be read from its state file, to one the specification allows.  While a start
  waits in the foreground the other processes may change the phase by any relation \<open>R\<close>.  Relies on
  json-glib reading what it wrote.
\<close>

theorem lifecycle_refines:
  assumes "json_glib_contract (su_env S)" and "cid \<noteq> ''--help''" and "cid \<noteq> ''-h''"
    and "\<And>w. R (phase_at (su_env S) (container_state_path root cid) w)
      (phase_at (su_env S) (container_state_path root cid) (su_others S w))"
    and "life_command S sd root cid cmd w = Some (Ret (ret, w'))"
  shows "life_step (os_isatty (su_env S)) R cmd ret (phase_at (su_env S) (container_state_path root cid) w)
    (phase_at (su_env S) (container_state_path root cid) w')"
  using assms by (rule command_step)

definition calm_surroundings :: surroundings where
  "calm_surroundings = \<lparr>su_env = calm_env (\<lambda>_. None), su_host = calm_host, su_others = id, su_events = [], su_commit = [],
     su_uid = 0\<rparr>"

definition plain_sd :: start_data where
  "plain_sd = \<lparr>sd_bundle = None, sd_console = None, sd_pid_file = None, sd_detach = False, sd_dry_run_mode = False,
     sd_allocate_tty = False, sd_user = \<lparr>user_uid = 0, user_gid = 0\<rparr>, sd_shim_path = None, sd_proxy_socket_path = None\<rparr>"

abbreviation sample_ready :: "cc_oci_config \<times> oci_state" where
  "sample_ready \<equiv> cc_oci_config_update (state_into_config (state_saved sample_config ''t'')
     (snd (cc_oci_state_file_get (snd (cc_oci_runtime_path_get (fresh_config ''/run'' ''c1'')))))) (state_saved sample_config ''t'')"

lemma sample_read_again:
  assumes "cc_oci_state_file_read (calm_env (\<lambda>_. None)) (Some ''/run/c1/state.json'') w =
    Inr (Some (state_saved sample_config ''t''))"
  shows "with_state (calm_env (\<lambda>_. None)) (no_options plain_sd [''c1'']) (cc_oci_config_create\<lparr>cfg_root_dir := Some ''/run''\<rparr>) w act
    = act (fst sample_ready) (snd sample_ready)"
  using assms
  by (simp add: with_state_def read_state_def no_options_def cc_oci_get_config_and_state_def cc_oci_runtime_path_get_def
      cc_oci_state_file_get_def c_string_simps cc_oci_config_create_def zero_config_def path_join_def CC_OCI_STATE_FILE_def
      PATH_MAX_def cc_oci_config_file_path_def cc_oci_get_bundlepath_file_def state_saved_def sample_config_def
      CC_OCI_CONFIG_FILE_def case_prod_unfold)

lemma sample_killed: "fst (cc_oci_kill (calm_env (\<lambda>_. None)) sd (fst sample_ready) (snd sample_ready) SIGTERM w)"
  by (simp add: cc_oci_kill_def cc_oci_config_update_def state_into_config_def cc_oci_runtime_path_get_def
      cc_oci_state_file_get_def c_string_simps cc_oci_config_create_def path_join_def CC_OCI_STATE_FILE_def PATH_MAX_def
      state_saved_def sample_config_def zero_defs cc_pod_is_sandbox_def cc_oci_state_file_create_def Let_def sys_def
      calm_env_def SIGTERM_def SIGKILL_def SIGSTOP_def cc_oci_status_get_def cc_oci_status_to_str_def oci_status_map_def
      cc_oci_process_to_json_def strlcpy_def vm_saved_def pod_saved_def process_saved_def
      strv_norm_def)

lemma sample_kill_command:
  assumes "cc_oci_state_file_read (calm_env (\<lambda>_. None)) (Some ''/run/c1/state.json'') w =
    Inr (Some (state_saved sample_config ''t''))"
  shows "\<exists>w'. life_command calm_surroundings plain_sd ''/run'' ''c1'' (CmdKill None) w = Some (Ret (True, w'))"
  using sample_read_again [OF assms] sample_killed [of plain_sd w]
  by (cases "cc_oci_kill (calm_env (\<lambda>_. None)) plain_sd (fst sample_ready) (snd sample_ready) SIGTERM w")
    (simp add: life_command_def sub_handler_def Let_def calm_surroundings_def handler_kill_def no_options_def
      usage_skipped kill_signal_def drop_config_Ret SIGTERM_def)

lemma sample_written:
  obtains w where "cc_oci_state_file_read (calm_env (\<lambda>_. None)) (Some ''/run/c1/state.json'') w =
    Inr (Some (state_saved sample_config ''t''))"
proof -
  obtain config' w' where run:
    "cc_oci_state_file_create (calm_env (\<lambda>_. None)) sample_config (Some ''t'') empty_world = (True, config', w')"
    using sample_config_created
    by (cases "cc_oci_state_file_create (calm_env (\<lambda>_. None)) sample_config (Some ''t'') empty_world") auto
  moreover from run have "state_file_path (cfg_state config') = ''/run/c1/state.json''"
    by (auto simp: cc_oci_state_file_create_def sample_config_def cc_oci_state_file_get_def path_join_def c_string_simps
      cc_oci_status_get_def cc_oci_status_to_str_def oci_status_map_def cc_oci_process_to_json_def PATH_MAX_def
      CC_OCI_STATE_FILE_def zero_defs Let_def case_prod_unfold)
  ultimately show thesis
    using state_file_read_back [OF calm_json sample_config_wf run refl] that [of w'] by simp
qed

theorem lifecycle_refines_witness:
  "\<exists>w w'. life_command calm_surroundings plain_sd ''/run'' ''c1'' (CmdKill None) w = Some (Ret (True, w'))
     \<and> phase_at (su_env calm_surroundings) (container_state_path ''/run'' ''c1'') w' = Some OCI_STATUS_STOPPED"
proof -
  obtain w w' where run: "life_command calm_surroundings plain_sd ''/run'' ''c1'' (CmdKill None) w = Some (Ret (True, w'))"
    using sample_written sample_kill_command by meson
  have "json_glib_contract (su_env calm_surroundings)"
    using calm_json by (simp add: calm_surroundings_def)
  from lifecycle_refines [where R = "(=)", OF this _ _ _ run] show ?thesis
    using run by (auto simp: calm_surroundings_def elim: life_step_killE)
qed

text \<open>Commands given one after another, each when the one before has returned.\<close>

fun life_commands ::
  "surroundings \<Rightarrow> start_data \<Rightarrow> string \<Rightarrow> string \<Rightarrow> life_cmd list \<Rightarrow> world \<Rightarrow> world option" where
  "life_commands S sd root cid [] w = Some w"
| "life_commands S sd root cid (cmd # cmds) w =
     (case life_command S sd root cid cmd w of
        Some (Ret (_, w')) \<Rightarrow> life_commands S sd root cid cmds w'
      | _ \<Rightarrow> None)"

lemma not_revived_step:
  assumes "life_step tty R cmd ret p p'" and "cmd \<noteq> CmdResume" and "p \<notin> {Some OCI_STATUS_CREATED, Some OCI_STATUS_RUNNING}"
  shows "p' \<notin> {Some OCI_STATUS_CREATED, Some OCI_STATUS_RUNNING}"
  using assms by cases auto

text \<open>
  C10. Safety over sequences of commands: a container that is neither created nor running (stopped,
  stopping, paused, or deleted) is not brought back to life by any sequence of start, kill, pause
  and delete commands, whatever each of them meets; only resume does that.
\<close>

theorem never_revived:
  assumes "json_glib_contract (su_env S)" and "cid \<noteq> ''--help''" and "cid \<noteq> ''-h''"
    and "phase_at (su_env S) (container_state_path root cid) w \<notin> {Some OCI_STATUS_CREATED, Some OCI_STATUS_RUNNING}"
    and "CmdResume \<notin> set cmds" and "life_commands S sd root cid cmds w = Some w'"
  shows "phase_at (su_env S) (container_state_path root cid) w' \<notin> {Some OCI_STATUS_CREATED, Some OCI_STATUS_RUNNING}"
  using assms(4-)
proof (induction cmds arbitrary: w)
  case (Cons cmd cmds)
  then obtain ret w1 where one: "life_command S sd root cid cmd w = Some (Ret (ret, w1))"
    and rest: "life_commands S sd root cid cmds w1 = Some w'"
    by (auto split: option.splits outcome.splits)
  show ?case
    using not_revived_step [OF command_step [where R = "\<lambda>_ _. True", OF assms(1-3) _ one]] Cons.prems(1,2) Cons.IH [OF _ _ rest] by auto
qed simp

theorem never_revived_witness:
  "\<exists>w w'. phase_at (su_env calm_surroundings) (container_state_path ''/run'' ''c1'') w = Some OCI_STATUS_STOPPED
     \<and> life_commands calm_surroundings plain_sd ''/run'' ''c1'' [CmdKill (Some ''XYZ''), CmdKill (Some ''XYZ'')] w = Some w'
     \<and> phase_at (su_env calm_surroundings) (container_state_path ''/run'' ''c1'') w' \<noteq> Some OCI_STATUS_RUNNING"
proof -
  have E: "json_glib_contract (su_env calm_surroundings)"
    using calm_json by (simp add: calm_surroundings_def)
  obtain w0 w where "life_command calm_surroundings plain_sd ''/run'' ''c1'' (CmdKill None) w0 = Some (Ret (True, w))"
    using sample_written sample_kill_command by meson
  from command_step [where R = "\<lambda>_ _. True", OF E _ _ _ this]
  have w: "phase_at (su_env calm_surroundings) (container_state_path ''/run'' ''c1'') w = Some OCI_STATUS_STOPPED"
    by (auto elim: life_step_killE)
  have "kill_signal [''c1'', ''XYZ''] < 0" by code_simp
  then have run: "life_commands calm_surroundings plain_sd ''/run'' ''c1'' [CmdKill (Some ''XYZ''), CmdKill (Some ''XYZ'')] w = Some w"
    by (simp add: life_command_def sub_handler_def Let_def handler_kill_def no_options_def usage_skipped)
  show ?thesis
    using w run never_revived [OF E _ _ _ _ run] by auto
qed

end
