(* ===== verification/LaunchProps.thy ===== *)
theory LaunchProps
  imports LifeProps
begin

section \<open>What a launch leaves behind\<close>

text \<open>
  The launching functions return true on several paths that have not reached their end.  What can be
  relied on is the state file: it was written before the result could become true.  The proof
  splits the program at the step that first writes the state file; the steps on either side keep
  an invariant, which is the contract of the locale of steps.
\<close>

subsection \<open>Steps leave other files alone\<close>

lemma quiet_launch_events [keeps_files]:
  "w_files (snd (sys E EvPipe w)) = w_files w"
  "w_files (snd (sys E EvFork w)) = w_files w"
  "w_files (snd (sys E EvSocketpair w)) = w_files w"
  "w_files (snd (sys E (EvPipeWrite m) w)) = w_files w"
  "w_files (snd (sys E (EvSendFd fd) w)) = w_files w"
  "w_files (snd (sys E (EvCreat p) w)) = w_files w"
  "w_files (snd (sys E (EvNetlink nm) w)) = w_files w"
  "w_files (snd (sys E EvNetlinkOpen w)) = w_files w"
  "w_files (snd (sys E EvNetlinkBind w)) = w_files w"
  "w_files (snd (sys E EvNetlinkClose w)) = w_files w"
  "w_files (snd (sys E (EvOpen p) w)) = w_files w"
  "w_files (snd (sys E (EvMonitor p) w)) = w_files w"
  "w_files (snd (sys E (EvTunSetIff t) w)) = w_files w"
  "w_files (snd (sys E (EvTunPersist t) w)) = w_files w"
  by (simp_all add: sys_def Let_def)


lemma events_files [keeps_files]:
  "(\<And>ev w. ev \<in> set evs \<Longrightarrow> w_files (snd (sys E ev w)) = w_files w) \<Longrightarrow> w_files (snd (run_events E evs w)) = w_files w"
  by (induction evs arbitrary: w) (simp_all add: Let_def case_prod_unfold)

lemma shim_launch_files [keeps_files]: "w_files (snd (snd (cc_shim_launch E c w))) = w_files w"
  by (simp add: cc_shim_launch_def Let_def case_prod_unfold keeps_files)

lemma netlink_execute_files [keeps_files]: "w_files (snd (netlink_execute E H hndl m w)) = w_files w"
  by (simp add: netlink_execute_def Let_def case_prod_unfold keeps_files)

lemma allocate_io_files [keeps_files]: "w_files (snd (cc_proxy_cmd_allocate_io E proxy tty w)) = w_files w"
  by (simp add: cc_proxy_cmd_allocate_io_def Let_def case_prod_unfold keeps_files)

lemma tap_create_files [keeps_files]: "w_files (snd (cc_oci_tap_create E t w)) = w_files w"
  by (simp add: cc_oci_tap_create_def Let_def case_prod_unfold keeps_files split: option.splits)

lemma link_files [keeps_files]:
  "w_files (snd (netlink_link_add_bridge E H hndl name w)) = w_files w"
  "w_files (snd (netlink_link_set_addr E H hndl name mac w)) = w_files w"
  "w_files (snd (netlink_link_set_master E H hndl i j w)) = w_files w"
  "w_files (snd (netlink_link_enable E H hndl name up w)) = w_files w"
  by (simp_all add: netlink_link_add_bridge_def netlink_link_set_addr_def netlink_link_set_master_def
      netlink_link_enable_def keeps_files split: option.splits)

lemma run_steps_files:
  "(\<And>s w. s \<in> set ss \<Longrightarrow> w_files (snd (s w)) = w_files w) \<Longrightarrow> w_files (snd (run_steps ss w)) = w_files w"
  by (induction ss arbitrary: w) (simp_all add: Let_def case_prod_unfold)

lemma network_loop_files [keeps_files]: "w_files (snd (network_create_loop E H hndl i cs w)) = w_files w"
proof (induction cs arbitrary: i w)
  case (Cons c cs)
  have "w_files (snd (run_steps (create_steps E H hndl i c) w)) = w_files w" for w
    by (rule run_steps_files) (auto simp: create_steps_def Let_def case_prod_unfold keeps_files)
  then show ?case by (simp add: Let_def case_prod_unfold Cons.IH)
qed simp

lemma network_create_files [keeps_files]: "w_files (snd (cc_oci_network_create E H c hndl w)) = w_files w"
  by (simp add: cc_oci_network_create_def keeps_files)

lemma netlink_init_files [keeps_files]: "w_files (snd (netlink_init E w)) = w_files w"
  by (simp add: netlink_init_def Let_def case_prod_unfold keeps_files)

lemma netlink_close_files [keeps_files]: "w_files (netlink_close E hndl w) = w_files w"
  by (simp add: netlink_close_def keeps_files)

lemma hello_files [keeps_files]: "w_files (snd (cc_proxy_cmd_hello E proxy cid w)) = w_files w"
  by (simp add: cc_proxy_cmd_hello_def Let_def case_prod_unfold keeps_files split: option.splits)

lemma wait_files [keeps_files]: "w_files (snd (cc_proxy_wait_until_ready E c w)) = w_files w"
  by (simp add: cc_proxy_wait_until_ready_def Let_def case_prod_unfold keeps_files split: option.splits)

lemma pod_create_files [keeps_files]: "w_files (snd (cc_proxy_hyper_pod_create E c w)) = w_files w"
  by (simp add: cc_proxy_hyper_pod_create_def keeps_files split: option.splits)

lemmas launch_quiet = keeps_files [THEN fun_cong, THEN phase_cong]

lemma pidfile_other:
  assumes "f \<noteq> p"
  shows "phase_at E p (snd (cc_oci_create_pidfile E (Some f) pid w)) = phase_at E p w"
  using assms by (intro phase_cong) (simp add: cc_oci_create_pidfile_def sys_def Let_def)

subsection \<open>Steps leave the essentials of the configuration alone\<close>

lemma state_wf_launch [simp]:
  "state_wf (cfg_net_update f c) = state_wf c"
  "is_gint pid \<Longrightarrow> state_wf c \<Longrightarrow> state_wf (set_workload_pid pid c)"
  "is_gint b \<Longrightarrow> state_wf c \<Longrightarrow> state_wf (upd_process (io_streams b) c)"
  "is_gint pid \<Longrightarrow> state_wf c \<Longrightarrow> cfg_vm c = Some vm \<Longrightarrow> state_wf (c\<lparr>cfg_vm := Some (vm\<lparr>vm_pid := pid\<rparr>)\<rparr>)"
  using wrap32s_range [of "b + 1"]
  by (auto simp: state_wf_def process_wf_def set_workload_pid_def io_streams_def is_gint_def)

lemma at_path_launch [simp]:
  "at_path p (cfg_net_update f c) = at_path p c"
  "is_gint pid \<Longrightarrow> at_path p c \<Longrightarrow> at_path p (set_workload_pid pid c)"
  "is_gint b \<Longrightarrow> at_path p c \<Longrightarrow> at_path p (upd_process (io_streams b) c)"
  "is_gint pid \<Longrightarrow> at_path p c \<Longrightarrow> cfg_vm c = Some vm \<Longrightarrow> at_path p (c\<lparr>cfg_vm := Some (vm\<lparr>vm_pid := pid\<rparr>)\<rparr>)"
  by (simp_all add: at_path_def) (simp_all add: set_workload_pid_def)


subsection \<open>The invariants before and after the state file is written\<close>

text \<open>Pids are C ints, and json-glib reads what it wrote.\<close>

definition launch_env :: "env \<Rightarrow> bool" where
  "launch_env E \<longleftrightarrow> json_glib_contract E \<and> (\<forall>w. is_gint (os_pid E w))"

definition launch_wf :: "string \<Rightarrow> launch \<Rightarrow> bool" where
  "launch_wf p s \<longleftrightarrow> at_path p (l_config s) \<and> cfg_pid_file (l_config s) \<noteq> Some p \<and> is_gint (l_io_base s)"

definition before_state :: "env \<Rightarrow> string \<Rightarrow> launch \<Rightarrow> bool" where
  "before_state E p s \<longleftrightarrow> (launch_env E \<longrightarrow> launch_wf p s \<and> \<not> l_ret s
     \<and> (l_timestamp s \<noteq> None \<longrightarrow> cfg_status (l_config s) = OCI_STATUS_CREATED))"

definition after_state :: "env \<Rightarrow> string \<Rightarrow> launch \<Rightarrow> bool" where
  "after_state E p s \<longleftrightarrow> (launch_env E \<longrightarrow> launch_wf p s \<and> cfg_status (l_config s) = OCI_STATUS_CREATED
     \<and> phase_at E p (l_world s) = Some OCI_STATUS_CREATED)"

definition early_steps :: "env \<Rightarrow> start_data \<Rightarrow> (launch \<Rightarrow> launch jump) list" where
  "early_steps E sd = [st_timestamp E, st_vm_connect E sd, st_pipe E, st_pipe E, st_vm_fork E, st_shim E]"

definition late_steps :: "env \<Rightarrow> host \<Rightarrow> (launch \<Rightarrow> launch jump) list" where
  "late_steps E H =
     [st_prestart E, st_network E H, st_vm_args E H, st_send_args_len E, st_send_args E, st_child_check E,
      st_proxy_ready E, st_pod_create E, st_send_proxy_fd E, st_allocate_io E, st_send_io_base E,
      st_shim_socket E, st_send_io_fd E, st_streams, st_child_check E, st_state_file E, st_disconnect E,
      st_pid_file E]"

lemma vm_launch_split: "vm_launch_steps E H sd = early_steps E sd @ st_state_file E # late_steps E H"
  by (simp add: vm_launch_steps_def early_steps_def late_steps_def)

lemmas launch_inv = before_state_def after_state_def launch_wf_def launch_env_def

lemma minus_one_gint [simp]: "is_gint (- 1)"
  by (simp add: is_gint_def)

lemma upd_status_facts [simp]:
  "cfg_status (upd_status st c) = st" "cfg_pid_file (upd_status st c) = cfg_pid_file c"
  by simp_all

lemma shim_launch_config:
  "(fst (snd (cc_shim_launch E c w)) = c \<or> (\<exists>w'. fst (snd (cc_shim_launch E c w)) = set_workload_pid (os_pid E w') c)
    \<or> fst (snd (cc_shim_launch E c w)) = set_workload_pid (- 1) c)"
  by (auto simp: cc_shim_launch_def Let_def case_prod_unfold)

lemma set_workload_pid_facts [simp]:
  "cfg_status (set_workload_pid pid c) = cfg_status c" "cfg_pid_file (set_workload_pid pid c) = cfg_pid_file c"
  by (simp_all add: set_workload_pid_def)

lemma early_keeps:
  assumes "step \<in> set (early_steps E sd)" and "before_state E p s"
  shows "jump_all (before_state E p) (step s)"
proof -
  consider "step = st_timestamp E" | "step = st_vm_connect E sd" | "step = st_pipe E" | "step = st_vm_fork E" | "step = st_shim E"
    using assms(1) by (auto simp: early_steps_def)
  then show ?thesis
  proof cases
    case 5
    then show ?thesis
      using assms(2) shim_launch_config [of E "l_config s" "l_world s"]
      by (auto simp: st_shim_def Let_def case_prod_unfold launch_inv)
  qed (use assms(2) in \<open>auto simp: st_timestamp_def st_vm_connect_def connect_proxy_def set_launch_proxy_def st_pipe_def must_def
      st_vm_fork_def Let_def case_prod_unfold launch_inv split: option.splits\<close>)
qed

interpretation early: kept_by_steps "before_state E p" "set (early_steps E sd)" for E p sd
  by unfold_locales (rule early_keeps)


text \<open>What the steps after the state file may do to a configuration.\<close>

definition same_launch :: "cc_oci_config \<Rightarrow> cc_oci_config \<Rightarrow> bool" where
  "same_launch c c' \<longleftrightarrow> (\<forall>p. at_path p c' = at_path p c) \<and> cfg_status c' = cfg_status c \<and> cfg_pid_file c' = cfg_pid_file c"

lemma same_launch_net [simp]: "same_launch c (cfg_net_update f c') = same_launch c c'"
  by (simp add: same_launch_def)

lemma routes_config:
  "same_launch c (fst (snd (netlink_get_routes E H (cfg_net_update f c) hndl family w)))
    \<and> w_files (snd (snd (netlink_get_routes E H (cfg_net_update f c) hndl family w))) = w_files w"
  by (simp add: netlink_get_routes_def Let_def case_prod_unfold keeps_files) (simp add: same_launch_def)

lemma discover_config:
  assumes "cc_oci_network_discover E H c hndl w = Inr (ok, c', w')"
  shows "same_launch c c' \<and> w_files w' = w_files w"
proof -
  have "same_launch c c" by (simp add: same_launch_def)
  then show ?thesis
    using assms
    by (auto simp: cc_oci_network_discover_def c_bind_Inr Let_def case_prod_unfold routes_config split: option.splits)
qed

lemma create_pid_file:
  "cfg_pid_file (fst (snd (cc_oci_state_file_create E c t w))) = cfg_pid_file c"
  by (simp add: cc_oci_state_file_create_def cc_oci_state_file_get_def Let_def case_prod_unfold split: option.splits)

lemma same_launch_simps [simp]: "same_launch c c" "same_launch c (c\<lparr>cfg_proxy := x\<rparr>)"
  by (simp_all add: same_launch_def)

lemma expand_config: "same_launch c (fst (snd (cc_oci_expand_cmdline E H c args w)))"
  by (simp add: cc_oci_expand_cmdline_def Let_def split: option.split)

lemma vm_args_config: "same_launch c (snd (cc_oci_vm_args_get E H c extra w))"
  using expand_config [of c E H _ w]
  by (simp add: cc_oci_vm_args_get_def Let_def case_prod_unfold split: option.split)

lemma network_step_keeps:
  assumes "after_state E p s"
  shows "jump_all (after_state E p) (st_network E H s)"
proof (cases "cc_oci_network_discover E H (l_config s) True (snd (netlink_init E (l_world s)))")
  case (Inl e)
  then show ?thesis
    using assms
    by (simp add: st_network_def cc_oci_vm_netcfg_get_def Let_def case_prod_unfold launch_inv launch_quiet)
next
  case (Inr r)
  then obtain ok c' w' where r: "cc_oci_network_discover E H (l_config s) True (snd (netlink_init E (l_world s))) = Inr (ok, c', w')"
    by (cases r) auto
  have "same_launch (l_config s) c'" and "phase_at E p w' = phase_at E p (l_world s)"
    using discover_config [OF r] phase_cong [of w' p "l_world s"] by (simp_all add: keeps_files)
  then show ?thesis
    using assms
    by (simp add: st_network_def cc_oci_vm_netcfg_get_def Let_def case_prod_unfold r launch_inv launch_quiet same_launch_def)
qed

lemma args_step_keeps: "after_state E p s \<Longrightarrow> jump_all (after_state E p) (st_vm_args E H s)"
  using vm_args_config [of "l_config s" E H "cc_oci_populate_extra_args (l_config s) []" "l_world s"]
  by (auto simp: st_vm_args_def Let_def case_prod_unfold launch_inv same_launch_def split: option.splits)

lemma state_step_keeps: "after_state E p s \<Longrightarrow> jump_all (after_state E p) (st_state_file E s)"
  by (auto simp: st_state_file_def Let_def case_prod_unfold launch_inv create_results create_pid_file)


lemma allocate_io_gint:
  "fst (cc_proxy_cmd_allocate_io E proxy tty w) = Some (fd, b) \<Longrightarrow> is_gint b"
  using wrap32s_range by (auto simp: cc_proxy_cmd_allocate_io_def Let_def case_prod_unfold split: if_splits)

lemma io_step_keeps: "after_state E p s \<Longrightarrow> jump_all (after_state E p) (st_allocate_io E s)"
  by (auto simp: st_allocate_io_def Let_def case_prod_unfold launch_inv launch_quiet launch_proxy_def
      dest: allocate_io_gint split: option.splits)

lemma write_steps_keep:
  assumes "after_state E p s"
  shows "jump_all (after_state E p) (st_send_args_len E s)" and "jump_all (after_state E p) (st_send_args E s)"
    and "jump_all (after_state E p) (st_send_io_base E s)" and "jump_all (after_state E p) (st_shim_socket E s)"
    and "jump_all (after_state E p) (st_send_proxy_fd E s)" and "jump_all (after_state E p) (st_send_io_fd E s)"
  using assms
  by (simp_all add: st_send_args_len_def st_send_args_def st_send_io_base_def st_shim_socket_def st_send_proxy_fd_def
      st_send_io_fd_def must_def Let_def case_prod_unfold launch_inv launch_quiet split: option.splits)

lemma proxy_steps_keep:
  assumes "after_state E p s"
  shows "jump_all (after_state E p) (st_proxy_ready E s)" and "jump_all (after_state E p) (st_pod_create E s)"
    and "jump_all (after_state E p) (st_disconnect E s)" and "jump_all (after_state E p) (st_prestart E s)"
    and "jump_all (after_state E p) (st_child_check E s)" and "jump_all (after_state E p) (st_streams s)"
  using assms
  by (simp_all add: st_proxy_ready_def st_pod_create_def st_disconnect_def st_prestart_def st_child_check_def st_streams_def
      set_launch_proxy_def Let_def case_prod_unfold launch_inv launch_quiet split: option.splits)

lemma pid_step_keeps: "after_state E p s \<Longrightarrow> jump_all (after_state E p) (st_pid_file E s)"
  by (auto simp: st_pid_file_def Let_def case_prod_unfold launch_inv pidfile_other split: option.splits)

lemmas late_step_keeps = network_step_keeps args_step_keeps state_step_keeps io_step_keeps write_steps_keep
  proxy_steps_keep pid_step_keeps

interpretation late: kept_by_steps "after_state E p" "set (late_steps E H)" for E p H
  by unfold_locales (auto simp: late_steps_def intro: late_step_keeps)

subsection \<open>The property\<close>

text \<open>The step in between: only a state file that was written takes the program on.\<close>

lemma state_file_step:
  assumes "before_state E p s"
  shows "(case st_state_file E s of Next s' \<Rightarrow> after_state E p s' | Out s' \<Rightarrow> launch_env E \<longrightarrow> \<not> l_ret s' | _ \<Rightarrow> False)"
  using assms create_cases(3) [of E "l_config s" "l_timestamp s" "l_world s"]
  by (auto simp: st_state_file_def Let_def case_prod_unfold launch_inv create_results create_pid_file prod_eq_iff)

lemma launch_result_Ret:
  "launch_result E cleanup j = Ret r \<longleftrightarrow>
    (\<exists>s. (j = Next s \<or> j = Out s) \<and> r = cleanup s \<or> j = Return s \<and> r = (l_ret s, l_config s, l_world s))"
  by (cases j) (auto simp: launch_result_def)

lemma launch_phases:
  assumes "before_state E p s0"
  shows "jump_all (\<lambda>s. before_state E p s \<or> (launch_env E \<longrightarrow> \<not> l_ret s) \<or> after_state E p s)
    (run_prog (vm_launch_steps E H sd) s0)"
proof -
  let ?P = "\<lambda>s. before_state E p s \<or> (launch_env E \<longrightarrow> \<not> l_ret s) \<or> after_state E p s"
  have early: "jump_all (before_state E p) (run_prog (early_steps E sd) s0)"
    by (rule early.prog_keeps [OF subset_refl assms])
  show ?thesis
  proof (cases "run_prog (early_steps E sd) s0")
    case (Next s1)
    with early have "before_state E p s1" by simp
    note mid = state_file_step [OF this]
    have late: "jump_all (after_state E p) (run_prog (late_steps E H) s2)" if "after_state E p s2" for s2
      by (rule late.prog_keeps [OF subset_refl that])
    show ?thesis
      using Next mid jump_all_mono [OF late, of _ ?P]
      by (auto simp: vm_launch_split run_prog_append split: jump.splits)
  qed (use early in \<open>auto simp: vm_launch_split run_prog_append\<close>)
qed

text \<open>
  C4. Invariant of a launch: whenever \<^verbatim>\<open>cc_oci_vm_launch\<close> returns true, on whichever path, the state file
  of the container can be read back and says created, and the configuration agrees with it.
  Relies on pids being C ints, on json-glib reading what it wrote, and on the pid file not being
  the state file.
\<close>

theorem launch_created:
  assumes "launch_env E" and "at_path p config" and "cfg_pid_file config \<noteq> Some p"
    and "cc_oci_vm_launch E H sd config w = Ret (True, config', w')"
  shows "phase_at E p w' = Some OCI_STATUS_CREATED \<and> at_path p config' \<and> cfg_status config' = OCI_STATUS_CREATED"
proof -
  have "before_state E p (launch_start config w)"
    using assms(2,3) by (simp add: launch_inv launch_start_def)
  note end_state = launch_phases [OF this, of H sd]
  show ?thesis
    using assms(1,4) end_state
    by (auto simp: cc_oci_vm_launch_def launch_result_Ret before_state_def after_state_def launch_wf_def vm_launch_out_def
        launch_quiet Let_def)
qed

text \<open>
  A run that returns true although the pipe to the hypervisor's process is refused: everything up to the
  arguments works, in a world where every file holds one word.
\<close>

definition refusing_env :: env where
  "refusing_env = (calm_env (\<lambda>_. Some FDir))
     \<lparr>os_euid := 1000, os_ok := (\<lambda>w ev. case ev of EvPipeWrite _ \<Rightarrow> False | _ \<Rightarrow> True)\<rparr>"

definition launch_config :: cc_oci_config where
  "launch_config = sample_config\<lparr>cfg_pod := None,
     cfg_vm := Some (zero_vm\<lparr>vm_image_path := ''/img'', vm_kernel_path := ''/k''\<rparr>),
     cfg_oci := (cfg_oci sample_config)\<lparr>oci_root := \<lparr>root_path = ''/b/rootfs'', root_read_only = False\<rparr>\<rparr>\<rparr>"

definition one_word_files :: world where
  "one_word_files = empty_world\<lparr>w_files := (\<lambda>_. Some ''q'')\<rparr>"

lemma refusing_simps:
  "os_ok refusing_env w ev = (case ev of EvPipeWrite _ \<Rightarrow> False | _ \<Rightarrow> True)"
  "os_stat refusing_env w f = Some FDir" "os_fd refusing_env w = 3" "os_pid refusing_env w = 100"
  "os_timestamp refusing_env w = Some ''2016-01-01T00:00:00Z''" "os_euid refusing_env = 1000"
  by (simp_all add: refusing_env_def calm_env_def)

lemma refusing_args:
  assumes "w_files w ''/b/hypervisor.args'' = Some ''q''" and "cfg_vm c = Some vm" and "vm_image_path vm \<noteq> []"
    and "vm_kernel_path vm \<noteq> []" and "cfg_bundle_path c = Some ''/b''" and "cfg_proxy c = Some proxy"
    and "cc_oci_get_workload_dir c \<noteq> []"
  shows "\<exists>args c'. cc_oci_vm_args_get refusing_env calm_host c extra w = (Some args, c')"
proof -
  have "g_build_path ''/b'' CC_OCI_HYPERVISOR_CMDLINE_FILE = ''/b/hypervisor.args''"
    "g_strsplit (cstr_at ''q'' 0) (CHR 10) None = [''q'']" by code_simp+
  then have "cc_oci_file_to_strv (cc_oci_vm_args_file_path refusing_env c w) w = Some [''q'']"
    using assms
    by (simp add: cc_oci_vm_args_file_path_def cc_oci_file_to_strv_def Let_def refusing_simps cc_oci_get_bundlepath_file_def
        CC_OCI_HYPERVISOR_CMDLINE_FILE_def)
  then show ?thesis
    using assms by (simp add: cc_oci_vm_args_get_def cc_oci_expand_cmdline_def Let_def refusing_simps)
qed

lemma refusing_launch:
  "\<exists>config' w'. cc_oci_vm_launch refusing_env calm_host plain_sd launch_config one_word_files = Ret (True, config', w')"
proof -
  obtain s where up_to: "run_prog (take 9 (vm_launch_steps refusing_env calm_host plain_sd)) (launch_start launch_config one_word_files)
      = Next s" "w_files (l_world s) ''/b/hypervisor.args'' = Some ''q''"
    "cfg_vm (l_config s) = Some (zero_vm\<lparr>vm_image_path := ''/img'', vm_kernel_path := ''/k'', vm_pid := 100\<rparr>)"
    "cfg_bundle_path (l_config s) = Some ''/b''" "cfg_proxy (l_config s) \<noteq> None" "cc_oci_get_workload_dir (l_config s) \<noteq> []"
    by (simp add: vm_launch_steps_def st_timestamp_def st_vm_connect_def connect_proxy_def set_launch_proxy_def st_pipe_def
      must_def st_vm_fork_def st_shim_def Let_def launch_start_def refusing_simps cc_proxy_connect_def cc_proxy_connected_def
      launch_proxy_def sys_def plain_sd_def cc_oci_fd_toggle_cloexec_def launch_config_def sample_config_def zero_defs
      cc_shim_launch_def set_workload_pid_def st_state_file_def cc_oci_state_file_create_def cc_oci_state_file_get_def
      cc_oci_status_get_def cc_oci_status_to_str_def oci_status_map_def cc_oci_process_to_json_def st_prestart_def
      cc_run_hooks_def st_network_def cc_oci_enable_networking_def path_join_def c_string_simps PATH_MAX_def CC_OCI_STATE_FILE_def
      one_word_files_def cc_oci_get_workload_dir_def)
  obtain args c' where args: "cc_oci_vm_args_get refusing_env calm_host (l_config s)
      (cc_oci_populate_extra_args (l_config s) []) (l_world s) = (Some args, c')"
    using refusing_args [OF up_to(2,3) _ _ up_to(4) _ up_to(6)] up_to(5) by fastforce
  have split: "vm_launch_steps refusing_env calm_host plain_sd = take 9 (vm_launch_steps refusing_env calm_host plain_sd) @
      st_vm_args refusing_env calm_host # st_send_args_len refusing_env # drop 11 (vm_launch_steps refusing_env calm_host plain_sd)"
    by (simp add: vm_launch_steps_def)
  have args_step: "st_vm_args refusing_env calm_host s = Next (s\<lparr>l_ret := True, l_config := c', l_args := args\<rparr>)"
    by (simp add: st_vm_args_def args)
  obtain w' where refused: "st_send_args_len refusing_env (s\<lparr>l_ret := True, l_config := c', l_args := args\<rparr>)
      = Out (s\<lparr>l_ret := True, l_config := c', l_args := args, l_world := w'\<rparr>)"
    unfolding st_send_args_len_def must_def sys_def refusing_simps by auto
  have "run_prog (vm_launch_steps refusing_env calm_host plain_sd) (launch_start launch_config one_word_files)
      = Out (s\<lparr>l_ret := True, l_config := c', l_args := args, l_world := w'\<rparr>)"
    by (subst split) (simp add: run_prog_append up_to(1) args_step refused)
  then show ?thesis by (simp add: cc_oci_vm_launch_def launch_result_def vm_launch_out_def Let_def)
qed

theorem launch_created_witness:
  "\<exists>config' w'. cc_oci_vm_launch refusing_env calm_host plain_sd launch_config one_word_files = Ret (True, config', w')
     \<and> phase_at refusing_env ''/run/c1/state.json'' w' = Some OCI_STATUS_CREATED"
proof -
  obtain config' w' where run:
    "cc_oci_vm_launch refusing_env calm_host plain_sd launch_config one_word_files = Ret (True, config', w')"
    using refusing_launch by blast
  have "launch_env refusing_env"
    using calm_json [of "\<lambda>_. Some FDir"]
    by (simp add: launch_env_def refusing_simps json_glib_contract_def) (simp add: refusing_env_def is_gint_def)
  moreover have "at_path ''/run/c1/state.json'' launch_config" "cfg_pid_file launch_config \<noteq> Some ''/run/c1/state.json''"
    by (simp_all add: at_path_def state_wf_def launch_config_def sample_config_def zero_defs process_wf_def is_gint_def
        PATH_MAX_def path_join_def CC_OCI_STATE_FILE_def c_string_simps)
  ultimately show ?thesis
    using run launch_created [OF _ _ _ run] by blast
qed

end
