(* ===== verification/Children.thy ===== *)
theory Children
  imports LaunchProps ShimProps Logging
begin

section \<open>The children of the runtime (src/process.c, shim/shim.c)\<close>

text \<open>
  What the two forked children of a launch read from the runtime before they execute the hypervisor
  and the shim, and what the shim makes of its command line.  The two sides of each pipe are put
  together: the children get what the parent computed.
\<close>

subsection \<open>Reading from a pipe\<close>

definition as_text :: "bytes \<Rightarrow> string" where
  "as_text bs = map (\<lambda>b. char_of (unat b)) bs"

text \<open>
  \<^verbatim>\<open>read\<close> into an \<^verbatim>\<open>int\<close>: the number of bytes, and the variable afterwards.  A short read replaces only
  the bytes it delivers.
\<close>

definition read_c_int :: "int \<Rightarrow> input list \<Rightarrow> (nat \<times> int) option \<times> input list" where
  "read_c_int old ins =
     (let (got, ins') = c_read 4 ins
      in (map_option (\<lambda>d. (length d, bytes_c_int (as_text d @ drop (length d) (c_int_bytes old)))) got, ins'))"

subsection \<open>The hypervisor child\<close>

text \<open>\<^verbatim>\<open>ARG_MAX\<close> of the kernel headers.\<close>

definition CC_ARG_MAX :: int where "CC_ARG_MAX = 131072"

text \<open>
  The arguments: a length, then one text with a newline between two arguments.  The buffer is zeroed,
  so a short read ends the text early.
\<close>

definition hypervisor_args_received :: "input list \<Rightarrow> string list option" where
  "hypervisor_args_received ins =
     (case read_c_int 0 ins of
        (None, _) \<Rightarrow> None
      | (Some (_, len), ins1) \<Rightarrow>
          if len < 0 \<or> CC_ARG_MAX \<le> len then None
          else (case fst (c_read (nat len) ins1) of
                  None \<Rightarrow> None
                | Some d \<Rightarrow> Some (g_strsplit (cstr_at (as_text d) 0) (CHR 10) None)))"

text \<open>
  Preparing the child: the second component lists the descriptors it has closed.
\<close>

definition cc_oci_setup_child ::
  "env \<Rightarrow> host \<Rightarrow> gchars \<Rightarrow> cc_oci_config \<Rightarrow> world \<Rightarrow> bool \<times> int list \<times> world" where
  "cc_oci_setup_child E H log_dir config w =
     (let (_, w1) = sys E EvSetsid w
      in (case (if cfg_detached_mode config then Some [] else cc_oci_close_fds H [] w1) of
            None \<Rightarrow> (False, [], w1)
          | Some closed \<Rightarrow>
              (let (ok, w2) = cc_oci_setup_hypervisor_logs E H log_dir config w1 in (ok, closed, w2))))"

text \<open>
  The jump to \<^verbatim>\<open>child_failed\<close>: the byte only gets to the parent through an open descriptor.
\<close>

definition vm_child_fails :: "env \<Rightarrow> bool \<Rightarrow> world \<Rightarrow> child_end \<times> world" where
  "vm_child_fails E err_open w = (if err_open then child_fails E w else (ChildExits, snd (sys E (EvExit 1) w)))"

text \<open>
  The child: \<open>err_fd\<close> is its end of the error pipe and \<open>ins\<close> what the argument pipe delivers.  It
  becomes the hypervisor (\<open>ChildRuns\<close>) or jumps to \<^verbatim>\<open>child_failed\<close> and exits.  \<^verbatim>\<open>execvp\<close> of an empty vector
  dereferences a null pointer, and a failing \<^verbatim>\<open>execvp\<close> aborts.
\<close>

definition vm_child ::
  "env \<Rightarrow> host \<Rightarrow> gchars \<Rightarrow> int \<Rightarrow> cc_oci_config \<Rightarrow> cc_proxy \<Rightarrow> input list \<Rightarrow> world \<Rightarrow> child_end \<times> world" where
  "vm_child E H log_dir err_fd config0 proxy ins w =
     (let config = config0\<lparr>cfg_vm := map_option (vm_pid_update (\<lambda>_. own_pid H)) (cfg_vm config0)\<rparr>;
          (gone, _, w1) = cc_proxy_disconnect E proxy w
      in if \<not> gone then vm_child_fails E True w1
         else (case hypervisor_args_received ins of
                 None \<Rightarrow> vm_child_fails E True w1
               | Some args \<Rightarrow>
                   (let (ready, closed, w2) = cc_oci_setup_child E H log_dir config w1
                    in if \<not> ready then vm_child_fails E (err_fd \<notin> set closed) w2
                       else if args = [] then (ChildFaults, w2)
                       else let (ran, w3) = sys E (EvExec args) w2 in (if ran then ChildRuns else ChildAborts, w3))))"

subsection \<open>The shim child\<close>

text \<open>What it reads: the descriptor of the proxy and the first stream from the pipe, then a descriptor from the socket.\<close>

definition shim_received :: "input list \<Rightarrow> int option \<Rightarrow> (int \<times> int \<times> int) option" where
  "shim_received ins received_fd =
     (case read_c_int (- 1) ins of
        (Some (n, proxy_socket_fd), ins1) \<Rightarrow>
          if n = 0 then None
          else (case read_c_int (- 1) ins1 of
                  (Some (m, proxy_io_base), _) \<Rightarrow>
                    if m = 0 then None
                    else map_option (\<lambda>proxy_io_fd. (proxy_socket_fd, proxy_io_base, proxy_io_fd)) received_fd
                | (None, _) \<Rightarrow> None)
      | (None, _) \<Rightarrow> None)"

subsection \<open>The options of the shim\<close>

text \<open>
  \<^verbatim>\<open>getopt_long\<close> of the C library with the option string and the long options of the shim.  An unknown
  or ambiguous option and a missing argument give a question mark; other arguments are skipped.
\<close>

definition takes_arg :: "char \<Rightarrow> bool" where
  "takes_arg c \<longleftrightarrow> c \<in> set ''cpose''"

definition prog_opts :: "(string \<times> char) list" where
  "prog_opts = [(''container-id'', CHR ''c''), (''proxy-sock-fd'', CHR ''p''), (''proxy-io-fd'', CHR ''o''),
     (''seq-no'', CHR ''s''), (''err-seq-no'', CHR ''e''), (''debug'', CHR ''d''), (''help'', CHR ''h'')]"

definition long_option :: "string \<Rightarrow> char option" where
  "long_option name =
     (case map_of prog_opts name of
        Some c \<Rightarrow> Some c
      | None \<Rightarrow> (case filter (\<lambda>(n, _). prefix name n) prog_opts of [(_, c)] \<Rightarrow> Some c | _ \<Rightarrow> None))"

definition bad_option :: "char \<times> string" where
  "bad_option = (CHR ''?'', [])"

text \<open>A group of short options: the options found, and whether the last one takes its argument from the next word.\<close>

fun short_options :: "string \<Rightarrow> (char \<times> string) list \<times> char option" where
  "short_options [] = ([], None)"
| "short_options (c # cs) =
     (if takes_arg c then (if cs = [] then ([], Some c) else ([(c, cs)], None))
      else let (os, last) = short_options cs in ((if c \<in> set ''dh'' then (c, []) else bad_option) # os, last))"

definition long_options :: "string \<Rightarrow> (char \<times> string) list \<times> char option" where
  "long_options word =
     (let name = takeWhile (\<lambda>c. c \<noteq> CHR ''='') word; val = dropWhile (\<lambda>c. c \<noteq> CHR ''='') word
      in (case long_option name of
            None \<Rightarrow> ([bad_option], None)
          | Some c \<Rightarrow>
              if takes_arg c then (if val = [] then ([], Some c) else ([(c, tl val)], None))
              else if val = [] then ([(c, [])], None) else ([bad_option], None)))"

definition word_options :: "string \<Rightarrow> (char \<times> string) list \<times> char option" where
  "word_options word =
     (if prefix ''--'' word then long_options (drop 2 word)
      else if prefix ''-'' word \<and> word \<noteq> ''-'' then short_options (tl word)
      else ([], None))"

fun getopt_long :: "string list \<Rightarrow> (char \<times> string) list" where
  "getopt_long [] = []"
| "getopt_long [word] =
     (if word = ''--'' then []
      else let (os, wants) = word_options word in os @ (if wants = None then [] else [bad_option]))"
| "getopt_long (word # next # words) =
     (if word = ''--'' then []
      else let (os, wants) = word_options word
           in os @ (case wants of None \<Rightarrow> getopt_long (next # words) | Some c \<Rightarrow> (c, next) # getopt_long words))"

subsection \<open>Integers and texts through a pipe\<close>

lemma as_text_char_byte [simp]: "as_text (map char_byte s) = s"
  by (simp add: as_text_def unat_char_byte comp_def)

lemma length_c_int_bytes [simp]: "length (c_int_bytes i) = 4"
  by (simp add: c_int_bytes_def)

lemma c_int_bytes_digits:
  assumes "n = nat (i mod 2 ^ 32)"
  shows "c_int_bytes i = [char_of n, char_of (n div 256), char_of (n div 65536), char_of (n div 16777216)]"
  using assms by (simp add: c_int_bytes_def)

lemma bytes_c_int_bytes: "bytes_c_int (c_int_bytes i) = wrap32s i"
proof -
  define n where "n = nat (i mod 2 ^ 32)"
  have "n < 4294967296" by (simp add: n_def nat_less_iff)
  then have small: "n div 16777216 mod 256 = n div 16777216" using less_mult_imp_div_less [of n 256 16777216] by simp
  have "bytes_c_int (c_int_bytes i) =
      wrap32s (int (n div 16777216 mod 256 * 16777216 + n div 65536 mod 256 * 65536 + n div 256 mod 256 * 256 + n mod 256))"
    unfolding bytes_c_int_def c_int_bytes_digits [OF n_def] by (simp add: ac_simps)
  also have "\<dots> = wrap32s (int n)" by (simp only: small base256_digits)
  also have "\<dots> = wrap32s i" by (simp add: n_def wrap32s_def mod_simps)
  finally show ?thesis .
qed

lemma read_c_int_exact:
  "read_c_int old (Data (map char_byte (c_int_bytes i)) # ins) = (Some (4, wrap32s i), ins)"
  by (simp add: read_c_int_def bytes_c_int_bytes)

lemma read_c_int_more:
  "rest \<noteq> [] \<Longrightarrow> read_c_int old (Data (map char_byte (c_int_bytes i) @ rest) # ins) = (Some (4, wrap32s i), Data rest # ins)"
  by (simp add: read_c_int_def bytes_c_int_bytes)

lemma set_strjoinv: "set (strjoinv d xs) \<subseteq> insert d (\<Union>x\<in>set xs. set x)"
  by (induction d xs rule: strjoinv.induct) auto

lemma strjoinv_empty: "strjoinv d xs = [] \<longleftrightarrow> xs = [] \<or> xs = [[]]"
  by (induction d xs rule: strjoinv.induct) auto

lemma length_strjoinv: "length xs \<le> Suc (length (strjoinv d xs))"
  by (induction d xs rule: strjoinv.induct) auto

lemma split_join:
  assumes "xs \<noteq> []" and "xs \<noteq> [[]]" and "\<forall>x\<in>set xs. d \<notin> set x"
  shows "g_strsplit (strjoinv d xs) d None = xs"
  using assms strsplit_strjoinv [of xs d "length (strjoinv d xs)"] length_strjoinv [of xs d]
  by (simp add: g_strsplit_def strjoinv_empty)

subsection \<open>The hypervisor gets its arguments\<close>

lemma text_len_ascii:
  assumes "\<forall>a\<in>set (l_args s). list_all is_ascii a"
  shows "hypervisor_text_len s = length (hypervisor_text s)"
proof -
  have "is_ascii (CHR 10)" by (simp add: is_ascii_def)
  then have "list_all is_ascii (hypervisor_text s)"
    using assms set_strjoinv [of "CHR 10" "l_args s"] by (fastforce simp: hypervisor_text_def list_all_iff)
  then show ?thesis by (simp add: hypervisor_text_len_def strlen_ascii_all)
qed

lemma received_args:
  assumes "0 \<le> len" and "read_c_int 0 ins = (Some (n, len), [Data (map char_byte text)])"
    and "nat len = length text" and "NUL \<notin> set text"
  shows "hypervisor_args_received ins = (if len < CC_ARG_MAX then Some (g_strsplit text (CHR 10) None) else None)"
  using assms by (simp add: hypervisor_args_received_def cstr_at_no_nul)

text \<open>
  C15. The arguments of the hypervisor cross the pipe: when the parent has written them, what the child
  reads, whether it finds the two writes separate or joined, is the text of the parent cut to as many
  bytes as it has characters and split at newlines, unless that is \<^verbatim>\<open>ARG_MAX\<close> or more.  For arguments
  in plain ASCII without newlines this is exactly the vector the parent computed.
\<close>

theorem hypervisor_args_delivered:
  assumes "run_prog [st_send_args_len E, st_send_args E] s = Next s'"
    and "\<forall>a\<in>set (l_args s). NUL \<notin> set a"
    and "0 < hypervisor_text_len s" and "hypervisor_text_len s < 2147483648"
  defines "sent \<equiv> take (hypervisor_text_len s) (hypervisor_text s)"
  defines "got \<equiv> if int (hypervisor_text_len s) < CC_ARG_MAX then Some (g_strsplit sent (CHR 10) None) else None"
  shows "\<exists>len. w_trace (l_world s') = w_trace (l_world s) @ [(EvPipeWrite len, True), (EvPipeWrite sent, True)]
    \<and> hypervisor_args_received [Data (map char_byte len), Data (map char_byte sent)] = got
    \<and> hypervisor_args_received [Data (map char_byte (len @ sent))] = got
    \<and> ((\<forall>a\<in>set (l_args s). list_all is_ascii a \<and> CHR 10 \<notin> set a) \<longrightarrow> g_strsplit sent (CHR 10) None = l_args s)"
proof -
  let ?len = "int (hypervisor_text_len s)"
  have n: "hypervisor_text_len s \<le> length (hypervisor_text s)"
    by (simp add: hypervisor_text_len_def g_utf8_strlen_def)
  then have len: "nat ?len = length sent" by (simp add: sent_def)
  have trace: "w_trace (l_world s') = w_trace (l_world s) @ [(EvPipeWrite (c_int_bytes ?len), True), (EvPipeWrite sent, True)]"
    using assms(1)
    by (auto simp: st_send_args_len_def st_send_args_def must_def sys_def Let_def hypervisor_text_len_def hypervisor_text_def
        sent_def split: if_splits)
  have nul: "NUL \<notin> set sent"
    using assms(2) set_strjoinv [of "CHR 10" "l_args s"] set_take_subset [of "hypervisor_text_len s" "hypervisor_text s"]
    by (fastforce simp: sent_def hypervisor_text_def)
  have wrap: "wrap32s ?len = ?len" using assms(4) by (intro wrap32s_id) (simp add: is_gint_def)
  have "sent \<noteq> []" using len assms(3) by auto
  then have two: "hypervisor_args_received [Data (map char_byte (c_int_bytes ?len)), Data (map char_byte sent)] = got"
    "hypervisor_args_received [Data (map char_byte (c_int_bytes ?len @ sent))] = got"
    unfolding got_def
    using received_args [OF _ read_c_int_exact [of 0 ?len "[Data (map char_byte sent)]"], unfolded wrap, OF _ len nul]
      received_args [OF _ read_c_int_more [of "map char_byte sent" 0 ?len "[]"], unfolded wrap, OF _ _ len nul] by simp_all
  have "g_strsplit sent (CHR 10) None = l_args s" if "\<forall>a\<in>set (l_args s). list_all is_ascii a \<and> CHR 10 \<notin> set a"
  proof -
    have "sent = hypervisor_text s" using text_len_ascii [of s] that by (simp add: sent_def)
    moreover have "l_args s \<noteq> []" "l_args s \<noteq> [[]]"
      using assms(3) by (auto simp: hypervisor_text_len_def hypervisor_text_def g_utf8_strlen_def)
    ultimately show ?thesis using that by (auto simp: hypervisor_text_def intro!: split_join)
  qed
  then show ?thesis using trace two by blast
qed

text \<open>A pipe that is closed before anything was written gives an empty vector, which \<^verbatim>\<open>execvp\<close> cannot take.\<close>

lemma closed_pipe_no_args: "hypervisor_args_received [] = Some []"
  by (simp add: hypervisor_args_received_def read_c_int_def bytes_c_int_bytes as_text_def wrap32s_def CC_ARG_MAX_def
      cstr_at_def g_strsplit_def)

definition still_env :: env where
  "still_env = calm_env (\<lambda>_. None)"

definition sample_launch :: launch where
  "sample_launch = (launch_start zero_config empty_world)\<lparr>l_args := [''/usr/bin/qemu'', ''-name'', ''c1'']\<rparr>"

theorem hypervisor_args_delivered_witness:
  "\<exists>s' len text. run_prog [st_send_args_len still_env, st_send_args still_env] sample_launch = Next s'
    \<and> w_trace (l_world s') = [(EvPipeWrite len, True), (EvPipeWrite text, True)]
    \<and> hypervisor_args_received [Data (map char_byte len), Data (map char_byte text)] = Some [''/usr/bin/qemu'', ''-name'', ''c1'']"
proof -
  obtain s' where run: "run_prog [st_send_args_len still_env, st_send_args still_env] sample_launch = Next s'"
    by (simp add: st_send_args_len_def st_send_args_def must_def sys_def Let_def still_env_def calm_env_def)
  have start: "w_trace (l_world sample_launch) = []" and args: "l_args sample_launch = [''/usr/bin/qemu'', ''-name'', ''c1'']"
    by (simp_all add: sample_launch_def launch_start_def empty_world_def)
  have plain: "\<forall>a\<in>set (l_args sample_launch). list_all is_ascii a \<and> CHR 10 \<notin> set a"
    and nul: "\<forall>a\<in>set (l_args sample_launch). NUL \<notin> set a" by (simp_all add: args is_ascii_def)
  have "hypervisor_text_len sample_launch = 22"
    using text_len_ascii [of sample_launch] plain by (simp add: hypervisor_text_def args)
  then show ?thesis
    using hypervisor_args_delivered [OF run nul] plain run start args by (auto simp: CC_ARG_MAX_def)
qed

subsection \<open>A late failure of the hypervisor child\<close>

lemma setup_child_parts:
  "cc_oci_setup_child E H log_dir config w =
     (case (if cfg_detached_mode config then Some [] else cc_oci_close_fds H [] (snd (sys E EvSetsid w))) of
        None \<Rightarrow> (False, [], snd (sys E EvSetsid w))
      | Some closed \<Rightarrow>
          (let r = cc_oci_setup_hypervisor_logs E H log_dir config (snd (sys E EvSetsid w)) in (fst r, closed, snd r)))"
  by (simp add: cc_oci_setup_child_def case_prod_unfold Let_def split: option.split)

text \<open>Whether the parent is told: a byte is written to the error pipe.\<close>

definition reported :: "world \<Rightarrow> world \<Rightarrow> bool" where
  "reported w w' \<longleftrightarrow> (\<exists>ok. (EvPipeWrite ''E'', ok) \<in> set (new_events w w'))"

text \<open>Steps that only extend the trace, and write nothing to a pipe.\<close>

definition silent :: "world \<Rightarrow> world \<Rightarrow> bool" where
  "silent w w' \<longleftrightarrow> extends w w' \<and> \<not> reported w w'"

lemma silent_refl [simp]: "silent w w"
  by (simp add: silent_def reported_def new_events_def)

lemma reported_append: "extends a b \<Longrightarrow> extends b c \<Longrightarrow> reported a c \<longleftrightarrow> reported a b \<or> reported b c"
  using new_events_append [of a b c] by (auto simp: reported_def)

lemma silent_trans [trans]: "silent a b \<Longrightarrow> silent b c \<Longrightarrow> silent a c"
  using reported_append [of a b c] extends_trans [of a b c] by (simp add: silent_def)

lemma silent_reported: "silent a b \<Longrightarrow> extends b c \<Longrightarrow> reported a c \<longleftrightarrow> reported b c"
  using reported_append [of a b c] by (simp add: silent_def)

lemma silent_sys: "\<forall>m. ev \<noteq> EvPipeWrite m \<Longrightarrow> silent w (snd (sys E ev w))"
  by (simp add: silent_def reported_def new_events_sys extends_def sys_trace) metis

lemma silent_after: "silent w w1 \<Longrightarrow> \<forall>m. ev \<noteq> EvPipeWrite m \<Longrightarrow> silent w (snd (sys E ev w1))"
  using silent_trans [OF _ silent_sys] .

lemma silent_redirect_logs: "silent w0 w \<Longrightarrow> silent w0 (snd (redirect_logs E dir cid fs w))"
  by (induction fs arbitrary: w) (simp_all add: Let_def case_prod_unfold silent_after split_paired_all)

lemma silent_logs: "silent w0 w \<Longrightarrow> silent w0 (snd (cc_oci_setup_hypervisor_logs E H log_dir config w))"
  by (simp add: cc_oci_setup_hypervisor_logs_def Let_def case_prod_unfold silent_after silent_redirect_logs split: option.split)

lemma silent_setup: "silent w0 w \<Longrightarrow> silent w0 (snd (snd (cc_oci_setup_child E H log_dir config w)))"
  by (simp add: setup_child_parts Let_def silent_after silent_logs split: option.split)

lemma silent_disconnect: "silent w (snd (snd (cc_proxy_disconnect E proxy w)))"
  by (simp add: cc_proxy_disconnect_def case_prod_unfold Let_def silent_sys split: option.split)

text \<open>A failing child is reported exactly if its end of the pipe is open.\<close>

lemma reported_fails:
  "extends w (snd (vm_child_fails E err_open w)) \<and> (reported w (snd (vm_child_fails E err_open w)) \<longleftrightarrow> err_open)"
proof -
  have "extends w (snd (sys E ev w))" for ev w by (simp add: extends_def sys_trace)
  moreover from this have "extends w (snd (sys E b (snd (sys E a w))))" for a b w using extends_trans by blast
  ultimately show ?thesis
    by (auto simp: vm_child_fails_def child_fails_def case_prod_unfold Let_def reported_def new_events_def sys_trace)
qed

lemma fails_exits [simp]: "fst (vm_child_fails E err_open w) = ChildExits"
  by (simp add: vm_child_fails_def child_fails_def case_prod_unfold Let_def)

lemma vm_child_parts:
  assumes "c = config\<lparr>cfg_vm := map_option (vm_pid_update (\<lambda>_. own_pid H)) (cfg_vm config)\<rparr>"
  shows "vm_child E H log_dir err_fd config proxy ins w =
    (let w1 = snd (snd (cc_proxy_disconnect E proxy w)); r = cc_oci_setup_child E H log_dir c w1
     in if \<not> fst (cc_proxy_disconnect E proxy w) then vm_child_fails E True w1
        else (case hypervisor_args_received ins of
                None \<Rightarrow> vm_child_fails E True w1
              | Some args \<Rightarrow>
                  if \<not> fst r then vm_child_fails E (err_fd \<notin> set (fst (snd r))) (snd (snd r))
                  else if args = [] then (ChildFaults, snd (snd r))
                  else (if fst (sys E (EvExec args) (snd (snd r))) then ChildRuns else ChildAborts,
                        snd (sys E (EvExec args) (snd (snd r))))))"
  by (simp add: assms vm_child_def case_prod_unfold Let_def split: option.split)

text \<open>The points at which the child has closed its end of the error pipe.\<close>

definition err_closed :: "env \<Rightarrow> host \<Rightarrow> int \<Rightarrow> cc_oci_config \<Rightarrow> cc_proxy \<Rightarrow> input list \<Rightarrow> world \<Rightarrow> bool" where
  "err_closed E H err_fd config proxy ins w \<longleftrightarrow>
     fst (cc_proxy_disconnect E proxy w) \<and> hypervisor_args_received ins \<noteq> None \<and> \<not> cfg_detached_mode config
   \<and> (\<exists>fds. open_fds H (snd (sys E EvSetsid (snd (snd (cc_proxy_disconnect E proxy w))))) = Some fds
        \<and> err_fd \<in> set fds \<and> 3 \<le> err_fd)"

text \<open>
  C30. However the hypervisor child ends, the parent is told of a failure exactly when the child gets to
  its error exit with its end of the error pipe still open.  Outside detached mode it closes every
  descriptor above the standard ones before it redirects the logs, so a failure there is not
  reported; and in no mode is a failing \<^verbatim>\<open>execvp\<close> or a crash reported.  The parent goes on
  as if the hypervisor were running.
\<close>

theorem child_failure_reported:
  "reported w (snd (vm_child E H log_dir err_fd config proxy ins w)) \<longleftrightarrow>
     fst (vm_child E H log_dir err_fd config proxy ins w) = ChildExits \<and> \<not> err_closed E H err_fd config proxy ins w"
proof -
  let ?w1 = "snd (snd (cc_proxy_disconnect E proxy w))"
  define c where "c = config\<lparr>cfg_vm := map_option (vm_pid_update (\<lambda>_. own_pid H)) (cfg_vm config)\<rparr>"
  let ?r = "cc_oci_setup_child E H log_dir c ?w1"
  have told: "silent w w2 \<Longrightarrow> reported w (snd (vm_child_fails E err_open w2)) \<longleftrightarrow> err_open" for w2 err_open
    using silent_reported [of w w2] reported_fails [of w2] by blast
  have s1: "silent w ?w1" by (rule silent_disconnect)
  note s2 = silent_setup [OF s1, of E H log_dir c]
  have quiet: "\<not> reported w (snd (snd ?r))" "\<not> reported w (snd (sys E (EvExec args) (snd (snd ?r))))" for args
    using s2 silent_after [OF s2, of "EvExec args"] by (simp_all add: silent_def)
  have closed: "err_fd \<in> set (fst (snd ?r)) \<longleftrightarrow> \<not> cfg_detached_mode config
       \<and> (\<exists>fds. open_fds H (snd (sys E EvSetsid ?w1)) = Some fds \<and> err_fd \<in> set fds \<and> 3 \<le> err_fd)"
    by (auto simp: setup_child_parts c_def Let_def cc_oci_close_fds_def split: option.split)
  show ?thesis
  proof (cases "fst (cc_proxy_disconnect E proxy w) \<and> hypervisor_args_received ins \<noteq> None")
    case True
    then obtain args where "fst (cc_proxy_disconnect E proxy w)" "hypervisor_args_received ins = Some args" by blast
    then show ?thesis
      using told [OF s2] quiet closed unfolding vm_child_parts [OF c_def] err_closed_def by (simp add: Let_def)
  next
    case False
    then show ?thesis
      using told [OF s1] unfolding vm_child_parts [OF c_def] err_closed_def by (auto simp: Let_def)
  qed
qed

subsection \<open>The shim gets its descriptors and streams\<close>

lemma parse_int_to_dec: "- (2 ^ 63) \<le> i \<Longrightarrow> i < 2 ^ 63 \<Longrightarrow> parse_numeric_option (int_to_dec i) = i"
  by (auto simp: parse_numeric_option_def strtoll_def Let_def int_to_dec_scan sat64_def)

lemma parse_gint: "is_gint i \<Longrightarrow> parse_numeric_option (int_to_dec i) = i"
  by (rule parse_int_to_dec) (simp_all add: is_gint_def)

lemma shim_words:
  "word_options ''-c'' = ([], Some (CHR ''c''))" "word_options ''-p'' = ([], Some (CHR ''p''))"
  "word_options ''-o'' = ([], Some (CHR ''o''))" "word_options ''-s'' = ([], Some (CHR ''s''))"
  "word_options ''-e'' = ([], Some (CHR ''e''))"
  by (simp_all add: word_options_def takes_arg_def)

lemma shim_argv_options:
  assumes "cfg_optarg_container_id config = Some cid"
  shows "getopt_long (tl (shim_argv sd config fd io base)) =
    [(CHR ''c'', cid), (CHR ''p'', int_to_dec fd), (CHR ''o'', int_to_dec io), (CHR ''s'', int_to_dec base)]
    @ (if proc_terminal (cfg_process config) then [] else [(CHR ''e'', int_to_dec (wrap32s (base + 1)))])"
  using assms by (simp add: shim_argv_def shim_words)

lemma shim_received_pieces:
  assumes "is_gint fd" and "is_gint base"
  shows "shim_received [Data (map char_byte (c_int_bytes fd)), Data (map char_byte (c_int_bytes base))] (Some io) = Some (fd, base, io)"
    and "shim_received [Data (map char_byte (c_int_bytes fd @ c_int_bytes base))] (Some io) = Some (fd, base, io)"
proof -
  have "map char_byte (c_int_bytes base) \<noteq> []" by (simp add: c_int_bytes_def)
  from read_c_int_more [OF this, of "- 1" fd "[]"]
  show "shim_received [Data (map char_byte (c_int_bytes fd @ c_int_bytes base))] (Some io) = Some (fd, base, io)"
    using assms by (simp add: shim_received_def read_c_int_exact wrap32s_id)
qed (use assms in \<open>simp add: shim_received_def read_c_int_exact wrap32s_id\<close>)

text \<open>The other end: what the parent has written to the pipe of the shim.\<close>

fun pipe_writes :: "(event \<times> bool) list \<Rightarrow> string list" where
  "pipe_writes [] = []"
| "pipe_writes ((EvPipeWrite m, ok) # es) = m # pipe_writes es"
| "pipe_writes (_ # es) = pipe_writes es"

lemma allocate_io_trace:
  "\<exists>es. w_trace (snd (cc_proxy_cmd_allocate_io E proxy tty w)) = w_trace w @ es \<and> pipe_writes es = []"
  by (auto simp: cc_proxy_cmd_allocate_io_def cc_proxy_run_cmd_def Let_def case_prod_unfold sys_trace)

lemma pipe_writes_append: "pipe_writes (xs @ ys) = pipe_writes xs @ pipe_writes ys"
  by (induction xs rule: pipe_writes.induct) auto

lemma parent_writes:
  assumes "run_prog [st_send_proxy_fd E, st_allocate_io E, st_send_io_base E] s = Next s'"
    and "launch_proxy s = Some proxy" and "proxy_socket proxy = Some fd"
  shows "pipe_writes (new_events (l_world s) (l_world s')) = [c_int_bytes fd, c_int_bytes (l_io_base s')]"
    and "0 \<le> fd" and "is_gint (l_io_base s')"
proof -
  let ?w1 = "snd (sys E (EvPipeWrite (c_int_bytes fd)) (l_world s))"
  let ?r = "cc_proxy_cmd_allocate_io E proxy (proc_terminal (cfg_process (l_config s))) ?w1"
  show fd: "0 \<le> fd"
    using assms by (auto simp: st_send_proxy_fd_def split: if_splits)
  have first: "st_send_proxy_fd E s = Next (s\<lparr>l_world := ?w1\<rparr>)"
    using assms fd by (auto simp: st_send_proxy_fd_def must_def Let_def case_prod_unfold split: if_splits)
  have "launch_proxy (s\<lparr>l_world := ?w1\<rparr>) = Some proxy" using assms(2) by (simp add: launch_proxy_def)
  then obtain io base where r: "fst ?r = Some (io, base)" and base: "l_io_base s' = base"
    and w': "l_world s' = snd (sys E (EvPipeWrite (c_int_bytes base)) (snd ?r))"
    using assms(1) first
    by (auto simp: st_allocate_io_def st_send_io_base_def must_def Let_def case_prod_unfold split: option.splits if_splits)
  obtain es where "w_trace (snd ?r) = w_trace ?w1 @ es" "pipe_writes es = []"
    using allocate_io_trace by blast
  then show "pipe_writes (new_events (l_world s) (l_world s')) = [c_int_bytes fd, c_int_bytes (l_io_base s')]"
    by (simp add: w' base new_events_def sys_trace pipe_writes_append)
  show "is_gint (l_io_base s')" using allocate_io_gint [OF r] base by simp
qed

lemma shim_options_parsed:
  assumes "cfg_optarg_container_id config = Some cid" and "is_gint fd" and "0 \<le> fd" and "is_gint io" and "0 \<le> io"
    and "is_gint base" and "0 < base"
  shows "parse_options (getopt_long (tl (shim_argv sd config fd io base))) (shim_init, False) =
    Ok (\<lparr>container_id = Some cid, proxy_sock_fd = fd, proxy_io_fd = io, io_seq_no = of_int base,
         err_seq_no = (if proc_terminal (cfg_process config) then 0 else of_int (wrap32s (base + 1))), exiting = False\<rparr>, False)"
proof -
  have "wrap32s (base + 1) \<noteq> - 1"
    using assms(6,7) by (cases "base = 2147483647") (auto simp: wrap32s_def is_gint_def)
  then show ?thesis
    using assms by (simp add: shim_argv_options parse_gint wrap32s_range wrap32s_id shim_init_def Let_def)
qed

text \<open>What a successful move above the standard descriptors leaves.\<close>

lemma moved_over_stdio:
  assumes "dup_over_stdio D Cl fd fds = (True, fd', fds')" and "distinct fds"
  shows "0 \<le> fd" and "2 < fd'" and "2 < fd \<Longrightarrow> fd' = fd" and "fd' = fd \<or> fd' \<notin> set fds"
    and "fd' = fd \<or> fd' \<le> int (length fds) + 2"
    and "set fds' = insert fd' (set fds - {fd})" and "distinct fds'" and "length fds' = length fds"
proof -
  have fd: "0 \<le> fd" "fd \<in> set fds" using assms(1) by (auto simp: dup_over_stdio_def split: if_splits)
  note moved = dup_over_stdio_cases [OF assms(2) fd(2,1) assms(1)]
  show "0 \<le> fd" by (rule fd)
  show "2 < fd'" "2 < fd \<Longrightarrow> fd' = fd" "fd' = fd \<or> fd' \<notin> set fds" "fd' = fd \<or> fd' \<le> int (length fds) + 2"
    using moved by (auto split: if_splits)
  show set: "set fds' = insert fd' (set fds - {fd})" and dist: "distinct fds'"
    using moved fd(2) assms(2) by (auto split: if_splits)
  have "0 < card (set fds)" using fd(2) by (auto simp: card_gt_0_iff)
  then have "card (set fds') = card (set fds)"
    unfolding set using fd(2) \<open>fd' = fd \<or> fd' \<notin> set fds\<close> by (auto simp: card.insert_remove)
  then show "length fds' = length fds" using assms(2) dist by (simp add: distinct_card)
qed

text \<open>A child that gets as far as the shim has moved both descriptors, and executes it last.\<close>

lemma shim_child_runs:
  assumes "shim_child E H sd config initial (Some (fd, base, io)) flock D Cl fds w = (ChildRuns, w')"
  obtains fd' io' fds1 fds2 t where "dup_over_stdio D Cl fd fds = (True, fd', fds1)" and "dup_over_stdio D Cl io fds1 = (True, io', fds2)"
    and "w_trace w' = t @ [(EvExec (shim_argv sd config fd' io' base), True)]"
proof -
  obtain ok1 fd' fds1 where one: "dup_over_stdio D Cl fd fds = (ok1, fd', fds1)" by (metis prod_cases3)
  obtain ok2 io' fds2 where two: "dup_over_stdio D Cl io fds1 = (ok2, io', fds2)" by (metis prod_cases3)
  show thesis
    using assms that one two
    by (auto simp: shim_child_def child_fails_def Let_def case_prod_unfold sys_trace sys_ok split: if_splits)
qed

text \<open>
  C7. The shim works on the streams the parent allocated.  A child that reads what the parent has written
  to the pipe, in one piece or in two, and that gets as far as executing the shim, executes it with a
  command line from which the shim takes the container, the numbers of the streams, and as its two
  descriptors what \<^verbatim>\<open>dup_over_stdio\<close> has made of the descriptors the child received: they are different, lie
  above the standard ones, and are the received ones where those do.  No required option is missing.
\<close>

theorem shim_gets_its_streams:
  assumes "run_prog [st_send_proxy_fd E, st_allocate_io E, st_send_io_base E] s = Next s'"
    and "launch_proxy s = Some proxy" and "proxy_socket proxy = Some fd" and "is_gint fd" and "0 < l_io_base s'"
  defines "sent \<equiv> pipe_writes (new_events (l_world s) (l_world s'))"
  assumes "ins = map (\<lambda>m. Data (map char_byte m)) sent \<or> ins = [Data (map char_byte (concat sent))]"
    and "shim_child E' H sd config initial (shim_received ins (Some io)) flock D Cl fds w = (ChildRuns, w')"
    and "cfg_optarg_container_id config = Some cid" and "is_gint io" and "io \<in> set fds" and "io \<noteq> fd"
    and "distinct fds" and "int (length fds) < 2147483640"
  shows "\<exists>t argv shim fds1 fds2. w_trace w' = t @ [(EvExec argv, True)]
    \<and> parse_options (getopt_long (tl argv)) (shim_init, False) = Ok (shim, False)
    \<and> required_options shim \<and> container_id shim = Some cid
    \<and> io_seq_no shim = of_int (l_io_base s')
    \<and> err_seq_no shim = (if proc_terminal (cfg_process config) then 0 else of_int (wrap32s (l_io_base s' + 1)))
    \<and> dup_over_stdio D Cl fd fds = (True, proxy_sock_fd shim, fds1)
    \<and> dup_over_stdio D Cl io fds1 = (True, proxy_io_fd shim, fds2)
    \<and> 2 < proxy_sock_fd shim \<and> 2 < proxy_io_fd shim \<and> proxy_sock_fd shim \<noteq> proxy_io_fd shim
    \<and> (2 < fd \<longrightarrow> proxy_sock_fd shim = fd) \<and> (2 < io \<longrightarrow> proxy_io_fd shim = io)"
proof -
  note parent = parent_writes [OF assms(1-3)]
  have "shim_received ins (Some io) = Some (fd, l_io_base s', io)"
    using assms(7) shim_received_pieces [OF assms(4) parent(3), of io] parent(1) by (auto simp: sent_def)
  with assms(8) obtain fd' io' fds1 fds2 t where one: "dup_over_stdio D Cl fd fds = (True, fd', fds1)"
    and two: "dup_over_stdio D Cl io fds1 = (True, io', fds2)"
    and exec: "w_trace w' = t @ [(EvExec (shim_argv sd config fd' io' (l_io_base s')), True)]"
    by (auto elim: shim_child_runs)
  note first = moved_over_stdio [OF one assms(13)]
  note second = moved_over_stdio [OF two first(7)]
  have "is_gint fd'" "is_gint io'"
    using first(2,5,8) second(2,5) assms(4,10,14) by (auto simp: is_gint_def)
  then have parsed: "parse_options (getopt_long (tl (shim_argv sd config fd' io' (l_io_base s')))) (shim_init, False) =
    Ok (\<lparr>container_id = Some cid, proxy_sock_fd = fd', proxy_io_fd = io', io_seq_no = of_int (l_io_base s'),
         err_seq_no = (if proc_terminal (cfg_process config) then 0 else of_int (wrap32s (l_io_base s' + 1))), exiting = False\<rparr>, False)"
    using first(2) second(2) by (intro shim_options_parsed [OF assms(9) _ _ _ _ parent(3) assms(5)]) simp_all
  have "(of_int (l_io_base s') :: 64 word) \<noteq> 0"
    using parent(3) assms(5) by (auto simp: is_gint_def word_of_int_eq_0_iff dest: zdvd_imp_le)
  moreover have "fd' \<noteq> io'" using first second assms(11,12) by auto
  ultimately show ?thesis
    using exec parsed one two first(2,3) second(2,3)
    by (intro exI [of _ t] exI [of _ "shim_argv sd config fd' io' (l_io_base s')"] exI conjI) (auto simp: required_options_def)
qed

text \<open>A proxy that always hands out the streams 7 and 8 with descriptor 9.\<close>

definition stream_reply :: json where
  "stream_reply = JObject [(''success'', JBool True), (''data'', JObject [(''ioBase'', JInt 7)])]"

definition stream_env :: env where
  "stream_env = still_env\<lparr>proxy_reply := (\<lambda>_ _. enc_json stream_reply), proxy_oob_fd := (\<lambda>_ _. Some 9)\<rparr>"

definition connected_launch :: launch where
  "connected_launch = launch_start (zero_config\<lparr>cfg_optarg_container_id := Some ''c1'',
     cfg_proxy := Some (zero_proxy\<lparr>proxy_socket := Some 5\<rparr>)\<rparr>) empty_world"

lemma stream_env_allocates:
  "fst (cc_proxy_cmd_allocate_io stream_env (zero_proxy\<lparr>proxy_socket := Some 5\<rparr>) tty w) = Some (Some 9, 7)"
proof -
  have "json_load stream_env (enc_json stream_reply) = Some stream_reply"
    by (simp add: stream_env_def still_env_def calm_env_def read_enc_json)
  moreover have "proxy_reply stream_env w m = enc_json stream_reply" "proxy_oob_fd stream_env w m = Some 9" for w m
    by (simp_all add: stream_env_def)
  moreover have "json_read_member stream_reply ''success'' = Some (JBool True)"
    "Option.bind (json_read_member stream_reply ''data'') (\<lambda>d. json_read_member d ''ioBase'') = Some (JInt 7)"
    by (simp_all add: stream_reply_def json_read_member_def)
  ultimately show ?thesis
    by (simp add: cc_proxy_cmd_allocate_io_def cc_proxy_run_cmd_def cc_proxy_connected_def cc_proxy_hyper_check_response_def
        Let_def case_prod_unfold json_get_boolean_def json_get_int_def wrap32s_def)
qed

definition shim_config :: cc_oci_config where
  "shim_config = zero_config\<lparr>cfg_optarg_container_id := Some ''c1''\<rparr>"

theorem shim_gets_its_streams_witness:
  "\<exists>s' ins w' t argv shim. run_prog [st_send_proxy_fd stream_env, st_allocate_io stream_env, st_send_io_base stream_env] connected_launch = Next s'
    \<and> l_io_base s' = 7
    \<and> ins = map (\<lambda>m. Data (map char_byte m)) (pipe_writes (new_events (l_world connected_launch) (l_world s')))
    \<and> shim_child stream_env calm_host plain_sd shim_config False (shim_received ins (Some 1)) 4 (\<lambda>_. True) (\<lambda>_. True)
        [0, 1, 2, 4, 5] empty_world = (ChildRuns, w')
    \<and> w_trace w' = t @ [(EvExec argv, True)]
    \<and> parse_options (getopt_long (tl argv)) (shim_init, False) = Ok (shim, False) \<and> proxy_sock_fd shim = 5 \<and> 2 < proxy_io_fd shim"
proof -
  have ok: "fst (sys stream_env (EvPipeWrite m) w)" "fst (sys stream_env (EvExec args) w)" for m args w
    by (simp_all add: sys_ok stream_env_def still_env_def calm_env_def)
  obtain s' where run: "run_prog [st_send_proxy_fd stream_env, st_allocate_io stream_env, st_send_io_base stream_env]
      connected_launch = Next s'" and base: "l_io_base s' = 7"
    by (simp add: connected_launch_def launch_start_def st_send_proxy_fd_def st_allocate_io_def st_send_io_base_def must_def
        launch_proxy_def Let_def case_prod_unfold ok stream_env_allocates)
  define ins where "ins = map (\<lambda>m. Data (map char_byte m)) (pipe_writes (new_events (l_world connected_launch) (l_world s')))"
  have proxy: "launch_proxy connected_launch = Some (zero_proxy\<lparr>proxy_socket := Some 5\<rparr>)"
    by (simp add: connected_launch_def launch_start_def launch_proxy_def)
  have "shim_received ins (Some 1) = Some (5, 7, 1)"
    using parent_writes [OF run proxy, of 5] shim_received_pieces(1) [of 5 7 1] by (simp add: ins_def base is_gint_def)
  moreover have "dup_over_stdio (\<lambda>_. True) (\<lambda>_. True) 5 [0, 1, 2, 4, 5] = (True, 5, [0, 1, 2, 4, 5])"
    "dup_over_stdio (\<lambda>_. True) (\<lambda>_. True) 1 [0, 1, 2, 4, 5] = (True, 3, [3, 0, 2, 4, 5])"
    "dup_over_stdio (\<lambda>_. True) (\<lambda>_. True) 4 [3, 0, 2, 4, 5] = (True, 4, [3, 0, 2, 4, 5])" by code_simp+
  ultimately obtain w' where child: "shim_child stream_env calm_host plain_sd shim_config False (shim_received ins (Some 1)) 4
      (\<lambda>_. True) (\<lambda>_. True) [0, 1, 2, 4, 5] empty_world = (ChildRuns, w')"
    by (simp add: shim_child_def Let_def case_prod_unfold ok cc_oci_setup_shim_def shim_config_def zero_config_def)
  show ?thesis
    using shim_gets_its_streams [OF run proxy _ _ _ _ child, of 5 "''c1''"] run base child
    by (fastforce simp: ins_def is_gint_def shim_config_def)
qed

end
