(* ===== verification/GoClient.thy ===== *)
theory GoClient
  imports DaemonWire Children
begin

section \<open>The client library of the daemon (proxy/api/client.go)\<close>

text \<open>
  The library Go programs use to talk to the daemon.  A connection is what will arrive on the socket
  and what has been sent; an operation that fails to read or write gives back no connection, since
  the position in the stream is then unknown to the caller.
\<close>

subsection \<open>Messages of a client\<close>

definition marshal_Request :: "string \<Rightarrow> json option \<Rightarrow> json" where
  "marshal_Request req_id data =
     JObject ((''id'', JString req_id) # (case data of None \<Rightarrow> [] | Some j \<Rightarrow> [(''data'', j)]))"

definition marshal_Hyper :: "string \<Rightarrow> json option \<Rightarrow> json" where
  "marshal_Hyper name data =
     JObject ((''hyperName'', JString name) # (case data of None \<Rightarrow> [] | Some j \<Rightarrow> [(''data'', j)]))"

fun go_bool :: "json \<Rightarrow> bool \<Rightarrow> bool option" where
  "go_bool (JBool b) old = Some b"
| "go_bool JNull old = Some old"
| "go_bool _ old = None"

text \<open>Decoding into a map adds to what is there, a null empties it.\<close>

fun go_map :: "json \<Rightarrow> members \<Rightarrow> members option" where
  "go_map (JObject ms) old = Some (old @ ms)"
| "go_map JNull old = Some []"
| "go_map _ old = None"

definition unmarshal_Response :: "json option \<Rightarrow> Response option" where
  "unmarshal_Response = unmarshal [''success'', ''error'', ''data'']
     (\<lambda>f v r. if f = ''success'' then map_option (\<lambda>x. r\<lparr>resp_Success := x\<rparr>) (go_bool v (resp_Success r))
              else if f = ''error'' then map_option (\<lambda>x. r\<lparr>resp_Error := x\<rparr>) (go_string v (resp_Error r))
              else map_option (\<lambda>x. r\<lparr>resp_Data := x\<rparr>) (go_map v (resp_Data r)))
     \<lparr>resp_Success = False, resp_Error = [], resp_Data = []\<rparr>"

subsection \<open>Sending a request and waiting for the response\<close>

text \<open>
  A connection: the pieces that arrive, the descriptors that come with the next byte (per control
  message, None where parsing fails), what was sent, and the error of a failing call.
\<close>

record conn =
  cn_in :: "input list"
  cn_scms :: "int list option list"
  cn_sent :: "string list"
  cn_writable :: bool
  cn_err :: string

text \<open>The text format of \<^verbatim>\<open>encoding/json\<close>, a parameter.\<close>

record codec =
  co_parse :: "string \<Rightarrow> json option"
  co_print :: "json \<Rightarrow> string"

definition read_Response :: "codec \<Rightarrow> conn \<Rightarrow> string + (Response \<times> conn)" where
  "read_Response J cn =
     (case ReadMessage (cn_in cn) of
        None \<Rightarrow> Inl (cn_err cn)
      | Some (data, ins) \<Rightarrow>
          (case co_parse J (as_text data) of
             None \<Rightarrow> Inl (cn_err cn)
           | Some j \<Rightarrow>
               (case unmarshal_Response (Some j) of
                  None \<Rightarrow> Inl (cn_err cn)
                | Some resp \<Rightarrow> Inr (resp, cn\<lparr>cn_in := ins\<rparr>))))"

definition write_Request :: "codec \<Rightarrow> string \<Rightarrow> json option \<Rightarrow> conn \<Rightarrow> string + conn" where
  "write_Request J req_id payload cn =
     (if cn_writable cn
      then Inr (cn\<lparr>cn_sent := cn_sent cn @ WriteMessage (co_print J (marshal_Request req_id payload))\<rparr>)
      else Inl (cn_err cn))"

definition sendPayload :: "codec \<Rightarrow> string \<Rightarrow> json option \<Rightarrow> conn \<Rightarrow> string + (Response \<times> conn)" where
  "sendPayload J req_id payload cn =
     (case write_Request J req_id payload cn of Inl e \<Rightarrow> Inl e | Inr cn1 \<Rightarrow> read_Response J cn1)"

text \<open>Reading one byte and the descriptors that come with it.\<close>

definition read_fd_byte :: "conn \<Rightarrow> (int option \<times> conn)" where
  "read_fd_byte cn =
     (case c_read 1 (cn_in cn) of
        (Some [b], ins) \<Rightarrow>
          (ReadFd 1 (length (cn_scms cn)) (char_of (unat b)) (Some (cn_scms cn)), cn\<lparr>cn_in := ins, cn_scms := []\<rparr>)
      | (Some _, ins) \<Rightarrow> (ReadFd 0 (length (cn_scms cn)) NUL (Some (cn_scms cn)), cn\<lparr>cn_in := ins, cn_scms := []\<rparr>)
      | (None, ins) \<Rightarrow> (None, cn\<lparr>cn_in := ins\<rparr>))"

text \<open>When the descriptor is not there the caller still has the connection, one byte further on.\<close>

definition sendPayloadGetFd ::
  "codec \<Rightarrow> string \<Rightarrow> json option \<Rightarrow> conn \<Rightarrow> (string \<times> conn option) + (Response \<times> int \<times> conn)" where
  "sendPayloadGetFd J req_id payload cn =
     (case write_Request J req_id payload cn of
        Inl e \<Rightarrow> Inl (e, None)
      | Inr cn1 \<Rightarrow>
          (case read_fd_byte cn1 of
             (None, cn2) \<Rightarrow> Inl (''sendPayloadGetFd: couldn't read fd for request '' @ req_id, Some cn2)
           | (Some fd, cn2) \<Rightarrow>
               (case read_Response J cn2 of Inl e \<Rightarrow> Inl (e, None) | Inr (resp, cn3) \<Rightarrow> Inr (resp, fd, cn3))))"

definition errorFromResponse :: "Response \<Rightarrow> string option" where
  "errorFromResponse resp =
     (if \<not> resp_Success resp then Some (if resp_Error resp \<noteq> [] then resp_Error resp else ''unknown error'') else None)"

subsection \<open>The calls\<close>

definition client_call :: "codec \<Rightarrow> string \<Rightarrow> json \<Rightarrow> conn \<Rightarrow> string option \<times> conn option" where
  "client_call J req_id payload cn =
     (case sendPayload J req_id (Some payload) cn of
        Inl e \<Rightarrow> (Some e, None)
      | Inr (resp, cn') \<Rightarrow> (errorFromResponse resp, Some cn'))"

definition Client_Hello ::
  "codec \<Rightarrow> string \<Rightarrow> string \<Rightarrow> string \<Rightarrow> string option \<Rightarrow> conn \<Rightarrow> string option \<times> conn option" where
  "Client_Hello J containerID ctlSerial ioSerial console cn =
     client_call J ''hello''
       (marshal_Hello \<lparr>hello_ContainerID = containerID, hello_CtlSerial = ctlSerial, hello_IoSerial = ioSerial,
          hello_Console = (case console of None \<Rightarrow> [] | Some c \<Rightarrow> c)\<rparr>) cn"

definition Client_Attach :: "codec \<Rightarrow> string \<Rightarrow> conn \<Rightarrow> string option \<times> conn option" where
  "Client_Attach J containerID cn = client_call J ''attach'' (marshal_ContainerID containerID) cn"

definition Client_Bye :: "codec \<Rightarrow> string \<Rightarrow> conn \<Rightarrow> string option \<times> conn option" where
  "Client_Bye J containerID cn = client_call J ''bye'' (marshal_ContainerID containerID) cn"

definition Client_Hyper :: "codec \<Rightarrow> string \<Rightarrow> json option \<Rightarrow> conn \<Rightarrow> string option \<times> conn option" where
  "Client_Hyper J hyperName hyperMessage cn = client_call J ''hyper'' (marshal_Hyper hyperName hyperMessage) cn"

text \<open>
  A number of a response is decoded as a \<^verbatim>\<open>float64\<close>: 53 significant bits, rounded to the nearest value and
  to an even one in the middle.
\<close>

function exp53 :: "int \<Rightarrow> nat" where
  "exp53 i = (if i < 2 ^ 53 then 0 else Suc (exp53 (i div 2)))"
  by pat_completeness auto
termination by (relation "measure nat") auto

declare exp53.simps [simp del]

definition float64_of_nat :: "int \<Rightarrow> int" where
  "float64_of_nat i =
     (let k = exp53 i; q = i div 2 ^ k; r = i mod 2 ^ k
      in (if 2 ^ k < 2 * r \<or> 2 ^ k = 2 * r \<and> odd q then q + 1 else q) * 2 ^ k)"

text \<open>
  The conversion to \<^verbatim>\<open>uint64\<close>; outside its range, and for a number with a fraction, the value is that of the
  parameter.  A value that is not a number makes the type assertion panic.
\<close>

fun go_uint64 :: "(json \<Rightarrow> 64 word) \<Rightarrow> json \<Rightarrow> 64 word option" where
  "go_uint64 other (JInt i) =
     Some (if 0 \<le> i \<and> float64_of_nat i < 2 ^ 64 then of_int (float64_of_nat i) else other (JInt i))"
| "go_uint64 other (JDouble d) = Some (other (JDouble d))"
| "go_uint64 other _ = None"

datatype allocation = Allocated "64 word" int conn | NotAllocated string "conn option" | Panic

definition Client_AllocateIo :: "codec \<Rightarrow> (json \<Rightarrow> 64 word) \<Rightarrow> int \<Rightarrow> conn \<Rightarrow> allocation" where
  "Client_AllocateIo J other nStreams cn =
     (case sendPayloadGetFd J ''allocateIO'' (Some (marshal_AllocateIo nStreams)) cn of
        Inl (e, cn') \<Rightarrow> NotAllocated e cn'
      | Inr (resp, fd, cn') \<Rightarrow>
          (case errorFromResponse resp of
             Some e \<Rightarrow> NotAllocated e (Some cn')
           | None \<Rightarrow>
               (case map_of (rev (resp_Data resp)) ''ioBase'' of
                  None \<Rightarrow> NotAllocated ''allocateio: no ioBase in response'' (Some cn')
                | Some val \<Rightarrow> (case go_uint64 other val of None \<Rightarrow> Panic | Some ioBase \<Rightarrow> Allocated ioBase fd cn'))))"

subsection \<open>A call and the daemon\<close>

lemma unmarshal_marshal_Response: "unmarshal_Response (Some (marshal_Response r)) = Some r"
  by (cases r) (simp add: marshal_Response_def unmarshal_Response_def unmarshal_def key_field_def)

lemma unmarshal_marshal_Request:
  "unmarshal_Request (Some (marshal_Request req_id payload)) = Some \<lparr>req_ID = req_id, req_Data = payload\<rparr>"
  by (cases payload) (simp_all add: marshal_Request_def unmarshal_Request_def unmarshal_def key_field_def)

definition codec_ok :: "codec \<Rightarrow> bool" where
  "codec_ok J \<longleftrightarrow> (\<forall>j. json_wf j \<longrightarrow> co_parse J (co_print J j) = Some j)"

lemma written_frame:
  assumes "length msg < 4294967296"
  shows "map char_byte (concat (WriteMessage msg)) = set_big_endian_32 (of_nat (length msg)) @ replicate 4 0 @ map char_byte msg"
proof -
  have "char_byte NUL = 0" by (simp add: char_byte_def)
  then show ?thesis
    using big_endian_digit [OF assms] big_endian_digit [OF assms, of 0]
    by (simp add: WriteMessage_def be32_def set_big_endian_32_def Let_def)
qed

lemma response_read:
  assumes "codec_ok J" and "json_wf (marshal_Response resp)" and "length (co_print J (marshal_Response resp)) < 4294967296"
    and "cn_in cn = Data d # ins" and "8 \<le> length d"
    and "arrives (cn_in cn) (map char_byte (concat (WriteMessage (co_print J (marshal_Response resp)))) @ rest)"
  shows "\<exists>ins'. read_Response J cn = Inr (resp, cn\<lparr>cn_in := ins'\<rparr>) \<and> arrives ins' rest"
proof -
  let ?msg = "co_print J (marshal_Response resp)"
  obtain ins' where "ReadMessage (Data d # ins) = Some (map char_byte ?msg, ins')" "arrives ins' rest"
    using daemon_reads_frame [of d ins "map char_byte ?msg" rest] assms(3-6) by (auto simp: written_frame)
  moreover have "co_parse J ?msg = Some (marshal_Response resp)" using assms(1,2) by (simp add: codec_ok_def)
  ultimately show ?thesis
    using assms(4) by (intro exI [of _ ins']) (simp add: read_Response_def unmarshal_marshal_Response)
qed

text \<open>
  C16. A call of the client library that expects no descriptor (hello, attach, bye, hyper) is a call of the
  handler in the daemon: what the client sends is served as
  exactly that request, and when the response arrives (its header in one piece) the client gets the
  error the handler set, or none, and is in step for the next call.
\<close>

theorem client_call_served:
  assumes "codec_ok J" and "json_wf payload" and "cn_writable cn"
    and "handleRequest A \<lparr>req_ID = req_id, req_Data = Some payload\<rparr> c p = (resp, f, c', p')"
    and "json_wf (marshal_Response resp)" and "length (co_print J (marshal_Response resp)) < 4294967296"
    and "cn_in cn = Data d # ins" and "8 \<le> length d"
    and "arrives (cn_in cn) (map char_byte (concat (WriteMessage (co_print J (marshal_Response resp)))) @ rest)"
  shows "\<exists>msg cn'. client_call J req_id payload cn = (errorFromResponse resp, Some cn')
    \<and> cn_sent cn' = cn_sent cn @ WriteMessage msg
    \<and> serve_text (co_parse J) (co_print J) A c p msg = Some (co_print J (marshal_Response resp), f, c', p')
    \<and> arrives (cn_in cn') rest"
proof -
  let ?msg = "co_print J (marshal_Request req_id (Some payload))"
  let ?cn1 = "cn\<lparr>cn_sent := cn_sent cn @ WriteMessage ?msg\<rparr>"
  obtain ins' where read: "read_Response J ?cn1 = Inr (resp, ?cn1\<lparr>cn_in := ins'\<rparr>)" "arrives ins' rest"
    using response_read [of J resp ?cn1 d ins rest] assms by auto
  have "json_wf (marshal_Request req_id (Some payload))" using assms(2) by (simp add: marshal_Request_def)
  then have "co_parse J ?msg = Some (marshal_Request req_id (Some payload))" using assms(1) by (simp add: codec_ok_def)
  then have "serve_text (co_parse J) (co_print J) A c p ?msg = Some (co_print J (marshal_Response resp), f, c', p')"
    by (simp add: serve_text_def unmarshal_marshal_Request assms(4))
  then show ?thesis
    using read assms(3) by (intro exI [of _ ?msg]) (simp add: client_call_def sendPayload_def write_Request_def)
qed

subsection \<open>A refused allocation\<close>

lemma read_data_short:
  assumes "arrives ins bs" and "length data + length bs < need"
  shows "read_data need data ins = None"
  using assms
proof (induction "length bs" arbitrary: data bs ins rule: less_induct)
  case less
  show ?case
  proof (cases "bs = []")
    case True
    then have "ins = []" using less.prems(1) by (auto simp: arrives_def neq_Nil_conv) (metis list.set_intros(1) neq_Nil_conv)
    then show ?thesis using less.prems(2) by (subst read_data.simps) (simp add: go_read_def)
  next
    case False
    have "0 < need - length data" using less.prems(2) by simp
    then obtain d bs' ins' where d: "c_read (need - length data) ins = (Some d, ins')" "d \<noteq> []" "bs = d @ bs'" "arrives ins' bs'"
      using c_read_arrives [OF less.prems(1) False] by metis
    then have "read_data need (data @ d) ins' = None"
      using less.hyps [of bs' ins' "data @ d"] less.prems(2) by simp
    then show ?thesis using d less.prems(2) by (subst read_data.simps) (simp add: go_read_def)
  qed
qed

lemma shifted_length:
  assumes "n < 16777216"
  shows "unat (get_big_endian_32 (tl (set_big_endian_32 (of_nat n)) @ 0 # bs)) = 256 * n"
proof -
  have "get_big_endian_32 (tl (set_big_endian_32 w) @ 0 # bs) = push_bit 8 w" for w :: "32 word"
  proof (rule bit_word_eqI)
    fix k assume "k < LENGTH(32)"
    then have k: "k < 32" by simp
    consider "k < 8" | "8 \<le> k" "k < 16" | "16 \<le> k" "k < 24" | "24 \<le> k" by linarith
    then consider "k < 8" | "8 \<le> k" "k < 16" | "16 \<le> k" "k < 24" | j where "k = 24 + j" "j < 8"
      by cases (use k le_Suc_ex [of 24 k] in auto)
    then show "bit (get_big_endian_32 (tl (set_big_endian_32 w) @ 0 # bs)) k \<longleftrightarrow> bit (push_bit 8 w) k"
      by cases (auto simp: get_big_endian_32_def set_big_endian_32_def bit_simps)
  qed
  then show ?thesis using assms by (simp add: push_bit_eq_mult unat_word_ariths unat_of_nat)
qed

lemma refused_response:
  assumes "c_vm c = None" and "1 \<le> n" and "n \<le> 2"
  shows "handleRequest A \<lparr>req_ID = ''allocateIO'', req_Data = Some (marshal_AllocateIo n)\<rparr> c p =
    (failure ''client not attached to a vm'' [], None, c, p)"
  using assms
  by (simp add: handleRequest_def handlers_def allocateIoHandler_def unmarshal_marshal_AllocateIo no_response_def SetErrorMsg_def
      SetError_def failure_def Let_def)

lemma header_shifted:
  assumes "arrives ins (tl (set_big_endian_32 (of_nat n)) @ replicate 4 0 @ bs)" and "n < 16777216"
    and "length bs < Suc (256 * n)"
  shows "ReadMessage ins = None"
proof -
  let ?bs = "tl (set_big_endian_32 (of_nat n)) @ replicate 4 0 @ bs"
  have ne: "?bs \<noteq> []" by (simp add: set_big_endian_32_def)
  obtain d bs' ins' where d: "c_read 8 ins = (Some d, ins')" "d \<noteq> []" "length d \<le> 8" "?bs = d @ bs'" "arrives ins' bs'"
    by (rule c_read_arrives [OF assms(1) ne, of 8]) auto
  show ?thesis
  proof (cases "length d = 8")
    case True
    then have "take 8 ?bs = d" using d(4) by simp
    then have "\<exists>b. d = tl (set_big_endian_32 (of_nat n)) @ 0 # [0, 0, 0, b]"
      using True by (cases bs) (auto simp: set_big_endian_32_def eval_nat_numeral)
    then have "unat (get_big_endian_32 d) = 256 * n" using shifted_length [OF assms(2)] by auto
    moreover have "length bs' < 256 * n"
      using arg_cong [OF d(4), of length] True assms(3) by (simp add: set_big_endian_32_def)
    ultimately show ?thesis
      using d True read_data_short [OF d(5), of "[]" "256 * n"] by (simp add: ReadMessage_def go_read_def)
  qed (use d in \<open>simp add: ReadMessage_def go_read_def\<close>)
qed

text \<open>
  C31. A refused allocation puts the client library out of step.  The daemon sends no descriptor with the
  error, so the library takes the first byte of the response for it, reports the missing
  descriptor instead of the daemon's error, and reads the next length one byte late: no later call
  gets an answer until 256 times the length of that response has arrived.
\<close>

theorem refused_allocation_desyncs:
  assumes "c_vm c = None" and "1 \<le> n" and "n \<le> 2" and "cn_writable cn" and "cn_scms cn = []"
    and "handleRequest A \<lparr>req_ID = ''allocateIO'', req_Data = Some (marshal_AllocateIo n)\<rparr> c p = (resp, f, c', p')"
    and "msg = co_print J (marshal_Response resp)" and "length msg < 16777216"
    and "arrives (cn_in cn) (map char_byte (concat (WriteMessage msg)) @ rest)"
    and "length msg + length rest < Suc (256 * length msg)"
  shows "\<exists>cn'. Client_AllocateIo J other n cn =
      NotAllocated ''sendPayloadGetFd: couldn't read fd for request allocateIO'' (Some cn')
    \<and> read_Response J cn' = Inl (cn_err cn)
    \<and> resp = failure ''client not attached to a vm'' [] \<and> f = None"
proof -
  let ?bs = "map char_byte (concat (WriteMessage msg)) @ rest"
  have bs: "?bs = set_big_endian_32 (of_nat (length msg)) @ replicate 4 0 @ map char_byte msg @ rest"
    using assms(8) by (simp add: written_frame)
  then have ne: "?bs \<noteq> []" by (simp add: set_big_endian_32_def)
  obtain d bs' ins where d: "c_read 1 (cn_in cn) = (Some d, ins)" "d \<noteq> []" "length d \<le> 1" "?bs = d @ bs'" "arrives ins bs'"
    by (rule c_read_arrives [OF assms(9) ne, of 1]) auto
  then obtain b where "d = [b]" by (cases d) auto
  with d have one: "c_read 1 (cn_in cn) = (Some [b], ins)" and tl: "bs' = tl ?bs" by simp_all
  have "arrives ins (tl (set_big_endian_32 (of_nat (length msg))) @ replicate 4 0 @ map char_byte msg @ rest)"
    using d(5) unfolding tl bs by (simp add: set_big_endian_32_def)
  from header_shifted [OF this assms(8)] have "ReadMessage ins = None" using assms(10) by simp
  then show ?thesis
    using refused_response [OF assms(1-3), of A p] assms(4-6) one
    by (simp add: Client_AllocateIo_def sendPayloadGetFd_def write_Request_def read_fd_byte_def ReadFd_def read_Response_def)
qed

text \<open>Numbers of streams up to 53 bits survive the conversion, the first larger one does not.\<close>

lemma float64_exact: "i < 2 ^ 53 \<Longrightarrow> float64_of_nat i = i"
  by (simp add: float64_of_nat_def exp53.simps)

lemma float64_loses: "float64_of_nat (2 ^ 53 + 1) = 2 ^ 53"
  by (simp add: float64_of_nat_def exp53.simps)

text \<open>Concrete connections: everything the daemon writes arrives in one piece.\<close>

definition plain_codec :: codec where
  "plain_codec = \<lparr>co_parse = read_json, co_print = enc_json\<rparr>"

definition conn_with :: "bytes \<Rightarrow> conn" where
  "conn_with bs = \<lparr>cn_in = [Data bs], cn_scms = [], cn_sent = [], cn_writable = True, cn_err = ''EOF''\<rparr>"

lemma plain_codec_ok [simp]: "codec_ok plain_codec"
  by (simp add: codec_ok_def plain_codec_def read_enc_json)

lemma frame_not_Nil: "map char_byte (concat (WriteMessage msg)) \<noteq> []"
  by (simp add: WriteMessage_def)

lemma conn_with_arrives: "arrives (cn_in (conn_with (map char_byte (concat (WriteMessage msg))))) (map char_byte (concat (WriteMessage msg)) @ [])"
  unfolding arrives_def conn_with_def using frame_not_Nil [of msg]
  by (intro exI [of _ "[map char_byte (concat (WriteMessage msg))]"]) simp

theorem client_call_served_witness:
  "\<exists>cn'. client_call plain_codec ''attach'' (marshal_ContainerID ''c'')
     (conn_with (map char_byte (concat (WriteMessage (enc_json (marshal_Response \<lparr>resp_Success = True, resp_Error = [], resp_Data = []\<rparr>))))))
     = (None, Some cn') \<and> arrives (cn_in cn') []"
proof -
  let ?p = "newProxy\<lparr>p_vms := [(''c'', 0)], p_heap := [newVM ''c'' ''/c'' ''/t'']\<rparr>" and ?c = "\<lparr>c_id = 7, c_vm = None\<rparr>"
  let ?resp = "\<lparr>resp_Success = True, resp_Error = [], resp_Data = []\<rparr>"
  let ?bs = "map char_byte (concat (WriteMessage (co_print plain_codec (marshal_Response ?resp))))"
  have handled: "handleRequest calm_answers \<lparr>req_ID = ''attach'', req_Data = Some (marshal_ContainerID ''c'')\<rparr> ?c ?p
      = (?resp, None, ?c\<lparr>c_vm := Some 0\<rparr>, ?p)"
    by (simp add: handleRequest_def handlers_def attachHandler_def unmarshal_marshal_ContainerID no_response_def)
  have J: "enc_json = co_print plain_codec" by (simp add: plain_codec_def)
  have len: "length (co_print plain_codec (marshal_Response ?resp)) < 4294967296" "8 \<le> length ?bs"
    by (simp_all add: plain_codec_def marshal_Response_def WriteMessage_def be32_def enc_str_def)
  have cn: "cn_writable (conn_with ?bs)" "cn_in (conn_with ?bs) = Data ?bs # []" by (simp_all add: conn_with_def)
  have wf: "json_wf (marshal_ContainerID ''c'')" "json_wf (marshal_Response ?resp)"
    by (simp_all add: marshal_ContainerID_def marshal_Response_def)
  have "errorFromResponse ?resp = None" by (simp add: errorFromResponse_def)
  then show ?thesis
    using client_call_served [OF plain_codec_ok wf(1) cn(1) handled wf(2) len(1) cn(2) len(2) conn_with_arrives]
    unfolding J by metis
qed

theorem refused_allocation_desyncs_witness:
  "\<exists>cn'. Client_AllocateIo plain_codec (\<lambda>_. 0) 1
      (conn_with (map char_byte (concat (WriteMessage (enc_json (marshal_Response (failure ''client not attached to a vm'' [])))))))
      = NotAllocated ''sendPayloadGetFd: couldn't read fd for request allocateIO'' (Some cn')
    \<and> read_Response plain_codec cn' = Inl ''EOF''"
proof -
  let ?c = "\<lparr>c_id = 7, c_vm = None\<rparr>" and ?msg = "enc_json (marshal_Response (failure ''client not attached to a vm'' []))"
  have "length ?msg < 16777216" by (simp add: marshal_Response_def failure_def enc_str_def)
  moreover have "cn_writable (conn_with bs)" "cn_scms (conn_with bs) = []" "cn_err (conn_with bs) = ''EOF''" for bs
    by (simp_all add: conn_with_def)
  moreover have "?msg = co_print plain_codec (marshal_Response (failure ''client not attached to a vm'' []))"
    by (simp add: plain_codec_def)
  ultimately show ?thesis
    using refused_allocation_desyncs [of ?c 1 "conn_with (map char_byte (concat (WriteMessage ?msg)))", OF _ _ _ _ _
        refused_response [of ?c 1 calm_answers newProxy] _ _ conn_with_arrives [of ?msg]]
    by simp
qed

end
