(* ===== verification/HookLoop.thy ===== *)
theory HookLoop
  imports Process Logging
begin

section \<open>Waiting for a hook (src/process.c)\<close>

text \<open>
  The main loop that \<^const>\<open>cc_run_hook\<close> runs until the hook has ended, with the watchers of the child
  and of its two output pipes.  Watchers belong to the default context of the process and not to
  the call that adds them: one that is not removed is still there for the next hook.
\<close>

datatype hook_stream = HookOut | HookErr

text \<open>
  What the loop dispatches: a child has ended, or something happened on an output pipe.  The flag
  says that it was only hung up; otherwise there is the line \<^verbatim>\<open>g_io_channel_read_line\<close> gives, NULL at the end
  of the file.
\<close>

datatype hook_event =
    HookEnded int int
  | HookReady hook_stream bool gchars

text \<open>
  A child watcher stores the status through the pointer it was given.  For the watcher of the
  hook that is being waited for this is the variable of the running call; for a watcher that an
  earlier call left behind the variable is gone.
\<close>

datatype hook_wait =
    HookStatus int
  | HookDangling
  | HookBlocked

type_synonym hook_log = "(log_level \<times> string) list"

text \<open>The first component says whether the watcher stays.\<close>

definition cc_oci_output_watcher :: "bool \<Rightarrow> gchars \<Rightarrow> hook_stream \<Rightarrow> bool \<times> hook_log" where
  "cc_oci_output_watcher hup line stream =
     (if hup then (False, [])
      else (True, [(if stream = HookOut then LevelMessage else LevelWarning, case line of None \<Rightarrow> [] | Some s \<Rightarrow> s)]))"

definition cc_oci_hook_watcher :: "int \<Rightarrow> int \<Rightarrow> int \<Rightarrow> hook_wait" where
  "cc_oci_hook_watcher own pid exit_status = (if pid = own then HookStatus exit_status else HookDangling)"

fun hook_loop_run ::
  "int \<Rightarrow> int list \<Rightarrow> hook_stream list \<Rightarrow> hook_event list \<Rightarrow> hook_log \<Rightarrow> hook_wait \<times> hook_log" where
  "hook_loop_run own watched channels [] log = (HookBlocked, log)"
| "hook_loop_run own watched channels (HookEnded pid exit_status # evs) log =
     (if pid \<in> set watched then (cc_oci_hook_watcher own pid exit_status, log)
      else hook_loop_run own watched channels evs log)"
| "hook_loop_run own watched channels (HookReady s hup line # evs) log =
     (if s \<in> set channels then
        (case cc_oci_output_watcher hup line s of
           (stays, out) \<Rightarrow> hook_loop_run own watched (if stays then channels else removeAll s channels) evs (log @ out))
      else hook_loop_run own watched channels evs log)"

text \<open>One hook: how far it gets, and what the loop dispatches once the state has been written.\<close>

datatype hook_write = StateWritten | StateEpipe | StateFailed

record hook_run =
  hr_spawned :: bool
  hr_pid :: int
  hr_write :: hook_write
  hr_events :: "hook_event list"

text \<open>
  The part of \<^const>\<open>cc_run_hook\<close> after the arguments are made.  The result is None when the call does
  not get to its end in a defined way; the watchers left behind come with it.
\<close>

definition hook_call :: "hook_run \<Rightarrow> int list \<Rightarrow> bool option \<times> int list" where
  "hook_call r stale =
     (if \<not> hr_spawned r then (Some False, stale)
      else
        let watched = stale @ [hr_pid r]
        in (case hr_write r of
              StateEpipe \<Rightarrow> (Some True, watched)
            | StateFailed \<Rightarrow> (Some False, watched)
            | StateWritten \<Rightarrow>
                (case fst (hook_loop_run (hr_pid r) watched [HookOut, HookErr] (hr_events r) []) of
                   HookStatus exit_status \<Rightarrow> (Some (exit_status = 0), removeAll (hr_pid r) watched)
                 | _ \<Rightarrow> (None, watched))))"

fun hook_calls :: "hook_run list \<Rightarrow> bool \<Rightarrow> int list \<Rightarrow> bool option" where
  "hook_calls [] stop_on_failure stale = Some True"
| "hook_calls (r # rs) stop_on_failure stale =
     (case hook_call r stale of
        (None, _) \<Rightarrow> None
      | (Some ok, stale') \<Rightarrow> if \<not> ok \<and> stop_on_failure then Some False else hook_calls rs stop_on_failure stale')"

subsection \<open>What the loop returns\<close>

text \<open>The output of a hook up to its end, from the channels that are still open.\<close>

fun hook_output :: "hook_stream list \<Rightarrow> hook_event list \<Rightarrow> hook_log" where
  "hook_output channels (HookReady s hup line # evs) =
     (if s \<notin> set channels then hook_output channels evs
      else if hup then hook_output (removeAll s channels) evs
      else (if s = HookOut then LevelMessage else LevelWarning, case line of None \<Rightarrow> [] | Some t \<Rightarrow> t)
        # hook_output channels evs)"
| "hook_output channels (HookEnded pid exit_status # evs) = hook_output channels evs"
| "hook_output channels [] = []"

lemma loop_ends:
  assumes "\<forall>pid \<in> set watched. \<forall>exit_status. HookEnded pid exit_status \<notin> set before" and "pid \<in> set watched"
  shows "hook_loop_run own watched channels (before @ HookEnded pid exit_status # later) log =
    (cc_oci_hook_watcher own pid exit_status, log @ hook_output channels before)"
  using assms
proof (induction before arbitrary: channels log)
  case (Cons e before)
  then show ?case by (cases e) (auto simp: cc_oci_output_watcher_def)
qed simp

lemma loop_own_end:
  assumes "HookEnded pid exit_status \<in> set evs"
  obtains code later before where "evs = before @ HookEnded pid code # later" and "\<forall>c. HookEnded pid c \<notin> set before"
    and "hook_loop_run pid [pid] channels evs [] = (HookStatus code, hook_output channels before)"
proof -
  have "\<exists>e \<in> set evs. \<exists>c. e = HookEnded pid c" using assms by blast
  then obtain before e later where "evs = before @ e # later" "\<exists>c. e = HookEnded pid c"
    and none: "\<forall>x \<in> set before. \<not> (\<exists>c. x = HookEnded pid c)"
    using split_list_first_prop [of evs "\<lambda>x. \<exists>c. x = HookEnded pid c"] by blast
  then obtain code where evs: "evs = before @ HookEnded pid code # later" by blast
  have "\<forall>c. HookEnded pid c \<notin> set before" using none by blast
  then show thesis
    using that [OF evs] loop_ends [of "[pid]" before pid pid channels code later "[]"]
    by (simp add: evs cc_oci_hook_watcher_def)
qed

text \<open>What the environment says of a hook in the rest of the development, by what happens in the loop.\<close>

fun own_status :: "int \<Rightarrow> hook_event list \<Rightarrow> int" where
  "own_status pid (HookEnded p exit_status # evs) = (if p = pid then exit_status else own_status pid evs)"
| "own_status pid (_ # evs) = own_status pid evs"
| "own_status pid [] = 0"

definition run_outcome :: "hook_run \<Rightarrow> hook_outcome" where
  "run_outcome r =
     (if \<not> hr_spawned r then HookSpawnFailed
      else (case hr_write r of
              StateEpipe \<Rightarrow> HookWriteEpipe
            | StateFailed \<Rightarrow> HookWriteFailed
            | StateWritten \<Rightarrow> HookExit (own_status (hr_pid r) (hr_events r))))"

definition run_ends :: "hook_run \<Rightarrow> bool" where
  "run_ends r \<longleftrightarrow> (hr_spawned r \<and> hr_write r = StateWritten \<longrightarrow> (\<exists>c. HookEnded (hr_pid r) c \<in> set (hr_events r)))"

definition leaves_watcher :: "hook_run \<Rightarrow> bool" where
  "leaves_watcher r \<longleftrightarrow> hr_spawned r \<and> hr_write r \<noteq> StateWritten"

lemma own_status_first:
  assumes "\<forall>c. HookEnded pid c \<notin> set before"
  shows "own_status pid (before @ HookEnded pid code # later) = code"
  using assms
proof (induction before)
  case (Cons e before)
  then show ?case by (cases e) auto
qed simp

lemma call_outcome:
  assumes "run_ends r"
  shows "fst (hook_call r []) = Some (case run_outcome r of HookWriteEpipe \<Rightarrow> True | HookExit c \<Rightarrow> c = 0 | _ \<Rightarrow> False)"
    and "\<not> leaves_watcher r \<Longrightarrow> snd (hook_call r []) = []"
proof -
  have written: "hook_call r [] = (Some (own_status (hr_pid r) (hr_events r) = 0), [])"
    if w: "hr_spawned r" "hr_write r = StateWritten"
  proof -
    obtain c where c: "HookEnded (hr_pid r) c \<in> set (hr_events r)" using assms w by (auto simp: run_ends_def)
    show ?thesis
      by (rule loop_own_end [OF c, of "[HookOut, HookErr]"]) (simp add: hook_call_def w own_status_first)
  qed
  show "fst (hook_call r []) = Some (case run_outcome r of HookWriteEpipe \<Rightarrow> True | HookExit c \<Rightarrow> c = 0 | _ \<Rightarrow> False)"
    using written by (cases "hr_write r") (auto simp: run_outcome_def hook_call_def)
  show "\<not> leaves_watcher r \<Longrightarrow> snd (hook_call r []) = []"
    using written by (cases "hr_spawned r") (auto simp: leaves_watcher_def hook_call_def)
qed

subsection \<open>Properties\<close>

lemma run_hook_outcome:
  assumes "\<And>w. hook_outcome E w hook = run_outcome r" and "state \<noteq> []" and "run_ends r"
  shows "fst (hook_call r []) = Some (fst (cc_run_hook E hook state w))"
  using call_outcome(1) [OF assms(3)] assms(1,2)
  by (simp add: cc_run_hook_def case_prod_unfold Let_def split: hook_outcome.splits)

lemma hook_calls_agree:
  assumes "state \<noteq> []" and "\<And>h r w. (h, r) \<in> set runs \<Longrightarrow> hook_outcome E w h = run_outcome r \<and> run_ends r"
    and "\<forall>r \<in> set (butlast (map snd runs)). \<not> leaves_watcher r"
  shows "hook_calls (map snd runs) stop [] = Some (fst (run_hooks_loop E (map fst runs) state stop w))"
  using assms(2,3)
proof (induction runs arbitrary: w)
  case (Cons hr runs)
  obtain h r where hr: "hr = (h, r)" by fastforce
  have ok: "fst (hook_call r []) = Some (fst (cc_run_hook E h state w))"
    using Cons.prems(1) [of h r] hr by (intro run_hook_outcome assms(1)) auto
  have rest: "hook_calls (map snd runs) stop (snd (hook_call r [])) =
      Some (fst (run_hooks_loop E (map fst runs) state stop (snd (cc_run_hook E h state w))))"
  proof (cases "runs = []")
    case False
    then have "snd (hook_call r []) = []"
      using Cons.prems hr by (intro call_outcome(2)) auto
    moreover have "hook_calls (map snd runs) stop [] =
        Some (fst (run_hooks_loop E (map fst runs) state stop (snd (cc_run_hook E h state w))))"
      using Cons.prems False by (intro Cons.IH) auto
    ultimately show ?thesis by simp
  qed simp
  show ?case using ok rest hr by (simp add: case_prod_unfold)
qed simp

text \<open>
  C19. Refinement: as long as no hook but the last leaves before its state has been written, running the
  hooks through the main loop, with every watcher and every event in any order, ends and gives
  what \<^const>\<open>run_hooks_loop\<close> gives from the status of each hook alone; output and the ends of other children
  change nothing.
\<close>

theorem hooks_judged_by_own_status:
  assumes "state \<noteq> []" and "\<And>h r w. (h, r) \<in> set runs \<Longrightarrow> hook_outcome E w h = run_outcome r \<and> run_ends r"
    and "\<forall>r \<in> set (butlast (map snd runs)). \<not> leaves_watcher r"
  shows "hook_calls (map snd runs) stop_on_failure [] = Some (fst (run_hooks_loop E (map fst runs) state stop_on_failure w))"
  using assms by (rule hook_calls_agree)

definition sample_hook :: "string \<Rightarrow> oci_cfg_hook" where
  "sample_hook path = \<lparr>hook_path = path, hook_args = None, hook_env = None, hook_timeout = 0\<rparr>"

definition sample_runs :: "(oci_cfg_hook \<times> hook_run) list" where
  "sample_runs =
     [(sample_hook ''/a'', \<lparr>hr_spawned = True, hr_pid = 7, hr_write = StateWritten,
        hr_events = [HookReady HookOut False (Some ''hi''), HookEnded 6 1, HookReady HookOut True None, HookEnded 7 0]\<rparr>),
      (sample_hook ''/b'', \<lparr>hr_spawned = True, hr_pid = 8, hr_write = StateWritten, hr_events = [HookEnded 8 256]\<rparr>)]"

definition sample_hook_env :: env where
  "sample_hook_env = (calm_env (\<lambda>_. None))\<lparr>hook_outcome := (\<lambda>_ h. HookExit (if hook_path h = ''/a'' then 0 else 256))\<rparr>"

theorem hooks_judged_by_own_status_witness:
  "hook_calls (map snd sample_runs) True [] =
     Some (fst (run_hooks_loop sample_hook_env (map fst sample_runs) ''{}'' True empty_world))
   \<and> hook_calls (map snd sample_runs) True [] = Some False"
proof -
  have "hook_outcome sample_hook_env w h = run_outcome r \<and> run_ends r" if "(h, r) \<in> set sample_runs" for h r w
    using that by (auto simp: sample_runs_def sample_hook_env_def sample_hook_def run_outcome_def run_ends_def)
  moreover have "\<forall>r \<in> set (butlast (map snd sample_runs)). \<not> leaves_watcher r"
    by (simp add: sample_runs_def leaves_watcher_def)
  ultimately show ?thesis
    using hooks_judged_by_own_status [of "''{}''" sample_runs sample_hook_env True empty_world]
    by (simp add: sample_runs_def hook_call_def cc_oci_hook_watcher_def cc_oci_output_watcher_def)
qed

text \<open>
  C33. Error: a hook that ends without reading its input (the write of the state gives \<^verbatim>\<open>EPIPE\<close>) counts as
  successful but its child watcher stays.  The next hook is then not judged by its own status: its loop
  is left when the end of the first hook is dispatched, which stores the status through a pointer to a
  variable that no longer exists; alone, the same hook would have been waited for.
\<close>

theorem stale_hook_watcher:
  assumes "hr_spawned first" and "hr_write first = StateEpipe" and "hr_spawned r" and "hr_write r = StateWritten"
    and "hr_events r = before @ HookEnded (hr_pid first) code # later" and "hr_pid first \<noteq> hr_pid r"
    and "\<forall>c. HookEnded (hr_pid first) c \<notin> set before \<and> HookEnded (hr_pid r) c \<notin> set before"
    and "HookEnded (hr_pid r) own \<in> set later"
  shows "hook_call first [] = (Some True, [hr_pid first])
    \<and> fst (hook_loop_run (hr_pid r) [hr_pid first, hr_pid r] [HookOut, HookErr] (hr_events r) []) = HookDangling
    \<and> hook_calls (first # r # rs) stop_on_failure [] = None
    \<and> (\<exists>ok. fst (hook_call r []) = Some ok)"
proof -
  have first: "hook_call first [] = (Some True, [hr_pid first])" using assms by (simp add: hook_call_def)
  have loop: "fst (hook_loop_run (hr_pid r) [hr_pid first, hr_pid r] [HookOut, HookErr] (hr_events r) []) = HookDangling"
    using assms by (subst assms(5), subst loop_ends) (auto simp: cc_oci_hook_watcher_def)
  have "fst (hook_call r [hr_pid first]) = None" using loop assms by (simp add: hook_call_def)
  then have "hook_calls (first # r # rs) stop_on_failure [] = None" using first by (simp add: case_prod_unfold)
  moreover have "run_ends r" using assms by (auto simp: run_ends_def)
  ultimately show ?thesis using first loop call_outcome(1) by blast
qed

definition early_run :: hook_run where
  "early_run = \<lparr>hr_spawned = True, hr_pid = 7, hr_write = StateEpipe, hr_events = []\<rparr>"

definition later_run :: hook_run where
  "later_run = \<lparr>hr_spawned = True, hr_pid = 8, hr_write = StateWritten, hr_events = [HookEnded 7 256, HookEnded 8 0]\<rparr>"

theorem stale_hook_watcher_witness:
  "hook_calls [early_run, later_run] True [] = None \<and> hook_calls [later_run] True [] = Some True"
  using stale_hook_watcher [of early_run later_run "[]" 256 "[HookEnded 8 0]" 0 "[]" True]
  by (simp add: early_run_def later_run_def hook_call_def cc_oci_hook_watcher_def)

end
