(* ===== verification/LifeLive.thy ===== *)
theory LifeLive
  imports LifeProps
begin

section \<open>A saved container can be killed\<close>

text \<open>
  The state file carries all that a later process needs: a configuration that could be saved, read
  back by another command, can be saved again.  So when writing files and sending signals works a kill
  returns success, whatever the configuration was.
\<close>

text \<open>What \<^const>\<open>cc_oci_state_file_create\<close> asks of a configuration.\<close>

definition saveable :: "cc_oci_config \<Rightarrow> bool" where
  "saveable c \<longleftrightarrow>
     cfg_optarg_container_id c \<notin> {None, Some []} \<and> cfg_bundle_path c \<noteq> None
   \<and> runtime_path (cfg_state c) \<noteq> [] \<and> comms_path (cfg_state c) \<noteq> [] \<and> procsock_path (cfg_state c) \<noteq> []
   \<and> cfg_vm c \<noteq> None \<and> cfg_proxy c \<noteq> None
   \<and> proc_args (cfg_process c) \<noteq> None \<and> proc_cwd (cfg_process c) \<noteq> []"

lemma saveable_status [simp]: "saveable (upd_status s c) = saveable c"
  by (simp add: saveable_def)

lemma create_saveable:
  assumes "cc_oci_state_file_create E c t w = (True, c', w')"
  shows "saveable c" and "t \<noteq> None" and "state_file_path (cfg_state c') = path_join (runtime_path (cfg_state c)) CC_OCI_STATE_FILE"
  using assms
  by (auto simp: saveable_def cc_oci_state_file_create_def cc_oci_state_file_get_def cc_oci_process_to_json_def
      split: option.splits if_splits prod.splits)

lemma status_named: "s \<noteq> OCI_STATUS_INVALID \<Longrightarrow> cc_oci_status_to_str s \<noteq> None"
  by (cases s) (simp_all add: cc_oci_status_to_str_def oci_status_map_def)

lemma saveable_created:
  assumes "saveable c" and "t \<noteq> None" and "cfg_status c \<noteq> OCI_STATUS_INVALID" and "\<And>w f d. os_ok E w (EvWriteFile f d)"
  shows "fst (cc_oci_state_file_create E c t w)" and "saveable (fst (snd (cc_oci_state_file_create E c t w)))"
  using assms(1-3) status_named [OF assms(3)]
  by (auto simp: saveable_def cc_oci_state_file_create_def cc_oci_state_file_get_def cc_oci_process_to_json_def
      cc_oci_status_get_def sys_def Let_def assms(4))

subsection \<open>Read by another process\<close>

abbreviation config_again :: "string \<Rightarrow> string \<Rightarrow> cc_oci_config \<Rightarrow> string \<Rightarrow> cc_oci_config" where
  "config_again root cid c t \<equiv> state_into_config (state_saved c t)
     (snd (cc_oci_state_file_get (snd (cc_oci_runtime_path_get (fresh_config root cid)))))"

lemma saved_read_again:
  assumes "json_glib_contract E" and "state_wf c" and "cc_oci_state_file_create E c (Some t) w0 = (True, c', w)"
    and "runtime_path (cfg_state c) = path_join root cid" and "cfg_bundle_path c \<noteq> Some []"
  shows "with_state E (no_options sd (cid # args)) (cc_oci_config_create\<lparr>cfg_root_dir := Some root\<rparr>) w act
    = (case cc_oci_config_update (config_again root cid c t) (state_saved c t) of (c2, st) \<Rightarrow> act c2 st)"
proof -
  have "cc_oci_state_file_read E (Some (path_join (path_join root cid) CC_OCI_STATE_FILE)) w = Inr (Some (state_saved c t))"
    using state_file_read_back [OF assms(1-3) refl] create_saveable(3) [OF assms(3)] assms(4) by simp
  moreover have "path_join root cid \<noteq> []"
    using create_saveable(1) [OF assms(3)] assms(4) by (simp add: saveable_def)
  moreover obtain b where "cfg_bundle_path c = Some b" "b \<noteq> []"
    using create_saveable(1) [OF assms(3)] assms(5) by (auto simp: saveable_def)
  ultimately show ?thesis
    by (simp add: with_state_def read_state_def no_options_def cc_oci_get_config_and_state_def cc_oci_runtime_path_get_def
        cc_oci_state_file_get_def cc_oci_config_file_path_def cc_oci_get_bundlepath_file_def CC_OCI_CONFIG_FILE_def
        state_saved_def case_prod_unfold)
qed

lemma update_fields:
  assumes "st_vm st = Some vm" and "st_proxy st = Some proxy" and "st_process st = Some p"
    and "proc_args (cfg_process c) = None"
  shows "cfg_vm (fst (cc_oci_config_update c st)) = Some vm" and "cfg_proxy (fst (cc_oci_config_update c st)) = Some proxy"
    and "cfg_process (fst (cc_oci_config_update c st)) = p"
    and "cfg_pod (fst (cc_oci_config_update c st)) = (if st_pod st = None then cfg_pod c else st_pod st)"
    and "cfg_optarg_container_id (fst (cc_oci_config_update c st)) = cfg_optarg_container_id c"
    and "cfg_bundle_path (fst (cc_oci_config_update c st)) = cfg_bundle_path c"
    and "runtime_path (cfg_state (fst (cc_oci_config_update c st))) = runtime_path (cfg_state c)"
    and "comms_path (cfg_state (fst (cc_oci_config_update c st))) = comms_path (cfg_state c)"
    and "procsock_path (cfg_state (fst (cc_oci_config_update c st))) =
      strlcpy (st_procsock_path st) (procsock_path (cfg_state c))"
    and "st_create_time (snd (cc_oci_config_update c st)) = st_create_time st"
  using assms by (simp_all add: cc_oci_config_update_def Let_def)

lemma again_fields:
  assumes "path_join root cid \<noteq> []"
  shows "proc_args (cfg_process (config_again root cid c t)) = None" and "cfg_pod (config_again root cid c t) = None"
    and "cfg_optarg_container_id (config_again root cid c t) = Some cid"
    and "cfg_bundle_path (config_again root cid c t) = cfg_bundle_path c"
    and "runtime_path (cfg_state (config_again root cid c t)) = path_join root cid"
    and "comms_path (cfg_state (config_again root cid c t)) = buf_copy PATH_MAX (comms_path (cfg_state c))"
  using assms
  by (simp_all add: state_into_config_def cc_oci_runtime_path_get_def cc_oci_state_file_get_def state_saved_def
      strlcpy_def cc_oci_config_create_def zero_defs)

lemma saveable_again:
  fixes t :: string
  assumes "saveable c" and "runtime_path (cfg_state c) = path_join root cid" and "cid \<noteq> []"
    and "proc_args (cfg_process c) \<noteq> Some []"
  defines "again \<equiv> cc_oci_config_update (config_again root cid c t) (state_saved c t)"
  shows "saveable (fst again)" and "st_create_time (snd again) = Some t"
    and "cc_pod_is_sandbox (fst again) = cc_pod_is_sandbox c"
proof -
  obtain vm proxy where vp: "cfg_vm c = Some vm" "cfg_proxy c = Some proxy" and path: "path_join root cid \<noteq> []"
    using assms(1,2) by (auto simp: saveable_def)
  have saved: "st_vm (state_saved c t) = Some (vm_saved vm)" "st_proxy (state_saved c t) = Some (proxy_saved proxy)"
    "st_process (state_saved c t) = Some (process_saved (cfg_process c))"
    "st_pod (state_saved c t) = map_option pod_saved (cfg_pod c)" "st_create_time (state_saved c t) = Some t"
    "st_procsock_path (state_saved c t) = Some (procsock_path (cfg_state c))"
    by (simp_all add: state_saved_def vp)
  note fields = update_fields [OF saved(1-3) again_fields(1) [OF path]] again_fields(2-) [OF path] saved(4-)
  have "buf_copy PATH_MAX s \<noteq> []" if "s \<noteq> []" for s using that by (simp add: buf_copy_def PATH_MAX_def)
  then show "saveable (fst again)"
    using assms(1-4) path unfolding again_def saveable_def fields
    by (auto simp: strlcpy_def process_saved_def strv_norm_def split: option.splits list.splits)
  show "st_create_time (snd again) = Some t" unfolding again_def fields ..
  show "cc_pod_is_sandbox (fst again) = cc_pod_is_sandbox c"
    unfolding again_def cc_pod_is_sandbox_def fields by (cases "cfg_pod c") (simp_all add: pod_saved_def)
qed

lemma saveable_killed:
  assumes "saveable c" and "st_create_time st \<noteq> None"
    and "\<And>w f d. os_ok E w (EvWriteFile f d)" and "\<And>w pid s. os_ok E w (EvKill pid s)"
    and "cc_pod_is_sandbox c \<or> signum \<notin> {SIGKILL, SIGSTOP}"
  shows "fst (cc_oci_kill E sd c st signum w)"
  using assms(1,2,5)
  by (auto simp: cc_oci_kill_def case_prod_unfold Let_def saveable_created [OF _ _ _ assms(3)] sys_def assms(4))

subsection \<open>Property\<close>

text \<open>
  C8. Liveness: a container whose state was saved by any command can be killed by a later one.  When
  writing files and sending signals succeeds, \<^verbatim>\<open>kill\<close> with any signal that does not involve the agent (for the
  sandbox of a pod: with any signal) returns success and leaves the container stopped.  Relies on
  json-glib reading what it wrote, on a bundle path that is not empty and on a workload that is not the
  empty vector, which the state file does not keep.
\<close>

theorem saved_container_killed:
  assumes "json_glib_contract (su_env S)" and "\<And>w f d. os_ok (su_env S) w (EvWriteFile f d)" and "\<And>w pid s. os_ok (su_env S) w (EvKill pid s)"
    and "cid \<notin> {[], ''--help'', ''-h''}" and "state_wf c" and "cc_oci_state_file_create (su_env S) c t w0 = (True, c', w)"
    and "runtime_path (cfg_state c) = path_join root cid"
    and "cfg_bundle_path c \<noteq> Some []" and "proc_args (cfg_process c) \<noteq> Some []"
    and "0 \<le> kill_signal (cid # cmd_args (CmdKill sig))"
    and "cc_pod_is_sandbox c \<or> kill_signal (cid # cmd_args (CmdKill sig)) \<notin> {SIGKILL, SIGSTOP}"
  shows "\<exists>w'. life_command S sd root cid (CmdKill sig) w = Some (Ret (True, w'))
    \<and> phase_at (su_env S) (container_state_path root cid) w' = Some OCI_STATUS_STOPPED"
proof -
  let ?E = "su_env S" and ?argv = "cid # cmd_args (CmdKill sig)"
  obtain tm where t: "t = Some tm" using create_saveable(2) [OF assms(6)] by auto
  let ?again = "cc_oci_config_update (config_again root cid c tm) (state_saved c tm)"
  have cid: "cid \<noteq> []" using assms(4) by simp
  note again = saveable_again [OF create_saveable(1) [OF assms(6)] assms(7) cid assms(9), of tm]
  have "fst (cc_oci_kill ?E sd (fst ?again) (snd ?again) (kill_signal ?argv) w)"
    using assms(11) again by (intro saveable_killed assms(2,3)) simp_all
  then obtain c3 w' where kill: "cc_oci_kill ?E sd (fst ?again) (snd ?again) (kill_signal ?argv) w = (True, c3, w')"
    by (cases "cc_oci_kill ?E sd (fst ?again) (snd ?again) (kill_signal ?argv) w") auto
  have run: "handler_kill ?E (no_options sd ?argv) (cc_oci_config_create\<lparr>cfg_root_dir := Some root\<rparr>) w = Ret (True, w')"
    using saved_read_again [OF assms(1,5) assms(6) [unfolded t] assms(7,8), of sd "cmd_args (CmdKill sig)"] kill assms(4,10)
    by (simp add: handler_kill_def no_options_def usage_skipped case_prod_unfold drop_config_def)
  have "phase_at ?E (container_state_path root cid) w' = Some OCI_STATUS_STOPPED"
    using kill_refines [OF assms(1) _ _ run] assms(4) by (auto elim: life_step_killE)
  then show ?thesis using run by (simp add: life_command_def sub_handler_def Let_def)
qed

theorem saved_container_killed_witness:
  "\<exists>w w'. life_command calm_surroundings plain_sd ''/run'' ''c1'' (CmdKill (Some ''SIGHUP'')) w = Some (Ret (True, w'))
     \<and> phase_at (su_env calm_surroundings) (container_state_path ''/run'' ''c1'') w' = Some OCI_STATUS_STOPPED"
proof -
  let ?E = "su_env calm_surroundings"
  obtain c' w where run: "cc_oci_state_file_create ?E sample_config (Some ''t'') empty_world = (True, c', w)"
    using sample_config_created unfolding calm_surroundings_def
    by (cases "cc_oci_state_file_create (calm_env (\<lambda>_. None)) sample_config (Some ''t'') empty_world") auto
  have "json_glib_contract ?E" "\<And>w f d. os_ok ?E w (EvWriteFile f d)" "\<And>w pid s. os_ok ?E w (EvKill pid s)"
    using calm_json by (simp_all add: calm_surroundings_def calm_env_def)
  moreover have "runtime_path (cfg_state sample_config) = path_join ''/run'' ''c1''"
    "cfg_bundle_path sample_config \<noteq> Some []" "proc_args (cfg_process sample_config) \<noteq> Some []"
    by (simp_all add: sample_config_def path_join_def c_string_simps PATH_MAX_def zero_defs)
  moreover have "kill_signal (''c1'' # cmd_args (CmdKill (Some ''SIGHUP''))) = 1" by code_simp
  ultimately show ?thesis
    using saved_container_killed [OF _ _ _ _ sample_config_wf run, of "''c1''" "''/run''" "Some ''SIGHUP''" plain_sd]
    by (auto simp: SIGKILL_def SIGSTOP_def)
qed

end
