(* ===== verification/Spec2Isabelle.thy ===== *)
theory Spec2Isabelle
  imports Semver Namespaces StateComplete ConfigProps NetProps Qmp Exec StateTyped GoClient HookLoop LifeLive
begin

text \<open>
  \<^bold>\<open>cc-oci-runtime\<close> runs containers inside virtual machines.  Four programs work together.  The
  \<^emph>\<open>runtime\<close> (src/*.c) is called once per command (create, start, kill, pause, resume, exec, list, state,
  stop, delete, ...) and leaves what the next call needs in the state file of the container.  The
  \<^emph>\<open>proxy daemon\<close> (proxy/*.go) holds the connection to the agent of every virtual machine, hands out the
  numbers of its streams and routes their data.  The \<^emph>\<open>shim\<close> (shim/*.c) stands for the workload on
  the host: it copies its input, output and signals to and from the daemon.  The \<^emph>\<open>client library\<close>
  (proxy/api/client.go) speaks the protocol of the daemon from Go.  The hypervisor and the agent in
  the virtual machine are other programs; they appear as what they send.

  \<^bold>\<open>Conventions.\<close>  A C string that may be NULL is \<^verbatim>\<open>gchars\<close> (\<^verbatim>\<open>string option\<close>), a fixed buffer is a string
  cut by \<^verbatim>\<open>buf_copy\<close>, a crash is a value of \<^verbatim>\<open>c_fault\<close> (\<^verbatim>\<open>NullDeref\<close>, \<^verbatim>\<open>AssertFail\<close>) in \<^verbatim>\<open>c_result\<close>.  Theory
  World has the outside: a \<^verbatim>\<open>world\<close> of files, mounts and the trace of system calls, and an \<^verbatim>\<open>env\<close> that says
  which calls succeed and what other programs answer.  Every system call is an \<^verbatim>\<open>event\<close> made by \<^verbatim>\<open>sys\<close>; a
  theorem that does not restrict \<^verbatim>\<open>env\<close> holds for every pattern of failures.  Functions with a common exit
  label (\<^verbatim>\<open>goto out\<close>) are lists of steps run by \<^verbatim>\<open>run_prog\<close> of theory Program, one step per block between two
  jumps.  What a socket or pipe delivers is a list of chunks (\<^verbatim>\<open>input\<close>), so every way of cutting a stream
  is covered.  Machine integers are words, or integers with \<^verbatim>\<open>wrap32s\<close> and the like where they wrap.

  \<^bold>\<open>The theories\<close>, by the code they model.

  \<^item> Prelude, JsonGlib, JsonCodec, World, Calm, Host: shared vocabulary and lemmas; documents as json-glib
    represents them; a concrete text format, proved to satisfy the contract \<^verbatim>\<open>json_glib_contract\<close> that
    the properties assume of json-glib; a well-behaved environment for the witnesses.
  \<^item> OciTypes (src/oci.h), Json (src/json.c), Util (src/util.c), Runtime (src/runtime.c), Semver
    (src/semver.c), Namespaces (src/namespace.c), Logging (src/logging.c), EnvHome (the HOME variable of
    src/oci.c).
  \<^item> Mount (src/mount.c): mounting, the directories that are created for it, and unmounting.
  \<^item> SpecProcess, SpecHandlers, ConfigFile, PodSpec (src/spec_handlers, src/oci-config.c, src/pod.c):
    every handler of \<^verbatim>\<open>config.json\<close> and the tables that run them; ConfigProps has the properties.
  \<^item> State (src/state.c, src/annotation.c): writing and reading the state file; StateComplete and
    StateTyped show what an accepted file contains.
  \<^item> Proxy, ProxyWire (src/proxy.c): the commands the runtime gives the daemon and their framing.
  \<^item> Networking, NetProps (src/networking.c, src/netlink.c), Hypervisor (src/hypervisor.c).
  \<^item> Program, Process, HookLoop, Launch, LaunchProps, Children, Exec (src/process.c, src/pod.c): hooks and
    the main loop that waits for one, starting the shim, launching a virtual machine from the side
    of the parent, the children and what goes through the pipes between them, running one more process.
  \<^item> Qmp (src/network.c): pausing and resuming through the hypervisor.
  \<^item> Lifecycle, Listing (src/oci.c), Commands, Dispatch (src/command.c, src/commands, src/main.c,
    src/events.c, src/priv.c): the operations on a container and the commands that call them.
  \<^item> LifeSpec, LifeProps, LifeLive: the life cycle as the step relation \<^verbatim>\<open>life_step\<close> on the status that can be
    read from the state file (a start on a terminal waits, while other processes change the status by
    any relation), the refinement, and that a saved container can be killed.
  \<^item> Shim, ShimProps (shim/shim.c, shim/utils.c): every handler and the poll loop.
  \<^item> Daemon, DaemonConc, DaemonProps (proxy/proxy.go, proxy/vm.go, proxy/protocol.go): the handlers, and
    the goroutines as the step relation \<^verbatim>\<open>dstep\<close>, which cuts a handler wherever it releases a lock.
  \<^item> DaemonWire (proxy/api/protocol.go): runtime and daemon together; GoClient (proxy/api/client.go).

  \<^bold>\<open>What is shown.\<close>  Across processes: every command takes the container along the life cycle and none
  but resume brings one back; what is saved is read back exactly; a launch that reports success has
  left a container in state created; arguments, descriptors and stream numbers arrive in the children as
  the parent had them, up to the moves and cuts of the code; a request of the runtime or of the client library is served as that request.
  For streams: an allocated stream keeps its owner under every interleaving, output goes to the owner
  in order, frames and QMP messages do not depend on how they are cut, no message writes past the receive
  buffer of the shim.  For the readers: no string outgrows its buffer, an accepted state is complete and in
  range, the mounts and hooks sections give exactly their entries.  The \<^emph>\<open>error\<close> properties show
  behaviour the authors did not intend, each on the code as it is: hooks judged by a stale watcher, streams
  taken over after a negative request, a bye that removes a virtual machine registered after it, and others.

  \<^bold>\<open>Interfaces.\<close>  \<^verbatim>\<open>name_table\<close> (tables of names, for namespaces and status), \<^verbatim>\<open>cmp_contract\<close> (three-way comparison,
  for strings and pre-release identifiers), \<^verbatim>\<open>spec_section\<close> and \<^verbatim>\<open>section_table\<close> (handlers and tables of
  handlers, for each handler and both tables), \<^verbatim>\<open>kept_by_steps\<close> (invariants of step lists, for the launch before
  and after the state file is written), \<^verbatim>\<open>stream_table\<close> (for the streams of a virtual machine) and \<^verbatim>\<open>framed_stream\<close>
  (for the frames of the shim).  Each is interpreted on the definitions of the model.

  \<^bold>\<open>Bounds.\<close>  Only the loop by which the shim writes to the daemon can run for ever, so it takes fuel and
  \<^verbatim>\<open>Stuck\<close> is running out of it; the theorem on it says when no fuel is enough, and that otherwise two
  rounds more than there are short writes are.  Where every write is complete two rounds suffice, which is
  the bound the properties on signals assume.  The poll loop of the shim, the main loop of a hook and the
  readers of sockets and pipes run over the list of what arrives; the end of that list is waiting for
  ever, a value of its own.  (The socket to the daemon does not block, so there waiting is polling.)  All other recursions are total.

  \<^bold>\<open>Not modelled.\<close>  Freeing memory.  The text formats of json-glib and encoding/json, the option parser of
  GLib and its main loop (what it dispatches is given), the hyperstart package vendored in the daemon: they
  are parameters.  Waiting for a file or a lock that another process provides is taken to end, with the
  other process as a function on the world.  Pure output and set-up: shim/log.c, the debug dump of
  src/util.c, ignoring SIGPIPE, copying the console to the log, creating the socket, the flags and the
  profiler of the daemon.  Tests, packaging and scripts are not part of the program.
\<close>

end
